(* ===== verification/Prelude.thy ===== *)
theory Prelude
  imports Main "HOL-Library.Sublist"
begin

text \<open>
  Shared vocabulary of the development: the named collections the component theories
  feed, the result type of fallible Go calls, and generic facts on lists, options and
  sums that no library theory provides in this form.

  \<^item> \<open>result\<close> is Go's \<open>(T, error)\<close> return: \<open>Inl\<close> carries the error.
  \<^item> \<open>stmt_defs\<close> collects the definitions of SQL statements, \<open>go_defs\<close> those of the
    string routines of the Go library.
  \<^item> \<open>atomic\<close> collects the composition rules of the effect monad, \<open>runs\<close> the
    inversion of its successful runs.
\<close>

named_theorems stmt_defs \<open>definitions of single SQL statements\<close>
named_theorems go_defs \<open>definitions of Go library routines\<close>
named_theorems proc_defs \<open>definitions of the effect primitives\<close>
named_theorems runs \<open>inversion of runs that return a value\<close>
named_theorems atomic \<open>composition rules for all-or-nothing programs\<close>

type_synonym ('e, 'a) result = "'e + 'a"

subsection \<open>Options and results\<close>

fun res_of_option :: "'e \<Rightarrow> 'a option \<Rightarrow> ('e, 'a) result" where
  "res_of_option e None = Inl e"
| "res_of_option e (Some x) = Inr x"

lemma res_of_option_Inr [simp]: "res_of_option e x = Inr y \<longleftrightarrow> x = Some y"
  by (cases x) auto

lemma res_of_option_Inl [simp]: "res_of_option e x = Inl e' \<longleftrightarrow> x = None \<and> e' = e"
  by (cases x) auto

subsection \<open>Lists\<close>

lemma find_SomeD: "List.find P xs = Some x \<Longrightarrow> x \<in> set xs \<and> P x"
  by (induction xs) (auto split: if_splits)

lemma find_None_iff_all: "List.find P xs = None \<longleftrightarrow> (\<forall>x \<in> set xs. \<not> P x)"
  by (induction xs) auto

lemma find_cong_on:
  "(\<And>x. x \<in> set xs \<Longrightarrow> P x = Q x) \<Longrightarrow> List.find P xs = List.find Q xs"
  by (induction xs) auto

lemma find_append: "List.find P (xs @ ys) =
    (case List.find P xs of None \<Rightarrow> List.find P ys | Some x \<Rightarrow> Some x)"
  by (induction xs) auto

lemma find_filter_conj: "List.find P (filter Q xs) = List.find (\<lambda>x. Q x \<and> P x) xs"
  by (induction xs) auto

lemma filter_eq_self: "(\<And>x. x \<in> set xs \<Longrightarrow> P x) \<Longrightarrow> filter P xs = xs"
  by (induction xs) auto

lemma map_cond_id: "(\<And>x. x \<in> set xs \<Longrightarrow> \<not> P x) \<Longrightarrow> map (\<lambda>x. if P x then f x else x) xs = xs"
  by (induction xs) auto

lemma length_filter_0: "length (filter P xs) = 0 \<longleftrightarrow> (\<forall>x \<in> set xs. \<not> P x)"
  by (induction xs) auto

lemma nth_all_upt: "(\<And>i. i < n \<Longrightarrow> P i) \<Longrightarrow> \<forall>x \<in> set [0..<n]. P x"
  by auto

end
