(* ===== verification/Go_Strings.thy ===== *)
theory Go_Strings
  imports Prelude
begin

text \<open>
  The routines of Go's \<open>strings\<close>, \<open>unicode\<close> and \<open>regexp\<close> packages that the repository
  calls. A Go string is a sequence of bytes, so it is a \<open>string\<close> here (a \<open>char\<close> is one
  byte) and \<open>len\<close> is \<open>length\<close>. \<open>TrimSpace\<close> is modelled on all byte strings: Unicode
  white space is the list of its UTF-8 encodings. Case mapping outside ASCII depends on
  the Unicode tables of the Go release; it is the parameter record \<open>unicode\<close>.
\<close>

subsection \<open>White space\<close>

definition unicode_spaces :: "string list" where
  "unicode_spaces =
    [[CHR 0x20], [CHR 0x09], [CHR 0x0A], [CHR 0x0B], [CHR 0x0C], [CHR 0x0D],
     [CHR 0xC2, CHR 0x85], [CHR 0xC2, CHR 0xA0], [CHR 0xE1, CHR 0x9A, CHR 0x80],
     [CHR 0xE2, CHR 0x80, CHR 0x80], [CHR 0xE2, CHR 0x80, CHR 0x81],
     [CHR 0xE2, CHR 0x80, CHR 0x82], [CHR 0xE2, CHR 0x80, CHR 0x83],
     [CHR 0xE2, CHR 0x80, CHR 0x84], [CHR 0xE2, CHR 0x80, CHR 0x85],
     [CHR 0xE2, CHR 0x80, CHR 0x86], [CHR 0xE2, CHR 0x80, CHR 0x87],
     [CHR 0xE2, CHR 0x80, CHR 0x88], [CHR 0xE2, CHR 0x80, CHR 0x89],
     [CHR 0xE2, CHR 0x80, CHR 0x8A], [CHR 0xE2, CHR 0x80, CHR 0xA8],
     [CHR 0xE2, CHR 0x80, CHR 0xA9], [CHR 0xE2, CHR 0x80, CHR 0xAF],
     [CHR 0xE2, CHR 0x81, CHR 0x9F], [CHR 0xE3, CHR 0x80, CHR 0x80]]"

text \<open>\<open>strip ps s\<close> removes leading members of \<open>ps\<close> as long as there is one.\<close>

function strip :: "string list \<Rightarrow> string \<Rightarrow> string" where
  "strip ps s =
     (case List.find (\<lambda>p. p \<noteq> [] \<and> prefix p s) ps of
        None \<Rightarrow> s
      | Some p \<Rightarrow> strip ps (drop (length p) s))"
  by pat_completeness auto
termination
proof (relation "measure (\<lambda>(ps, s). length s)", goal_cases)
  case 1
  show ?case by simp
next
  case (2 ps s p)
  then have "p \<noteq> []" and "prefix p s" by (auto dest: find_SomeD)
  then have "0 < length p" and "length p \<le> length s"
    by (auto dest: prefix_length_le)
  then show ?case by (simp del: length_greater_0_conv)
qed

declare strip.simps [simp del]

definition TrimSpace :: "string \<Rightarrow> string" where
  "TrimSpace s = rev (strip (map rev unicode_spaces) (rev (strip unicode_spaces s)))"

definition TrimRight :: "string \<Rightarrow> char \<Rightarrow> string" where
  "TrimRight s c = rev (dropWhile (\<lambda>x. x = c) (rev s))"

definition Trim_char :: "string \<Rightarrow> char \<Rightarrow> string" where
  "Trim_char s c = TrimRight (dropWhile (\<lambda>x. x = c) s) c"

subsection \<open>Case\<close>

record unicode =
  unicode_lower :: "string \<Rightarrow> string"
  unicode_fold_eq :: "string \<Rightarrow> string \<Rightarrow> bool"

definition is_ascii :: "string \<Rightarrow> bool" where
  "is_ascii s = list_all (\<lambda>c. of_char c < (128::nat)) s"

definition ascii_lower :: "char \<Rightarrow> char" where
  "ascii_lower c = (if 65 \<le> (of_char c :: nat) \<and> (of_char c :: nat) \<le> 90
                    then char_of ((of_char c :: nat) + 32) else c)"

definition ToLower :: "('z) unicode_scheme \<Rightarrow> string \<Rightarrow> string" where
  "ToLower U s = (if is_ascii s then map ascii_lower s else unicode_lower U s)"

definition EqualFold :: "('z) unicode_scheme \<Rightarrow> string \<Rightarrow> string \<Rightarrow> bool" where
  "EqualFold U s t = (if is_ascii s \<and> is_ascii t then map ascii_lower s = map ascii_lower t
                      else unicode_fold_eq U s t)"

subsection \<open>Searching and splitting\<close>

definition HasPrefix :: "string \<Rightarrow> string \<Rightarrow> bool" where
  "HasPrefix s p = prefix p s"

definition TrimPrefix :: "string \<Rightarrow> string \<Rightarrow> string" where
  "TrimPrefix s p = (if prefix p s then drop (length p) s else s)"

definition ContainsAny :: "string \<Rightarrow> string \<Rightarrow> bool" where
  "ContainsAny s cs = list_ex (\<lambda>c. c \<in> set cs) s"

text \<open>\<open>Split_char s c\<close> is \<open>strings.Split\<close> with a one-byte separator; \<open>SplitN2\<close> is
  \<open>strings.SplitN(s, sep, 2)\<close>.\<close>

fun Split_char :: "string \<Rightarrow> char \<Rightarrow> string list" where
  "Split_char [] sep = [[]]"
| "Split_char (c # s) sep =
     (if c = sep then [] # Split_char s sep
      else (case Split_char s sep of [] \<Rightarrow> [[c]] | w # ws \<Rightarrow> (c # w) # ws))"

fun SplitN2 :: "string \<Rightarrow> char \<Rightarrow> string list" where
  "SplitN2 [] sep = [[]]"
| "SplitN2 (c # s) sep =
     (if c = sep then [[], s]
      else (case SplitN2 s sep of [] \<Rightarrow> [[c]] | w # ws \<Rightarrow> (c # w) # ws))"

fun JoinWith :: "string \<Rightarrow> string list \<Rightarrow> string" where
  "JoinWith sep [] = []"
| "JoinWith sep [w] = w"
| "JoinWith sep (w # ws) = w @ sep @ JoinWith sep ws"

subsection \<open>Facts\<close>

lemmas [go_defs] = TrimRight_def Trim_char_def ToLower_def EqualFold_def
  HasPrefix_def TrimPrefix_def ContainsAny_def

lemma strip_suffix: "suffix (strip ps s) s"
proof (induction ps s rule: strip.induct)
  case (1 ps s)
  show ?case
  proof (cases "List.find (\<lambda>p. p \<noteq> [] \<and> prefix p s) ps")
    case None
    then show ?thesis by (subst strip.simps) simp
  next
    case (Some p)
    with "1.IH" have "suffix (strip ps (drop (length p) s)) (drop (length p) s)" by simp
    then have "suffix (strip ps (drop (length p) s)) s"
      by (meson suffix_drop suffix_order.trans)
    with Some show ?thesis by (subst strip.simps) simp
  qed
qed

lemma strip_stuck: "p \<in> set ps \<Longrightarrow> p \<noteq> [] \<Longrightarrow> \<not> prefix p (strip ps s)"
proof (induction ps s rule: strip.induct)
  case (1 ps s)
  show ?case
  proof (cases "List.find (\<lambda>p. p \<noteq> [] \<and> prefix p s) ps")
    case None
    then have "strip ps s = s" by (subst strip.simps) simp
    with None "1.prems" show ?thesis by (auto simp: find_None_iff_all)
  next
    case (Some q)
    with 1 show ?thesis by (subst strip.simps) simp
  qed
qed

lemma strip_id: "(\<And>p. p \<in> set ps \<Longrightarrow> p \<noteq> [] \<Longrightarrow> \<not> prefix p s) \<Longrightarrow> strip ps s = s"
  by (subst strip.simps) (auto simp: find_None_iff_all split: option.splits dest: find_SomeD)

lemma strip_Nil [simp]: "strip ps [] = []"
  by (rule strip_id) auto

lemma prefix_rev_suffix: "suffix (rev xs) ys \<Longrightarrow> prefix xs (rev ys)"
  by (simp add: suffix_to_prefix)

text \<open>Trimming is idempotent: a trimmed string has no white space at either end.\<close>

lemma TrimSpace_idem [simp]: "TrimSpace (TrimSpace s) = TrimSpace s"
proof -
  define a where "a = strip unicode_spaces s"
  define b where "b = strip (map rev unicode_spaces) (rev a)"
  have pre: "prefix (rev b) a"
    using strip_suffix [of "map rev unicode_spaces" "rev a"]
    unfolding b_def by (simp add: suffix_to_prefix)
  have left: "strip unicode_spaces (rev b) = rev b"
  proof (rule strip_id)
    fix p assume p: "p \<in> set unicode_spaces" "p \<noteq> []"
    then have "\<not> prefix p a" unfolding a_def by (rule strip_stuck)
    with pre show "\<not> prefix p (rev b)" by (meson prefix_order.trans)
  qed
  have right: "strip (map rev unicode_spaces) b = b"
    unfolding b_def by (rule strip_id) (rule strip_stuck)
  have "TrimSpace s = rev b" by (simp add: TrimSpace_def a_def b_def)
  then show ?thesis by (simp add: TrimSpace_def left right)
qed

lemma TrimSpace_Nil [simp]: "TrimSpace [] = []"
  by (simp add: TrimSpace_def)

lemma Split_char_nonempty: "Split_char s sep \<noteq> []"
  by (cases s) (auto split: list.splits)

lemma JoinWith_Split_char: "JoinWith [sep] (Split_char s sep) = s"
proof (induction s)
  case Nil
  then show ?case by simp
next
  case (Cons c s)
  obtain w ws where s: "Split_char s sep = w # ws"
    using Split_char_nonempty by (cases "Split_char s sep") auto
  show ?case
    using Cons s by (cases ws) auto
qed

text \<open>Strings of printable ASCII without blanks are left alone by \<open>TrimSpace\<close>.\<close>

definition visible :: "string \<Rightarrow> bool" where
  "visible s \<longleftrightarrow> list_all (\<lambda>c. 33 \<le> (of_char c :: nat) \<and> (of_char c :: nat) \<le> 126) s"

lemma space_ends_invisible:
  "p \<in> set unicode_spaces \<Longrightarrow> p \<noteq> [] \<and> \<not> visible [hd p] \<and> \<not> visible [last p]"
proof -
  have "list_all (\<lambda>p. p \<noteq> [] \<and> \<not> visible [hd p] \<and> \<not> visible [last p]) unicode_spaces"
    by (simp add: unicode_spaces_def visible_def)
  then show "p \<in> set unicode_spaces \<Longrightarrow> ?thesis" by (simp add: list_all_iff)
qed

lemma prefix_hd: "prefix p s \<Longrightarrow> p \<noteq> [] \<Longrightarrow> s \<noteq> [] \<and> hd p = hd s"
  by (auto simp: prefix_def)

lemma strip_visible:
  assumes "visible s" "\<And>p. p \<in> set ps \<Longrightarrow> p \<noteq> [] \<Longrightarrow> \<not> visible [hd p]"
  shows "strip ps s = s"
proof (rule strip_id)
  fix p assume p: "p \<in> set ps" "p \<noteq> []"
  show "\<not> prefix p s"
  proof
    assume "prefix p s"
    with p have "s \<noteq> []" "hd p = hd s" by (auto dest: prefix_hd)
    with assms(1) have "visible [hd p]" by (cases s) (auto simp: visible_def)
    with assms(2) p show False by blast
  qed
qed

lemma TrimSpace_visible: "visible s \<Longrightarrow> TrimSpace s = s"
proof -
  assume s: "visible s"
  have "strip unicode_spaces s = s"
    using s by (rule strip_visible) (simp add: space_ends_invisible)
  moreover have "strip (map rev unicode_spaces) (rev s) = rev s"
  proof (rule strip_visible)
    show "visible (rev s)" using s by (simp add: visible_def list_all_iff)
    fix p assume "p \<in> set (map rev unicode_spaces)" "p \<noteq> []"
    then show "\<not> visible [hd p]" by (auto simp: hd_rev space_ends_invisible)
  qed
  ultimately show ?thesis by (simp add: TrimSpace_def)
qed

end
