(* ===== verification/Go_Encoding.thy ===== *)
theory Go_Encoding
  imports Go_Strings
begin

text \<open>
  The text encodings of the Go library the repository relies on: decimal numbers
  (\<open>strconv.Itoa\<close>, \<open>strconv.Atoi\<close>, \<open>%06d\<close>), lower-case hex (\<open>encoding/hex\<close>), unpadded
  base64url (\<open>base64.RawURLEncoding\<close>), query escaping (\<open>url.QueryEscape\<close>) and HTML
  escaping (\<open>html.EscapeString\<close>), and the arithmetic of \<open>time.Duration\<close>. The facts are the round trips, the lengths and the
  alphabets that the components need.
\<close>

abbreviation byte_val :: "char \<Rightarrow> nat" where "byte_val c \<equiv> of_char c"

lemma byte_val_less [simp]: "byte_val c < 256"
  by simp

subsection \<open>Decimal\<close>

definition digit_char :: "nat \<Rightarrow> char" where
  "digit_char d = char_of (48 + d)"

definition is_digit :: "char \<Rightarrow> bool" where
  "is_digit c \<longleftrightarrow> 48 \<le> byte_val c \<and> byte_val c \<le> 57"

definition digit_val :: "char \<Rightarrow> nat" where
  "digit_val c = byte_val c - 48"

fun decimal :: "nat \<Rightarrow> string" where
  "decimal n = (if n < 10 then [digit_char n] else decimal (n div 10) @ [digit_char (n mod 10)])"

declare decimal.simps [simp del]

definition Itoa :: "int \<Rightarrow> string" where
  "Itoa i = (if i < 0 then CHR ''-'' # decimal (nat (- i)) else decimal (nat i))"

definition read_decimal :: "string \<Rightarrow> nat" where
  "read_decimal s = foldl (\<lambda>acc c. 10 * acc + digit_val c) 0 s"

text \<open>\<open>strconv.Atoi\<close> on a 64-bit platform: an optional sign, at least one digit, and a
  value that fits an \<open>int64\<close>.\<close>

definition Atoi :: "string \<Rightarrow> int option" where
  "Atoi s =
    (let neg = (s \<noteq> [] \<and> hd s = CHR ''-'');
         body = (if s \<noteq> [] \<and> (hd s = CHR ''-'' \<or> hd s = CHR ''+'') then tl s else s);
         v = (if neg then - int (read_decimal body) else int (read_decimal body))
     in if body \<noteq> [] \<and> list_all is_digit body \<and> - (2 ^ 63) \<le> v \<and> v < 2 ^ 63
        then Some v else None)"

text \<open>\<open>fmt.Sprintf("%0wd", n)\<close> for a non-negative number.\<close>

definition pad_decimal :: "nat \<Rightarrow> nat \<Rightarrow> string" where
  "pad_decimal w n = replicate (w - length (decimal n)) (CHR ''0'') @ decimal n"

subsection \<open>Durations\<close>

definition time_Second :: int where "time_Second = 1000000000"
definition time_Minute :: int where "time_Minute = 60000000000"
definition maxDuration :: int where "maxDuration = 2 ^ 63 - 1"
definition minDuration :: int where "minDuration = - (2 ^ 63)"

text \<open>Go's truncating division.\<close>

definition quot :: "int \<Rightarrow> int \<Rightarrow> int" where
  "quot a b = (if a < 0 then - ((- a) div b) else a div b)"

definition Duration_Round :: "int \<Rightarrow> int \<Rightarrow> int" where
  "Duration_Round d m =
     (if m \<le> 0 then d
      else if d < 0 then
        (let r = (- d) mod m in
         if r + r < m then d + r
         else if minDuration \<le> d - m + r then d - m + r else minDuration)
      else
        (let r = d mod m in
         if r + r < m then d - r
         else if d + m - r \<le> maxDuration then d + m - r else maxDuration))"

subsection \<open>Hex\<close>

definition hex_digit :: "nat \<Rightarrow> char" where
  "hex_digit n = ''0123456789abcdef'' ! n"

definition hex_encode :: "string \<Rightarrow> string" where
  "hex_encode bs = concat (map (\<lambda>b. [hex_digit (byte_val b div 16), hex_digit (byte_val b mod 16)]) bs)"

definition hex_val :: "char \<Rightarrow> nat option" where
  "hex_val c =
    (let v = byte_val c in
     if 48 \<le> v \<and> v \<le> 57 then Some (v - 48)
     else if 97 \<le> v \<and> v \<le> 102 then Some (v - 87)
     else if 65 \<le> v \<and> v \<le> 70 then Some (v - 55)
     else None)"

fun hex_decode :: "string \<Rightarrow> string option" where
  "hex_decode [] = Some []"
| "hex_decode [c] = None"
| "hex_decode (a # b # s) =
     (case (hex_val a, hex_val b, hex_decode s) of
        (Some x, Some y, Some bs) \<Rightarrow> Some (char_of (16 * x + y) # bs)
      | _ \<Rightarrow> None)"

subsection \<open>Unpadded base64url\<close>

definition b64_alphabet :: string where
  "b64_alphabet = ''ABCDEFGHIJKLMNOPQRSTUVWXYZabcdefghijklmnopqrstuvwxyz0123456789-_''"

definition b64_char :: "nat \<Rightarrow> char" where
  "b64_char n = b64_alphabet ! n"

fun b64_encode :: "string \<Rightarrow> string" where
  "b64_encode [] = []"
| "b64_encode [a] =
     (let n = byte_val a * 16 in [b64_char (n div 64), b64_char (n mod 64)])"
| "b64_encode [a, b] =
     (let n = (byte_val a * 256 + byte_val b) * 4
      in [b64_char (n div 4096), b64_char (n div 64 mod 64), b64_char (n mod 64)])"
| "b64_encode (a # b # c # s) =
     (let n = byte_val a * 65536 + byte_val b * 256 + byte_val c
      in b64_char (n div 262144) # b64_char (n div 4096 mod 64) #
         b64_char (n div 64 mod 64) # b64_char (n mod 64) # b64_encode s)"

definition b64_val :: "char \<Rightarrow> nat option" where
  "b64_val c =
    (let v = byte_val c in
     if 65 \<le> v \<and> v \<le> 90 then Some (v - 65)
     else if 97 \<le> v \<and> v \<le> 122 then Some (v - 71)
     else if 48 \<le> v \<and> v \<le> 57 then Some (v + 4)
     else if v = 45 then Some 62
     else if v = 95 then Some 63
     else None)"

fun b64_groups :: "nat list \<Rightarrow> string option" where
  "b64_groups [] = Some []"
| "b64_groups [a] = None"
| "b64_groups [a, b] = Some [char_of ((a * 64 + b) div 16)]"
| "b64_groups [a, b, c] =
     (let n = (a * 4096 + b * 64 + c) div 4 in Some [char_of (n div 256), char_of (n mod 256)])"
| "b64_groups (a # b # c # d # s) =
     (let n = a * 262144 + b * 4096 + c * 64 + d
      in map_option (\<lambda>bs. char_of (n div 65536) # char_of (n div 256 mod 256) #
                           char_of (n mod 256) # bs) (b64_groups s))"

fun all_some :: "'a option list \<Rightarrow> 'a list option" where
  "all_some [] = Some []"
| "all_some (x # xs) =
     (case x of None \<Rightarrow> None | Some y \<Rightarrow> map_option ((#) y) (all_some xs))"

text \<open>The decoder skips carriage returns and line feeds, as \<open>encoding/base64\<close> does.\<close>

definition b64_decode :: "string \<Rightarrow> string option" where
  "b64_decode s =
     (case all_some (map b64_val (filter (\<lambda>c. c \<noteq> CHR 0x0A \<and> c \<noteq> CHR 0x0D) s)) of
        None \<Rightarrow> None
      | Some vs \<Rightarrow> b64_groups vs)"

subsection \<open>Escaping\<close>

definition query_unreserved :: "char \<Rightarrow> bool" where
  "query_unreserved c \<longleftrightarrow> is_digit c \<or> (65 \<le> byte_val c \<and> byte_val c \<le> 90)
     \<or> (97 \<le> byte_val c \<and> byte_val c \<le> 122) \<or> c \<in> set ''-_.~''"

definition upper_hex :: "nat \<Rightarrow> char" where
  "upper_hex n = ''0123456789ABCDEF'' ! n"

definition QueryEscape :: "string \<Rightarrow> string" where
  "QueryEscape s = concat (map (\<lambda>c.
     if query_unreserved c then [c]
     else if c = CHR '' '' then ''+''
     else [CHR ''%'', upper_hex (byte_val c div 16), upper_hex (byte_val c mod 16)]) s)"

definition EscapeChar :: "char \<Rightarrow> string" where
  "EscapeChar c =
    (if c = CHR ''&'' then ''&amp;''
     else if c = CHR 0x27 then ''&#39;''
     else if c = CHR ''<'' then ''&lt;''
     else if c = CHR ''>'' then ''&gt;''
     else if c = CHR 0x22 then ''&#34;''
     else [c])"

definition EscapeString :: "string \<Rightarrow> string" where
  "EscapeString s = concat (map EscapeChar s)"

subsection \<open>Decimal facts\<close>

lemma digit_char_simps [simp]:
  assumes "d < 10"
  shows "is_digit (digit_char d)" and "digit_val (digit_char d) = d"
  using assms by (simp_all add: is_digit_def digit_char_def digit_val_def)

lemma decimal_digits: "list_all is_digit (decimal n)"
proof (induction n rule: decimal.induct)
  case (1 n)
  then show ?case by (subst decimal.simps) (simp add: list_all_iff)
qed

lemma decimal_nonempty [simp]: "decimal n \<noteq> []"
  by (subst decimal.simps) simp

lemma read_decimal_snoc: "read_decimal (s @ [c]) = 10 * read_decimal s + digit_val c"
  by (simp add: read_decimal_def)

lemma read_decimal_decimal [simp]: "read_decimal (decimal n) = n"
proof (induction n rule: decimal.induct)
  case (1 n)
  show ?case
  proof (cases "n < 10")
    case True
    then show ?thesis by (subst decimal.simps) (simp add: read_decimal_def)
  next
    case False
    with 1 show ?thesis by (subst decimal.simps) (simp add: read_decimal_snoc)
  qed
qed

lemma length_decimal: "n < 10 ^ k \<Longrightarrow> 0 < k \<Longrightarrow> length (decimal n) \<le> k"
proof (induction n arbitrary: k rule: decimal.induct)
  case (1 n)
  show ?case
  proof (cases "n < 10")
    case True
    with "1.prems" show ?thesis by (subst decimal.simps) simp
  next
    case False
    with "1.prems" have "k \<noteq> 1" by (cases "k = 1") auto
    with "1.prems" obtain j where k: "k = Suc j" "0 < j"
      by (cases k) auto
    with "1.prems" have "n div 10 < 10 ^ j" by (simp add: less_mult_imp_div_less mult.commute)
    with "1.IH" [OF False this k(2)] False k show ?thesis
      by (subst decimal.simps) simp
  qed
qed

lemma pad_decimal_digits: "list_all is_digit (pad_decimal w n)"
  using decimal_digits [of n] by (auto simp: pad_decimal_def list_all_iff is_digit_def)

lemma length_pad_decimal: "n < 10 ^ w \<Longrightarrow> 0 < w \<Longrightarrow> length (pad_decimal w n) = w"
  by (simp add: pad_decimal_def length_decimal)

lemma read_decimal_zeros: "read_decimal (replicate k (CHR ''0'') @ s) = read_decimal s"
  by (induction k) (simp_all add: read_decimal_def digit_val_def)

lemma read_pad_decimal [simp]: "read_decimal (pad_decimal w n) = n"
  by (simp add: pad_decimal_def read_decimal_zeros)

subsection \<open>Hex facts\<close>

lemma length_hex_encode [simp]: "length (hex_encode bs) = 2 * length bs"
  by (induction bs) (simp_all add: hex_encode_def)

lemma hex_val_digit: "n < 16 \<Longrightarrow> hex_val (hex_digit n) = Some n"
proof -
  have "list_all (\<lambda>n. hex_val (hex_digit n) = Some n) [0..<16]" by code_simp
  then show "n < 16 \<Longrightarrow> ?thesis" by (simp add: list_all_iff)
qed

lemma hex_decode_encode [simp]: "hex_decode (hex_encode bs) = Some bs"
proof (induction bs)
  case Nil
  then show ?case by (simp add: hex_encode_def)
next
  case (Cons b bs)
  have "16 * (byte_val b div 16) + byte_val b mod 16 = byte_val b" by simp
  moreover have "byte_val b div 16 < 16" by (simp add: less_mult_imp_div_less)
  ultimately show ?case
    using Cons by (simp add: hex_encode_def hex_val_digit)
qed

lemma hex_encode_inj: "hex_encode a = hex_encode b \<longleftrightarrow> a = b"
  by (metis hex_decode_encode option.inject)

subsection \<open>Evaluating base64\<close>

text \<open>Code equations that evaluate byte by byte, with a short lookup.\<close>

definition b64_rows :: "string list" where
  "b64_rows = [''ABCDEFGH'', ''IJKLMNOP'', ''QRSTUVWX'', ''YZabcdef'', ''ghijklmn'', ''opqrstuv'', ''wxyz0123'', ''456789-_'']"

lemma b64_char_code [code]: "b64_char n = (if n < 64 then b64_rows ! (n div 8) ! (n mod 8) else b64_alphabet ! n)"
proof -
  have "list_all (\<lambda>n. b64_alphabet ! n = b64_rows ! (n div 8) ! (n mod 8)) [0..<64]" by code_simp
  then show ?thesis by (simp add: b64_char_def list_all_iff)
qed

lemma low_sextet: "r < 64 \<Longrightarrow> (q * 64 + r) div 64 = q \<and> (q * 64 + r) mod 64 = (r::nat)"
  by simp

lemma sextets:
  fixes a1 a0 b1 b0 c1 c0 :: nat
  assumes "a0 < 4" "b1 < 16" "b0 < 16" "c1 < 4" "c0 < 64"
  defines "n \<equiv> (a1 * 4 + a0) * 65536 + (b1 * 16 + b0) * 256 + (c1 * 64 + c0)"
  shows "n div 262144 = a1" "n div 4096 mod 64 = a0 * 16 + b1" "n div 64 mod 64 = b0 * 4 + c1" "n mod 64 = c0"
proof -
  have n: "n = ((a1 * 64 + (a0 * 16 + b1)) * 64 + (b0 * 4 + c1)) * 64 + c0" by (simp add: n_def algebra_simps)
  have div: "n div 4096 = n div 64 div 64" "n div 262144 = n div 64 div 64 div 64"
    using div_mult2_eq [of n 64 64] div_mult2_eq [of n 64 4096] div_mult2_eq [of "n div 64" 64 64] by simp_all
  have "a0 * 16 + b1 < 64" "b0 * 4 + c1 < 64" using assms(1-4) by simp_all
  then show "n div 262144 = a1" "n div 4096 mod 64 = a0 * 16 + b1" "n div 64 mod 64 = b0 * 4 + c1" "n mod 64 = c0"
    unfolding div unfolding n using assms(5) by (simp_all only: low_sextet)
qed

lemma b64_encode_code [code]:
  "b64_encode [] = []"
  "b64_encode [a] = [b64_char (byte_val a div 4), b64_char (byte_val a mod 4 * 16)]"
  "b64_encode [a, b] = [b64_char (byte_val a div 4), b64_char (byte_val a mod 4 * 16 + byte_val b div 16), b64_char (byte_val b mod 16 * 4)]"
  "b64_encode (a # b # c # s) = b64_char (byte_val a div 4) # b64_char (byte_val a mod 4 * 16 + byte_val b div 16) #
     b64_char (byte_val b mod 16 * 4 + byte_val c div 64) # b64_char (byte_val c mod 64) # b64_encode s"
proof -
  have small: "byte_val x div 16 < 16" "byte_val x div 64 < 4" for x by (simp_all add: less_mult_imp_div_less)
  note bytes = sextets [of "byte_val a mod 4" "byte_val b div 16" "byte_val b mod 16" "byte_val c div 64" "byte_val c mod 64" "byte_val a div 4" for a b c, simplified small, simplified]
  show "b64_encode (a # b # c # s) = b64_char (byte_val a div 4) # b64_char (byte_val a mod 4 * 16 + byte_val b div 16) #
     b64_char (byte_val b mod 16 * 4 + byte_val c div 64) # b64_char (byte_val c mod 64) # b64_encode s"
    using bytes [of a b c] by (simp add: Let_def)
  show "b64_encode [a, b] = [b64_char (byte_val a div 4), b64_char (byte_val a mod 4 * 16 + byte_val b div 16), b64_char (byte_val b mod 16 * 4)]"
  proof -
    have two: "(byte_val a * 256 + byte_val b) * 4 = (byte_val a * 65536 + byte_val b * 256) div 64" by simp
    have div: "m div 64 div 4096 = m div 262144" "m div 64 div 64 = m div 4096" for m :: nat
      using div_mult2_eq [of m 64 4096] div_mult2_eq [of m 64 64] by simp_all
    show ?thesis unfolding b64_encode.simps Let_def two div using bytes [of a b "CHR 0x00"] by simp
  qed
  show "b64_encode [a] = [b64_char (byte_val a div 4), b64_char (byte_val a mod 4 * 16)]"
    using div_mult_mult2 [of 16 "byte_val a" 4] mod_mult_mult2 [of "byte_val a" 16 4] by (simp add: Let_def)
qed simp

subsection \<open>Base64url facts\<close>

lemma length_b64_encode: "length (b64_encode bs) = (4 * length bs + 2) div 3"
  by (induction bs rule: b64_encode.induct) (simp_all add: Let_def)

lemma length_b64_alphabet: "length b64_alphabet = 64"
  by (simp add: b64_alphabet_def)

lemma b64_val_alphabet: "map b64_val b64_alphabet = map Some [0..<64]"
  by (simp add: b64_alphabet_def b64_val_def) code_simp

lemma b64_val_char: "n < 64 \<Longrightarrow> b64_val (b64_char n) = Some n"
  using arg_cong [OF b64_val_alphabet, of "\<lambda>xs. xs ! n"]
  by (simp add: b64_char_def length_b64_alphabet)

lemma b64_char_mem: "n < 64 \<Longrightarrow> b64_char n \<in> set b64_alphabet"
  by (simp add: b64_char_def length_b64_alphabet)

lemma b64_encode_alphabet: "set (b64_encode bs) \<subseteq> set b64_alphabet"
proof (induction bs rule: b64_encode.induct)
  case (2 a)
  show ?case by (simp add: Let_def b64_char_mem less_mult_imp_div_less)
next
  case (3 a b)
  have "(byte_val a * 256 + byte_val b) * 4 div 4096 < 64"
    using byte_val_less [of a] byte_val_less [of b] by (simp add: div_less_iff_less_mult del: byte_val_less)
  then show ?case by (simp add: Let_def b64_char_mem)
next
  case (4 a b c s)
  have "(byte_val a * 65536 + byte_val b * 256 + byte_val c) div 262144 < 64"
    using byte_val_less [of a] byte_val_less [of b] byte_val_less [of c]
    by (simp add: div_less_iff_less_mult del: byte_val_less)
  with 4 show ?case by (simp add: Let_def b64_char_mem)
qed simp

lemma b64_alphabet_no_newline:
  "c \<in> set b64_alphabet \<Longrightarrow> c \<noteq> CHR 0x0A \<and> c \<noteq> CHR 0x0D"
  by (auto simp: b64_alphabet_def)

lemma all_some_map: "(\<And>x. x \<in> set xs \<Longrightarrow> f x = Some (g x)) \<Longrightarrow> all_some (map f xs) = Some (map g xs)"
  by (induction xs) auto

text \<open>The sextets of an encoding, as numbers: encoding then reading each character back.\<close>

fun b64_sextets :: "string \<Rightarrow> nat list" where
  "b64_sextets [] = []"
| "b64_sextets [a] = [byte_val a * 16 div 64, byte_val a * 16 mod 64]"
| "b64_sextets [a, b] =
     (let n = (byte_val a * 256 + byte_val b) * 4 in [n div 4096, n div 64 mod 64, n mod 64])"
| "b64_sextets (a # b # c # s) =
     (let n = byte_val a * 65536 + byte_val b * 256 + byte_val c
      in n div 262144 # n div 4096 mod 64 # n div 64 mod 64 # n mod 64 # b64_sextets s)"

lemma b64_sextets_bound: "x \<in> set (b64_sextets bs) \<Longrightarrow> x < 64"
proof (induction bs rule: b64_sextets.induct)
  case (2 a)
  then show ?case using byte_val_less [of a] by (auto simp: less_mult_imp_div_less simp del: byte_val_less)
next
  case (3 a b)
  then show ?case using byte_val_less [of a] byte_val_less [of b]
    by (auto simp: Let_def div_less_iff_less_mult simp del: byte_val_less)
next
  case (4 a b c s)
  then show ?case using byte_val_less [of a] byte_val_less [of b] byte_val_less [of c]
    by (auto simp: Let_def div_less_iff_less_mult simp del: byte_val_less)
qed simp

lemma b64_encode_sextets: "b64_encode bs = map b64_char (b64_sextets bs)"
  by (induction bs rule: b64_encode.induct) (simp_all add: Let_def)

lemma div_64_64: "(n::nat) div 4096 = n div 64 div 64" "n div 262144 = n div 64 div 64 div 64"
  by (simp_all flip: div_mult2_eq)

lemma div_256_256: "(n::nat) div 65536 = n div 256 div 256"
  by (simp flip: div_mult2_eq)

lemma sextets_join2: "(x div 64 * 64 + x mod 64) div 16 = (x::nat) div 16"
  by simp

lemma sextets_join3: "(n div 4096) * 4096 + (n div 64 mod 64) * 64 + n mod 64 = (n::nat)"
  using div_mult_mod_eq [of "n div 64" 64] div_mult_mod_eq [of n 64]
  unfolding div_64_64 by linarith

lemma sextets_join4:
  "(n div 262144) * 262144 + (n div 4096 mod 64) * 4096 + (n div 64 mod 64) * 64 + n mod 64 = (n::nat)"
  using div_mult_mod_eq [of "n div 64 div 64" 64] div_mult_mod_eq [of "n div 64" 64]
    div_mult_mod_eq [of n 64]
  unfolding div_64_64 by linarith

lemma byte_split2:
  "(q * 256 + byte_val b) div 256 = q" "(q * 256 + byte_val b) mod 256 = byte_val b"
  by (simp_all add: div_mult_self3)

lemma byte_split3:
  "(byte_val a * 65536 + byte_val b * 256 + byte_val c) div 65536 = byte_val a"
  "(byte_val a * 65536 + byte_val b * 256 + byte_val c) div 256 mod 256 = byte_val b"
  "(byte_val a * 65536 + byte_val b * 256 + byte_val c) mod 256 = byte_val c"
proof -
  have n: "byte_val a * 65536 + byte_val b * 256 + byte_val c =
    (byte_val a * 256 + byte_val b) * 256 + byte_val c" by simp
  show "(byte_val a * 65536 + byte_val b * 256 + byte_val c) div 65536 = byte_val a"
    "(byte_val a * 65536 + byte_val b * 256 + byte_val c) div 256 mod 256 = byte_val b"
    "(byte_val a * 65536 + byte_val b * 256 + byte_val c) mod 256 = byte_val c"
    by (simp_all only: n div_256_256 byte_split2)
qed

lemma b64_groups_sextets: "b64_groups (b64_sextets bs) = Some bs"
proof (induction bs rule: b64_sextets.induct)
  case (2 a)
  have "byte_val a * 16 div 16 = byte_val a" by simp
  then show ?case by (simp only: b64_sextets.simps b64_groups.simps sextets_join2 char_of_char)
next
  case (3 a b)
  have "(byte_val a * 256 + byte_val b) * 4 div 4 = byte_val a * 256 + byte_val b" by simp
  then show ?case
    by (simp only: b64_sextets.simps b64_groups.simps Let_def sextets_join3 byte_split2 char_of_char)
next
  case (4 a b c s)
  then show ?case
    by (simp only: b64_sextets.simps b64_groups.simps Let_def sextets_join4 byte_split3 char_of_char option.map)
qed simp

lemma b64_decode_encode [simp]: "b64_decode (b64_encode bs) = Some bs"
proof -
  have "filter (\<lambda>c. c \<noteq> CHR 0x0A \<and> c \<noteq> CHR 0x0D) (b64_encode bs) = b64_encode bs"
    using b64_encode_alphabet b64_alphabet_no_newline by (intro filter_eq_self) blast
  moreover have "all_some (map b64_val (b64_encode bs)) = Some (b64_sextets bs)"
    using all_some_map [of "b64_sextets bs" "b64_val \<circ> b64_char" id] b64_sextets_bound
    by (simp add: b64_encode_sextets b64_val_char comp_def)
  ultimately show ?thesis by (simp add: b64_decode_def b64_groups_sextets)
qed

lemma b64_encode_inj: "b64_encode a = b64_encode b \<longleftrightarrow> a = b"
  by (metis b64_decode_encode option.inject)

subsection \<open>Escaping facts\<close>

lemma b64_alphabet_unreserved: "c \<in> set b64_alphabet \<Longrightarrow> query_unreserved c"
proof -
  have "list_all query_unreserved b64_alphabet"
    by (simp add: b64_alphabet_def query_unreserved_def is_digit_def)
  then show "c \<in> set b64_alphabet \<Longrightarrow> ?thesis" by (simp add: list_all_iff)
qed

lemma QueryEscape_id: "(\<And>c. c \<in> set s \<Longrightarrow> query_unreserved c) \<Longrightarrow> QueryEscape s = s"
  by (induction s) (auto simp: QueryEscape_def)

lemma QueryEscape_b64 [simp]: "QueryEscape (b64_encode bs) = b64_encode bs"
  using b64_encode_alphabet b64_alphabet_unreserved by (intro QueryEscape_id) blast

lemma EscapeChar_safe: "c \<in> set (EscapeChar x) \<Longrightarrow> c \<noteq> CHR ''<'' \<and> c \<noteq> CHR ''>'' \<and> c \<noteq> CHR 0x22 \<and> c \<noteq> CHR 0x27"
  by (auto simp: EscapeChar_def split: if_splits)

lemma EscapeString_safe:
  "c \<in> set (EscapeString s) \<Longrightarrow> c \<noteq> CHR ''<'' \<and> c \<noteq> CHR ''>'' \<and> c \<noteq> CHR 0x22 \<and> c \<noteq> CHR 0x27"
  by (auto simp: EscapeString_def dest: EscapeChar_safe)

end
