(* ===== verification/Httpx.thy ===== *)
theory Httpx
  imports Go_Encoding
begin

text \<open>
  Errors and responses shared by the HTTP services: the error values a Go call can
  return, \<open>modules/common-go/pkg/httpx\<close> (\<open>apperr\<close>, \<open>errcode\<close>, \<open>resp\<close>) and the error
  middleware. A package-level \<open>errors.New\<close> value is compared by identity in Go; it is
  \<open>Sentinel\<close> with its package and message, which are unique. An error built inside a
  function is \<open>New\<close>; \<open>fmt.Errorf\<close> with \<open>%w\<close> is \<open>Wrap\<close>. A run-time panic is \<open>Panic\<close>.
\<close>

datatype json = JNull | JBool bool | JNum int | JStr string
  | JArr "json list" | JObj "(string \<times> json) list"

datatype go_error =
    Sentinel string string
  | New string
  | ErrNoRows
  | RedisNil
  | PgError string
  | LibError string
  | TextProtoError int string
  | JsonSyntaxError
  | JsonTypeError
  | Wrap string go_error string
  | DeliveryError go_error string int
  | App app_error
  | Panic string
and app_error = AppError (HTTPStatus: int) (Code: int) (Message: string)
    (Data: "(string \<times> json) list option") (Err: "go_error option")

subsection \<open>The \<open>errors\<close> package\<close>

fun Unwrap :: "go_error \<Rightarrow> go_error option" where
  "Unwrap (Wrap p e s) = Some e"
| "Unwrap (DeliveryError e t c) = Some e"
| "Unwrap (App a) = Err a"
| "Unwrap _ = None"

lemma Unwrap_size: "Unwrap e = Some e' \<Longrightarrow> size e' < size e"
proof (cases e)
  case (App a)
  then show "Unwrap e = Some e' \<Longrightarrow> ?thesis" by (cases a) auto
qed auto

text \<open>\<open>chain e\<close> is the list of errors \<open>errors.Is\<close> and \<open>errors.As\<close> visit.\<close>

function chain :: "go_error \<Rightarrow> go_error list" where
  "chain e = e # (case Unwrap e of None \<Rightarrow> [] | Some e' \<Rightarrow> chain e')"
  by pat_completeness auto
termination
  by (relation "measure size") (auto dest: Unwrap_size)

declare chain.simps [simp del]

definition errors_Is :: "go_error \<Rightarrow> go_error \<Rightarrow> bool" where
  "errors_Is e target \<longleftrightarrow> target \<in> set (chain e)"

fun is_App :: "go_error \<Rightarrow> bool" where
  "is_App (App _) = True" | "is_App _ = False"

fun is_Pg :: "go_error \<Rightarrow> bool" where
  "is_Pg (PgError _) = True" | "is_Pg _ = False"

definition as_App :: "go_error \<Rightarrow> app_error option" where
  "as_App e = (case List.find is_App (chain e) of Some (App a) \<Rightarrow> Some a | _ \<Rightarrow> None)"

definition as_Pg :: "go_error \<Rightarrow> string option" where
  "as_Pg e = (case List.find is_Pg (chain e) of Some (PgError c) \<Rightarrow> Some c | _ \<Rightarrow> None)"

subsection \<open>Package errcode\<close>

definition errcode_OK :: int where "errcode_OK = 0"
definition errcode_BadRequest :: int where "errcode_BadRequest = 1001"
definition errcode_Unauthorized :: int where "errcode_Unauthorized = 1002"
definition errcode_Forbidden :: int where "errcode_Forbidden = 1003"
definition errcode_NotFound :: int where "errcode_NotFound = 1004"
definition errcode_Conflict :: int where "errcode_Conflict = 1005"
definition errcode_RateLimited :: int where "errcode_RateLimited = 1006"
definition errcode_DBError :: int where "errcode_DBError = 2001"
definition errcode_InternalError :: int where "errcode_InternalError = 9000"

lemmas errcode_defs = errcode_OK_def errcode_BadRequest_def errcode_Unauthorized_def
  errcode_Forbidden_def errcode_NotFound_def errcode_Conflict_def errcode_RateLimited_def
  errcode_DBError_def errcode_InternalError_def

subsection \<open>Package apperr\<close>

definition apperr_New :: "int \<Rightarrow> int \<Rightarrow> string \<Rightarrow> go_error option \<Rightarrow> app_error" where
  "apperr_New httpStatus code msg err = AppError httpStatus code msg None err"

fun WithData :: "app_error \<Rightarrow> (string \<times> json) list \<Rightarrow> app_error" where
  "WithData (AppError s c m d e) data = AppError s c m (Some data) e"

definition BadRequest :: "go_error \<Rightarrow> app_error" where
  "BadRequest err = apperr_New 400 errcode_BadRequest ''bad_request'' (Some err)"

definition Unauthorized :: "go_error \<Rightarrow> app_error" where
  "Unauthorized err = apperr_New 401 errcode_Unauthorized ''unauthorized'' (Some err)"

definition Forbidden :: "go_error option \<Rightarrow> app_error" where
  "Forbidden err = apperr_New 403 errcode_Forbidden ''forbidden'' err"

definition NotFound :: "go_error \<Rightarrow> app_error" where
  "NotFound err = apperr_New 404 errcode_NotFound ''not_found'' (Some err)"

definition Conflict :: "go_error \<Rightarrow> app_error" where
  "Conflict err = apperr_New 409 errcode_Conflict ''conflict'' (Some err)"

definition RateLimited :: "go_error \<Rightarrow> app_error" where
  "RateLimited err = apperr_New 429 errcode_RateLimited ''rate_limited'' (Some err)"

lemmas apperr_defs = apperr_New_def BadRequest_def Unauthorized_def Forbidden_def
  NotFound_def Conflict_def RateLimited_def

fun err_message :: "go_error \<Rightarrow> string" and app_error_message :: "app_error \<Rightarrow> string" where
  "err_message (Sentinel p m) = m"
| "err_message (New m) = m"
| "err_message ErrNoRows = ''no rows in result set''"
| "err_message RedisNil = ''redis: nil''"
| "err_message (PgError c) = ''SQLSTATE '' @ c"
| "err_message (LibError m) = m"
| "err_message (TextProtoError c m) = Itoa c @ '' '' @ m"
| "err_message JsonSyntaxError = ''json: syntax error''"
| "err_message JsonTypeError = ''json: cannot unmarshal''"
| "err_message (Wrap p e s) = p @ err_message e @ s"
| "err_message (DeliveryError e t c) =
     (if t = [] then err_message e
      else err_message e @ '' (bounce='' @ t @ '' code='' @ Itoa c @ '')'')"
| "err_message (App a) = app_error_message a"
| "err_message (Panic m) = m"
| "app_error_message (AppError s c m d None) = m"
| "app_error_message (AppError s c m d (Some e)) = err_message e"

definition Normalize :: "go_error option \<Rightarrow> app_error" where
  "Normalize err =
    (case err of
       None \<Rightarrow> apperr_New 500 errcode_InternalError ''internal_error'' (Some (New ''nil_error''))
     | Some e \<Rightarrow>
         (case as_App e of
            Some ae \<Rightarrow> ae
          | None \<Rightarrow>
              (case as_Pg e of
                 Some code \<Rightarrow>
                   (if code = ''23505'' then WithData (Conflict e) [(''reason'', JStr ''unique_violation'')]
                    else apperr_New 500 errcode_DBError ''db_error'' (Some e))
               | None \<Rightarrow> apperr_New 500 errcode_InternalError ''internal_error'' (Some e))))"

subsection \<open>Package resp and the error middleware\<close>

record envelope =
  env_RequestID :: string
  env_Code :: int
  env_Message :: string
  env_Data :: json

record set_cookie =
  cookie_name :: string
  cookie_value :: string
  cookie_max_age :: int
  cookie_secure :: bool
  cookie_http_only :: bool

datatype body = Json envelope | Html string | Redirect string

record response =
  Status :: int
  Body :: body
  Cookies :: "set_cookie list"

definition resp_OK :: "string \<Rightarrow> json \<Rightarrow> response" where
  "resp_OK rid data = \<lparr>Status = 200,
     Body = Json \<lparr>env_RequestID = rid, env_Code = 0, env_Message = ''ok'', env_Data = data\<rparr>, Cookies = []\<rparr>"

definition resp_Fail :: "string \<Rightarrow> int \<Rightarrow> int \<Rightarrow> string \<Rightarrow> json \<Rightarrow> response" where
  "resp_Fail rid httpStatus code message data = \<lparr>Status = httpStatus,
     Body = Json \<lparr>env_RequestID = rid, env_Code = code, env_Message = message, env_Data = data\<rparr>,
     Cookies = []\<rparr>"

text \<open>A wrapped handler either wrote its response or left one error; the middleware turns
  the error into the response that is sent.\<close>

definition ErrorHandler :: "string \<Rightarrow> (go_error, response) result \<Rightarrow> response" where
  "ErrorHandler rid r =
    (case r of
       Inr rsp \<Rightarrow> rsp
     | Inl err \<Rightarrow>
         (let ae = Normalize (Some err);
              data = (case Data ae of None \<Rightarrow> [] | Some d \<Rightarrow> d)
          in resp_Fail rid (HTTPStatus ae) (Code ae) (Message ae) (JObj data)))"

subsection \<open>Facts\<close>

lemma chain_simps [simp]:
  "chain (Sentinel p m) = [Sentinel p m]" "chain (New m) = [New m]"
  "chain ErrNoRows = [ErrNoRows]" "chain RedisNil = [RedisNil]"
  "chain (PgError q) = [PgError q]" "chain (LibError m) = [LibError m]"
  "chain (TextProtoError n m) = [TextProtoError n m]"
  "chain JsonSyntaxError = [JsonSyntaxError]" "chain JsonTypeError = [JsonTypeError]"
  "chain (Panic m) = [Panic m]"
  "chain (Wrap p e s) = Wrap p e s # chain e"
  "chain (DeliveryError e t n) = DeliveryError e t n # chain e"
  "chain (App (AppError st c m d None)) = [App (AppError st c m d None)]"
  "chain (App (AppError st c m d (Some e))) = App (AppError st c m d (Some e)) # chain e"
  by (subst chain.simps, simp)+

lemma as_App_App [simp]: "as_App (App a) = Some a"
  by (cases a, cases "Err a") (auto simp: as_App_def)

lemma Normalize_App [simp]: "Normalize (Some (App a)) = a"
  by (simp add: Normalize_def)

lemma as_App_eqD: "as_App e = Some a \<Longrightarrow> App a \<in> set (chain e)"
  by (auto simp: as_App_def split: option.splits go_error.splits dest!: find_SomeD)

end
