(* ===== verification/World.thy ===== *)
theory World
  imports Httpx
begin

text \<open>
  The effects of the services as explicit state passing. A program of type
  \<open>('d, 'a) proc\<close> takes the world and returns Go's \<open>(value, error)\<close> and the new world.
  The world holds the committed database (\<open>disk\<close>), the working copy of the open
  transaction (\<open>work\<close>), the Redis server, the analytics events and mails that were sent, the
  pending timers and the metrics.

  What the program cannot control is an oracle that is read at the current \<open>tick\<close>, which
  every external call advances: whether the call fails, the next UUID, random bytes and
  numbers, the application clock and the clocks of the database and of Redis. A theorem
  that quantifies over the world therefore holds for every failure pattern, clock and
  randomness.

  The second half of the theory is the proof library: a locale with the rules to show
  that a program relates its initial and final database by a preorder (an invariant, a
  monotone table), and the rules for all-or-nothing programs.
\<close>

type_synonym instant = int

record nature =
  o_fault :: "nat \<Rightarrow> bool"
  o_uuid :: "nat \<Rightarrow> string"
  o_byte :: "nat \<Rightarrow> nat \<Rightarrow> char"
  o_int :: "nat \<Rightarrow> nat"
  o_clock :: "nat \<Rightarrow> instant"
  o_dbclock :: "nat \<Rightarrow> instant"
  o_rclock :: "nat \<Rightarrow> instant"
  o_smtp :: "nat \<Rightarrow> go_error option"

record redis =
  counters :: "string \<Rightarrow> (int \<times> instant option) option"
  lists :: "string \<Rightarrow> string list"

record event =
  ev_Name :: string
  ev_UserID :: string
  ev_Email :: string
  ev_Timestamp :: instant
  ev_Properties :: "(string \<times> json) list"

text \<open>A message handed to an SMTP server: its address, the envelope sender and recipients and the
  text. The metrics are the values behind the four collectors of email-worker.\<close>

record smtp_mail =
  sm_Addr :: string
  sm_From :: string
  sm_To :: "string list"
  sm_Msg :: string

record metrics =
  sendAttempts :: "string \<Rightarrow> nat"
  sendLatency :: "(string \<times> int) list"
  queueBacklog :: "string \<Rightarrow> int option"
  queuePollFail :: "string \<Rightarrow> nat"

text \<open>\<open>timers\<close> holds the pending \<open>AfterFunc\<close> callbacks, which all append a payload to a queue: the
  delay, the queue and the payload.\<close>

record 'd world =
  orc :: nature
  tick :: nat
  disk :: 'd
  work :: 'd
  txnow :: instant
  rds :: redis
  events :: "event list"
  outbox :: "smtp_mail list"
  timers :: "(int \<times> string \<times> json) list"
  metrics_of :: metrics

type_synonym ('d, 'a) proc = "'d world \<Rightarrow> (go_error, 'a) result \<times> 'd world"

subsection \<open>Sequencing\<close>

definition ok :: "'a \<Rightarrow> ('d, 'a) proc" where
  "ok x w = (Inr x, w)"

definition fail :: "go_error \<Rightarrow> ('d, 'a) proc" where
  "fail e w = (Inl e, w)"

text \<open>\<open>ebind m k\<close> is \<open>x, err := m; if err != nil { return err }; k(x)\<close>; \<open>ecase m h k\<close> is the
  general form, with \<open>h\<close> for the error branch.\<close>

definition ecase :: "('d, 'a) proc \<Rightarrow> (go_error \<Rightarrow> ('d, 'b) proc) \<Rightarrow> ('a \<Rightarrow> ('d, 'b) proc) \<Rightarrow> ('d, 'b) proc" where
  "ecase m h k w = (case m w of (Inl e, w') \<Rightarrow> h e w' | (Inr x, w') \<Rightarrow> k x w')"

definition ebind :: "('d, 'a) proc \<Rightarrow> ('a \<Rightarrow> ('d, 'b) proc) \<Rightarrow> ('d, 'b) proc" where
  "ebind m k = ecase m fail k"

definition of_result :: "(go_error, 'a) result \<Rightarrow> ('d, 'a) proc" where
  "of_result r w = (r, w)"

text \<open>An external call: it advances the tick and fails with \<open>e\<close> where the oracle says so.\<close>

definition ext :: "go_error \<Rightarrow> (nat \<Rightarrow> ('d, 'a) proc) \<Rightarrow> ('d, 'a) proc" where
  "ext e f w =
     (if o_fault (orc w) (tick w) then (Inl e, w\<lparr>tick := Suc (tick w)\<rparr>)
      else f (tick w) (w\<lparr>tick := Suc (tick w)\<rparr>))"

subsection \<open>Clocks, randomness, identifiers\<close>

definition time_Now :: "('d, instant) proc" where
  "time_Now w = (Inr (o_clock (orc w) (tick w)), w\<lparr>tick := Suc (tick w)\<rparr>)"

definition uuid_NewString :: "('d, string) proc" where
  "uuid_NewString w = (Inr (o_uuid (orc w) (tick w)), w\<lparr>tick := Suc (tick w)\<rparr>)"

definition rand_Read :: "nat \<Rightarrow> ('d, string) proc" where
  "rand_Read n = ext (LibError ''rand'') (\<lambda>t w. (Inr (map (o_byte (orc w) t) [0..<n]), w))"

definition rand_Int :: "nat \<Rightarrow> ('d, nat) proc" where
  "rand_Int bound = ext (LibError ''rand'') (\<lambda>t w. (Inr (o_int (orc w) t mod bound), w))"

subsection \<open>The database\<close>

definition db_error :: go_error where
  "db_error = LibError ''database unavailable''"

definition tx_begin :: "('d, unit) proc" where
  "tx_begin = ext db_error (\<lambda>t w. (Inr (), w\<lparr>work := disk w, txnow := o_dbclock (orc w) t\<rparr>))"

definition tx_commit :: "('d, unit) proc" where
  "tx_commit = ext db_error (\<lambda>t w. (Inr (), w\<lparr>disk := work w\<rparr>))"

text \<open>\<open>QueryRow(...).Scan\<close> inside a transaction: \<open>None\<close> is \<open>pgx.ErrNoRows\<close>.\<close>

definition tx_query :: "('d \<Rightarrow> 'a option) \<Rightarrow> ('d, 'a) proc" where
  "tx_query f = ext db_error (\<lambda>t w. (res_of_option ErrNoRows (f (work w)), w))"

text \<open>\<open>Exec\<close> inside a transaction; the statement gets the transaction's \<open>now()\<close> and
  returns what \<open>RowsAffected\<close> reports.\<close>

definition tx_exec :: "(instant \<Rightarrow> 'd \<Rightarrow> (go_error, nat \<times> 'd) result) \<Rightarrow> ('d, nat) proc" where
  "tx_exec f = ext db_error (\<lambda>t w.
     (case f (txnow w) (work w) of Inl e \<Rightarrow> (Inl e, w) | Inr (n, d) \<Rightarrow> (Inr n, w\<lparr>work := d\<rparr>)))"

text \<open>The same on the pool, outside a transaction: the statement commits by itself.\<close>

definition pool_query :: "('d \<Rightarrow> 'a option) \<Rightarrow> ('d, 'a) proc" where
  "pool_query f = ext db_error (\<lambda>t w. (res_of_option ErrNoRows (f (disk w)), w))"

definition pool_exec :: "(instant \<Rightarrow> 'd \<Rightarrow> (go_error, nat \<times> 'd) result) \<Rightarrow> ('d, nat) proc" where
  "pool_exec f = ext db_error (\<lambda>t w.
     (case f (o_dbclock (orc w) t) (disk w) of
        Inl e \<Rightarrow> (Inl e, w) | Inr (n, d) \<Rightarrow> (Inr n, w\<lparr>disk := d, work := d\<rparr>)))"

text \<open>\<open>BeginTx\<close>, the body, and the deferred \<open>Rollback\<close>, which drops whatever the body did
  not commit.\<close>

definition run_tx :: "('d, 'a) proc \<Rightarrow> ('d, 'a) proc" where
  "run_tx body = ebind tx_begin (\<lambda>_ w.
     (case body w of (r, w') \<Rightarrow> (r, w'\<lparr>work := disk w'\<rparr>)))"

subsection \<open>Redis\<close>

definition redis_error :: go_error where
  "redis_error = LibError ''redis unavailable''"

definition live :: "instant \<Rightarrow> redis \<Rightarrow> string \<Rightarrow> (int \<times> instant option) option" where
  "live now r k =
     (case counters r k of
        Some (v, Some e) \<Rightarrow> (if e \<le> now then None else Some (v, Some e))
      | x \<Rightarrow> x)"

definition incr :: "instant \<Rightarrow> redis \<Rightarrow> string \<Rightarrow> int \<times> redis" where
  "incr now r k =
     (case live now r k of
        None \<Rightarrow> (1, r\<lparr>counters := (counters r)(k \<mapsto> (1, None))\<rparr>)
      | Some (v, e) \<Rightarrow> (v + 1, r\<lparr>counters := (counters r)(k \<mapsto> (v + 1, e))\<rparr>))"

definition expire :: "instant \<Rightarrow> redis \<Rightarrow> string \<Rightarrow> int \<Rightarrow> redis" where
  "expire now r k ttl =
     (case live now r k of
        None \<Rightarrow> r\<lparr>counters := (counters r)(k := None)\<rparr>
      | Some (v, _) \<Rightarrow> r\<lparr>counters := (counters r)(k \<mapsto> (v, Some (now + ttl)))\<rparr>)"

text \<open>\<open>TTL\<close> in seconds, rounded to the nearest second as the server does; \<open>-2\<close> for a
  missing key and \<open>-1\<close> for one without expiry.\<close>

definition ttl_seconds :: "instant \<Rightarrow> redis \<Rightarrow> string \<Rightarrow> int" where
  "ttl_seconds now r k =
     (case live now r k of
        None \<Rightarrow> -2
      | Some (_, None) \<Rightarrow> -1
      | Some (_, Some e) \<Rightarrow> ((e - now) div 1000000 + 500) div 1000)"

definition redis_Incr :: "string \<Rightarrow> ('d, int) proc" where
  "redis_Incr k = ext redis_error (\<lambda>t w.
     (case incr (o_rclock (orc w) t) (rds w) k of (v, r) \<Rightarrow> (Inr v, w\<lparr>rds := r\<rparr>)))"

definition redis_Expire :: "string \<Rightarrow> int \<Rightarrow> ('d, unit) proc" where
  "redis_Expire k ttl = ext redis_error (\<lambda>t w.
     (Inr (), w\<lparr>rds := expire (o_rclock (orc w) t) (rds w) k ttl\<rparr>))"

definition redis_Get :: "string \<Rightarrow> ('d, int) proc" where
  "redis_Get k = ext redis_error (\<lambda>t w.
     (res_of_option RedisNil (map_option fst (live (o_rclock (orc w) t) (rds w) k)), w))"

definition redis_Del :: "string \<Rightarrow> ('d, unit) proc" where
  "redis_Del k = ext redis_error (\<lambda>t w.
     (Inr (), w\<lparr>rds := (rds w)\<lparr>counters := (counters (rds w))(k := None)\<rparr>\<rparr>))"

definition redis_RPush :: "string \<Rightarrow> string \<Rightarrow> ('d, int) proc" where
  "redis_RPush k v = ext redis_error (\<lambda>t w.
     (let l = lists (rds w) k @ [v]
      in (Inr (int (length l)), w\<lparr>rds := (rds w)\<lparr>lists := (lists (rds w))(k := l)\<rparr>\<rparr>)))"

text \<open>\<open>BLPOP\<close> with a timeout: \<open>redis.Nil\<close> when the list stays empty.\<close>

definition redis_BLPop :: "string \<Rightarrow> ('d, string list) proc" where
  "redis_BLPop k = ext redis_error (\<lambda>t w.
     (case lists (rds w) k of
        [] \<Rightarrow> (Inl RedisNil, w)
      | v # vs \<Rightarrow> (Inr [k, v], w\<lparr>rds := (rds w)\<lparr>lists := (lists (rds w))(k := vs)\<rparr>\<rparr>)))"

definition redis_LLen :: "string \<Rightarrow> ('d, int) proc" where
  "redis_LLen k = ext redis_error (\<lambda>t w. (Inr (int (length (lists (rds w) k))), w))"

subsection \<open>Analytics\<close>

definition analytics_Track :: "event \<Rightarrow> ('d, unit) proc" where
  "analytics_Track ev = ext (LibError ''analytics'') (\<lambda>t w. (Inr (), w\<lparr>events := events w @ [ev]\<rparr>))"

subsection \<open>SMTP, timers, metrics\<close>

text \<open>The server accepts the message or answers with an error of its own.\<close>

definition smtp_SendMail :: "smtp_mail \<Rightarrow> ('d, unit) proc" where
  "smtp_SendMail m w =
     (case o_smtp (orc w) (tick w) of
        Some err \<Rightarrow> (Inl err, w\<lparr>tick := Suc (tick w)\<rparr>)
      | None \<Rightarrow> (Inr (), w\<lparr>tick := Suc (tick w), outbox := outbox w @ [m]\<rparr>))"

definition AfterFunc :: "int \<Rightarrow> string \<Rightarrow> json \<Rightarrow> ('d, unit) proc" where
  "AfterFunc d queueName payload w = (Inr (), w\<lparr>timers := timers w @ [(d, queueName, payload)]\<rparr>)"

definition with_metrics :: "(metrics \<Rightarrow> metrics) \<Rightarrow> ('d, unit) proc" where
  "with_metrics f w = (Inr (), w\<lparr>metrics_of := f (metrics_of w)\<rparr>)"

lemmas [proc_defs] = ok_def fail_def ecase_def ebind_def of_result_def ext_def time_Now_def
  uuid_NewString_def rand_Read_def rand_Int_def tx_begin_def tx_commit_def tx_query_def
  tx_exec_def pool_query_def pool_exec_def run_tx_def redis_Incr_def redis_Expire_def
  redis_Get_def redis_Del_def redis_RPush_def redis_BLPop_def redis_LLen_def
  analytics_Track_def smtp_SendMail_def AfterFunc_def with_metrics_def

definition no_faults :: "nature \<Rightarrow> bool" where
  "no_faults orcl \<longleftrightarrow> (\<forall>t. \<not> o_fault orcl t)"

lemma no_faultsD [simp]: "no_faults orcl \<Longrightarrow> \<not> o_fault orcl t"
  by (simp add: no_faults_def)

subsection \<open>Successful runs\<close>

text \<open>Inversion of a run that returned a value: what every step saw and did.\<close>

lemma run_pure [runs]:
  "ok x w = (Inr y, w') \<longleftrightarrow> y = x \<and> w' = w"
  "fail e w = (Inr y, w') \<longleftrightarrow> False"
  "of_result r w = (Inr y, w') \<longleftrightarrow> r = Inr y \<and> w' = w"
  "time_Now w = (Inr t, w') \<longleftrightarrow> t = o_clock (orc w) (tick w) \<and> w' = w\<lparr>tick := Suc (tick w)\<rparr>"
  "uuid_NewString w = (Inr u, w') \<longleftrightarrow> u = o_uuid (orc w) (tick w) \<and> w' = w\<lparr>tick := Suc (tick w)\<rparr>"
  by (auto simp: proc_defs)

lemma run_rand [runs]:
  "rand_Read n w = (Inr b, w') \<longleftrightarrow> \<not> o_fault (orc w) (tick w) \<and> b = map (o_byte (orc w) (tick w)) [0..<n] \<and>
     w' = w\<lparr>tick := Suc (tick w)\<rparr>"
  "rand_Int k w = (Inr i, w') \<longleftrightarrow> \<not> o_fault (orc w) (tick w) \<and> i = o_int (orc w) (tick w) mod k \<and>
     w' = w\<lparr>tick := Suc (tick w)\<rparr>"
  by (auto simp: rand_Read_def rand_Int_def ext_def split: if_splits)

lemma run_ecase [runs]: "ecase m h k w = (Inr y, w') \<longleftrightarrow>
    (\<exists>e v. m w = (Inl e, v) \<and> h e v = (Inr y, w')) \<or> (\<exists>x v. m w = (Inr x, v) \<and> k x v = (Inr y, w'))"
  by (auto simp: ecase_def split: prod.splits sum.splits)

lemma run_ebind [runs]: "ebind m k w = (Inr y, w') \<longleftrightarrow> (\<exists>x v. m w = (Inr x, v) \<and> k x v = (Inr y, w'))"
  by (auto simp: ebind_def run_ecase run_pure)

lemma run_tx_stmts [runs]:
  "tx_query f w = (Inr y, w') \<longleftrightarrow> \<not> o_fault (orc w) (tick w) \<and> f (work w) = Some y \<and>
     w' = w\<lparr>tick := Suc (tick w)\<rparr>"
  "tx_exec g w = (Inr n, w') \<longleftrightarrow> \<not> o_fault (orc w) (tick w) \<and>
     (\<exists>d. g (txnow w) (work w) = Inr (n, d) \<and> w' = w\<lparr>tick := Suc (tick w), work := d\<rparr>)"
  "tx_commit w = (Inr u, w') \<longleftrightarrow> \<not> o_fault (orc w) (tick w) \<and>
     w' = w\<lparr>tick := Suc (tick w), disk := work w\<rparr>"
  by (auto simp: tx_query_def tx_exec_def tx_commit_def ext_def split: if_splits sum.splits prod.splits)

lemma run_pool_stmts [runs]:
  "pool_query f w = (Inr y, w') \<longleftrightarrow> \<not> o_fault (orc w) (tick w) \<and> f (disk w) = Some y \<and>
     w' = w\<lparr>tick := Suc (tick w)\<rparr>"
  "pool_exec g w = (Inr n, w') \<longleftrightarrow> \<not> o_fault (orc w) (tick w) \<and>
     (\<exists>d. g (o_dbclock (orc w) (tick w)) (disk w) = Inr (n, d) \<and>
        w' = w\<lparr>tick := Suc (tick w), disk := d, work := d\<rparr>)"
  by (auto simp: pool_query_def pool_exec_def ext_def split: if_splits sum.splits prod.splits)

lemma run_run_tx [runs]:
  "run_tx m w = (Inr y, w') \<longleftrightarrow> \<not> o_fault (orc w) (tick w) \<and>
     (\<exists>v. m (w\<lparr>tick := Suc (tick w), work := disk w, txnow := o_dbclock (orc w) (tick w)\<rparr>) = (Inr y, v)
        \<and> w' = v\<lparr>work := disk v\<rparr>)"
  by (auto simp: run_tx_def run_ebind tx_begin_def ext_def split: prod.splits if_splits)

lemma run_query_error: "tx_query f w = (Inl e, w') \<longleftrightarrow> w' = w\<lparr>tick := Suc (tick w)\<rparr> \<and>
    (if o_fault (orc w) (tick w) then e = db_error else f (work w) = None \<and> e = ErrNoRows)"
  by (auto simp: tx_query_def ext_def split: if_splits)

lemma db_error_not_sentinel [simp]: "errors_Is db_error ErrNoRows \<longleftrightarrow> False"
  by (simp add: errors_Is_def db_error_def)

lemma ErrNoRows_Is [simp]: "errors_Is ErrNoRows e \<longleftrightarrow> e = ErrNoRows"
  by (auto simp: errors_Is_def)

subsection \<open>Relations between the databases before and after\<close>

definition tx_keeps :: "('d \<Rightarrow> 'd \<Rightarrow> bool) \<Rightarrow> ('d, 'a) proc \<Rightarrow> bool" where
  "tx_keeps R m \<longleftrightarrow> (\<forall>w. R (disk w) (work w) \<longrightarrow>
     R (disk w) (disk (snd (m w))) \<and> R (disk (snd (m w))) (work (snd (m w))))"

definition op_keeps :: "('d \<Rightarrow> 'd \<Rightarrow> bool) \<Rightarrow> ('d, 'a) proc \<Rightarrow> bool" where
  "op_keeps R m \<longleftrightarrow> (\<forall>w. R (disk w) (disk (snd (m w))))"

definition stmt_keeps :: "('d \<Rightarrow> 'd \<Rightarrow> bool) \<Rightarrow> (instant \<Rightarrow> 'd \<Rightarrow> (go_error, nat \<times> 'd) result) \<Rightarrow> bool" where
  "stmt_keeps R f \<longleftrightarrow> (\<forall>t d n d'. f t d = Inr (n, d') \<longrightarrow> R d d')"

lemma tx_keepsD:
  "tx_keeps R m \<Longrightarrow> R (disk w) (work w) \<Longrightarrow> m w = (r, w') \<Longrightarrow> R (disk w) (disk w') \<and> R (disk w') (work w')"
  by (metis snd_conv tx_keeps_def)

lemma tx_keepsI:
  assumes "\<And>w r w'. R (disk w) (work w) \<Longrightarrow> m w = (r, w') \<Longrightarrow> R (disk w) (disk w') \<and> R (disk w') (work w')"
  shows "tx_keeps R m"
  unfolding tx_keeps_def by (metis assms prod.collapse)

text \<open>Programs that touch neither copy of the database.\<close>

definition db_silent :: "('d, 'a) proc \<Rightarrow> bool" where
  "db_silent m \<longleftrightarrow> (\<forall>w. disk (snd (m w)) = disk w \<and> work (snd (m w)) = work w)"

lemma db_silent_ext: "(\<And>t. db_silent (f t)) \<Longrightarrow> db_silent (ext e f)"
  by (simp add: db_silent_def ext_def)

lemma db_silent_pure [simp]:
  "db_silent (ok x)" "db_silent (fail e)" "db_silent (of_result r)" "db_silent time_Now"
  "db_silent uuid_NewString"
  by (simp_all add: db_silent_def ok_def fail_def of_result_def time_Now_def uuid_NewString_def)

lemma db_silent_reads [simp]:
  "db_silent (rand_Read n)" "db_silent (rand_Int k)" "db_silent (tx_query f)"
  "db_silent (pool_query f)" "db_silent (redis_Get s)" "db_silent (redis_LLen s)"
  unfolding rand_Read_def rand_Int_def tx_query_def pool_query_def redis_Get_def redis_LLen_def
  by (rule db_silent_ext; simp add: db_silent_def)+

lemma db_silent_writes [simp]:
  "db_silent (redis_Incr s)" "db_silent (redis_Expire s i)" "db_silent (redis_Del s)"
  "db_silent (redis_RPush s v)" "db_silent (redis_BLPop s)" "db_silent (analytics_Track ev)"
  unfolding redis_Incr_def redis_Expire_def redis_Del_def redis_RPush_def redis_BLPop_def
    analytics_Track_def
  by (rule db_silent_ext; simp add: db_silent_def Let_def split: prod.split list.split)+

lemma db_silent_worker [simp]:
  "db_silent (smtp_SendMail m)" "db_silent (AfterFunc i q p)" "db_silent (with_metrics g)"
  by (simp_all add: db_silent_def smtp_SendMail_def AfterFunc_def with_metrics_def split: option.split)

lemmas db_silent_prims = db_silent_pure db_silent_reads db_silent_writes db_silent_worker

lemma db_silent_ecase:
  assumes "db_silent m" "\<And>e. db_silent (h e)" "\<And>x. db_silent (k x)"
  shows "db_silent (ecase (m :: ('d, 'a) proc) h k)"
  unfolding db_silent_def
proof
  fix w :: "'d world"
  obtain r w' where m: "m w = (r, w')" by (cases "m w")
  with assms(1) have "disk w' = disk w" "work w' = work w" by (auto simp: db_silent_def dest: spec [of _ w])
  with assms(2,3) m show "disk (snd (ecase m h k w)) = disk w \<and> work (snd (ecase m h k w)) = work w"
    by (cases r) (auto simp: ecase_def db_silent_def)
qed

lemma db_silent_ebind:
  "db_silent m \<Longrightarrow> (\<And>x. db_silent (k x)) \<Longrightarrow> db_silent (ebind m k)"
  unfolding ebind_def by (rule db_silent_ecase) (auto simp: db_silent_prims)

lemma db_silentD [simp]: "db_silent m \<Longrightarrow> disk (snd (m w)) = disk w"
  by (simp add: db_silent_def)

locale db_preorder =
  fixes R :: "'d \<Rightarrow> 'd \<Rightarrow> bool"
  assumes R_refl: "R d d"
    and R_trans: "R d d' \<Longrightarrow> R d' d'' \<Longrightarrow> R d d''"
begin

lemma tx_silent: "db_silent m \<Longrightarrow> tx_keeps R m"
  by (simp add: tx_keeps_def db_silent_def R_refl)

lemma tx_commit_keeps: "tx_keeps R tx_commit"
  by (auto simp: tx_keeps_def tx_commit_def ext_def R_refl)

lemma tx_exec_keeps:
  assumes "stmt_keeps R f"
  shows "tx_keeps R (tx_exec f)"
  unfolding tx_keeps_def
proof (intro allI impI)
  fix w :: "'d world" assume w: "R (disk w) (work w)"
  show "R (disk w) (disk (snd (tx_exec f w))) \<and>
    R (disk (snd (tx_exec f w))) (work (snd (tx_exec f w)))"
  proof (cases "f (txnow w) (work w)")
    case (Inl e)
    then show ?thesis using w by (simp add: tx_exec_def ext_def R_refl)
  next
    case (Inr y)
    then obtain n d where y: "f (txnow w) (work w) = Inr (n, d)" by (cases y) auto
    with assms have "R (work w) d" by (auto simp: stmt_keeps_def)
    with w have "R (disk w) d" by (rule R_trans)
    with w y show ?thesis by (simp add: tx_exec_def ext_def R_refl)
  qed
qed

lemma tx_ecase:
  assumes m: "tx_keeps R m" and h: "\<And>e. tx_keeps R (h e)" and k: "\<And>x. tx_keeps R (k x)"
  shows "tx_keeps R (ecase m h k)"
proof (rule tx_keepsI)
  fix w v :: "'d world" and y
  assume w: "R (disk w) (work w)" and run: "ecase m h k w = (y, v)"
  obtain r w' where mw: "m w = (r, w')" by (cases "m w")
  note w' = tx_keepsD [OF m w mw]
  have "R (disk w') (disk v) \<and> R (disk v) (work v)"
  proof (cases r)
    case (Inl e)
    with mw run have "h e w' = (y, v)" by (simp add: ecase_def)
    with w' show ?thesis using tx_keepsD [OF h] by blast
  next
    case (Inr x)
    with mw run have "k x w' = (y, v)" by (simp add: ecase_def)
    with w' show ?thesis using tx_keepsD [OF k] by blast
  qed
  with w' show "R (disk w) (disk v) \<and> R (disk v) (work v)"
    using R_trans by blast
qed

lemma tx_if: "(b \<Longrightarrow> tx_keeps R m) \<Longrightarrow> (\<not> b \<Longrightarrow> tx_keeps R n) \<Longrightarrow> tx_keeps R (if b then m else n)"
  by simp

lemma tx_ebind: "tx_keeps R m \<Longrightarrow> (\<And>x. tx_keeps R (k x)) \<Longrightarrow> tx_keeps R (ebind m k)"
  unfolding ebind_def by (rule tx_ecase) (auto intro: tx_silent db_silent_prims)

lemma op_silent: "db_silent m \<Longrightarrow> op_keeps R m"
  by (simp add: op_keeps_def db_silent_def R_refl)

lemma op_if: "(b \<Longrightarrow> op_keeps R m) \<Longrightarrow> (\<not> b \<Longrightarrow> op_keeps R n) \<Longrightarrow> op_keeps R (if b then m else n)"
  by simp

lemma op_run_tx:
  assumes "tx_keeps R m"
  shows "op_keeps R (run_tx m)"
  unfolding op_keeps_def
proof
  fix w :: "'d world"
  define w1 where "w1 = w\<lparr>tick := Suc (tick w), work := disk w, txnow := o_dbclock (orc w) (tick w)\<rparr>"
  have "R (disk w1) (work w1)" by (simp add: w1_def R_refl)
  with assms have "R (disk w1) (disk (snd (m w1)))" by (auto simp: tx_keeps_def)
  then show "R (disk w) (disk (snd (run_tx m w)))"
    by (auto simp: run_tx_def ebind_def ecase_def fail_def tx_begin_def ext_def w1_def R_refl
        split: prod.splits)
qed

lemma op_pool_exec: "stmt_keeps R f \<Longrightarrow> op_keeps R (pool_exec f)"
  by (auto simp: op_keeps_def pool_exec_def ext_def stmt_keeps_def R_refl split: sum.splits prod.splits)

lemma op_ecase:
  assumes m: "op_keeps R m" and h: "\<And>e. op_keeps R (h e)" and k: "\<And>x. op_keeps R (k x)"
  shows "op_keeps R (ecase m h k)"
  unfolding op_keeps_def
proof
  fix w :: "'d world"
  obtain r w' where mw: "m w = (r, w')" by (cases "m w")
  with m have "R (disk w) (disk w')" by (auto simp: op_keeps_def dest: spec [of _ w])
  moreover have "R (disk w') (disk (snd (ecase m h k w)))"
    using h k mw by (cases r) (auto simp: ecase_def op_keeps_def)
  ultimately show "R (disk w) (disk (snd (ecase m h k w)))" by (rule R_trans)
qed

lemma op_ebind: "op_keeps R m \<Longrightarrow> (\<And>x. op_keeps R (k x)) \<Longrightarrow> op_keeps R (ebind m k)"
  unfolding ebind_def by (rule op_ecase) (auto intro: op_silent db_silent_prims)

lemma tx_prod: "(\<And>a b. tx_keeps R (m a b)) \<Longrightarrow> tx_keeps R (case x of (a, b) \<Rightarrow> m a b)"
  by (cases x) simp

lemma op_prod: "(\<And>a b. op_keeps R (m a b)) \<Longrightarrow> op_keeps R (case x of (a, b) \<Rightarrow> m a b)"
  by (cases x) simp

lemma stmt_keepsI: "(\<And>t d n d'. f t d = Inr (n, d') \<Longrightarrow> R d d') \<Longrightarrow> stmt_keeps R f"
  by (auto simp: stmt_keeps_def)

lemmas tx_rules = tx_ebind tx_ecase tx_if tx_prod tx_exec_keeps tx_commit_keeps stmt_keepsI

lemmas op_rules = op_run_tx op_pool_exec op_ebind op_ecase op_if op_prod

end

subsection \<open>All-or-nothing programs\<close>

text \<open>\<open>tx_quiet m\<close>: the body never commits. \<open>all_or_nothing m\<close>: when the program reports an
  error, the committed database is what it was.\<close>

definition tx_quiet :: "('d, 'a) proc \<Rightarrow> bool" where
  "tx_quiet m \<longleftrightarrow> (\<forall>w. disk (snd (m w)) = disk w)"

definition all_or_nothing :: "('d, 'a) proc \<Rightarrow> bool" where
  "all_or_nothing m \<longleftrightarrow> (\<forall>w. isl (fst (m w)) \<longrightarrow> disk (snd (m w)) = disk w)"

lemma tx_quiet_silent [simp]: "db_silent m \<Longrightarrow> tx_quiet m"
  by (simp add: tx_quiet_def)

lemma tx_quiet_exec [atomic]: "tx_quiet (tx_exec f)"
  by (auto simp: tx_quiet_def tx_exec_def ext_def split: sum.splits prod.splits)

lemma tx_quiet_ecase [atomic]:
  assumes "tx_quiet m" "\<And>e. tx_quiet (h e)" "\<And>x. tx_quiet (k x)"
  shows "tx_quiet (ecase (m :: ('d, 'a) proc) h k)"
  unfolding tx_quiet_def
proof
  fix w :: "'d world"
  obtain r w' where m: "m w = (r, w')" by (cases "m w")
  with assms(1) have "disk w' = disk w" by (auto simp: tx_quiet_def dest: spec [of _ w])
  with assms(2,3) m show "disk (snd (ecase m h k w)) = disk w"
    by (cases r) (auto simp: ecase_def tx_quiet_def)
qed

lemma tx_quiet_ebind [atomic]:
  "tx_quiet m \<Longrightarrow> (\<And>x. tx_quiet (k x)) \<Longrightarrow> tx_quiet (ebind m k)"
  unfolding ebind_def by (rule tx_quiet_ecase) (auto intro: tx_quiet_silent db_silent_prims)

lemma all_or_nothing_quiet: "tx_quiet m \<Longrightarrow> all_or_nothing m"
  by (simp add: all_or_nothing_def tx_quiet_def)

lemma all_or_nothing_ecase [atomic]:
  assumes "tx_quiet m" "\<And>e. all_or_nothing (h e)" "\<And>x. all_or_nothing (k x)"
  shows "all_or_nothing (ecase (m :: ('d, 'a) proc) h k)"
  unfolding all_or_nothing_def
proof (intro allI impI)
  fix w :: "'d world" assume e: "isl (fst (ecase m h k w))"
  obtain r w' where m: "m w = (r, w')" by (cases "m w")
  with assms(1) have "disk w' = disk w" by (auto simp: tx_quiet_def dest: spec [of _ w])
  with assms(2,3) m e show "disk (snd (ecase m h k w)) = disk w"
    by (cases r) (auto simp: ecase_def all_or_nothing_def)
qed

lemma all_or_nothing_ebind [atomic]:
  "tx_quiet m \<Longrightarrow> (\<And>x. all_or_nothing (k x)) \<Longrightarrow> all_or_nothing (ebind m k)"
  unfolding ebind_def
  by (rule all_or_nothing_ecase) (auto intro: all_or_nothing_quiet tx_quiet_silent db_silent_prims)

lemma all_or_nothing_commit [atomic]: "all_or_nothing (ebind tx_commit (\<lambda>_. ok y))"
  by (auto simp: all_or_nothing_def proc_defs)

lemma all_or_nothing_pool_exec [atomic]: "all_or_nothing (pool_exec f)"
  by (auto simp: all_or_nothing_def pool_exec_def ext_def split: sum.splits prod.splits)

lemma all_or_nothing_run_tx [atomic]:
  assumes "all_or_nothing m"
  shows "all_or_nothing (run_tx (m :: ('d, 'a) proc))"
  unfolding all_or_nothing_def
proof (intro allI impI)
  fix w :: "'d world" assume e: "isl (fst (run_tx m w))"
  define w1 where "w1 = w\<lparr>tick := Suc (tick w), work := disk w, txnow := o_dbclock (orc w) (tick w)\<rparr>"
  have "isl (fst (m w1)) \<longrightarrow> disk (snd (m w1)) = disk w"
    using assms by (simp add: all_or_nothing_def w1_def)
  with e show "disk (snd (run_tx m w)) = disk w"
    by (auto simp: run_tx_def ebind_def ecase_def fail_def tx_begin_def ext_def w1_def
        split: prod.splits if_splits)
qed

end
