(* ===== verification/Externals.thy ===== *)
theory Externals
  imports World
begin

text \<open>
  The code the services call and the repository does not hold, as one parameter record:
  Unicode case tables, SHA-256 and HMAC-SHA-256, bcrypt, \<open>net/mail\<close> address parsing,
  \<open>net/url\<close> parsing and printing (\<open>url_Rest\<close> is what the code never reads or writes: opaque part,
  user info, raw forms), the MIME encodings, the two mail templates applied to their data, the
  server's \<open>lower()\<close> outside ASCII, UUID syntax, the JSON text codec and the JWT library. Every definition
  that reaches such code takes the record as an argument; what a theorem needs of it is a
  named hypothesis stated here (\<open>bcrypt_ok\<close>, \<open>json_ok\<close>, \<open>jwt_ok\<close>).

  The theory also holds \<open>pkg/auth/jwt\<close> and \<open>internal/auth/crypto\<close>, which are thin layers
  over these libraries.
\<close>

record claims =
  UID :: string
  TID :: string
  Typ :: string
  Issuer :: string
  Audience :: "string list"
  IssuedAt :: int
  ExpiresAt :: int
  Subject :: string

record url =
  url_Scheme :: string
  url_Host :: string
  url_Path :: string
  url_RawQuery :: string
  url_Fragment :: string
  url_Rest :: "string list"

record lib = unicode +
  sha256_Sum :: "string \<Rightarrow> string"
  hmac_sha256 :: "string \<Rightarrow> string \<Rightarrow> string"
  bcrypt_hash :: "string \<Rightarrow> string \<Rightarrow> int \<Rightarrow> (go_error, string) result"
  bcrypt_Compare :: "string \<Rightarrow> string \<Rightarrow> go_error option"
  mail_ParseAddress :: "string \<Rightarrow> (string \<times> string) option"
  url_Parse :: "string \<Rightarrow> url option"
  url_String :: "url \<Rightarrow> string"
  mail_Address_String :: "string \<Rightarrow> string \<Rightarrow> string"
  mime_QEncode :: "string \<Rightarrow> string"
  quoted_printable :: "string \<Rightarrow> string"
  execute_html :: "string \<Rightarrow> string \<Rightarrow> string \<Rightarrow> string \<Rightarrow> (go_error, string) result"
  execute_text :: "string \<Rightarrow> string \<Rightarrow> string \<Rightarrow> string \<Rightarrow> (go_error, string) result"
  db_lower :: "string \<Rightarrow> string"
  uuid_Parse :: "string \<Rightarrow> bool"
  json_text :: "json \<Rightarrow> string"
  json_parse :: "string \<Rightarrow> (go_error, json) result"
  jwt_SignedString :: "string \<Rightarrow> claims \<Rightarrow> string \<Rightarrow> (go_error, string) result"
  jwt_ParseWithClaims :: "(string \<Rightarrow> (go_error, string) result) \<Rightarrow> string \<Rightarrow> string \<Rightarrow> instant \<Rightarrow> string
    \<Rightarrow> (go_error, claims \<times> bool) result"

subsection \<open>What the code relies on\<close>

definition bcrypt_ok :: "lib \<Rightarrow> bool" where
  "bcrypt_ok L \<longleftrightarrow> (\<forall>salt pw cost h. bcrypt_hash L salt pw cost = Inr h \<longrightarrow> bcrypt_Compare L h pw = None)"

text \<open>Printing and reading back a JSON value gives the value, as long as its strings are valid
  UTF-8 (the encoder replaces invalid bytes).\<close>

definition cont :: "char \<Rightarrow> bool" where
  "cont c \<longleftrightarrow> 128 \<le> byte_val c \<and> byte_val c < 192"

definition in_range :: "nat \<Rightarrow> nat \<Rightarrow> char \<Rightarrow> bool" where
  "in_range lo hi c \<longleftrightarrow> lo \<le> byte_val c \<and> byte_val c \<le> hi"

fun utf8_valid :: "string \<Rightarrow> bool" where
  "utf8_valid [] = True"
| "utf8_valid (a # s) =
     (if byte_val a < 128 then utf8_valid s
      else (case s of
         [] \<Rightarrow> False
       | b # s2 \<Rightarrow>
           if in_range 194 223 a then cont b \<and> utf8_valid s2
           else (case s2 of
              [] \<Rightarrow> False
            | c # s3 \<Rightarrow>
                if in_range 224 239 a then
                  (if byte_val a = 224 then in_range 160 191 b
                   else if byte_val a = 237 then in_range 128 159 b else cont b) \<and> cont c \<and> utf8_valid s3
                else (case s3 of
                   [] \<Rightarrow> False
                 | d # s4 \<Rightarrow>
                     in_range 240 244 a \<and>
                     (if byte_val a = 240 then in_range 144 191 b
                      else if byte_val a = 244 then in_range 128 143 b else cont b)
                     \<and> cont c \<and> cont d \<and> utf8_valid s4))))"

fun json_utf8 :: "json \<Rightarrow> bool" where
  "json_utf8 (JStr s) = utf8_valid s"
| "json_utf8 (JArr js) = list_all json_utf8 js"
| "json_utf8 (JObj fs) = list_all (\<lambda>f. utf8_valid (fst f) \<and> json_utf8 (snd f)) fs"
| "json_utf8 _ = True"

definition json_ok :: "lib \<Rightarrow> bool" where
  "json_ok L \<longleftrightarrow> (\<forall>j. json_utf8 j \<longrightarrow> json_parse L (json_text L j) = Inr j)"

text \<open>A token signed with HS256 parses to its claims under the same secret while it has not
  expired and issuer and audience agree; \<open>exp\<close> and \<open>iat\<close> are in whole seconds.\<close>

definition jwt_ok :: "lib \<Rightarrow> bool" where
  "jwt_ok L \<longleftrightarrow> (\<forall>secret c tok keyfn now.
     jwt_SignedString L ''HS256'' c secret = Inr tok \<longrightarrow> keyfn ''HS256'' = Inr secret \<longrightarrow>
     now < ExpiresAt c * 1000000000 \<longrightarrow> IssuedAt c * 1000000000 \<le> now \<longrightarrow>
     Audience c \<noteq> [] \<longrightarrow>
     jwt_ParseWithClaims L keyfn (Issuer c) (hd (Audience c)) now tok = Inr (c, True))"

subsection \<open>Package jwt\<close>

definition jwt_Sign :: "lib \<Rightarrow> string \<Rightarrow> string \<Rightarrow> string \<Rightarrow> string \<Rightarrow> string \<Rightarrow> string \<Rightarrow> int \<Rightarrow> ('d, string) proc" where
  "jwt_Sign L secret issuer audience uid tid typ ttl =
     ebind time_Now (\<lambda>now.
     of_result (jwt_SignedString L ''HS256''
       \<lparr>UID = uid, TID = tid, Typ = typ, Issuer = issuer, Audience = [audience],
        IssuedAt = now div 1000000000, ExpiresAt = (now + ttl) div 1000000000, Subject = uid\<rparr>
       secret))"

definition SignAccessToken :: "lib \<Rightarrow> string \<Rightarrow> string \<Rightarrow> string \<Rightarrow> string \<Rightarrow> string option \<Rightarrow> int \<Rightarrow> ('d, string) proc" where
  "SignAccessToken L secret issuer audience uid tid ttl =
     (let tenantID = (case tid of None \<Rightarrow> [] | Some t \<Rightarrow> t)
      in jwt_Sign L secret issuer audience uid tenantID ''access'' ttl)"

definition jwt_keyfunc :: "string \<Rightarrow> string \<Rightarrow> (go_error, string) result" where
  "jwt_keyfunc secret alg =
     (if alg \<noteq> ''HS256'' then Inl (New ''invalid_signing_method'') else Inr secret)"

definition jwt_Parse :: "lib \<Rightarrow> string \<Rightarrow> string \<Rightarrow> string \<Rightarrow> string \<Rightarrow> ('d, claims) proc" where
  "jwt_Parse L secret issuer audience tokenStr =
     ebind time_Now (\<lambda>now.
     (case jwt_ParseWithClaims L (jwt_keyfunc secret) issuer audience now tokenStr of
        Inl e \<Rightarrow> fail e
      | Inr (claims, valid) \<Rightarrow>
          if \<not> valid then fail (New ''invalid_token'') else ok claims))"

subsection \<open>Package crypto\<close>

definition bcrypt_DefaultCost :: int where "bcrypt_DefaultCost = 10"

definition HashPassword :: "lib \<Rightarrow> string \<Rightarrow> int \<Rightarrow> ('d, string) proc" where
  "HashPassword L password cost =
     (let c = (if cost = 0 then bcrypt_DefaultCost else cost)
      in ebind (rand_Read 16) (\<lambda>salt. of_result (bcrypt_hash L salt password c)))"

definition ErrMismatchedHashAndPassword :: go_error where
  "ErrMismatchedHashAndPassword = Sentinel ''bcrypt'' ''hashedPassword is not the hash of the given password''"

definition VerifyPassword :: "lib \<Rightarrow> string \<Rightarrow> string \<Rightarrow> go_error option" where
  "VerifyPassword L hash password =
     (case bcrypt_Compare L hash password of
        None \<Rightarrow> None
      | Some err \<Rightarrow> if errors_Is err ErrMismatchedHashAndPassword
                    then Some ErrMismatchedHashAndPassword else Some err)"

subsection \<open>Facts\<close>

lemma VerifyPassword_None [simp]: "VerifyPassword L h p = None \<longleftrightarrow> bcrypt_Compare L h p = None"
  by (auto simp: VerifyPassword_def split: option.splits)

lemma db_silent_HashPassword [simp]: "db_silent (HashPassword L p c)"
  by (auto simp: HashPassword_def Let_def intro!: db_silent_ebind)

lemma db_silent_SignAccessToken [simp]: "db_silent (SignAccessToken L s i a u t ttl)"
  by (auto simp: SignAccessToken_def jwt_Sign_def Let_def intro!: db_silent_ebind)

lemma db_silent_jwt_Parse [simp]: "db_silent (jwt_Parse L s i a t)"
  by (auto simp: jwt_Parse_def intro!: db_silent_ebind split: sum.splits prod.splits)

end
