(* ===== verification/Tables.thy ===== *)
theory Tables
  imports World
begin

text \<open>
  Relational tables as lists of rows in insertion order, with the three mutating
  statement forms of SQL (\<open>insert\<close>, \<open>update ... where\<close>, \<open>delete ... where\<close>), unique
  indexes (total and partial, NULLs never clash) and ordered single-row queries. The facts
  say how each form acts on keys, so that preservation of the schema is rewriting.
\<close>

definition unique_violation :: go_error where "unique_violation = PgError ''23505''"
definition fk_violation :: go_error where "fk_violation = PgError ''23503''"
definition check_violation :: go_error where "check_violation = PgError ''23514''"

lemmas pg_error_defs = unique_violation_def fk_violation_def check_violation_def

subsection \<open>Statements\<close>

definition update_where :: "('r \<Rightarrow> bool) \<Rightarrow> ('r \<Rightarrow> 'r) \<Rightarrow> 'r list \<Rightarrow> 'r list" where
  "update_where p f rows = map (\<lambda>r. if p r then f r else r) rows"

definition delete_where :: "('r \<Rightarrow> bool) \<Rightarrow> 'r list \<Rightarrow> 'r list" where
  "delete_where p rows = filter (\<lambda>r. \<not> p r) rows"

definition affected :: "('r \<Rightarrow> bool) \<Rightarrow> 'r list \<Rightarrow> nat" where
  "affected p rows = length (filter p rows)"

text \<open>A unique index is a function from rows to optional keys: \<open>None\<close> for rows the index
  does not cover (a NULL column, or outside a partial index's predicate).\<close>

definition clash :: "('r \<Rightarrow> 'k option) \<Rightarrow> 'r \<Rightarrow> 'r list \<Rightarrow> bool" where
  "clash key r rows \<longleftrightarrow> key r \<noteq> None \<and> list_ex (\<lambda>x. key x = key r) rows"

definition unique_on :: "('r \<Rightarrow> 'k option) \<Rightarrow> 'r list \<Rightarrow> bool" where
  "unique_on key rows \<longleftrightarrow> distinct (filter (\<lambda>k. k \<noteq> None) (map key rows))"

definition has_key :: "('r \<Rightarrow> 'k) \<Rightarrow> 'k \<Rightarrow> 'r list \<Rightarrow> bool" where
  "has_key key k rows \<longleftrightarrow> list_ex (\<lambda>r. key r = k) rows"

text \<open>\<open>order by k desc limit 1\<close>: the first row that no other row exceeds.\<close>

definition first_by :: "('r \<Rightarrow> 'r \<Rightarrow> bool) \<Rightarrow> 'r list \<Rightarrow> 'r option" where
  "first_by before rows = List.find (\<lambda>r. list_all (\<lambda>x. \<not> before x r) rows) rows"

text \<open>A foreign key: every non-NULL reference of the table is in the set of existing keys.\<close>

definition refs_in :: "('r \<Rightarrow> 'k option) \<Rightarrow> 'r list \<Rightarrow> 'k set \<Rightarrow> bool" where
  "refs_in ref rows ids \<longleftrightarrow> (\<forall>r \<in> set rows. \<forall>k. ref r = Some k \<longrightarrow> k \<in> ids)"

subsection \<open>Facts\<close>

lemma set_update_where: "set (update_where p f rows) = (\<lambda>r. if p r then f r else r) ` set rows"
  by (simp add: update_where_def)

lemma set_delete_where [simp]: "set (delete_where p rows) = {r \<in> set rows. \<not> p r}"
  by (auto simp: delete_where_def)

lemma map_update_where:
  "(\<And>r. r \<in> set rows \<Longrightarrow> p r \<Longrightarrow> key (f r) = key r) \<Longrightarrow> map key (update_where p f rows) = map key rows"
  by (auto simp: update_where_def)

lemma image_update_where:
  "(\<And>r. r \<in> set rows \<Longrightarrow> p r \<Longrightarrow> key (f r) = key r) \<Longrightarrow> key ` set (update_where p f rows) = key ` set rows"
  using map_update_where [of rows p key f] by (metis image_set)

lemma update_where_none: "(\<And>r. r \<in> set rows \<Longrightarrow> \<not> p r) \<Longrightarrow> update_where p f rows = rows"
  by (simp add: update_where_def map_cond_id)

lemma update_where_append [simp]:
  "update_where p f (xs @ ys) = update_where p f xs @ update_where p f ys"
  by (simp add: update_where_def)

lemma update_where_Nil [simp]: "update_where p f [] = []"
  by (simp add: update_where_def)

lemma update_where_Cons [simp]:
  "update_where p f (x # xs) = (if p x then f x else x) # update_where p f xs"
  by (simp add: update_where_def)

lemma delete_where_append [simp]:
  "delete_where p (xs @ ys) = delete_where p xs @ delete_where p ys"
  by (simp add: delete_where_def)

lemma delete_where_Nil [simp]: "delete_where p [] = []"
  by (simp add: delete_where_def)

lemma delete_where_Cons [simp]:
  "delete_where p (x # xs) = (if p x then delete_where p xs else x # delete_where p xs)"
  by (simp add: delete_where_def)

lemma delete_where_none: "(\<And>r. r \<in> set rows \<Longrightarrow> \<not> p r) \<Longrightarrow> delete_where p rows = rows"
  by (simp add: delete_where_def filter_eq_self)

lemma affected_0: "affected p rows = 0 \<longleftrightarrow> (\<forall>r \<in> set rows. \<not> p r)"
  by (auto simp: affected_def filter_empty_conv)

lemma affected_pos: "0 < affected p rows \<longleftrightarrow> (\<exists>r \<in> set rows. p r)"
  using affected_0 [of p rows] by auto

lemma distinct_map_delete: "distinct (map key rows) \<Longrightarrow> distinct (map key (delete_where p rows))"
  by (simp add: delete_where_def distinct_map_filter)

lemma distinct_mapD:
  assumes "distinct (map key rows)" "x \<in> set rows" "y \<in> set rows" "key x = key y"
  shows "x = y"
  using assms by (auto simp: distinct_map dest: inj_onD)

lemma key_delete_where:
  assumes "distinct (map key rows)"
  shows "key ` {r \<in> set rows. \<not> p r} = key ` set rows - key ` {r \<in> set rows. p r}"
  using distinct_mapD [OF assms] by (auto simp: image_iff)

lemma has_key_iff: "has_key key k rows \<longleftrightarrow> k \<in> key ` set rows"
  by (auto simp: has_key_def list_ex_iff)

lemma clash_Some: "clash (\<lambda>r. Some (key r)) r rows \<longleftrightarrow> key r \<in> key ` set rows"
  by (auto simp: clash_def list_ex_iff image_iff) metis

lemma unique_on_snoc:
  "unique_on key (rows @ [r]) \<longleftrightarrow> unique_on key rows \<and> \<not> clash key r rows"
  by (force simp: unique_on_def clash_def list_ex_iff image_iff)

lemma unique_on_Nil [simp]: "unique_on key []"
  by (simp add: unique_on_def)

lemma unique_on_Cons:
  "unique_on key (x # rows) \<longleftrightarrow> (key x = None \<or> (\<forall>r \<in> set rows. key r \<noteq> key x)) \<and> unique_on key rows"
  by (force simp: unique_on_def image_iff)

lemma unique_on_delete: "unique_on key rows \<Longrightarrow> unique_on key (delete_where p rows)"
  by (induction rows) (auto simp: unique_on_Cons)

lemma unique_on_update:
  assumes "\<And>r. r \<in> set rows \<Longrightarrow> p r \<Longrightarrow> key (f r) = key r" and "unique_on key rows"
  shows "unique_on key (update_where p f rows)"
  using assms by (simp add: unique_on_def map_update_where)

lemma refs_in_code [code]:
  "refs_in ref rows ids \<longleftrightarrow> list_all (\<lambda>r. case ref r of None \<Rightarrow> True | Some k \<Rightarrow> k \<in> ids) rows"
  by (auto simp: refs_in_def list_all_iff split: option.splits)

lemma refs_in_snoc: "refs_in ref (rows @ [r]) ids \<longleftrightarrow> refs_in ref rows ids \<and> (\<forall>k. ref r = Some k \<longrightarrow> k \<in> ids)"
  by (auto simp: refs_in_def)

lemma refs_in_Nil [simp]: "refs_in ref [] ids"
  by (simp add: refs_in_def)

lemma refs_in_insert: "refs_in ref rows ids \<Longrightarrow> refs_in ref rows (insert k ids)"
  by (auto simp: refs_in_def)

lemma refs_in_mono: "refs_in ref rows ids \<Longrightarrow> ids \<subseteq> ids' \<Longrightarrow> refs_in ref rows ids'"
  by (auto simp: refs_in_def)

lemma refs_in_delete: "refs_in ref rows ids \<Longrightarrow> refs_in ref (delete_where p rows) ids"
  by (auto simp: refs_in_def)

lemma refs_in_delete_cascade:
  "refs_in (\<lambda>r. Some (f r)) rows ids \<Longrightarrow>
   refs_in (\<lambda>r. Some (f r)) (delete_where (\<lambda>r. f r \<in> G) rows) (ids - G)"
  by (auto simp: refs_in_def)

lemma refs_in_set_null:
  assumes "\<And>r. ref (f r) = None" "refs_in ref rows ids"
  shows "refs_in ref (update_where (\<lambda>r. case ref r of None \<Rightarrow> False | Some i \<Rightarrow> i \<in> G) f rows) (ids - G)"
  using assms by (auto simp: refs_in_def set_update_where split: option.splits)

lemma refs_in_update:
  assumes "\<And>r. r \<in> set rows \<Longrightarrow> p r \<Longrightarrow> ref (f r) = ref r" "refs_in ref rows ids"
  shows "refs_in ref (update_where p f rows) ids"
  using assms by (auto simp: refs_in_def set_update_where)

lemma unique_onD:
  assumes "unique_on key rows" "x \<in> set rows" "y \<in> set rows" "key x = Some k" "key y = Some k"
  shows "x = y"
  using assms by (induction rows) (auto simp: unique_on_Cons)

lemma find_key:
  assumes "distinct (map key rows)" "r \<in> set rows" "key r = k"
  shows "List.find (\<lambda>x. key x = k) rows = Some r"
  using assms by (induction rows) auto

lemma find_unique_on:
  assumes "unique_on key rows" "r \<in> set rows" "key r = Some k"
  shows "List.find (\<lambda>x. key x = Some k) rows = Some r"
  using assms by (induction rows) (auto simp: unique_on_Cons)

lemma affected_key:
  assumes "distinct (map key rows)"
  shows "affected (\<lambda>r. key r = k) rows = (if k \<in> key ` set rows then 1 else 0)"
  using assms by (induction rows) (auto simp: affected_def)

lemma first_byD:
  "first_by before rows = Some r \<Longrightarrow> r \<in> set rows \<and> (\<forall>x \<in> set rows. \<not> before x r)"
  by (auto simp: first_by_def list_all_iff dest: find_SomeD)

lemma first_by_Nil [simp]: "first_by before [] = None"
  by (simp add: first_by_def)

text \<open>A non-empty finite table has a maximal row for a transitive, irreflexive order.\<close>

lemma first_by_nonempty:
  assumes irrefl: "\<And>x. \<not> before x x"
    and trans: "\<And>x y z. before x y \<Longrightarrow> before y z \<Longrightarrow> before x z"
    and ne: "rows \<noteq> []"
  shows "\<exists>r. first_by before rows = Some r"
proof -
  have "\<exists>r \<in> set rows. \<forall>x \<in> set rows. \<not> before x r"
    using ne
  proof (induction rows)
    case (Cons a rows)
    show ?case
    proof (cases "rows = []")
      case True
      then show ?thesis using irrefl by simp
    next
      case False
      with Cons.IH obtain r where r: "r \<in> set rows" "\<forall>x \<in> set rows. \<not> before x r" by blast
      show ?thesis
      proof (cases "before a r")
        case True
        with r have "\<forall>x \<in> set rows. \<not> before x a" using trans by blast
        then show ?thesis using irrefl by auto
      next
        case False
        with r show ?thesis by auto
      qed
    qed
  qed simp
  then have "first_by before rows \<noteq> None"
    by (auto simp: first_by_def find_None_iff_all list_all_iff)
  then show ?thesis by auto
qed

end
