(* ===== verification/Schema.thy ===== *)
theory Schema
  imports Tables
begin

text \<open>
  The PostgreSQL schema the three services share, from the migrations under
  \<open>services/auth-api/migrations\<close> and \<open>services/admin-api/migrations\<close>: one record per table,
  the database as a record of tables, and \<open>schema_ok\<close>, the conjunction of the primary keys,
  unique indexes, foreign keys and check constraints. A \<open>timestamptz\<close> keeps microseconds:
  \<open>pg_ts\<close> is the truncation the driver applies to a Go time.
\<close>

definition pg_ts :: "instant \<Rightarrow> instant" where
  "pg_ts t = t - t mod 1000"

record user_row =
  u_id :: string
  u_email :: "string option"
  u_status :: int
  u_email_verified_at :: "instant option"
  u_created_at :: instant
  u_updated_at :: instant

record cred_row =
  c_user_id :: string
  c_password_hash :: string
  c_updated_at :: instant

record tenant_row =
  t_id :: string
  t_name :: string
  t_created_at :: instant

record tenant_user_row =
  tu_tenant_id :: string
  tu_user_id :: string
  tu_role :: string
  tu_created_at :: instant

record user_role_row =
  ur_tenant_id :: string
  ur_user_id :: string
  ur_role :: string
  ur_created_at :: instant

record session_row =
  s_id :: string
  s_user_id :: string
  s_token_hash :: string
  s_user_agent :: "string option"
  s_ip :: "string option"
  s_expires_at :: instant
  s_revoked_at :: "instant option"
  s_replaced_by :: "string option"
  s_created_at :: instant

record verification_row =
  v_id :: string
  v_user_id :: string
  v_token_hash :: string
  v_token_type :: string
  v_expires_at :: instant
  v_verified_at :: "instant option"
  v_attempts :: int
  v_created_at :: instant

record email_row =
  e_id :: string
  e_user_id :: "string option"
  e_to_email :: string
  e_template :: string
  e_subject :: string
  e_external_id :: "string option"
  e_status :: string
  e_created_at :: instant
  e_updated_at :: instant

record history_row =
  h_id :: string
  h_record_id :: string
  h_status :: string
  h_message :: string
  h_meta :: "json option"
  h_created_at :: instant

record blacklist_row =
  b_id :: string
  b_email :: string
  b_reason :: string
  b_created_at :: instant
  b_updated_at :: instant

record db =
  users :: "user_row list"
  creds :: "cred_row list"
  tenants :: "tenant_row list"
  tenant_users :: "tenant_user_row list"
  user_roles :: "user_role_row list"
  sessions :: "session_row list"
  verifications :: "verification_row list"
  email_records :: "email_row list"
  status_history :: "history_row list"
  blacklist :: "blacklist_row list"

definition empty_db :: db where
  "empty_db = \<lparr>users = [], creds = [], tenants = [], tenant_users = [], user_roles = [],
     sessions = [], verifications = [], email_records = [], status_history = [], blacklist = []\<rparr>"

subsection \<open>Constraints\<close>

definition member_roles :: "string list" where
  "member_roles = [''owner'', ''admin'', ''member'']"

definition token_types :: "string list" where
  "token_types = [''otp'', ''magic_link'']"

definition history_statuses :: "string list" where
  "history_statuses = [''queued'', ''sent'', ''delivered'', ''opened'', ''clicked'', ''bounced'', ''failed'']"

text \<open>The partial unique index of migration 005 covers magic-link hashes only.\<close>

definition magic_hash :: "verification_row \<Rightarrow> string option" where
  "magic_hash v = (if v_token_type v = ''magic_link'' then Some (v_token_hash v) else None)"

definition user_ids :: "db \<Rightarrow> string set" where "user_ids d = u_id ` set (users d)"
definition tenant_ids :: "db \<Rightarrow> string set" where "tenant_ids d = t_id ` set (tenants d)"
definition session_ids :: "db \<Rightarrow> string set" where "session_ids d = s_id ` set (sessions d)"
definition record_ids :: "db \<Rightarrow> string set" where "record_ids d = e_id ` set (email_records d)"

lemmas id_defs = user_ids_def tenant_ids_def session_ids_def record_ids_def

definition keys_ok :: "db \<Rightarrow> bool" where
  "keys_ok d \<longleftrightarrow>
     distinct (map u_id (users d)) \<and> unique_on u_email (users d) \<and>
     distinct (map c_user_id (creds d)) \<and> distinct (map t_id (tenants d)) \<and>
     distinct (map (\<lambda>r. (tu_tenant_id r, tu_user_id r)) (tenant_users d)) \<and>
     distinct (map (\<lambda>r. (ur_tenant_id r, ur_user_id r, ur_role r)) (user_roles d)) \<and>
     distinct (map s_id (sessions d)) \<and> distinct (map s_token_hash (sessions d)) \<and>
     distinct (map v_id (verifications d)) \<and> unique_on magic_hash (verifications d) \<and>
     distinct (map e_id (email_records d)) \<and> distinct (map h_id (status_history d)) \<and>
     distinct (map b_id (blacklist d)) \<and> distinct (map b_email (blacklist d))"

definition refs_ok :: "db \<Rightarrow> bool" where
  "refs_ok d \<longleftrightarrow>
     refs_in (\<lambda>r. Some (c_user_id r)) (creds d) (user_ids d) \<and>
     refs_in (\<lambda>r. Some (tu_tenant_id r)) (tenant_users d) (tenant_ids d) \<and>
     refs_in (\<lambda>r. Some (tu_user_id r)) (tenant_users d) (user_ids d) \<and>
     refs_in (\<lambda>r. Some (ur_tenant_id r)) (user_roles d) (tenant_ids d) \<and>
     refs_in (\<lambda>r. Some (ur_user_id r)) (user_roles d) (user_ids d) \<and>
     refs_in (\<lambda>r. Some (s_user_id r)) (sessions d) (user_ids d) \<and>
     refs_in s_replaced_by (sessions d) (session_ids d) \<and>
     refs_in (\<lambda>r. Some (v_user_id r)) (verifications d) (user_ids d) \<and>
     refs_in e_user_id (email_records d) (user_ids d) \<and>
     refs_in (\<lambda>r. Some (h_record_id r)) (status_history d) (record_ids d)"

definition checks_ok :: "db \<Rightarrow> bool" where
  "checks_ok d \<longleftrightarrow>
     (\<forall>r \<in> set (tenant_users d). tu_role r \<in> set member_roles) \<and>
     (\<forall>v \<in> set (verifications d). v_token_type v \<in> set token_types) \<and>
     (\<forall>h \<in> set (status_history d). h_status h \<in> set history_statuses)"

definition schema_ok :: "db \<Rightarrow> bool" where
  "schema_ok d \<longleftrightarrow> keys_ok d \<and> refs_ok d \<and> checks_ok d"

lemma schema_ok_empty: "schema_ok empty_db"
  by (simp add: schema_ok_def keys_ok_def refs_ok_def checks_ok_def empty_db_def)

lemma pg_ts_le: "pg_ts t \<le> t"
  by (simp add: pg_ts_def)

lemma pg_ts_idem [simp]: "pg_ts (pg_ts t) = pg_ts t"
  by (simp add: pg_ts_def mod_diff_left_eq flip: minus_mod_eq_mult_div)

lemma pg_ts_mono: "s \<le> t \<Longrightarrow> pg_ts s \<le> pg_ts t"
  by (simp add: pg_ts_def minus_mod_eq_mult_div zdiv_mono1)

subsection \<open>Inserts and deletes shared by the services\<close>

text \<open>Each insert checks its constraints in the order the server does: check constraints,
  then unique indexes, then foreign keys.\<close>

definition insert_user :: "user_row \<Rightarrow> db \<Rightarrow> (go_error, nat \<times> db) result" where
  "insert_user r d =
     (if clash (\<lambda>x. Some (u_id x)) r (users d) \<or> clash u_email r (users d) then Inl unique_violation
      else Inr (1, d\<lparr>users := users d @ [r]\<rparr>))"

definition insert_cred :: "cred_row \<Rightarrow> db \<Rightarrow> (go_error, nat \<times> db) result" where
  "insert_cred r d =
     (if clash (\<lambda>x. Some (c_user_id x)) r (creds d) then Inl unique_violation
      else if \<not> has_key u_id (c_user_id r) (users d) then Inl fk_violation
      else Inr (1, d\<lparr>creds := creds d @ [r]\<rparr>))"

definition insert_tenant :: "tenant_row \<Rightarrow> db \<Rightarrow> (go_error, nat \<times> db) result" where
  "insert_tenant r d =
     (if clash (\<lambda>x. Some (t_id x)) r (tenants d) then Inl unique_violation
      else Inr (1, d\<lparr>tenants := tenants d @ [r]\<rparr>))"

definition insert_tenant_user :: "tenant_user_row \<Rightarrow> db \<Rightarrow> (go_error, nat \<times> db) result" where
  "insert_tenant_user r d =
     (if tu_role r \<notin> set member_roles then Inl check_violation
      else if clash (\<lambda>x. Some (tu_tenant_id x, tu_user_id x)) r (tenant_users d) then Inl unique_violation
      else if \<not> has_key t_id (tu_tenant_id r) (tenants d) \<or> \<not> has_key u_id (tu_user_id r) (users d)
      then Inl fk_violation
      else Inr (1, d\<lparr>tenant_users := tenant_users d @ [r]\<rparr>))"

definition insert_user_role :: "user_role_row \<Rightarrow> db \<Rightarrow> (go_error, nat \<times> db) result" where
  "insert_user_role r d =
     (if clash (\<lambda>x. Some (ur_tenant_id x, ur_user_id x, ur_role x)) r (user_roles d) then Inl unique_violation
      else if \<not> has_key t_id (ur_tenant_id r) (tenants d) \<or> \<not> has_key u_id (ur_user_id r) (users d)
      then Inl fk_violation
      else Inr (1, d\<lparr>user_roles := user_roles d @ [r]\<rparr>))"

definition insert_session :: "session_row \<Rightarrow> db \<Rightarrow> (go_error, nat \<times> db) result" where
  "insert_session r d =
     (if clash (\<lambda>x. Some (s_id x)) r (sessions d) \<or> clash (\<lambda>x. Some (s_token_hash x)) r (sessions d)
      then Inl unique_violation
      else if \<not> has_key u_id (s_user_id r) (users d) then Inl fk_violation
      else Inr (1, d\<lparr>sessions := sessions d @ [r]\<rparr>))"

definition insert_verification :: "verification_row \<Rightarrow> db \<Rightarrow> (go_error, nat \<times> db) result" where
  "insert_verification r d =
     (if v_token_type r \<notin> set token_types then Inl check_violation
      else if clash (\<lambda>x. Some (v_id x)) r (verifications d) \<or> clash magic_hash r (verifications d)
      then Inl unique_violation
      else if \<not> has_key u_id (v_user_id r) (users d) then Inl fk_violation
      else Inr (1, d\<lparr>verifications := verifications d @ [r]\<rparr>))"

definition insert_email_record :: "email_row \<Rightarrow> db \<Rightarrow> (go_error, nat \<times> db) result" where
  "insert_email_record r d =
     (if clash (\<lambda>x. Some (e_id x)) r (email_records d) then Inl unique_violation
      else if (case e_user_id r of None \<Rightarrow> False | Some i \<Rightarrow> \<not> has_key u_id i (users d)) then Inl fk_violation
      else Inr (1, d\<lparr>email_records := email_records d @ [r]\<rparr>))"

definition insert_history :: "history_row \<Rightarrow> db \<Rightarrow> (go_error, nat \<times> db) result" where
  "insert_history r d =
     (if h_status r \<notin> set history_statuses then Inl check_violation
      else if clash (\<lambda>x. Some (h_id x)) r (status_history d) then Inl unique_violation
      else if \<not> has_key e_id (h_record_id r) (email_records d) then Inl fk_violation
      else Inr (1, d\<lparr>status_history := status_history d @ [r]\<rparr>))"

text \<open>Deleting users cascades to the tables that reference them, and sets
  \<open>email_records.user_id\<close> to NULL; \<open>refresh_sessions.replaced_by\<close> restricts.\<close>

definition delete_users :: "(user_row \<Rightarrow> bool) \<Rightarrow> db \<Rightarrow> (go_error, nat \<times> db) result" where
  "delete_users p d =
     (let gone = map u_id (filter p (users d));
          dead = map s_id (filter (\<lambda>s. s_user_id s \<in> set gone) (sessions d));
          keep = delete_where (\<lambda>s. s_user_id s \<in> set gone) (sessions d)
      in if list_ex (\<lambda>s. case s_replaced_by s of None \<Rightarrow> False | Some i \<Rightarrow> i \<in> set dead) keep
         then Inl fk_violation
         else Inr (affected p (users d),
           d\<lparr>users := delete_where p (users d),
             creds := delete_where (\<lambda>c. c_user_id c \<in> set gone) (creds d),
             tenant_users := delete_where (\<lambda>r. tu_user_id r \<in> set gone) (tenant_users d),
             user_roles := delete_where (\<lambda>r. ur_user_id r \<in> set gone) (user_roles d),
             sessions := keep,
             verifications := delete_where (\<lambda>v. v_user_id v \<in> set gone) (verifications d),
             email_records := update_where
               (\<lambda>e. case e_user_id e of None \<Rightarrow> False | Some i \<Rightarrow> i \<in> set gone)
               (\<lambda>e. e\<lparr>e_user_id := None\<rparr>) (email_records d)\<rparr>))"

text \<open>Deleting mail records cascades to their status history.\<close>

definition delete_email_records :: "(email_row \<Rightarrow> bool) \<Rightarrow> db \<Rightarrow> (go_error, nat \<times> db) result" where
  "delete_email_records p d =
     (let gone = map e_id (filter p (email_records d))
      in Inr (affected p (email_records d),
           d\<lparr>email_records := delete_where p (email_records d),
             status_history := delete_where (\<lambda>h. h_record_id h \<in> set gone) (status_history d)\<rparr>))"

lemmas [stmt_defs] = insert_user_def insert_cred_def insert_tenant_def insert_tenant_user_def
  insert_user_role_def insert_session_def insert_verification_def insert_email_record_def
  insert_history_def delete_users_def delete_email_records_def

text \<open>When an insert succeeds, and what it then returns.\<close>

lemma insert_iff:
  "insert_user ru d = Inr x \<longleftrightarrow> u_id ru \<notin> u_id ` set (users d) \<and> \<not> clash u_email ru (users d) \<and>
     x = (1, d\<lparr>users := users d @ [ru]\<rparr>)"
  "insert_cred rc d = Inr x \<longleftrightarrow> c_user_id rc \<notin> c_user_id ` set (creds d) \<and>
     c_user_id rc \<in> u_id ` set (users d) \<and> x = (1, d\<lparr>creds := creds d @ [rc]\<rparr>)"
  "insert_tenant rt d = Inr x \<longleftrightarrow> t_id rt \<notin> t_id ` set (tenants d) \<and> x = (1, d\<lparr>tenants := tenants d @ [rt]\<rparr>)"
  "insert_tenant_user rtu d = Inr x \<longleftrightarrow> tu_role rtu \<in> set member_roles \<and>
     (tu_tenant_id rtu, tu_user_id rtu) \<notin> (\<lambda>r. (tu_tenant_id r, tu_user_id r)) ` set (tenant_users d) \<and>
     tu_tenant_id rtu \<in> t_id ` set (tenants d) \<and> tu_user_id rtu \<in> u_id ` set (users d) \<and>
     x = (1, d\<lparr>tenant_users := tenant_users d @ [rtu]\<rparr>)"
  "insert_user_role rur d = Inr x \<longleftrightarrow>
     (ur_tenant_id rur, ur_user_id rur, ur_role rur) \<notin> (\<lambda>r. (ur_tenant_id r, ur_user_id r, ur_role r)) ` set (user_roles d) \<and>
     ur_tenant_id rur \<in> t_id ` set (tenants d) \<and> ur_user_id rur \<in> u_id ` set (users d) \<and>
     x = (1, d\<lparr>user_roles := user_roles d @ [rur]\<rparr>)"
  "insert_session rs d = Inr x \<longleftrightarrow> s_id rs \<notin> s_id ` set (sessions d) \<and>
     s_token_hash rs \<notin> s_token_hash ` set (sessions d) \<and> s_user_id rs \<in> u_id ` set (users d) \<and>
     x = (1, d\<lparr>sessions := sessions d @ [rs]\<rparr>)"
  "insert_history rh d = Inr x \<longleftrightarrow> h_status rh \<in> set history_statuses \<and> h_id rh \<notin> h_id ` set (status_history d) \<and>
     h_record_id rh \<in> e_id ` set (email_records d) \<and> x = (1, d\<lparr>status_history := status_history d @ [rh]\<rparr>)"
  by (auto simp: insert_user_def insert_cred_def insert_tenant_def insert_tenant_user_def insert_user_role_def
      insert_session_def insert_history_def clash_Some has_key_iff)

subsection \<open>They preserve the schema\<close>

definition schema_rel :: "db \<Rightarrow> db \<Rightarrow> bool" where
  "schema_rel d d' \<longleftrightarrow> (schema_ok d \<longrightarrow> schema_ok d')"

interpretation schema: db_preorder schema_rel
  by unfold_locales (auto simp: schema_rel_def)

lemmas schema_defs = schema_ok_def keys_ok_def refs_ok_def checks_ok_def id_defs

lemmas schema_simps = clash_Some unique_on_snoc has_key_iff unique_on_delete distinct_map_delete
  refs_in_snoc refs_in_insert refs_in_delete

lemma insert_user_schema: "insert_user r d = Inr (n, d') \<Longrightarrow> schema_ok d \<Longrightarrow> schema_ok d'"
  by (clarsimp simp: insert_user_def schema_defs schema_simps split: if_splits)

lemma insert_cred_schema: "insert_cred r d = Inr (n, d') \<Longrightarrow> schema_ok d \<Longrightarrow> schema_ok d'"
  by (clarsimp simp: insert_cred_def schema_defs schema_simps split: if_splits)

lemma insert_tenant_schema: "insert_tenant r d = Inr (n, d') \<Longrightarrow> schema_ok d \<Longrightarrow> schema_ok d'"
  by (clarsimp simp: insert_tenant_def schema_defs schema_simps split: if_splits)

lemma insert_tenant_user_schema:
  "insert_tenant_user r d = Inr (n, d') \<Longrightarrow> schema_ok d \<Longrightarrow> schema_ok d'"
  by (clarsimp simp: insert_tenant_user_def schema_defs schema_simps split: if_splits)

lemma insert_user_role_schema:
  "insert_user_role r d = Inr (n, d') \<Longrightarrow> schema_ok d \<Longrightarrow> schema_ok d'"
  by (clarsimp simp: insert_user_role_def schema_defs schema_simps split: if_splits)

lemma insert_session_schema:
  "insert_session r d = Inr (n, d') \<Longrightarrow> s_replaced_by r = None \<Longrightarrow> schema_ok d \<Longrightarrow> schema_ok d'"
  by (clarsimp simp: insert_session_def schema_defs schema_simps split: if_splits)

lemma insert_verification_schema:
  "insert_verification r d = Inr (n, d') \<Longrightarrow> schema_ok d \<Longrightarrow> schema_ok d'"
  by (clarsimp simp: insert_verification_def schema_defs schema_simps split: if_splits)

lemma insert_email_record_schema:
  "insert_email_record r d = Inr (n, d') \<Longrightarrow> schema_ok d \<Longrightarrow> schema_ok d'"
  by (clarsimp simp: insert_email_record_def schema_defs schema_simps split: if_splits option.splits)

lemma insert_history_schema:
  "insert_history r d = Inr (n, d') \<Longrightarrow> schema_ok d \<Longrightarrow> schema_ok d'"
  by (clarsimp simp: insert_history_def schema_defs schema_simps split: if_splits)

lemma delete_email_records_schema:
  "delete_email_records p d = Inr (n, d') \<Longrightarrow> schema_ok d \<Longrightarrow> schema_ok d'"
  by (clarsimp simp: delete_email_records_def schema_defs schema_simps key_delete_where
      refs_in_delete_cascade)

lemma delete_users_sessions:
  assumes "refs_in s_replaced_by rows (s_id ` set rows)" "distinct (map s_id rows)"
    and "\<not> list_ex (\<lambda>s. case s_replaced_by s of None \<Rightarrow> False | Some i \<Rightarrow> i \<in> set (map s_id (filter q rows)))
           (delete_where q rows)"
  shows "refs_in s_replaced_by (delete_where q rows) (s_id ` {r \<in> set rows. \<not> q r})"
  using assms unfolding key_delete_where [OF assms(2)]
  by (auto simp: refs_in_def list_ex_iff split: option.splits)

lemma delete_users_schema:
  assumes del: "delete_users p d = Inr (n, d')" and ok: "schema_ok d"
  shows "schema_ok d'"
proof -
  define gone where "gone = u_id ` {u \<in> set (users d). p u}"
  have gs: "set (map u_id (filter p (users d))) = gone" by (auto simp: gone_def)
  have d': "d' = d\<lparr>users := delete_where p (users d),
      creds := delete_where (\<lambda>c. c_user_id c \<in> gone) (creds d),
      tenant_users := delete_where (\<lambda>r. tu_user_id r \<in> gone) (tenant_users d),
      user_roles := delete_where (\<lambda>r. ur_user_id r \<in> gone) (user_roles d),
      sessions := delete_where (\<lambda>s. s_user_id s \<in> gone) (sessions d),
      verifications := delete_where (\<lambda>v. v_user_id v \<in> gone) (verifications d),
      email_records := update_where
        (\<lambda>e. case e_user_id e of None \<Rightarrow> False | Some i \<Rightarrow> i \<in> gone)
        (\<lambda>e. e\<lparr>e_user_id := None\<rparr>) (email_records d)\<rparr>"
    and restrict: "\<not> list_ex (\<lambda>s. case s_replaced_by s of None \<Rightarrow> False
        | Some i \<Rightarrow> i \<in> set (map s_id (filter (\<lambda>s. s_user_id s \<in> gone) (sessions d))))
        (delete_where (\<lambda>s. s_user_id s \<in> gone) (sessions d))"
    using del unfolding delete_users_def Let_def gs by (simp_all split: if_splits)
  from ok have du: "distinct (map u_id (users d))" and ds: "distinct (map s_id (sessions d))"
    and rs: "refs_in s_replaced_by (sessions d) (s_id ` set (sessions d))"
    by (simp_all add: schema_defs)
  have "keys_ok d'"
    using ok by (simp add: d' schema_defs schema_simps map_update_where)
  moreover have "refs_ok d'"
    using ok delete_users_sessions [OF rs ds restrict]
    by (simp add: d' schema_defs schema_simps key_delete_where gone_def [symmetric]
        refs_in_delete_cascade refs_in_set_null image_update_where)
  moreover have "checks_ok d'"
    using ok by (simp add: d' schema_defs)
  ultimately show ?thesis by (simp add: schema_ok_def)
qed

end
