(* ===== verification/Auth_Store.thy ===== *)
theory Auth_Store
  imports Tokens Schema "HOL-Library.List_Lexorder" "HOL-Library.Char_ord"
begin

text \<open>
  The data layer of auth-api, \<open>services/auth-api/internal/store/store.go\<close>: one definition
  per method of \<open>Store\<close> and per helper, in source order where dependencies allow, over the
  effect monad of \<open>World\<close>. The SQL text of each statement is the function given to
  \<open>tx_query\<close>/\<open>tx_exec\<close> (inside \<open>BeginTx ... Commit\<close>) or to \<open>pool_query\<close>/\<open>pool_exec\<close>.
  A timestamp parameter goes through \<open>pg_ts\<close>; \<open>now()\<close> is the statement's first argument.
  Text columns compare by bytes.
\<close>

subsection \<open>Errors and result types\<close>

abbreviation ErrRefreshSessionNotFound :: go_error where
  "ErrRefreshSessionNotFound \<equiv> Sentinel ''store'' ''refresh_session_not_found''"
abbreviation ErrRefreshExpired :: go_error where
  "ErrRefreshExpired \<equiv> Sentinel ''store'' ''refresh_expired''"
abbreviation ErrRefreshSessionRevoked :: go_error where
  "ErrRefreshSessionRevoked \<equiv> Sentinel ''store'' ''session_revoked''"
abbreviation ErrBootstrapPasswordMismatch :: go_error where
  "ErrBootstrapPasswordMismatch \<equiv> Sentinel ''store'' ''bootstrap_password_mismatch''"
abbreviation ErrBootstrapEmailUnverified :: go_error where
  "ErrBootstrapEmailUnverified \<equiv> Sentinel ''store'' ''bootstrap_email_not_verified''"
abbreviation ErrTenantNameConflict :: go_error where
  "ErrTenantNameConflict \<equiv> Sentinel ''store'' ''tenant_name_conflict''"
abbreviation ErrNotInTenant :: go_error where
  "ErrNotInTenant \<equiv> Sentinel ''store'' ''not_in_tenant''"
abbreviation ErrInvalidVerificationOTP :: go_error where
  "ErrInvalidVerificationOTP \<equiv> Sentinel ''store'' ''invalid_verification_otp''"
abbreviation ErrInvalidMagicLink :: go_error where
  "ErrInvalidMagicLink \<equiv> Sentinel ''store'' ''invalid_magic_link''"
abbreviation ErrVerificationExpired :: go_error where
  "ErrVerificationExpired \<equiv> Sentinel ''store'' ''verification_expired''"
abbreviation ErrTooManyOTPAttempts :: go_error where
  "ErrTooManyOTPAttempts \<equiv> Sentinel ''store'' ''too_many_otp_attempts''"
abbreviation ErrPendingRegistrationGone :: go_error where
  "ErrPendingRegistrationGone \<equiv> Sentinel ''store'' ''pending_registration_not_found''"
abbreviation ErrResendUserNotFound :: go_error where
  "ErrResendUserNotFound \<equiv> Sentinel ''store'' ''resend_user_not_found''"
abbreviation ErrResendAlreadyVerified :: go_error where
  "ErrResendAlreadyVerified \<equiv> Sentinel ''store'' ''resend_already_verified''"

definition maxOTPVerificationAttempts :: int where "maxOTPVerificationAttempts = 5"

record BootstrapResult =
  br_UserID :: string
  br_UserEmail :: string
  br_TenantID :: string
  br_TenantName :: string
  br_NeedsEmailVerification :: bool

record RegisteredUser =
  ru_ID :: string
  ru_Email :: string

record CreateVerificationParams =
  cv_UserID :: string
  cv_OTP :: string
  cv_MagicToken :: string
  cv_ExpiresAt :: instant

record RegisterWithVerificationResult =
  rw_User :: RegisteredUser
  rw_EmailRecordID :: string

record RevokedVerificationSnapshot =
  sn_ID :: string
  sn_ExpiresAt :: instant

record ResendVerificationResult =
  rs_UserID :: string
  rs_UserEmail :: string
  rs_EmailRecordID :: string
  rs_OTPVerificationID :: string
  rs_MagicVerificationID :: string
  rs_RevokedAt :: instant
  rs_RevokedVerifications :: "RevokedVerificationSnapshot list"

record AnalyticsUser =
  au_UserID :: string
  au_Email :: string

record MagicLinkAnalytics =
  ma_UserID :: string
  ma_Email :: string
  ma_SentAt :: "instant option"

record LoginUser =
  lu_ID :: string
  lu_Email :: string
  lu_Status :: int
  lu_EmailVerifiedAt :: "instant option"
  lu_PasswordHash :: string

record createVerificationTxResult =
  ct_EmailRecordID :: string
  ct_OTPVerificationID :: string
  ct_MagicVerificationID :: string

text \<open>Scanning a NULL column into a Go \<open>string\<close> is an error of the driver.\<close>

definition scan_null :: go_error where
  "scan_null = LibError ''cannot scan NULL into *string''"

definition scan_string :: "string option \<Rightarrow> ('d, string) proc" where
  "scan_string x = (case x of None \<Rightarrow> fail scan_null | Some s \<Rightarrow> ok s)"

definition user_by_email :: "string \<Rightarrow> db \<Rightarrow> user_row option" where
  "user_by_email addr d = List.find (\<lambda>u. u_email u = Some addr) (users d)"

definition user_by_id :: "string \<Rightarrow> db \<Rightarrow> user_row option" where
  "user_by_id i d = List.find (\<lambda>u. u_id u = i) (users d)"

definition cred_by_user :: "string \<Rightarrow> db \<Rightarrow> cred_row option" where
  "cred_by_user i d = List.find (\<lambda>c. c_user_id c = i) (creds d)"

subsection \<open>Registration\<close>

definition insertRegisteredUserWithPassword ::
    "lib \<Rightarrow> string \<Rightarrow> string \<Rightarrow> string \<Rightarrow> int \<Rightarrow> (db, unit) proc" where
  "insertRegisteredUserWithPassword L userID emailAddr password bcryptCost =
     ebind (HashPassword L password bcryptCost) (\<lambda>hashedPassword.
     ebind (tx_exec (\<lambda>now. insert_user
       \<lparr>u_id = userID, u_email = Some emailAddr, u_status = 0, u_email_verified_at = None,
        u_created_at = now, u_updated_at = now\<rparr>)) (\<lambda>_.
     ebind (tx_exec (\<lambda>now. insert_cred
       \<lparr>c_user_id = userID, c_password_hash = hashedPassword, c_updated_at = now\<rparr>)) (\<lambda>_.
     ok ())))"

definition createVerificationWithIDsTx ::
    "lib \<Rightarrow> CreateVerificationParams \<Rightarrow> (db, createVerificationTxResult) proc" where
  "createVerificationWithIDsTx L params =
     ebind (tx_query (user_by_id (cv_UserID params))) (\<lambda>u.
     ebind (scan_string (u_email u)) (\<lambda>recipientEmail.
     ebind uuid_NewString (\<lambda>otpVerificationID.
     ebind (tx_exec (\<lambda>now. insert_verification
       \<lparr>v_id = otpVerificationID, v_user_id = cv_UserID params,
        v_token_hash = HashToken L (cv_OTP params), v_token_type = ''otp'',
        v_expires_at = pg_ts (cv_ExpiresAt params), v_verified_at = None, v_attempts = 0,
        v_created_at = now\<rparr>)) (\<lambda>_.
     ebind uuid_NewString (\<lambda>magicVerificationID.
     ebind (tx_exec (\<lambda>now. insert_verification
       \<lparr>v_id = magicVerificationID, v_user_id = cv_UserID params,
        v_token_hash = HashToken L (cv_MagicToken params), v_token_type = ''magic_link'',
        v_expires_at = pg_ts (cv_ExpiresAt params), v_verified_at = None, v_attempts = 0,
        v_created_at = now\<rparr>)) (\<lambda>_.
     ebind uuid_NewString (\<lambda>emailRecordID.
     ebind (tx_exec (\<lambda>now. insert_email_record
       \<lparr>e_id = emailRecordID, e_user_id = Some (cv_UserID params), e_to_email = recipientEmail,
        e_template = ''verification_email'', e_subject = ''Verify your email'',
        e_external_id = None, e_status = ''queued'', e_created_at = now, e_updated_at = now\<rparr>)) (\<lambda>_.
     ok \<lparr>ct_EmailRecordID = emailRecordID, ct_OTPVerificationID = otpVerificationID,
         ct_MagicVerificationID = magicVerificationID\<rparr>))))))))"

definition createVerificationTx :: "lib \<Rightarrow> CreateVerificationParams \<Rightarrow> (db, string) proc" where
  "createVerificationTx L params =
     ebind (createVerificationWithIDsTx L params) (\<lambda>res. ok (ct_EmailRecordID res))"

definition Store_Register :: "lib \<Rightarrow> string \<Rightarrow> string \<Rightarrow> int \<Rightarrow> (db, RegisteredUser) proc" where
  "Store_Register L email password bcryptCost = run_tx (
     ebind uuid_NewString (\<lambda>i.
     ebind (insertRegisteredUserWithPassword L i email password bcryptCost) (\<lambda>_.
     ebind tx_commit (\<lambda>_.
     ok \<lparr>ru_ID = i, ru_Email = email\<rparr>))))"

definition Store_RegisterWithVerification ::
    "lib \<Rightarrow> string \<Rightarrow> string \<Rightarrow> int \<Rightarrow> string \<Rightarrow> string \<Rightarrow> instant \<Rightarrow> (db, RegisterWithVerificationResult) proc" where
  "Store_RegisterWithVerification L emailAddr password bcryptCost otp magicToken expiresAt = run_tx (
     ebind uuid_NewString (\<lambda>userID.
     ebind (insertRegisteredUserWithPassword L userID emailAddr password bcryptCost) (\<lambda>_.
     ebind (createVerificationTx L
       \<lparr>cv_UserID = userID, cv_OTP = otp, cv_MagicToken = magicToken, cv_ExpiresAt = expiresAt\<rparr>) (\<lambda>emailRecordID.
     ebind tx_commit (\<lambda>_.
     ok \<lparr>rw_User = \<lparr>ru_ID = userID, ru_Email = emailAddr\<rparr>, rw_EmailRecordID = emailRecordID\<rparr>)))))"

definition Store_CreateVerification :: "lib \<Rightarrow> CreateVerificationParams \<Rightarrow> (db, string) proc" where
  "Store_CreateVerification L params = run_tx (
     ebind (createVerificationTx L params) (\<lambda>emailRecordID.
     ebind tx_commit (\<lambda>_.
     ok emailRecordID)))"

definition delete_pending_user :: "string \<Rightarrow> db \<Rightarrow> (go_error, nat \<times> db) result" where
  "delete_pending_user userID =
     delete_users (\<lambda>u. u_id u = userID \<and> u_status u = 0 \<and> u_email_verified_at u = None)"

definition Store_CleanupPendingRegistration :: "string \<Rightarrow> (db, unit) proc" where
  "Store_CleanupPendingRegistration userID = run_tx (
     ebind (tx_exec (\<lambda>now. delete_email_records (\<lambda>e. e_user_id e = Some userID))) (\<lambda>_.
     ebind (tx_exec (\<lambda>now. delete_pending_user userID)) (\<lambda>affectedRows.
     if affectedRows = 0 then fail ErrPendingRegistrationGone
     else ebind tx_commit (\<lambda>_. ok ()))))"

subsection \<open>Resending a verification\<close>

definition outstanding :: "string \<Rightarrow> instant \<Rightarrow> verification_row \<Rightarrow> bool" where
  "outstanding userID now v \<longleftrightarrow>
     v_user_id v = userID \<and> v_verified_at v = None \<and> v_expires_at v > pg_ts now"

definition expire_outstanding :: "string \<Rightarrow> instant \<Rightarrow> db \<Rightarrow> (go_error, nat \<times> db) result" where
  "expire_outstanding userID now d =
     Inr (affected (outstanding userID now) (verifications d),
       d\<lparr>verifications := update_where (outstanding userID now)
          (\<lambda>v. v\<lparr>v_expires_at := pg_ts now\<rparr>) (verifications d)\<rparr>)"

definition Store_ResendVerification ::
    "lib \<Rightarrow> string \<Rightarrow> string \<Rightarrow> string \<Rightarrow> instant \<Rightarrow> instant \<Rightarrow> (db, ResendVerificationResult) proc" where
  "Store_ResendVerification L emailAddr otp magicToken expiresAt now = run_tx (
     ecase (tx_query (user_by_email emailAddr))
       (\<lambda>err. if errors_Is err ErrNoRows then fail ErrResendUserNotFound else fail err) (\<lambda>u.
     ebind (scan_string (u_email u)) (\<lambda>userEmail.
     if u_email_verified_at u \<noteq> None then fail ErrResendAlreadyVerified
     else
     ebind (tx_query (\<lambda>d. Some (map (\<lambda>v. \<lparr>sn_ID = v_id v, sn_ExpiresAt = v_expires_at v\<rparr>)
       (filter (outstanding (u_id u) now) (verifications d))))) (\<lambda>revoked.
     ebind (tx_exec (\<lambda>_. expire_outstanding (u_id u) now)) (\<lambda>_.
     ebind (createVerificationWithIDsTx L
       \<lparr>cv_UserID = u_id u, cv_OTP = otp, cv_MagicToken = magicToken, cv_ExpiresAt = expiresAt\<rparr>) (\<lambda>created.
     ebind tx_commit (\<lambda>_.
     ok \<lparr>rs_UserID = u_id u, rs_UserEmail = userEmail,
         rs_EmailRecordID = ct_EmailRecordID created,
         rs_OTPVerificationID = ct_OTPVerificationID created,
         rs_MagicVerificationID = ct_MagicVerificationID created,
         rs_RevokedAt = now, rs_RevokedVerifications = revoked\<rparr>)))))))"

text \<open>The zero value of \<open>time.Time\<close> is the first instant of year 1.\<close>

definition zero_time :: instant where
  "zero_time = - 62135596800000000000"

definition delete_verifications :: "(verification_row \<Rightarrow> bool) \<Rightarrow> db \<Rightarrow> (go_error, nat \<times> db) result" where
  "delete_verifications p d =
     Inr (affected p (verifications d), d\<lparr>verifications := delete_where p (verifications d)\<rparr>)"

definition restore_expiry ::
    "RevokedVerificationSnapshot \<Rightarrow> string \<Rightarrow> instant \<Rightarrow> db \<Rightarrow> (go_error, nat \<times> db) result" where
  "restore_expiry snap userID rollbackAt d =
     (let p = (\<lambda>v. v_id v = sn_ID snap \<and> v_user_id v = userID \<and> v_verified_at v = None
                 \<and> v_expires_at v \<le> pg_ts rollbackAt)
      in Inr (affected p (verifications d),
           d\<lparr>verifications := update_where p (\<lambda>v. v\<lparr>v_expires_at := pg_ts (sn_ExpiresAt snap)\<rparr>)
              (verifications d)\<rparr>))"

fun restore_all :: "RevokedVerificationSnapshot list \<Rightarrow> string \<Rightarrow> instant \<Rightarrow> (db, unit) proc" where
  "restore_all [] userID rollbackAt = ok ()"
| "restore_all (snap # snaps) userID rollbackAt =
     ebind (tx_exec (\<lambda>_. restore_expiry snap userID rollbackAt)) (\<lambda>_.
     restore_all snaps userID rollbackAt)"

definition Store_RollbackResendVerification :: "ResendVerificationResult option \<Rightarrow> (db, unit) proc" where
  "Store_RollbackResendVerification resend =
     (case resend of
        None \<Rightarrow> ok ()
      | Some r \<Rightarrow> run_tx (
          ebind (tx_exec (\<lambda>_. delete_verifications (\<lambda>v. v_user_id v = rs_UserID r
            \<and> v_verified_at v = None
            \<and> v_id v \<in> {rs_OTPVerificationID r, rs_MagicVerificationID r}))) (\<lambda>_.
          ebind (tx_exec (\<lambda>_. delete_email_records (\<lambda>e. e_id e = rs_EmailRecordID r
            \<and> e_user_id e = Some (rs_UserID r)))) (\<lambda>_.
          ebind (if rs_RevokedAt r = zero_time then time_Now else ok (rs_RevokedAt r)) (\<lambda>rollbackAt.
          ebind (restore_all (rs_RevokedVerifications r) (rs_UserID r) rollbackAt) (\<lambda>_.
          tx_commit))))))"

subsection \<open>Verifying\<close>

definition newer :: "verification_row \<Rightarrow> verification_row \<Rightarrow> bool" where
  "newer x y \<longleftrightarrow> v_created_at x > v_created_at y \<or> (v_created_at x = v_created_at y \<and> v_id x > v_id y)"

definition pending_otp :: "string \<Rightarrow> db \<Rightarrow> verification_row option" where
  "pending_otp addr d = first_by newer
     (filter (\<lambda>v. v_token_type v = ''otp'' \<and> v_verified_at v = None \<and>
        list_ex (\<lambda>u. u_id u = v_user_id v \<and> u_email u = Some addr) (users d)) (verifications d))"

definition set_attempts :: "string \<Rightarrow> int \<Rightarrow> db \<Rightarrow> (go_error, nat \<times> db) result" where
  "set_attempts vid n d =
     Inr (affected (\<lambda>v. v_id v = vid) (verifications d),
       d\<lparr>verifications := update_where (\<lambda>v. v_id v = vid) (\<lambda>v. v\<lparr>v_attempts := n\<rparr>) (verifications d)\<rparr>)"

definition mark_verified :: "string \<Rightarrow> instant \<Rightarrow> db \<Rightarrow> (go_error, nat \<times> db) result" where
  "mark_verified vid now d =
     Inr (affected (\<lambda>v. v_id v = vid) (verifications d),
       d\<lparr>verifications := update_where (\<lambda>v. v_id v = vid) (\<lambda>v. v\<lparr>v_verified_at := Some now\<rparr>) (verifications d)\<rparr>)"

definition activate_user :: "string \<Rightarrow> instant \<Rightarrow> db \<Rightarrow> (go_error, nat \<times> db) result" where
  "activate_user userID now d =
     (let p = (\<lambda>u. u_id u = userID \<and> u_email_verified_at u = None)
      in Inr (affected p (users d),
           d\<lparr>users := update_where p
              (\<lambda>u. u\<lparr>u_status := 1, u_email_verified_at := Some now, u_updated_at := now\<rparr>) (users d)\<rparr>))"

definition Store_VerifyEmailOTP :: "lib \<Rightarrow> string \<Rightarrow> string \<Rightarrow> instant \<Rightarrow> (db, bool) proc" where
  "Store_VerifyEmailOTP L emailAddr otp now = run_tx (
     ecase (tx_query (pending_otp emailAddr))
       (\<lambda>err. if errors_Is err ErrNoRows then fail ErrInvalidVerificationOTP else fail err) (\<lambda>ev.
     if v_attempts ev > maxOTPVerificationAttempts then fail ErrTooManyOTPAttempts
     else if \<not> v_expires_at ev > now then fail ErrVerificationExpired
     else if v_token_hash ev \<noteq> HashToken L otp then
       (let attempts = v_attempts ev + 1 in
        ebind (tx_exec (\<lambda>_. set_attempts (v_id ev) attempts)) (\<lambda>_.
        ebind tx_commit (\<lambda>_.
        if attempts > maxOTPVerificationAttempts then fail ErrTooManyOTPAttempts
        else fail ErrInvalidVerificationOTP)))
     else
       ebind (tx_exec (mark_verified (v_id ev))) (\<lambda>_.
       ebind (tx_exec (activate_user (v_user_id ev))) (\<lambda>userUpdate.
       ebind tx_commit (\<lambda>_.
       ok (userUpdate > 0))))))"

definition pending_magic :: "string \<Rightarrow> db \<Rightarrow> verification_row option" where
  "pending_magic tokenHash d = List.find (\<lambda>v. v_token_type v = ''magic_link''
     \<and> v_token_hash v = tokenHash \<and> v_verified_at v = None) (verifications d)"

definition Store_VerifyMagicLinkToken :: "lib \<Rightarrow> string \<Rightarrow> instant \<Rightarrow> (db, bool) proc" where
  "Store_VerifyMagicLinkToken L magicToken now = run_tx (
     ecase (tx_query (pending_magic (HashToken L magicToken)))
       (\<lambda>err. if errors_Is err ErrNoRows then fail ErrInvalidMagicLink else fail err) (\<lambda>ev.
     if \<not> v_expires_at ev > now then fail ErrVerificationExpired
     else
       ebind (tx_exec (mark_verified (v_id ev))) (\<lambda>_.
       ebind (tx_exec (activate_user (v_user_id ev))) (\<lambda>userUpdate.
       ebind tx_commit (\<lambda>_.
       ok (userUpdate > 0))))))"

definition Store_ValidateMagicLinkToken :: "lib \<Rightarrow> string \<Rightarrow> instant \<Rightarrow> (db, unit) proc" where
  "Store_ValidateMagicLinkToken L magicToken now =
     ecase (pool_query (pending_magic (HashToken L magicToken)))
       (\<lambda>err. if errors_Is err ErrNoRows then fail ErrInvalidMagicLink else fail err) (\<lambda>ev.
     if \<not> v_expires_at ev > now then fail ErrVerificationExpired else ok ())"

definition Store_LookupAnalyticsUserByEmail :: "string \<Rightarrow> (db, AnalyticsUser) proc" where
  "Store_LookupAnalyticsUserByEmail emailAddr =
     ebind (pool_query (user_by_email emailAddr)) (\<lambda>u.
     ebind (scan_string (u_email u)) (\<lambda>addr.
     ok \<lparr>au_UserID = u_id u, au_Email = addr\<rparr>))"

text \<open>The latest \<open>sent\<close> entry among the verification mails of a user.\<close>

definition sent_at :: "string \<Rightarrow> db \<Rightarrow> instant option" where
  "sent_at userID d =
     map_option h_created_at (first_by (\<lambda>x y. h_created_at x > h_created_at y)
       (filter (\<lambda>h. h_status h = ''sent'' \<and> list_ex (\<lambda>e. e_id e = h_record_id h
          \<and> e_user_id e = Some userID \<and> e_template e = ''verification_email'') (email_records d))
        (status_history d)))"

definition Store_LookupMagicLinkAnalytics :: "lib \<Rightarrow> string \<Rightarrow> instant \<Rightarrow> (db, MagicLinkAnalytics) proc" where
  "Store_LookupMagicLinkAnalytics L magicToken now =
     ebind (pool_query (\<lambda>d.
       case first_by newer (filter (\<lambda>v. v_token_type v = ''magic_link''
          \<and> v_token_hash v = HashToken L magicToken \<and> v_verified_at v = None
          \<and> v_expires_at v > pg_ts now \<and> has_key u_id (v_user_id v) (users d)) (verifications d)) of
         None \<Rightarrow> None
       | Some v \<Rightarrow> Some (v_user_id v, Option.bind (user_by_id (v_user_id v) d) u_email,
                          sent_at (v_user_id v) d))) (\<lambda>(uid, addr, sent).
     ebind (scan_string addr) (\<lambda>email.
     ok \<lparr>ma_UserID = uid, ma_Email = email, ma_SentAt = sent\<rparr>))"

subsection \<open>Bootstrap\<close>

definition touch_user :: "string \<Rightarrow> instant \<Rightarrow> db \<Rightarrow> (go_error, nat \<times> db) result" where
  "touch_user uid now d =
     Inr (affected (\<lambda>u. u_id u = uid) (users d),
       d\<lparr>users := update_where (\<lambda>u. u_id u = uid) (\<lambda>u. u\<lparr>u_status := 1, u_updated_at := now\<rparr>) (users d)\<rparr>)"

definition bootstrap_new_owner :: "lib \<Rightarrow> string \<Rightarrow> string \<Rightarrow> int \<Rightarrow> (db, string \<times> instant option) proc" where
  "bootstrap_new_owner L email password bcryptCost =
     ebind uuid_NewString (\<lambda>uid.
     ebind (HashPassword L password bcryptCost) (\<lambda>h.
     ebind (tx_exec (\<lambda>now. insert_user
       \<lparr>u_id = uid, u_email = Some email, u_status = 0, u_email_verified_at = None,
        u_created_at = now, u_updated_at = now\<rparr>)) (\<lambda>_.
     ebind (tx_exec (\<lambda>now. insert_cred
       \<lparr>c_user_id = uid, c_password_hash = h, c_updated_at = now\<rparr>)) (\<lambda>_.
     ok (uid, None)))))"

definition bootstrap_existing_owner ::
    "lib \<Rightarrow> string \<Rightarrow> user_row \<Rightarrow> string option \<Rightarrow> (db, string \<times> instant option) proc" where
  "bootstrap_existing_owner L password u pwdHash =
     (if (case pwdHash of None \<Rightarrow> True | Some h \<Rightarrow> VerifyPassword L h password \<noteq> None)
      then fail ErrBootstrapPasswordMismatch
      else if u_email_verified_at u = None then fail ErrBootstrapEmailUnverified
      else ebind (tx_exec (touch_user (u_id u))) (\<lambda>_. ok (u_id u, u_email_verified_at u)))"

definition Store_Bootstrap ::
    "lib \<Rightarrow> string \<Rightarrow> string \<Rightarrow> string \<Rightarrow> int \<Rightarrow> (db, BootstrapResult) proc" where
  "Store_Bootstrap L email password tenantName bcryptCost = run_tx (
     ebind (ecase (tx_query (\<lambda>d. map_option (\<lambda>u. (u, map_option c_password_hash (cred_by_user (u_id u) d)))
                                (user_by_email email d)))
       (\<lambda>err. if \<not> errors_Is err ErrNoRows then fail err
              else bootstrap_new_owner L email password bcryptCost)
       (\<lambda>(u, pwdHash). bootstrap_existing_owner L password u pwdHash)) (\<lambda>(uid, emailVerifiedAt).
     ebind (tx_query (\<lambda>d. Some (has_key t_name tenantName (tenants d)))) (\<lambda>tenantExists.
     if tenantExists then fail ErrTenantNameConflict
     else
     ebind uuid_NewString (\<lambda>tid.
     ebind (tx_exec (\<lambda>now. insert_tenant \<lparr>t_id = tid, t_name = tenantName, t_created_at = now\<rparr>)) (\<lambda>_.
     ebind (tx_exec (\<lambda>now. insert_tenant_user
       \<lparr>tu_tenant_id = tid, tu_user_id = uid, tu_role = ''owner'', tu_created_at = now\<rparr>)) (\<lambda>_.
     ebind (tx_exec (\<lambda>now. insert_user_role
       \<lparr>ur_tenant_id = tid, ur_user_id = uid, ur_role = ''tenant_admin'', ur_created_at = now\<rparr>)) (\<lambda>_.
     ebind tx_commit (\<lambda>_.
     ok \<lparr>br_UserID = uid, br_UserEmail = email, br_TenantID = tid, br_TenantName = tenantName,
         br_NeedsEmailVerification = (emailVerifiedAt = None)\<rparr>))))))))"

subsection \<open>Login and refresh sessions\<close>

definition login_row :: "string \<Rightarrow> db \<Rightarrow> (user_row \<times> cred_row) option" where
  "login_row email d =
     (case List.find (\<lambda>u. u_email u = Some email \<and> has_key c_user_id (u_id u) (creds d)) (users d) of
        None \<Rightarrow> None
      | Some u \<Rightarrow> map_option (\<lambda>c. (u, c)) (cred_by_user (u_id u) d))"

definition Store_GetLoginUserByEmail :: "string \<Rightarrow> (db, LoginUser) proc" where
  "Store_GetLoginUserByEmail email =
     ebind (pool_query (login_row email)) (\<lambda>(u, c).
     ebind (scan_string (u_email u)) (\<lambda>addr.
     ok \<lparr>lu_ID = u_id u, lu_Email = addr, lu_Status = u_status u,
         lu_EmailVerifiedAt = u_email_verified_at u, lu_PasswordHash = c_password_hash c\<rparr>))"

definition Store_SaveRefreshSession ::
    "lib \<Rightarrow> string \<Rightarrow> string \<Rightarrow> instant \<Rightarrow> string \<Rightarrow> string \<Rightarrow> (db, unit) proc" where
  "Store_SaveRefreshSession L token userID exp userAgent ip =
     ebind uuid_NewString (\<lambda>i.
     ebind (pool_exec (\<lambda>now. insert_session
       \<lparr>s_id = i, s_user_id = userID, s_token_hash = hex_encode (sha256_Sum L token),
        s_user_agent = Some userAgent, s_ip = Some ip, s_expires_at = pg_ts exp,
        s_revoked_at = None, s_replaced_by = None, s_created_at = now\<rparr>)) (\<lambda>_.
     ok ()))"

definition session_by_hash :: "string \<Rightarrow> db \<Rightarrow> session_row option" where
  "session_by_hash h d = List.find (\<lambda>s. s_token_hash s = h) (sessions d)"

definition revoke_sessions ::
    "(session_row \<Rightarrow> bool) \<Rightarrow> string option \<Rightarrow> instant \<Rightarrow> db \<Rightarrow> (go_error, nat \<times> db) result" where
  "revoke_sessions p replacement now d =
     (let q = (\<lambda>s. p s \<and> s_revoked_at s = None);
          f = (\<lambda>s. s\<lparr>s_revoked_at := Some now,
                     s_replaced_by := (case replacement of None \<Rightarrow> s_replaced_by s | Some i \<Rightarrow> Some i)\<rparr>)
      in if 0 < affected q (sessions d)
            \<and> (case replacement of None \<Rightarrow> False | Some i \<Rightarrow> \<not> has_key s_id i (sessions d))
         then Inl fk_violation
         else Inr (affected q (sessions d), d\<lparr>sessions := update_where q f (sessions d)\<rparr>))"

definition Store_RotateRefreshToken ::
    "lib \<Rightarrow> string \<Rightarrow> string \<Rightarrow> instant \<Rightarrow> (db, string \<times> string) proc" where
  "Store_RotateRefreshToken L oldToken newToken exp =
     (let oldHash = hex_encode (sha256_Sum L oldToken);
          newHash = hex_encode (sha256_Sum L newToken)
      in run_tx (
     ecase (tx_query (session_by_hash oldHash))
       (\<lambda>err. if errors_Is err ErrNoRows then fail ErrRefreshSessionNotFound else fail err) (\<lambda>s.
     if s_revoked_at s \<noteq> None then fail ErrRefreshSessionRevoked
     else
     ebind time_Now (\<lambda>t.
     if s_expires_at s < t then fail ErrRefreshExpired
     else
     ebind uuid_NewString (\<lambda>newID.
     ebind (tx_exec (\<lambda>now. insert_session
       \<lparr>s_id = newID, s_user_id = s_user_id s, s_token_hash = newHash,
        s_user_agent = None, s_ip = None, s_expires_at = pg_ts exp,
        s_revoked_at = None, s_replaced_by = None, s_created_at = now\<rparr>)) (\<lambda>_.
     ebind (tx_exec (revoke_sessions (\<lambda>x. s_token_hash x = oldHash) (Some newID))) (\<lambda>_.
     ebind tx_commit (\<lambda>_.
     ok (s_user_id s, [])))))))))"

definition Store_RevokeRefreshToken :: "lib \<Rightarrow> string \<Rightarrow> (db, unit) proc" where
  "Store_RevokeRefreshToken L token =
     ebind (pool_exec (revoke_sessions (\<lambda>s. s_token_hash s = hex_encode (sha256_Sum L token)) None)) (\<lambda>_.
     ok ())"

definition Store_RevokeAllRefreshTokensByUser :: "string \<Rightarrow> (db, nat) proc" where
  "Store_RevokeAllRefreshTokensByUser userID =
     pool_exec (revoke_sessions (\<lambda>s. s_user_id s = userID) None)"

definition Store_EnsureUserInTenant :: "string \<Rightarrow> string \<Rightarrow> (db, unit) proc" where
  "Store_EnsureUserInTenant userID tenantID =
     ebind (pool_query (\<lambda>d. Some (list_ex (\<lambda>r. tu_tenant_id r = tenantID \<and> tu_user_id r = userID)
       (tenant_users d)))) (\<lambda>present.
     if \<not> present then fail ErrNotInTenant else ok ())"

lemmas [stmt_defs] = delete_pending_user_def expire_outstanding_def delete_verifications_def
  restore_expiry_def set_attempts_def mark_verified_def activate_user_def touch_user_def
  revoke_sessions_def

end
