(* ===== verification/Samples.thy ===== *)
theory Samples
  imports Externals Schema
begin

text \<open>
  Concrete instances of the parameters of the model, on which the hypotheses of the
  theorems are shown to hold: an implementation of the external libraries that satisfies
  the named hypotheses on them, an oracle without failures and a few small databases.
  The hash is the identity, a password hash is the password behind a prefix, and values
  that Go sends as text are written in a self-delimiting prefix code.
\<close>

subsection \<open>A self-delimiting code\<close>

fun enc_str :: "string \<Rightarrow> string" where
  "enc_str [] = '';''"
| "enc_str (c # s) = CHR ''.'' # c # enc_str s"

fun dec_str :: "string \<Rightarrow> (string \<times> string) option" where
  "dec_str (x # y # s) =
     (if x = CHR '';'' then Some ([], y # s) else map_option (\<lambda>(a, b). (y # a, b)) (dec_str s))"
| "dec_str [x] = (if x = CHR '';'' then Some ([], []) else None)"
| "dec_str [] = None"

lemma dec_enc_str [simp]: "dec_str (enc_str s @ r) = Some (s, r)"
proof (induction s)
  case Nil
  show ?case by (cases r) auto
qed auto

fun enc_json :: "json \<Rightarrow> string" and enc_jsons :: "json list \<Rightarrow> string"
  and enc_fields :: "(string \<times> json) list \<Rightarrow> string" where
  "enc_json JNull = ''n''"
| "enc_json (JBool b) = (if b then ''t'' else ''f'')"
| "enc_json (JNum i) = (if i < 0 then ''-'' else ''+'') @ enc_str (decimal (nat \<bar>i\<bar>))"
| "enc_json (JStr s) = CHR ''s'' # enc_str s"
| "enc_json (JArr js) = CHR ''a'' # enc_jsons js"
| "enc_json (JObj fs) = CHR ''o'' # enc_fields fs"
| "enc_jsons [] = '';''"
| "enc_jsons (j # js) = CHR '','' # enc_json j @ enc_jsons js"
| "enc_fields [] = '';''"
| "enc_fields (f # fs) = CHR '','' # enc_str (fst f) @ enc_json (snd f) @ enc_fields fs"

fun dec_json :: "nat \<Rightarrow> string \<Rightarrow> (json \<times> string) option"
  and dec_jsons :: "nat \<Rightarrow> string \<Rightarrow> (json list \<times> string) option"
  and dec_fields :: "nat \<Rightarrow> string \<Rightarrow> ((string \<times> json) list \<times> string) option" where
  "dec_json 0 s = None"
| "dec_json (Suc n) s =
     (case s of
        [] \<Rightarrow> None
      | c # r \<Rightarrow>
          if c = CHR ''n'' then Some (JNull, r)
          else if c = CHR ''t'' then Some (JBool True, r)
          else if c = CHR ''f'' then Some (JBool False, r)
          else if c = CHR ''+'' then map_option (\<lambda>(d, q). (JNum (int (read_decimal d)), q)) (dec_str r)
          else if c = CHR ''-'' then map_option (\<lambda>(d, q). (JNum (- int (read_decimal d)), q)) (dec_str r)
          else if c = CHR ''s'' then map_option (\<lambda>(d, q). (JStr d, q)) (dec_str r)
          else if c = CHR ''a'' then map_option (\<lambda>(js, q). (JArr js, q)) (dec_jsons n r)
          else if c = CHR ''o'' then map_option (\<lambda>(fs, q). (JObj fs, q)) (dec_fields n r)
          else None)"
| "dec_jsons 0 s = None"
| "dec_jsons (Suc n) s =
     (case s of
        [] \<Rightarrow> None
      | c # r \<Rightarrow>
          if c = CHR '';'' then Some ([], r)
          else (case dec_json n r of None \<Rightarrow> None
            | Some (j, q) \<Rightarrow> map_option (\<lambda>(js, t). (j # js, t)) (dec_jsons n q)))"
| "dec_fields 0 s = None"
| "dec_fields (Suc n) s =
     (case s of
        [] \<Rightarrow> None
      | c # r \<Rightarrow>
          if c = CHR '';'' then Some ([], r)
          else (case dec_str r of None \<Rightarrow> None
            | Some (k, p) \<Rightarrow> (case dec_json n p of None \<Rightarrow> None
                | Some (j, q) \<Rightarrow> map_option (\<lambda>(fs, t). ((k, j) # fs, t)) (dec_fields n q))))"

lemma dec_enc:
  "length (enc_json j) \<le> n \<Longrightarrow> dec_json n (enc_json j @ r) = Some (j, r)"
  "length (enc_jsons js) \<le> n \<Longrightarrow> dec_jsons n (enc_jsons js @ r) = Some (js, r)"
  "length (enc_fields fs) \<le> n \<Longrightarrow> dec_fields n (enc_fields fs @ r) = Some (fs, r)"
  by (induction j and js and fs arbitrary: n r and n r and n r rule: enc_json_enc_jsons_enc_fields.induct)
    (case_tac n; auto split: if_splits)+

definition sample_parse :: "string \<Rightarrow> (go_error, json) result" where
  "sample_parse s = (case dec_json (length s) s of Some (j, []) \<Rightarrow> Inr j | _ \<Rightarrow> Inl JsonSyntaxError)"

lemma sample_parse_enc [simp]: "sample_parse (enc_json j) = Inr j"
  using dec_enc(1) [of j "length (enc_json j)" "[]"] by (simp add: sample_parse_def)

subsection \<open>The libraries\<close>

definition sample_sign :: "string \<Rightarrow> claims \<Rightarrow> string \<Rightarrow> (go_error, string) result" where
  "sample_sign alg c secret = Inr (enc_json (JArr [JStr alg, JStr (UID c), JStr (TID c), JStr (Typ c),
     JStr (Issuer c), JArr (map JStr (Audience c)), JNum (IssuedAt c), JNum (ExpiresAt c),
     JStr (Subject c), JStr secret]))"

fun str_of :: "json \<Rightarrow> string" where "str_of (JStr s) = s" | "str_of _ = []"
fun int_of :: "json \<Rightarrow> int" where "int_of (JNum i) = i" | "int_of _ = 0"
fun strs_of :: "json \<Rightarrow> string list" where "strs_of (JArr js) = map str_of js" | "strs_of _ = []"

definition sample_jwt :: "(string \<Rightarrow> (go_error, string) result) \<Rightarrow> string \<Rightarrow> string \<Rightarrow> instant \<Rightarrow> string
    \<Rightarrow> (go_error, claims \<times> bool) result" where
  "sample_jwt keyfn iss aud now tok =
     (case sample_parse tok of
        Inr (JArr js) \<Rightarrow>
          if length js \<noteq> 10 then Inl (LibError ''token is malformed'')
          else (case keyfn (str_of (js ! 0)) of
             Inl e \<Rightarrow> Inl e
           | Inr k \<Rightarrow>
               if str_of (js ! 9) \<noteq> k then Inl (LibError ''signature is invalid'')
               else if now \<ge> int_of (js ! 7) * 1000000000 then Inl (LibError ''token is expired'')
               else if now < int_of (js ! 6) * 1000000000 then Inl (LibError ''token used before issued'')
               else if str_of (js ! 4) \<noteq> iss \<or> aud \<notin> set (strs_of (js ! 5))
               then Inl (LibError ''token has invalid claims'')
               else Inr (\<lparr>UID = str_of (js ! 1), TID = str_of (js ! 2), Typ = str_of (js ! 3),
                  Issuer = str_of (js ! 4), Audience = strs_of (js ! 5), IssuedAt = int_of (js ! 6),
                  ExpiresAt = int_of (js ! 7), Subject = str_of (js ! 8)\<rparr>, True))
      | _ \<Rightarrow> Inl (LibError ''token is malformed''))"

definition sample_url_String :: "url \<Rightarrow> string" where
  "sample_url_String u = url_Scheme u @ ''://'' @ url_Host u @ url_Path u @
     (if url_RawQuery u = [] then [] else CHR ''?'' # url_RawQuery u) @
     (if url_Fragment u = [] then [] else CHR ''#'' # url_Fragment u)"

definition sample_lib :: lib where
  "sample_lib = \<lparr>unicode_lower = (\<lambda>s. s), unicode_fold_eq = (\<lambda>s t. s = t),
     sha256_Sum = (\<lambda>s. s), hmac_sha256 = (\<lambda>k m. k @ m),
     bcrypt_hash = (\<lambda>salt pw cost. Inr (''h:'' @ pw)),
     bcrypt_Compare = (\<lambda>h pw. if h = ''h:'' @ pw then None else Some ErrMismatchedHashAndPassword),
     mail_ParseAddress = (\<lambda>s. if CHR ''@'' \<in> set s then Some ([], s) else None),
     url_Parse = (\<lambda>s. Some \<lparr>url_Scheme = ''https'', url_Host = ''a.example'', url_Path = [],
        url_RawQuery = [], url_Fragment = [], url_Rest = []\<rparr>),
     url_String = sample_url_String,
     mail_Address_String = (\<lambda>n a. n @ ''<'' @ a @ ''>''), mime_QEncode = (\<lambda>s. s), quoted_printable = (\<lambda>s. s),
     execute_html = (\<lambda>otp link ex rs. Inr (otp @ link)), execute_text = (\<lambda>otp link ex rs. Inr (otp @ link)),
     db_lower = (\<lambda>s. s),
     uuid_Parse = (\<lambda>s. length s = 36),
     json_text = enc_json, json_parse = sample_parse,
     jwt_SignedString = sample_sign, jwt_ParseWithClaims = sample_jwt\<rparr>"

lemma sample_lib_ok: "bcrypt_ok sample_lib" "json_ok sample_lib" "jwt_ok sample_lib"
proof -
  show "bcrypt_ok sample_lib" "json_ok sample_lib"
    by (auto simp: bcrypt_ok_def json_ok_def sample_lib_def)
  show "jwt_ok sample_lib"
    by (auto simp: jwt_ok_def sample_lib_def sample_sign_def sample_jwt_def comp_def
      simp del: enc_json.simps)
qed

subsection \<open>Worlds\<close>

text \<open>Every call succeeds, the clocks stand at one second and the identifiers are numbered.\<close>

definition sample_orc :: nature where
  "sample_orc = \<lparr>o_fault = (\<lambda>t. False), o_uuid = (\<lambda>t. CHR ''u'' # replicate t (CHR ''i'')), o_byte = (\<lambda>t i. CHR ''b''),
     o_int = (\<lambda>t. 7), o_clock = (\<lambda>t. 1000000000), o_dbclock = (\<lambda>t. 1000000000),
     o_rclock = (\<lambda>t. 1000000000), o_smtp = (\<lambda>t. None)\<rparr>"

definition sample_world :: "'d \<Rightarrow> 'd world" where
  "sample_world d = \<lparr>orc = sample_orc, tick = 0, disk = d, work = d, txnow = 0,
     rds = \<lparr>counters = (\<lambda>k. None), lists = (\<lambda>k. [])\<rparr>, events = [], outbox = [], timers = [],
     metrics_of = \<lparr>sendAttempts = (\<lambda>r. 0), sendLatency = [], queueBacklog = (\<lambda>q. None), queuePollFail = (\<lambda>q. 0)\<rparr>\<rparr>"

lemma sample_no_faults [simp]: "no_faults sample_orc"
  by (simp add: no_faults_def sample_orc_def)

lemma sample_world_simps [simp]:
  "disk (sample_world d) = d" "orc (sample_world d) = sample_orc" "tick (sample_world d) = 0"
  "rds (sample_world d) = \<lparr>counters = (\<lambda>k. None), lists = (\<lambda>k. [])\<rparr>"
  by (simp_all add: sample_world_def)

lemma sample_clocks [simp]:
  "o_clock sample_orc t = 1000000000" "o_dbclock sample_orc t = 1000000000" "o_rclock sample_orc t = 1000000000"
  by (simp_all add: sample_orc_def)

lemma run_result: "fst p = Inr x \<Longrightarrow> p = (Inr x, snd p)"
  by (cases p) auto

lemma run_error: "fst p = Inl e \<Longrightarrow> p = (Inl e, snd p)"
  by (cases p) auto

text \<open>One verified user with a password and one active session.\<close>

definition sample_user :: user_row where
  "sample_user = \<lparr>u_id = ''alice'', u_email = Some ''a@x'', u_status = 1, u_email_verified_at = Some 0,
     u_created_at = 0, u_updated_at = 0\<rparr>"

definition sample_session :: session_row where
  "sample_session = \<lparr>s_id = ''s0'', s_user_id = ''alice'', s_token_hash = hex_encode ''old'',
     s_user_agent = None, s_ip = None, s_expires_at = 2000000000, s_revoked_at = None,
     s_replaced_by = None, s_created_at = 0\<rparr>"

definition sample_db :: db where
  "sample_db = empty_db\<lparr>users := [sample_user],
     creds := [\<lparr>c_user_id = ''alice'', c_password_hash = ''h:secret12'', c_updated_at = 0\<rparr>],
     sessions := [sample_session]\<rparr>"

text \<open>One mail record that has not been sent yet.\<close>

definition sample_record :: email_row where
  "sample_record = \<lparr>e_id = ''rec'', e_user_id = None, e_to_email = ''a@x'', e_template = ''verification_email'', e_subject = ''Hi'',
     e_external_id = Some ''x1'', e_status = ''queued'', e_created_at = 0, e_updated_at = 0\<rparr>"

definition mail_db :: db where "mail_db = empty_db\<lparr>email_records := [sample_record]\<rparr>"

end
