(* ===== verification/Queue.thy ===== *)
theory Queue
  imports Externals Samples
begin

text \<open>
  \<open>modules/common-go/pkg/queue/queue.go\<close>: a JSON job queue on a Redis list. The locale
  \<open>fifo\<close> is the contract its users rely on (append, take the oldest); the Redis list under
  a key implements it, and the client lemmas say that jobs come out complete, once and in
  order.
\<close>

subsection \<open>Operations\<close>

abbreviation ErrNilRedisClient :: go_error where
  "ErrNilRedisClient \<equiv> Sentinel ''queue'' ''nil_redis_client''"
abbreviation ErrEmptyQueueName :: go_error where
  "ErrEmptyQueueName \<equiv> Sentinel ''queue'' ''empty_queue_name''"
abbreviation ErrInvalidBLPopReply :: go_error where
  "ErrInvalidBLPopReply \<equiv> Sentinel ''queue'' ''invalid_blpop_reply''"

definition queue_New :: "bool \<Rightarrow> ('d, unit) proc" where
  "queue_New client = (if \<not> client then fail ErrNilRedisClient else ok ())"

definition validateQueueName :: "string \<Rightarrow> go_error option" where
  "validateQueueName queueName = (if TrimSpace queueName = [] then Some ErrEmptyQueueName else None)"

definition EnqueueContext :: "lib \<Rightarrow> string \<Rightarrow> json \<Rightarrow> ('d, unit) proc" where
  "EnqueueContext L queueName payload =
     (case validateQueueName queueName of
        Some err \<Rightarrow> fail err
      | None \<Rightarrow> ebind (redis_RPush queueName (json_text L payload)) (\<lambda>_. ok ()))"

text \<open>The result is the payload, or \<open>None\<close> when the timeout passed.\<close>

definition DequeueContext :: "string \<Rightarrow> ('d, string option) proc" where
  "DequeueContext queueName =
     (case validateQueueName queueName of
        Some err \<Rightarrow> fail err
      | None \<Rightarrow>
          ecase (redis_BLPop queueName)
            (\<lambda>err. if errors_Is err RedisNil then ok None else fail err)
            (\<lambda>res. if length res \<noteq> 2 then fail ErrInvalidBLPopReply else ok (Some (res ! 1))))"

text \<open>\<open>decode\<close> is the conversion of the parsed payload into the destination type.\<close>

definition DequeueIntoContext :: "lib \<Rightarrow> (json \<Rightarrow> (go_error, 'a) result) \<Rightarrow> string \<Rightarrow> ('d, 'a option) proc" where
  "DequeueIntoContext L decode queueName =
     ebind (DequeueContext queueName) (\<lambda>payload.
     (case payload of
        None \<Rightarrow> ok None
      | Some p \<Rightarrow>
          ebind (of_result (json_parse L p)) (\<lambda>j.
          ebind (of_result (decode j)) (\<lambda>x. ok (Some x)))))"

definition QueueLengthContext :: "string \<Rightarrow> ('d, int) proc" where
  "QueueLengthContext queueName =
     (case validateQueueName queueName of Some err \<Rightarrow> fail err | None \<Rightarrow> redis_LLen queueName)"

text \<open>The variants with the background context.\<close>

definition Enqueue :: "lib \<Rightarrow> string \<Rightarrow> json \<Rightarrow> ('d, unit) proc" where
  "Enqueue L queueName payload = EnqueueContext L queueName payload"

definition Dequeue :: "string \<Rightarrow> ('d, string option) proc" where
  "Dequeue queueName = DequeueContext queueName"

definition DequeueInto :: "lib \<Rightarrow> (json \<Rightarrow> (go_error, 'a) result) \<Rightarrow> string \<Rightarrow> ('d, 'a option) proc" where
  "DequeueInto L decode queueName = DequeueIntoContext L decode queueName"

definition QueueLength :: "string \<Rightarrow> ('d, int) proc" where
  "QueueLength queueName = QueueLengthContext queueName"

subsection \<open>The contract\<close>

locale fifo =
  fixes view :: "'q \<Rightarrow> 'a list"
    and put :: "'a \<Rightarrow> 'q \<Rightarrow> 'q"
    and take_one :: "'q \<Rightarrow> ('a \<times> 'q) option"
  assumes view_put: "view (put x q) = view q @ [x]"
    and take_empty: "view q = [] \<Longrightarrow> take_one q = None"
    and take_view: "view q = x # xs \<Longrightarrow> \<exists>q'. take_one q = Some (x, q') \<and> view q' = xs"
begin

fun put_all :: "'a list \<Rightarrow> 'q \<Rightarrow> 'q" where
  "put_all [] q = q"
| "put_all (x # xs) q = put_all xs (put x q)"

fun take_n :: "nat \<Rightarrow> 'q \<Rightarrow> 'a list \<times> 'q" where
  "take_n 0 q = ([], q)"
| "take_n (Suc n) q = (case take_one q of None \<Rightarrow> ([], q) | Some (x, q') \<Rightarrow> (case take_n n q' of (xs, q'') \<Rightarrow> (x # xs, q'')))"

lemma view_put_all: "view (put_all xs q) = view q @ xs"
  by (induction xs arbitrary: q) (auto simp: view_put)

lemma take_n_view: "fst (take_n n q) = take n (view q) \<and> view (snd (take_n n q)) = drop n (view q)"
proof (induction n arbitrary: q)
  case (Suc n)
  show ?case
  proof (cases "view q")
    case Nil
    then show ?thesis by (simp add: take_empty)
  next
    case (Cons x xs)
    then obtain q' where "take_one q = Some (x, q')" "view q' = xs" using take_view by blast
    with Suc.IH [of q'] Cons show ?thesis by (auto split: prod.splits)
  qed
qed simp

text \<open>What was put comes out behind what was there, complete and in order.\<close>

lemma put_then_take: "fst (take_n (length (view q) + length xs) (put_all xs q)) = view q @ xs"
  by (simp add: take_n_view view_put_all)

end

subsection \<open>The Redis list implements it\<close>

definition rpush :: "string \<Rightarrow> string \<Rightarrow> redis \<Rightarrow> redis" where
  "rpush k v r = r\<lparr>lists := (lists r)(k := lists r k @ [v])\<rparr>"

definition lpop :: "string \<Rightarrow> redis \<Rightarrow> (string \<times> redis) option" where
  "lpop k r = (case lists r k of [] \<Rightarrow> None | v # vs \<Rightarrow> Some (v, r\<lparr>lists := (lists r)(k := vs)\<rparr>))"

interpretation rlist: fifo "\<lambda>r. lists r k" "rpush k" "lpop k" for k
  by unfold_locales (auto simp: rpush_def lpop_def)

lemma EnqueueContext_run:
  assumes "TrimSpace k \<noteq> []"
  shows "EnqueueContext L k j w =
    (if o_fault (orc w) (tick w) then (Inl redis_error, w\<lparr>tick := Suc (tick w)\<rparr>)
     else (Inr (), w\<lparr>tick := Suc (tick w), rds := rpush k (json_text L j) (rds w)\<rparr>))"
  using assms by (simp add: EnqueueContext_def validateQueueName_def ebind_def ecase_def fail_def ok_def
      redis_RPush_def ext_def rpush_def Let_def)

lemma DequeueContext_run:
  assumes "TrimSpace k \<noteq> []"
  shows "DequeueContext k w =
    (if o_fault (orc w) (tick w) then (Inl redis_error, w\<lparr>tick := Suc (tick w)\<rparr>)
     else (case lpop k (rds w) of
             None \<Rightarrow> (Inr None, w\<lparr>tick := Suc (tick w)\<rparr>)
           | Some (v, r) \<Rightarrow> (Inr (Some v), w\<lparr>tick := Suc (tick w), rds := r\<rparr>)))"
  using assms by (auto simp: DequeueContext_def validateQueueName_def ecase_def fail_def ok_def
      redis_BLPop_def ext_def lpop_def errors_Is_def redis_error_def split: list.splits)

lemma db_silent_queue [simp]:
  "db_silent (EnqueueContext L k j)" "db_silent (DequeueContext k)" "db_silent (queue_New b)"
  by (auto simp: EnqueueContext_def DequeueContext_def queue_New_def intro!: db_silent_ebind db_silent_ecase
      split: option.split)

subsection \<open>Producers and consumers\<close>

fun enqueue_all :: "lib \<Rightarrow> string \<Rightarrow> json list \<Rightarrow> 'd world \<Rightarrow> 'd world" where
  "enqueue_all L k [] w = w"
| "enqueue_all L k (j # js) w = enqueue_all L k js (snd (EnqueueContext L k j w))"

fun dequeue_n :: "string \<Rightarrow> nat \<Rightarrow> 'd world \<Rightarrow> string list" where
  "dequeue_n k 0 w = []"
| "dequeue_n k (Suc n) w =
     (case DequeueContext k w of
        (Inr (Some v), w') \<Rightarrow> v # dequeue_n k n w'
      | (_, w') \<Rightarrow> [])"

lemma enqueue_all_view:
  assumes "TrimSpace k \<noteq> []" "no_faults (orc w)"
  shows "rds (enqueue_all L k js w) = rlist.put_all k (map (json_text L) js) (rds w)
    \<and> orc (enqueue_all L k js w) = orc w"
  using assms(2)
proof (induction js arbitrary: w)
  case (Cons j js)
  then show ?case by (simp add: EnqueueContext_run [OF assms(1)] Let_def)
qed simp

lemma dequeue_n_view:
  assumes "TrimSpace k \<noteq> []" "no_faults (orc w)"
  shows "dequeue_n k n w = take n (lists (rds w) k)"
  using assms(2)
proof (induction n arbitrary: w)
  case (Suc n)
  then show ?case
    by (cases "lists (rds w) k") (auto simp: DequeueContext_run [OF assms(1)] lpop_def)
qed simp

text \<open>C28: jobs enqueued on an empty queue are dequeued exactly once each and in the order they were
  enqueued, and every payload is the text of the job, which decodes to it.\<close>

theorem queue_fifo:
  assumes "TrimSpace k \<noteq> []" "no_faults (orc w)" "lists (rds w) k = []" "json_ok L" "\<forall>j \<in> set js. json_utf8 j"
  shows "map (json_parse L) (dequeue_n k (length js) (enqueue_all L k js w)) = map Inr js"
proof -
  have "dequeue_n k (length js) (enqueue_all L k js w) = map (json_text L) js"
    using assms(1-3) enqueue_all_view [OF assms(1,2), of L js]
    by (simp add: dequeue_n_view rlist.view_put_all)
  with assms(4,5) show ?thesis by (simp add: json_ok_def)
qed

theorem queue_fifo_witness:
  "map (json_parse sample_lib) (dequeue_n ''email:send'' 2
     (enqueue_all sample_lib ''email:send'' [JStr ''a'', JNum 7] (sample_world ()))) = [Inr (JStr ''a''), Inr (JNum 7)]"
proof -
  have "TrimSpace ''email:send'' \<noteq> []" "\<forall>j \<in> set [JStr ''a'', JNum 7]. json_utf8 j" by code_simp+
  then show ?thesis
    using queue_fifo [of "''email:send''" "sample_world ()" sample_lib "[JStr ''a'', JNum 7]"] sample_lib_ok(2)
    by (simp add: sample_world_def numeral_2_eq_2 del: dequeue_n.simps enqueue_all.simps)
qed

end
