(* ===== verification/Middleware.thy ===== *)
theory Middleware
  imports Externals Samples
begin

text \<open>
  \<open>modules/common-go/pkg/httpx/ginmid\<close>: the gin middlewares. A request is a record of what
  the handlers read from \<open>gin.Context\<close>; a middleware is a function from the rest of the
  chain (\<open>c.Next()\<close>) to a handler. The locale \<open>window_counter\<close> is the contract of a
  fixed-window counter, which the rate limiter, the login lockout and the resend cooldown
  share; this theory interprets it on the Redis commands the limiter issues.
\<close>

record request =
  rq_Method :: string
  rq_Header :: "string \<Rightarrow> string"
  rq_Query :: "string \<Rightarrow> string"
  rq_Param :: "string \<Rightarrow> string"
  rq_Cookie :: "string \<Rightarrow> string option"
  rq_ClientIP :: string
  rq_TLS :: bool
  ctx_request_id :: string
  ctx_uid :: string
  ctx_tid :: string

type_synonym 'd handler = "request \<Rightarrow> ('d, response) proc"

subsection \<open>Middlewares\<close>

definition RequestID :: "(request \<Rightarrow> ('d, 'a) proc) \<Rightarrow> request \<Rightarrow> ('d, 'a) proc" where
  "RequestID next c =
     (let rid = TrimSpace (rq_Header c ''X-Request-Id'')
      in ebind (if rid = [] then uuid_NewString else ok rid) (\<lambda>rid.
         next (c\<lparr>ctx_request_id := rid\<rparr>)))"

definition AuthN :: "lib \<Rightarrow> string \<Rightarrow> string \<Rightarrow> string \<Rightarrow> 'd handler \<Rightarrow> 'd handler" where
  "AuthN L secret issuer audience next c =
     (let raw = TrimSpace (rq_Header c ''Authorization'');
          deny = (\<lambda>reason. fail (App (WithData (Unauthorized (New reason)) [(''reason'', JStr reason)])))
      in if \<not> HasPrefix raw ''Bearer '' then deny ''missing_bearer''
         else
           (let token = TrimSpace (TrimPrefix raw ''Bearer '')
            in ecase (jwt_Parse L secret issuer audience token)
                 (\<lambda>err. deny ''invalid_access_token'')
                 (\<lambda>claims.
                    if Typ claims \<noteq> ''access'' then deny ''invalid_access_token''
                    else
                      (let uid = (if Subject claims = [] then UID claims else Subject claims)
                       in if uid = [] then deny ''missing_sub''
                          else next (c\<lparr>ctx_uid := uid, ctx_tid := TID claims\<rparr>)))))"

text \<open>\<open>Expire\<close> sends whole seconds; a positive duration below one second becomes one second.\<close>

definition formatSec :: "int \<Rightarrow> int" where
  "formatSec d = (if 0 < d \<and> d < 1000000000 then 1 else (if d < 0 then - (- d div 1000000000) else d div 1000000000))"

definition client_Expire :: "string \<Rightarrow> int \<Rightarrow> ('d, unit) proc" where
  "client_Expire key d = redis_Expire key (formatSec d * 1000000000)"

definition RateLimit :: "bool \<Rightarrow> string \<Rightarrow> int \<Rightarrow> int \<Rightarrow> 'd handler \<Rightarrow> 'd handler" where
  "RateLimit rdb keyPrefix limit window next c =
     (if \<not> rdb then next c
      else
        (let key = keyPrefix @ '':'' @ rq_ClientIP c
         in ecase (redis_Incr key)
              (\<lambda>err. fail (App (RateLimited err)))
              (\<lambda>n. ebind (if n = 1 then ecase (client_Expire key window) (\<lambda>_. ok ()) (\<lambda>_. ok ()) else ok ()) (\<lambda>_.
                   if n > limit then fail (App (RateLimited (New ''too_many_requests'')))
                   else next c))))"

text \<open>The headers CORS adds, and whether it answers the request itself (status 204).\<close>

definition CORS :: "string list \<Rightarrow> bool \<Rightarrow> request \<Rightarrow> (string \<times> string) list \<times> bool" where
  "CORS allowOrigins allowCredentials c =
     (let origin = TrimSpace (rq_Header c ''Origin'')
      in ((if origin \<in> set (map TrimSpace allowOrigins)
           then [(''Access-Control-Allow-Origin'', origin), (''Vary'', ''Origin'')] else []) @
          (if allowCredentials then [(''Access-Control-Allow-Credentials'', ''true'')] else []) @
          [(''Access-Control-Allow-Methods'', ''GET,POST,PUT,PATCH,DELETE,OPTIONS''),
           (''Access-Control-Allow-Headers'', ''Authorization,Content-Type,X-Request-Id''),
           (''Access-Control-Expose-Headers'', ''X-Request-Id'')],
          rq_Method c = ''OPTIONS''))"

text \<open>\<open>Wrap\<close> records the handler's error and \<open>ErrorHandler\<close> answers with it: the response the
  client sees.\<close>

definition serve :: "'d handler \<Rightarrow> request \<Rightarrow> 'd world \<Rightarrow> response \<times> 'd world" where
  "serve h c w = (case h c w of (r, w') \<Rightarrow> (ErrorHandler (ctx_request_id c) r, w'))"

subsection \<open>Fixed-window counters\<close>

locale window_counter =
  fixes hit :: "instant \<Rightarrow> instant \<Rightarrow> 'r \<Rightarrow> int \<times> 'r"
    and idle :: "instant \<Rightarrow> 'r \<Rightarrow> bool"
    and count :: "instant \<Rightarrow> 'r \<Rightarrow> int"
    and width :: int
  assumes hit_count: "fst (hit t u r) = count t r + 1"
    and idle_count: "idle t r \<Longrightarrow> count t r = 0"
    and hit_opens: "idle t r \<Longrightarrow> t \<le> u \<Longrightarrow> u \<le> t' \<Longrightarrow> t' < t + width \<Longrightarrow> count t' (snd (hit t u r)) = 1"
    and hit_stays: "0 < count t r \<Longrightarrow> t \<le> u \<Longrightarrow> u \<le> t' \<Longrightarrow> count t' r = count t r \<Longrightarrow>
      count t' (snd (hit t u r)) = count t r + 1"
begin

fun hits :: "(instant \<times> instant) list \<Rightarrow> 'r \<Rightarrow> int list" where
  "hits [] r = []"
| "hits ((t, u) # ts) r = fst (hit t u r) # hits ts (snd (hit t u r))"

text \<open>Times of a burst: increasing, and all before the end of the window.\<close>

fun in_burst :: "instant \<Rightarrow> instant \<Rightarrow> (instant \<times> instant) list \<Rightarrow> bool" where
  "in_burst lo hi [] = True"
| "in_burst lo hi ((t, u) # ts) = (lo \<le> t \<and> t \<le> u \<and> u < hi \<and> in_burst u hi ts)"

lemma hits_live:
  assumes "in_burst lo hi ts" "0 < k" "\<And>t'. lo \<le> t' \<Longrightarrow> t' < hi \<Longrightarrow> count t' r = k"
  shows "hits ts r = map (\<lambda>i. k + 1 + int i) [0..<length ts]"
  using assms
proof (induction ts arbitrary: lo r k)
  case (Cons p ts)
  obtain t u where p: "p = (t, u)" by (cases p)
  have tu: "lo \<le> t" "t \<le> u" "u < hi" "in_burst u hi ts" using Cons.prems(1) p by auto
  have "count t r = k" using Cons.prems(3) tu by simp
  then have "hits ts (snd (hit t u r)) = map (\<lambda>i. (k + 1) + 1 + int i) [0..<length ts]"
  proof (intro Cons.IH [of u])
    show "count t' (snd (hit t u r)) = k + 1" if "u \<le> t'" "t' < hi" for t'
      using hit_stays [of t r u t'] Cons.prems(2,3) tu that \<open>count t r = k\<close> by simp
  qed (use tu Cons.prems(2) in auto)
  then show ?case
    using hit_count [of t u r] \<open>count t r = k\<close>
    by (simp add: p map_Suc_upt [symmetric] upt_conv_Cons comp_def del: upt_Suc)
qed simp

text \<open>In a burst that starts a window the hits are numbered from one.\<close>

lemma hits_burst:
  assumes "idle t r" "in_burst t (t + width) ((t, u) # ts)"
  shows "hits ((t, u) # ts) r = map (\<lambda>i. int i + 1) [0..<Suc (length ts)]"
proof -
  have "hits ts (snd (hit t u r)) = map (\<lambda>i. 1 + 1 + int i) [0..<length ts]"
    by (rule hits_live [of u "t + width"]) (use assms hit_opens [OF assms(1)] in auto)
  then show ?thesis
    using hit_count [of t u r] idle_count [OF assms(1)]
    by (simp add: map_Suc_upt [symmetric] upt_conv_Cons comp_def del: upt_Suc)
qed

text \<open>So at most \<open>limit\<close> of them are within a limit.\<close>

lemma burst_admits:
  assumes "idle t r" "in_burst t (t + width) ((t, u) # ts)" "0 \<le> limit"
  shows "int (length (filter (\<lambda>n. n \<le> limit) (hits ((t, u) # ts) r))) = min (int (Suc (length ts))) limit"
proof -
  have "int (length (filter (\<lambda>n. n \<le> limit) (map (\<lambda>i. int i + 1) [0..<m]))) = min (int m) limit" for m
    using assms(3) by (induction m) (auto simp: min_def)
  then show ?thesis unfolding hits_burst [OF assms(1,2)] .
qed

end

definition counter_value :: "string \<Rightarrow> instant \<Rightarrow> redis \<Rightarrow> int" where
  "counter_value k now r = (case live now r k of None \<Rightarrow> 0 | Some (v, e) \<Rightarrow> v)"

text \<open>\<open>INCR\<close> at one instant and, for the first hit, \<open>EXPIRE\<close> at a later one.\<close>

definition window_hit :: "string \<Rightarrow> int \<Rightarrow> instant \<Rightarrow> instant \<Rightarrow> redis \<Rightarrow> int \<times> redis" where
  "window_hit k ttl t u r =
     (case incr t r k of (n, r1) \<Rightarrow> (n, if n = 1 then expire u r1 k ttl else r1))"

interpretation limiter: window_counter "window_hit k ttl" "\<lambda>t r. live t r k = None" "counter_value k" ttl for k ttl
  by unfold_locales
    (auto simp: window_hit_def counter_value_def incr_def expire_def live_def split: option.splits prod.splits if_splits)

subsection \<open>The rate limiter\<close>

text \<open>Which of \<open>n\<close> requests of one client, one after the other, pass the limiter.\<close>

fun burst :: "string \<Rightarrow> int \<Rightarrow> int \<Rightarrow> request \<Rightarrow> nat \<Rightarrow> 'd world \<Rightarrow> bool list" where
  "burst pfx limit window c 0 w = []"
| "burst pfx limit window c (Suc n) w =
     (case RateLimit True pfx limit window (\<lambda>c. ok (resp_OK [] JNull)) c w of
        (r, w') \<Rightarrow> (\<not> isl r) # burst pfx limit window c n w')"

definition after_hit :: "string \<Rightarrow> 'd world \<Rightarrow> nat" where
  "after_hit key w = (if fst (incr (o_rclock (orc w) (tick w)) (rds w) key) = 1 then tick w + 2 else tick w + 1)"

fun burst_times :: "string \<Rightarrow> int \<Rightarrow> nat \<Rightarrow> 'd world \<Rightarrow> (instant \<times> instant) list" where
  "burst_times key ttl 0 w = []"
| "burst_times key ttl (Suc n) w =
     (let t = o_rclock (orc w) (tick w); u = o_rclock (orc w) (after_hit key w - 1)
      in (t, u) # burst_times key ttl n (w\<lparr>tick := after_hit key w, rds := snd (window_hit key ttl t u (rds w))\<rparr>))"

lemma RateLimit_run:
  assumes "no_faults (orc w)"
  shows "RateLimit True pfx limit window (\<lambda>c. ok x) c w =
    (let key = pfx @ '':'' @ rq_ClientIP c; ttl = formatSec window * 1000000000;
         t = o_rclock (orc w) (tick w); u = o_rclock (orc w) (after_hit key w - 1);
         h = window_hit key ttl t u (rds w)
     in (if fst h > limit then Inl (App (RateLimited (New ''too_many_requests''))) else Inr x,
         w\<lparr>tick := after_hit key w, rds := snd h\<rparr>))"
  using assms
  by (auto simp: RateLimit_def client_Expire_def redis_Incr_def redis_Expire_def ecase_def ebind_def ok_def fail_def ext_def
      Let_def window_hit_def after_hit_def split: prod.splits)

lemma burst_hits:
  assumes "no_faults (orc w)"
  shows "burst pfx limit window c n w = map (\<lambda>k. k \<le> limit)
    (limiter.hits (pfx @ '':'' @ rq_ClientIP c) (formatSec window * 1000000000)
      (burst_times (pfx @ '':'' @ rq_ClientIP c) (formatSec window * 1000000000) n w) (rds w))"
  using assms by (induction n arbitrary: w) (auto simp: RateLimit_run Let_def not_le)

lemma burst_times_in:
  assumes "mono (o_rclock (orc w))" "\<And>i. o_rclock (orc w) i < hi" "lo \<le> o_rclock (orc w) (tick w)"
  shows "limiter.in_burst lo hi (burst_times key ttl n w)"
  using assms
proof (induction n arbitrary: w lo)
  case (Suc n)
  let ?w = "w\<lparr>tick := after_hit key w, rds := snd (window_hit key ttl (o_rclock (orc w) (tick w))
     (o_rclock (orc w) (after_hit key w - 1)) (rds w))\<rparr>"
  have "limiter.in_burst (o_rclock (orc w) (after_hit key w - 1)) hi (burst_times key ttl n ?w)"
    by (rule Suc.IH) (use Suc.prems in \<open>auto simp: monoD\<close>)
  moreover have "o_rclock (orc w) (tick w) \<le> o_rclock (orc w) (after_hit key w - 1)"
    using Suc.prems(1) by (rule monoD) (simp add: after_hit_def)
  ultimately show ?case using Suc.prems by (simp add: Let_def)
qed simp

text \<open>C29: of any number of requests of one client inside one window the limiter lets exactly the first
  \<open>limit\<close> through, as long as Redis answers and its clock does not go back.\<close>

theorem ratelimit_bound:
  assumes "no_faults (orc w)" "mono (o_rclock (orc w))" "0 \<le> limit" "0 < n"
    and "live (o_rclock (orc w) (tick w)) (rds w) (pfx @ '':'' @ rq_ClientIP c) = None"
    and "\<And>i. o_rclock (orc w) i < o_rclock (orc w) (tick w) + formatSec window * 1000000000"
  shows "int (length (filter (\<lambda>b. b) (burst pfx limit window c n w))) = min (int n) limit"
proof -
  let ?key = "pfx @ '':'' @ rq_ClientIP c" and ?ttl = "formatSec window * 1000000000"
  obtain m where n: "n = Suc m" using assms(4) by (cases n) auto
  let ?t = "o_rclock (orc w) (tick w)" and ?u = "o_rclock (orc w) (after_hit ?key w - 1)"
  let ?w = "w\<lparr>tick := after_hit ?key w, rds := snd (window_hit ?key ?ttl ?t ?u (rds w))\<rparr>"
  have times: "burst_times ?key ?ttl n w = (?t, ?u) # burst_times ?key ?ttl m ?w" by (simp add: n Let_def)
  have "limiter.in_burst ?t (?t + ?ttl) (burst_times ?key ?ttl n w)"
    using assms by (intro burst_times_in) auto
  then have "int (length (filter (\<lambda>k. k \<le> limit) (limiter.hits ?key ?ttl (burst_times ?key ?ttl n w) (rds w)))) =
      min (int (Suc (length (burst_times ?key ?ttl m ?w)))) limit"
    using limiter.burst_admits [OF assms(5) _ assms(3)] unfolding times by blast
  moreover have "length (burst_times ?key ?ttl k v) = k" for k and v :: "'a world"
    by (induction k arbitrary: v) (auto simp: Let_def)
  ultimately show ?thesis
    by (simp add: burst_hits [OF assms(1)] filter_map comp_def n)
qed


definition sample_request :: request where
  "sample_request = \<lparr>rq_Method = ''POST'', rq_Header = (\<lambda>h. []), rq_Query = (\<lambda>q. []), rq_Param = (\<lambda>p. []),
     rq_Cookie = (\<lambda>c. None), rq_ClientIP = ''10.0.0.1'', rq_TLS = False, ctx_request_id = ''r'',
     ctx_uid = [], ctx_tid = []\<rparr>"

theorem ratelimit_bound_witness:
  "int (length (filter (\<lambda>b. b) (burst ''rl:login'' 30 60000000000 sample_request 45 (sample_world empty_db)))) = 30"
  using ratelimit_bound [of "sample_world empty_db" 30 45 "''rl:login''" sample_request 60000000000]
  by (simp add: live_def formatSec_def mono_def)


subsection \<open>Authentication\<close>

lemma SignAccessToken_run:
  assumes "SignAccessToken L secret iss aud uid tid ttl w = (Inr tok, w')"
  shows "jwt_SignedString L ''HS256'' \<lparr>UID = uid, TID = case_option [] id tid, Typ = ''access'', Issuer = iss,
      Audience = [aud], IssuedAt = o_clock (orc w) (tick w) div 1000000000,
      ExpiresAt = (o_clock (orc w) (tick w) + ttl) div 1000000000, Subject = uid\<rparr> secret = Inr tok"
  using assms by (auto simp: SignAccessToken_def jwt_Sign_def Let_def runs split: option.splits)

text \<open>an access token the service signed is accepted by the authentication middleware until it
  expires: the rest of the chain runs with the user and the tenant the token was issued for.\<close>

theorem signed_token_authenticates:
  assumes "jwt_ok L" "SignAccessToken L secret iss aud uid tid ttl w = (Inr tok, w')" "uid \<noteq> []"
    and "TrimSpace (rq_Header c ''Authorization'') = ''Bearer '' @ tok" "TrimSpace tok = tok"
    and "o_clock (orc w) (tick w) \<le> o_clock (orc v) (tick v)"
    and "o_clock (orc v) (tick v) < (o_clock (orc w) (tick w) + ttl) div 1000000000 * 1000000000"
  shows "AuthN L secret iss aud next c v =
    next (c\<lparr>ctx_uid := uid, ctx_tid := case_option [] id tid\<rparr>) (v\<lparr>tick := Suc (tick v)\<rparr>)"
proof -
  let ?c = "\<lparr>UID = uid, TID = case_option [] id tid, Typ = ''access'', Issuer = iss,
      Audience = [aud], IssuedAt = o_clock (orc w) (tick w) div 1000000000,
      ExpiresAt = (o_clock (orc w) (tick w) + ttl) div 1000000000, Subject = uid\<rparr>"
  have iat: "o_clock (orc w) (tick w) div 1000000000 * 1000000000 \<le> o_clock (orc v) (tick v)"
    using assms(6) pos_mod_sign [of 1000000000 "o_clock (orc w) (tick w)"]
    unfolding minus_mod_eq_div_mult [symmetric] by linarith
  have "jwt_ParseWithClaims L (jwt_keyfunc secret) iss aud (o_clock (orc v) (tick v)) tok = Inr (?c, True)"
    using assms(1) [unfolded jwt_ok_def, rule_format, OF SignAccessToken_run [OF assms(2)], of "jwt_keyfunc secret"]
      iat assms(7) by (simp add: jwt_keyfunc_def)
  then show ?thesis
    using assms(3-5)
    by (simp add: AuthN_def Let_def HasPrefix_def TrimPrefix_def jwt_Parse_def ecase_def ebind_def time_Now_def ok_def)
qed

definition sample_token :: string where
  "sample_token = projr (fst (SignAccessToken sample_lib ''k'' ''i'' ''a'' ''alice'' None 60000000000 (sample_world ())))"

theorem signed_token_authenticates_witness:
  "AuthN sample_lib ''k'' ''i'' ''a'' (\<lambda>c. ok (resp_OK (ctx_uid c) JNull))
     (sample_request\<lparr>rq_Header := (\<lambda>h. ''Bearer '' @ sample_token)\<rparr>) (sample_world ()) =
   (Inr (resp_OK ''alice'' JNull), (sample_world ())\<lparr>tick := 1\<rparr>)"
proof -
  have "fst (SignAccessToken sample_lib ''k'' ''i'' ''a'' ''alice'' None 60000000000 (sample_world ())) = Inr sample_token"
    "TrimSpace (''Bearer '' @ sample_token) = ''Bearer '' @ sample_token" "TrimSpace sample_token = sample_token"
    by code_simp+
  with signed_token_authenticates [OF sample_lib_ok(3), of "''k''" "''i''" "''a''" "''alice''" None 60000000000
      "sample_world ()" sample_token _ "sample_request\<lparr>rq_Header := (\<lambda>h. ''Bearer '' @ sample_token)\<rparr>" "sample_world ()"
      "\<lambda>c. ok (resp_OK (ctx_uid c) JNull)", OF run_result]
  show ?thesis by (simp add: ok_def)
qed

lemma AuthN_cases:
  "(\<exists>reason. AuthN L secret iss aud next c w = fail (App (WithData (Unauthorized (New reason)) [(''reason'', JStr reason)]))
       (snd (AuthN L secret iss aud next c w)) \<and> disk (snd (AuthN L secret iss aud next c w)) = disk w)
   \<or> (\<exists>claims uid. HasPrefix (TrimSpace (rq_Header c ''Authorization'')) ''Bearer ''
       \<and> jwt_ParseWithClaims L (jwt_keyfunc secret) iss aud (o_clock (orc w) (tick w))
           (TrimSpace (TrimPrefix (TrimSpace (rq_Header c ''Authorization'')) ''Bearer '')) = Inr (claims, True)
       \<and> Typ claims = ''access'' \<and> uid = (if Subject claims = [] then UID claims else Subject claims) \<and> uid \<noteq> []
       \<and> AuthN L secret iss aud next c w =
           next (c\<lparr>ctx_uid := uid, ctx_tid := TID claims\<rparr>) (w\<lparr>tick := Suc (tick w)\<rparr>))"
  by (auto simp: AuthN_def Let_def jwt_Parse_def ecase_def ebind_def time_Now_def ok_def fail_def
      split: sum.splits prod.splits if_splits)

text \<open>the authentication middleware lets a request through only with a bearer token that the JWT
  library accepted for this secret, issuer, audience and time and that is an access token with a
  user; every other request gets an unauthorized error and the rest of the chain does not run.\<close>

theorem authn_sound:
  "(\<exists>reason. AuthN L secret iss aud next c w = fail (App (WithData (Unauthorized (New reason)) [(''reason'', JStr reason)]))
       (snd (AuthN L secret iss aud next c w)) \<and> disk (snd (AuthN L secret iss aud next c w)) = disk w)
   \<or> (\<exists>claims uid. HasPrefix (TrimSpace (rq_Header c ''Authorization'')) ''Bearer ''
       \<and> jwt_ParseWithClaims L (jwt_keyfunc secret) iss aud (o_clock (orc w) (tick w))
           (TrimSpace (TrimPrefix (TrimSpace (rq_Header c ''Authorization'')) ''Bearer '')) = Inr (claims, True)
       \<and> Typ claims = ''access'' \<and> uid = (if Subject claims = [] then UID claims else Subject claims) \<and> uid \<noteq> []
       \<and> AuthN L secret iss aud next c w =
           next (c\<lparr>ctx_uid := uid, ctx_tid := TID claims\<rparr>) (w\<lparr>tick := Suc (tick w)\<rparr>))"
  by (rule AuthN_cases)

end
