(* ===== verification/Auth_Handler.thy ===== *)
theory Auth_Handler
  imports Auth_Store Queue Middleware
begin

text \<open>
  The HTTP layer of auth-api, \<open>services/auth-api/internal/handler\<close>: every handler and
  helper of \<open>handler.go\<close> and the request and response types of \<open>dto/auth.go\<close>. A handler
  gets the result of \<open>ShouldBindJSON\<close> as an argument (an error, or the decoded request),
  and returns the response it wrote or the error it left for the error middleware. Log
  lines are not modelled.
\<close>

subsection \<open>Types\<close>

record Handler =
  h_Redis :: bool
  h_Analytics :: bool
  JWTIssuer :: string
  JWTAudience :: string
  JWTSecret :: string
  PublicBaseURL :: string
  VerificationTTL :: int
  AccessTTL :: int
  RefreshTTL :: int
  PasswordMinLen :: int
  BcryptCost :: int
  LoginFailLimit :: int
  LoginFailWindow :: int

record BootstrapRequest =
  bq_TenantName :: string
  bq_OwnerEmail :: string
  bq_OwnerPassword :: string

record RegisterRequest =
  gq_Email :: string
  gq_Password :: string

record VerifyEmailRequest =
  vq_Email :: string
  vq_OTP :: string

record emailSendJob =
  job_RecordID :: string
  job_To :: string
  job_Subject :: string
  job_HTMLBody :: string
  job_TextBody :: string
  job_OTP :: string
  job_MagicLink :: string
  job_ExpiresIn :: string
  job_ResendIn :: string

definition emailSendJob_json :: "emailSendJob \<Rightarrow> json" where
  "emailSendJob_json j = JObj (
     [(''record_id'', JStr (job_RecordID j)), (''to'', JStr (job_To j)), (''subject'', JStr (job_Subject j)),
      (''html_body'', JStr (job_HTMLBody j)), (''text_body'', JStr (job_TextBody j)), (''otp'', JStr (job_OTP j)),
      (''magic_link'', JStr (job_MagicLink j)), (''expires_in'', JStr (job_ExpiresIn j))] @
     (if job_ResendIn j = [] then [] else [(''resend_in'', JStr (job_ResendIn j))]))"

definition UserSummary :: "string \<Rightarrow> string \<Rightarrow> json" where
  "UserSummary i email = JObj [(''id'', JStr i), (''email'', JStr email)]"

definition TenantSummary :: "string \<Rightarrow> string \<Rightarrow> json" where
  "TenantSummary i name = JObj [(''id'', JStr i), (''name'', JStr name)]"

definition BootstrapResponse :: "json \<Rightarrow> json \<Rightarrow> json" where
  "BootstrapResponse tenant owner = JObj [(''tenant'', tenant), (''owner_user'', owner)]"

definition LoginResponse :: "string \<Rightarrow> int \<Rightarrow> string \<Rightarrow> int \<Rightarrow> json \<Rightarrow> json" where
  "LoginResponse at ein rt rein user = JObj [(''access_token'', JStr at), (''expires_in'', JNum ein),
     (''refresh_token'', JStr rt), (''refresh_expires_in'', JNum rein), (''user'', user)]"

definition RefreshResponse :: "string \<Rightarrow> int \<Rightarrow> string \<Rightarrow> int \<Rightarrow> json" where
  "RefreshResponse at ein rt rein = JObj [(''access_token'', JStr at), (''expires_in'', JNum ein),
     (''refresh_token'', JStr rt), (''refresh_expires_in'', JNum rein)]"

abbreviation RegisterResponse :: "json \<Rightarrow> json" where
  "RegisterResponse user \<equiv> JObj [(''user'', user)]"

abbreviation ResendVerificationResponse :: "string \<Rightarrow> int \<Rightarrow> json" where
  "ResendVerificationResponse message retryAfter \<equiv> JObj [(''message'', JStr message), (''retry_after'', JNum retryAfter)]"

abbreviation VerifyEmailResponse :: "string \<Rightarrow> json" where
  "VerifyEmailResponse message \<equiv> JObj [(''message'', JStr message)]"

abbreviation LogoutResponse :: "bool \<Rightarrow> json" where
  "LogoutResponse fine \<equiv> JObj [(''ok'', JBool fine)]"

abbreviation LogoutAllResponse :: "bool \<Rightarrow> int \<Rightarrow> json" where
  "LogoutAllResponse fine revokedCount \<equiv> JObj [(''ok'', JBool fine), (''revoked_count'', JNum revokedCount)]"

definition SwitchTenantResponse :: "string \<Rightarrow> int \<Rightarrow> json" where
  "SwitchTenantResponse at ein = JObj [(''access_token'', JStr at), (''expires_in'', JNum ein)]"

definition userStatusActive :: int where "userStatusActive = 1"
definition emailQueueName :: string where "emailQueueName = ''email:send''"
definition defaultVerificationTTL :: int where "defaultVerificationTTL = 15 * 60000000000"
definition verificationEmailSubject :: string where "verificationEmailSubject = ''Verify your email''"
definition resendVerificationWindow :: int where "resendVerificationWindow = 90 * 1000000000"
definition resendVerificationLimit :: int where "resendVerificationLimit = 6"
definition magicLinkStateCookieName :: string where "magicLinkStateCookieName = ''ak_magic_link_state''"
definition magicLinkSuccessPath :: string where "magicLinkSuccessPath = ''/verify-email/success''"
definition magicLinkStateByteLen :: nat where "magicLinkStateByteLen = 24"

subsection \<open>Helpers\<close>

definition bindJSON :: "(go_error, 'q) result \<Rightarrow> ('q \<Rightarrow> ('d, 'a) proc) \<Rightarrow> ('d, 'a) proc" where
  "bindJSON r k = (case r of Inl err \<Rightarrow> fail (App (BadRequest err)) | Inr req \<Rightarrow> k req)"

definition bad :: "string \<Rightarrow> ('d, 'a) proc" where
  "bad msg = fail (App (BadRequest (New msg)))"

definition json_response :: "int \<Rightarrow> request \<Rightarrow> string \<Rightarrow> json \<Rightarrow> set_cookie list \<Rightarrow> response" where
  "json_response status c msg data cookies = \<lparr>Status = status,
     Body = Json \<lparr>env_RequestID = ctx_request_id c, env_Code = 0, env_Message = msg, env_Data = data\<rparr>,
     Cookies = cookies\<rparr>"

definition reason :: "string \<Rightarrow> (string \<times> json) list" where
  "reason s = [(''reason'', JStr s)]"

definition verificationTTL :: "Handler \<Rightarrow> int" where
  "verificationTTL h = (if VerificationTTL h \<le> 0 then defaultVerificationTTL else VerificationTTL h)"

definition formatVerificationExpiresIn :: "int \<Rightarrow> string" where
  "formatVerificationExpiresIn ttl =
     (let minutes = quot (Duration_Round ttl time_Minute) time_Minute
      in if minutes \<le> 1 then ''1 minute'' else Itoa minutes @ '' minutes'')"

definition formatResendIn :: "int \<Rightarrow> string" where
  "formatResendIn delay =
     (let seconds = quot (Duration_Round delay time_Second) time_Second
      in if seconds \<le> 1 then ''1 second'' else Itoa seconds @ '' seconds'')"

definition wholeSeconds :: "int \<Rightarrow> int" where
  "wholeSeconds d = quot (Duration_Round d time_Second) time_Second"

definition base_url :: "lib \<Rightarrow> string \<Rightarrow> url" where
  "base_url L publicBaseURL =
     (let baseURL = (if TrimSpace publicBaseURL = [] then ''http://localhost:8080'' else TrimSpace publicBaseURL);
          local = \<lparr>url_Scheme = ''http'', url_Host = ''localhost:8080'', url_Path = [], url_RawQuery = [],
                   url_Fragment = [], url_Rest = []\<rparr>
      in case url_Parse L baseURL of
           None \<Rightarrow> local
         | Some u \<Rightarrow> if url_Scheme u = [] \<or> TrimSpace (url_Host u) = [] then local else u)"

text \<open>\<open>url.Values.Encode\<close> sorts the keys: \<open>state\<close> comes before \<open>token\<close>.\<close>

definition buildMagicLink :: "lib \<Rightarrow> string \<Rightarrow> string \<Rightarrow> string \<Rightarrow> string" where
  "buildMagicLink L publicBaseURL token state =
     (let u = base_url L publicBaseURL
      in url_String L (u\<lparr>url_Fragment := [],
           url_Path := TrimRight (url_Path u) (CHR ''/'') @ ''/api/v1/auth/verify-magic-link'',
           url_RawQuery := ''state='' @ QueryEscape state @ ''&token='' @ QueryEscape token\<rparr>))"

definition buildMagicLinkSuccessURL :: "lib \<Rightarrow> string \<Rightarrow> string" where
  "buildMagicLinkSuccessURL L publicBaseURL =
     (let u = base_url L publicBaseURL
      in url_String L (u\<lparr>url_Fragment := [],
           url_Path := TrimRight (url_Path u) (CHR ''/'') @ magicLinkSuccessPath, url_RawQuery := []\<rparr>))"

definition proto_https :: "lib \<Rightarrow> string \<Rightarrow> bool" where
  "proto_https L segment =
     (case SplitN2 (TrimSpace segment) (CHR ''='') of
        [k, v] \<Rightarrow> EqualFold L (TrimSpace k) ''proto''
                 \<and> EqualFold L (Trim_char (TrimSpace v) (CHR 0x22)) ''https''
      | _ \<Rightarrow> False)"

definition isSecureRequest :: "lib \<Rightarrow> request \<Rightarrow> bool" where
  "isSecureRequest L c =
     (rq_TLS c
      \<or> (let xfp = TrimSpace (rq_Header c ''X-Forwarded-Proto'')
         in xfp \<noteq> [] \<and> EqualFold L (TrimSpace (hd (Split_char xfp (CHR '','')))) ''https'')
      \<or> EqualFold L (TrimSpace (rq_Header c ''X-Forwarded-Ssl'')) ''on''
      \<or> (let forwarded = TrimSpace (rq_Header c ''Forwarded'')
         in forwarded \<noteq> [] \<and> list_ex (proto_https L) (Split_char forwarded (CHR '';''))))"

definition setMagicLinkStateCookie :: "lib \<Rightarrow> request \<Rightarrow> string \<Rightarrow> instant \<Rightarrow> ('d, set_cookie) proc" where
  "setMagicLinkStateCookie L c state expiresAt =
     ebind time_Now (\<lambda>now.
     (let maxAge = quot (expiresAt - now) time_Second
      in ok \<lparr>cookie_name = magicLinkStateCookieName, cookie_value = QueryEscape state,
             cookie_max_age = (if maxAge \<le> 0 then 1 else maxAge),
             cookie_secure = isSecureRequest L c, cookie_http_only = True\<rparr>))"

definition clearMagicLinkStateCookie :: "lib \<Rightarrow> request \<Rightarrow> set_cookie" where
  "clearMagicLinkStateCookie L c =
     \<lparr>cookie_name = magicLinkStateCookieName, cookie_value = [], cookie_max_age = -1,
      cookie_secure = isSecureRequest L c, cookie_http_only = True\<rparr>"

definition renderMagicLinkPage :: "int \<Rightarrow> string \<Rightarrow> string \<Rightarrow> response" where
  "renderMagicLinkPage status title message =
     (let safeTitle = EscapeString title; safeMessage = EscapeString message
      in \<lparr>Status = status, Body = Html (
          ''<!doctype html><html lang='' @ [CHR 0x22] @ ''en'' @ [CHR 0x22] @ ''><head><meta charset='' @ [CHR 0x22] @
          ''utf-8'' @ [CHR 0x22] @ ''><meta name='' @ [CHR 0x22] @ ''viewport'' @ [CHR 0x22] @ '' content='' @ [CHR 0x22] @
          ''width=device-width,initial-scale=1'' @ [CHR 0x22] @ ''><title>'' @ safeTitle @
          ''</title></head><body><main><h1>'' @ safeTitle @ ''</h1><p>'' @ safeMessage @ ''</p></main></body></html>''),
         Cookies = []\<rparr>)"

definition buildVerificationEmailBody :: "string \<Rightarrow> string \<Rightarrow> string \<times> string" where
  "buildVerificationEmailBody otp magicLink =
     (''<p>Use this verification code: <strong>'' @ EscapeString otp @
      ''</strong></p><p>Or verify with this magic link: <a href='' @ [CHR 0x22] @ EscapeString magicLink @ [CHR 0x22] @
      ''>'' @ EscapeString magicLink @ ''</a></p>'',
      ''Use this verification code: '' @ otp @ [CHR 0x0A] @ ''Verify with this magic link: '' @ magicLink)"

definition magicLinkExpiredMessage :: string where
  "magicLinkExpiredMessage =
     ''This verification link has expired. Request a new verification email after '' @
     formatResendIn resendVerificationWindow @ '' and enter the OTP manually if needed.''"

definition crossDeviceOTPMessage :: string where
  "crossDeviceOTPMessage =
     ''This link was opened from a different browser or device. Please return to the original device and manually enter the 6-digit OTP. If you still need another email, wait '' @
     formatResendIn resendVerificationWindow @ '' before requesting a resend.''"

definition getOrCreateMagicLinkState :: "request \<Rightarrow> ('d, string) proc" where
  "getOrCreateMagicLinkState c =
     (case rq_Cookie c magicLinkStateCookieName of
        Some cookieState \<Rightarrow>
          if isValidMagicLinkState (TrimSpace cookieState) then ok (TrimSpace cookieState)
          else RandomToken magicLinkStateByteLen
      | None \<Rightarrow> RandomToken magicLinkStateByteLen)"

subsection \<open>Analytics\<close>

definition maxInt64 :: "int \<Rightarrow> int \<Rightarrow> int" where
  "maxInt64 a b = (if a > b then a else b)"

definition Handler_track :: "Handler \<Rightarrow> event \<Rightarrow> ('d, unit) proc" where
  "Handler_track h ev = (if \<not> h_Analytics h then ok () else ecase (analytics_Track ev) (\<lambda>_. ok ()) (\<lambda>_. ok ()))"

definition trackVerificationRegistrationStarted :: "Handler \<Rightarrow> string \<Rightarrow> string \<Rightarrow> string \<Rightarrow> ('d, unit) proc" where
  "trackVerificationRegistrationStarted h userID emailAddr flow =
     ebind time_Now (\<lambda>now.
     Handler_track h \<lparr>ev_Name = ''verification_registration_started'', ev_UserID = userID, ev_Email = emailAddr,
       ev_Timestamp = now, ev_Properties = [(''flow'', JStr (TrimSpace flow)),
         (''verification_ttl_seconds'', JNum (quot (verificationTTL h) time_Second))]\<rparr>)"

definition trackVerificationOTPFailure :: "Handler \<Rightarrow> string \<Rightarrow> string \<Rightarrow> (db, unit) proc" where
  "trackVerificationOTPFailure h emailAddr rsn =
     (if \<not> h_Analytics h then ok ()
      else
        ebind (ecase (Store_LookupAnalyticsUserByEmail emailAddr) (\<lambda>err. ok ([], emailAddr))
                 (\<lambda>user. ok (au_UserID user, au_Email user))) (\<lambda>(userID, addr).
        ebind time_Now (\<lambda>now.
        Handler_track h \<lparr>ev_Name = ''verification_otp_failed'', ev_UserID = userID, ev_Email = addr,
          ev_Timestamp = now, ev_Properties = [(''reason'', JStr (TrimSpace rsn))]\<rparr>)))"

subsection \<open>Sending the verification mail\<close>

definition verification_job :: "lib \<Rightarrow> Handler \<Rightarrow> string \<Rightarrow> string \<Rightarrow> string \<Rightarrow> string \<Rightarrow> string \<Rightarrow> json" where
  "verification_job L h recordID addr otp magicToken magicLinkState = emailSendJob_json
     \<lparr>job_RecordID = recordID, job_To = addr, job_Subject = verificationEmailSubject, job_HTMLBody = [],
      job_TextBody = [], job_OTP = otp,
      job_MagicLink = buildMagicLink L (PublicBaseURL h) magicToken magicLinkState,
      job_ExpiresIn = formatVerificationExpiresIn (verificationTTL h),
      job_ResendIn = formatResendIn resendVerificationWindow\<rparr>"

text \<open>\<open>if h.Redis == nil\<close>, \<open>queue.New\<close> and \<open>EnqueueContext\<close>, as the three senders write it.\<close>

definition enqueue_job :: "lib \<Rightarrow> Handler \<Rightarrow> json \<Rightarrow> ('d, unit) proc" where
  "enqueue_job L h j =
     (if \<not> h_Redis h then fail (New ''redis_unavailable'')
      else ebind (queue_New (h_Redis h)) (\<lambda>_. EnqueueContext L emailQueueName j))"

definition Handler_enqueueVerificationEmail :: "lib \<Rightarrow> Handler \<Rightarrow> string \<Rightarrow> string \<Rightarrow> (db, string \<times> instant) proc" where
  "Handler_enqueueVerificationEmail L h userID email =
     ebind GenerateOTP (\<lambda>otp.
     ebind GenerateMagicToken (\<lambda>magicToken.
     ebind (RandomToken magicLinkStateByteLen) (\<lambda>magicLinkState.
     ebind time_Now (\<lambda>now.
     ebind (Store_CreateVerification L \<lparr>cv_UserID = userID, cv_OTP = otp, cv_MagicToken = magicToken,
        cv_ExpiresAt = now + verificationTTL h\<rparr>) (\<lambda>recordID.
     ebind (enqueue_job L h (verification_job L h recordID email otp magicToken magicLinkState)) (\<lambda>_.
     ok (magicLinkState, now + verificationTTL h)))))))"

subsection \<open>Bootstrap and registration\<close>

definition Handler_Healthz :: "request \<Rightarrow> ('d, response) proc" where
  "Handler_Healthz c = ok (resp_OK (ctx_request_id c) (JObj [(''status'', JStr ''ok'')]))"

definition bootstrap_error :: "go_error \<Rightarrow> go_error" where
  "bootstrap_error err =
     (if errors_Is err ErrBootstrapPasswordMismatch
      then App (WithData (Unauthorized err) (reason ''owner_password_mismatch''))
      else if errors_Is err ErrBootstrapEmailUnverified
      then App (WithData (Forbidden (Some err)) [(''reason'', JStr ''email_not_verified''),
             (''message'', JStr ''Please verify your email before bootstrapping a tenant.'')])
      else if errors_Is err ErrTenantNameConflict
      then App (WithData (Conflict err) (reason ''tenant_name_conflict''))
      else err)"

definition bootstrapVerificationMessage :: string where
  "bootstrapVerificationMessage = ''bootstrap completed; owner must verify email before login''"

definition Handler_Bootstrap :: "lib \<Rightarrow> Handler \<Rightarrow> (go_error, BootstrapRequest) result \<Rightarrow> db handler" where
  "Handler_Bootstrap L h body c = bindJSON body (\<lambda>req.
     (let tenantName = TrimSpace (bq_TenantName req);
          ownerEmail = TrimSpace (ToLower L (bq_OwnerEmail req))
      in if tenantName = [] then bad ''tenant_name_required''
         else if ownerEmail = [] then bad ''owner_email_required''
         else if TrimSpace (bq_OwnerPassword req) = [] then bad ''owner_password_required''
         else if int (length (bq_OwnerPassword req)) < PasswordMinLen h then bad ''password_too_short''
         else
           ecase (Store_Bootstrap L ownerEmail (bq_OwnerPassword req) tenantName (BcryptCost h))
             (\<lambda>err. fail (bootstrap_error err)) (\<lambda>res.
           ebind (if br_NeedsEmailVerification res
                  then ebind (Handler_enqueueVerificationEmail L h (br_UserID res) (br_UserEmail res)) (\<lambda>(state, expiresAt).
                       ebind (setMagicLinkStateCookie L c state expiresAt) (\<lambda>ck.
                       ebind (trackVerificationRegistrationStarted h (br_UserID res) (br_UserEmail res) ''bootstrap'') (\<lambda>_.
                       ok [ck])))
                  else ok []) (\<lambda>cookies.
           ok (json_response 201 c
                 (if br_NeedsEmailVerification res then bootstrapVerificationMessage else ''ok'')
                 (BootstrapResponse (TenantSummary (br_TenantID res) (br_TenantName res))
                    (UserSummary (br_UserID res) (br_UserEmail res))) cookies)))))"

definition verificationAcceptedMessage :: string where
  "verificationAcceptedMessage = ''registration accepted, please check your email for verification''"

text \<open>The compensation when the mail cannot be queued: without Redis the error is built from the
  cleanup's, otherwise the cause is wrapped.\<close>

definition undo_registration :: "Handler \<Rightarrow> string \<Rightarrow> go_error \<Rightarrow> (db, 'a) proc" where
  "undo_registration h userID err =
     ecase (Store_CleanupPendingRegistration userID)
       (\<lambda>cleanupErr.
          if \<not> h_Redis h
          then fail (New (''redis unavailable; cleanup pending registration: '' @ err_message cleanupErr))
          else fail (Wrap ''enqueue verification email job: '' err
                 (''; cleanup pending registration: '' @ err_message cleanupErr)))
       (\<lambda>_. fail err)"

definition Handler_Register :: "lib \<Rightarrow> Handler \<Rightarrow> (go_error, RegisterRequest) result \<Rightarrow> db handler" where
  "Handler_Register L h body c = bindJSON body (\<lambda>req.
     (let email = TrimSpace (ToLower L (gq_Email req))
      in if mail_ParseAddress L email = None then bad ''invalid_email''
         else if int (length (gq_Password req)) < PasswordMinLen h then bad ''password_too_short''
         else
           ebind GenerateOTP (\<lambda>otp.
           ebind GenerateMagicToken (\<lambda>magicToken.
           ebind (RandomToken magicLinkStateByteLen) (\<lambda>magicLinkState.
           ebind time_Now (\<lambda>now.
           ebind (Store_RegisterWithVerification L email (gq_Password req) (BcryptCost h) otp magicToken
                    (now + verificationTTL h)) (\<lambda>registered.
           ecase (enqueue_job L h (verification_job L h (rw_EmailRecordID registered) (ru_Email (rw_User registered))
                    otp magicToken magicLinkState))
             (\<lambda>err. undo_registration h (ru_ID (rw_User registered)) err) (\<lambda>_.
           ebind (setMagicLinkStateCookie L c magicLinkState (now + verificationTTL h)) (\<lambda>ck.
           ebind (trackVerificationRegistrationStarted h (ru_ID (rw_User registered))
                    (ru_Email (rw_User registered)) ''register'') (\<lambda>_.
           ok (json_response 202 c verificationAcceptedMessage
                 (RegisterResponse (UserSummary (ru_ID (rw_User registered)) (ru_Email (rw_User registered)))) [ck])))))))))))"

subsection \<open>Resending\<close>

datatype redis_value = VInt64 int | VInt int | VString string | VBytes string | VSlice "redis_value list" | VNil

definition parseRedisInteger :: "redis_value \<Rightarrow> (go_error, int) result" where
  "parseRedisInteger v =
     (case v of
        VInt64 n \<Rightarrow> Inr n
      | VInt n \<Rightarrow> Inr n
      | VString s \<Rightarrow> res_of_option (LibError ''strconv.ParseInt'') (Atoi s)
      | VBytes s \<Rightarrow> res_of_option (LibError ''strconv.ParseInt'') (Atoi s)
      | _ \<Rightarrow> Inl (New ''unexpected redis integer type''))"

text \<open>The Lua script runs atomically at one instant of the server.\<close>

definition resendRateLimitScript :: "instant \<Rightarrow> redis \<Rightarrow> string \<Rightarrow> int \<Rightarrow> redis_value \<times> redis" where
  "resendRateLimitScript now r key windowSeconds =
     (case incr now r key of (current, r1) \<Rightarrow>
      (let r2 = (if current = 1 then expire now r1 key (windowSeconds * 1000000000) else r1);
           ttl = ttl_seconds now r2 key
       in if ttl \<le> 0
          then (let r3 = expire now r2 key (windowSeconds * 1000000000)
                in (VSlice [VInt64 current, VInt64 (ttl_seconds now r3 key)], r3))
          else (VSlice [VInt64 current, VInt64 ttl], r2)))"

definition script_Run :: "string \<Rightarrow> int \<Rightarrow> ('d, redis_value) proc" where
  "script_Run key windowSeconds = ext redis_error (\<lambda>t w.
     (case resendRateLimitScript (o_rclock (orc w) t) (rds w) key windowSeconds of
        (v, r) \<Rightarrow> (Inr v, w\<lparr>rds := r\<rparr>)))"

definition Handler_checkResendRateLimit :: "Handler \<Rightarrow> string \<Rightarrow> ('d, int \<times> int) proc" where
  "Handler_checkResendRateLimit h emailAddr =
     (if \<not> h_Redis h then fail (New ''redis_unavailable'')
      else
        (let windowSeconds = (if quot resendVerificationWindow time_Second \<le> 0 then 90
                              else quot resendVerificationWindow time_Second)
         in ebind (script_Run (''resend:'' @ emailAddr) windowSeconds) (\<lambda>raw.
            (case raw of
               VSlice [v0, v1] \<Rightarrow>
                 ebind (of_result (parseRedisInteger v0)) (\<lambda>count.
                 ebind (of_result (parseRedisInteger v1)) (\<lambda>retryAfter.
                 ok (count, if retryAfter \<le> 0 then windowSeconds else retryAfter)))
             | _ \<Rightarrow> fail (New ''invalid_resend_rate_limit_result'')))))"

definition rollbackResend :: "ResendVerificationResult \<Rightarrow> go_error \<Rightarrow> (db, 'a) proc" where
  "rollbackResend resend cause =
     ecase (Store_RollbackResendVerification (Some resend))
       (\<lambda>rollbackErr. fail (Wrap [] cause (''; rollback resend verification: '' @ err_message rollbackErr)))
       (\<lambda>_. fail cause)"

definition resend_limited :: "string \<Rightarrow> string \<Rightarrow> int \<Rightarrow> ('d, 'a) proc" where
  "resend_limited err rsn retryAfter = fail (App (WithData (RateLimited (New err))
     [(''reason'', JStr rsn), (''retry_after'', JNum retryAfter)]))"

definition Handler_ResendVerification :: "lib \<Rightarrow> Handler \<Rightarrow> (go_error, string) result \<Rightarrow> db handler" where
  "Handler_ResendVerification L h body c = bindJSON body (\<lambda>reqEmail.
     (let emailAddr = TrimSpace (ToLower L reqEmail)
      in if mail_ParseAddress L emailAddr = None then bad ''invalid_email''
         else
           ebind (Handler_checkResendRateLimit h emailAddr) (\<lambda>(count, retryAfter).
           if count > resendVerificationLimit then resend_limited ''resend_rate_limited'' ''too_many_requests'' retryAfter
           else if count > 1 then resend_limited ''resend_cooldown_active'' ''cooldown_active'' retryAfter
           else
           ebind GenerateOTP (\<lambda>otp.
           ebind GenerateMagicToken (\<lambda>magicToken.
           ebind time_Now (\<lambda>now.
           ecase (Store_ResendVerification L emailAddr otp magicToken (now + verificationTTL h) now)
             (\<lambda>err. if errors_Is err ErrResendUserNotFound \<or> errors_Is err ErrResendAlreadyVerified
                     then fail (App (WithData (BadRequest (New ''resend_not_allowed'')) (reason ''resend_not_allowed'')))
                     else fail err) (\<lambda>resend.
           ecase (getOrCreateMagicLinkState c) (rollbackResend resend) (\<lambda>magicLinkState.
           ecase (enqueue_job L h (verification_job L h (rs_EmailRecordID resend) (rs_UserEmail resend)
                    otp magicToken magicLinkState))
             (rollbackResend resend) (\<lambda>_.
           ebind (setMagicLinkStateCookie L c magicLinkState (now + verificationTTL h)) (\<lambda>ck.
           ok (json_response 202 c ''ok''
                 (ResendVerificationResponse ''Verification email sent'' (quot resendVerificationWindow time_Second)) [ck])))))))))))"

subsection \<open>Verifying\<close>

definition otp_rejected :: "Handler \<Rightarrow> string \<Rightarrow> go_error \<Rightarrow> string \<Rightarrow> (db, 'a) proc" where
  "otp_rejected h emailAddr err rsn =
     ebind (trackVerificationOTPFailure h emailAddr rsn) (\<lambda>_.
     fail (App (WithData (BadRequest err) (reason rsn))))"

definition Handler_VerifyEmail :: "lib \<Rightarrow> Handler \<Rightarrow> (go_error, VerifyEmailRequest) result \<Rightarrow> db handler" where
  "Handler_VerifyEmail L h body c = bindJSON body (\<lambda>req.
     (let emailAddr = TrimSpace (ToLower L (vq_Email req)); otp = TrimSpace (vq_OTP req)
      in if mail_ParseAddress L emailAddr = None then bad ''invalid_email''
         else if \<not> otpCodePattern otp then otp_rejected h emailAddr (New ''invalid_otp'') ''invalid_otp''
         else
           ebind time_Now (\<lambda>now.
           ecase (Store_VerifyEmailOTP L emailAddr otp now)
             (\<lambda>err. if errors_Is err ErrInvalidVerificationOTP then otp_rejected h emailAddr err ''invalid_otp''
                     else if errors_Is err ErrVerificationExpired then otp_rejected h emailAddr err ''expired_otp''
                     else if errors_Is err ErrTooManyOTPAttempts then otp_rejected h emailAddr err ''too_many_attempts''
                     else fail err) (\<lambda>activatedNow.
           ebind (if activatedNow \<and> h_Analytics h
                  then ecase (Store_LookupAnalyticsUserByEmail emailAddr) (\<lambda>_. ok ()) (\<lambda>user.
                       ebind time_Now (\<lambda>ts.
                       Handler_track h \<lparr>ev_Name = ''account_activated'', ev_UserID = au_UserID user,
                         ev_Email = au_Email user, ev_Timestamp = ts, ev_Properties = [(''method'', JStr ''otp'')]\<rparr>))
                  else ok ()) (\<lambda>_.
           ok (resp_OK (ctx_request_id c) (VerifyEmailResponse ''Email verified successfully'')))))))"

definition invalid_link_page :: response where
  "invalid_link_page = renderMagicLinkPage 400 ''Invalid magic link''
     ''This verification link is invalid. Request a new link and try again.''"

definition expired_link_page :: response where
  "expired_link_page = renderMagicLinkPage 410 ''Magic link expired'' magicLinkExpiredMessage"

definition magic_link_error :: "go_error \<Rightarrow> ('d, response) proc" where
  "magic_link_error err =
     (if errors_Is err ErrInvalidMagicLink then ok invalid_link_page
      else if errors_Is err ErrVerificationExpired then ok expired_link_page
      else fail err)"

definition Handler_VerifyMagicLink :: "lib \<Rightarrow> Handler \<Rightarrow> db handler" where
  "Handler_VerifyMagicLink L h c =
     (let token = TrimSpace (rq_Query c ''token''); state = TrimSpace (rq_Query c ''state'')
      in if token = [] \<or> state = [] \<or> \<not> isValidMagicLinkState state then ok invalid_link_page
         else
           ebind time_Now (\<lambda>now.
           ebind (if h_Analytics h
                  then ecase (Store_LookupMagicLinkAnalytics L token now) (\<lambda>_. ok None) (\<lambda>d. ok (Some d))
                  else ok None) (\<lambda>magicLinkDetails.
           ecase (Store_ValidateMagicLinkToken L token now) magic_link_error (\<lambda>_.
           ebind (case magicLinkDetails of
                    None \<Rightarrow> ok ()
                  | Some d \<Rightarrow> Handler_track h \<lparr>ev_Name = ''verification_link_clicked'', ev_UserID = ma_UserID d,
                      ev_Email = ma_Email d, ev_Timestamp = now,
                      ev_Properties = [(''latency_from_sent'', JNum (case ma_SentAt d of None \<Rightarrow> 0
                        | Some sent \<Rightarrow> maxInt64 0 (quot (now - sent) 1000000)))]\<rparr>) (\<lambda>_.
           (case rq_Cookie c magicLinkStateCookieName of
              None \<Rightarrow> ok (renderMagicLinkPage 200 ''Enter OTP to verify'' crossDeviceOTPMessage)
            | Some cookieState \<Rightarrow>
                if \<not> isValidMagicLinkState cookieState \<or> TrimSpace cookieState \<noteq> state
                then ok (renderMagicLinkPage 200 ''Enter OTP to verify'' crossDeviceOTPMessage)
                else
                  ecase (Store_VerifyMagicLinkToken L token now) magic_link_error (\<lambda>activatedNow.
                  ebind (case magicLinkDetails of
                           Some d \<Rightarrow> if activatedNow \<and> h_Analytics h
                             then ebind time_Now (\<lambda>ts.
                                  Handler_track h \<lparr>ev_Name = ''account_activated'', ev_UserID = ma_UserID d,
                                    ev_Email = ma_Email d, ev_Timestamp = ts,
                                    ev_Properties = [(''method'', JStr ''magic_link'')]\<rparr>)
                             else ok ()
                         | None \<Rightarrow> ok ()) (\<lambda>_.
                  ok \<lparr>Status = 302, Body = Redirect (buildMagicLinkSuccessURL L (PublicBaseURL h)),
                      Cookies = [clearMagicLinkStateCookie L c]\<rparr>))))))))"

subsection \<open>Sessions\<close>

definition Handler_isLoginRateLimited :: "Handler \<Rightarrow> string \<Rightarrow> ('d, bool) proc" where
  "Handler_isLoginRateLimited h key =
     (if \<not> h_Redis h then ok False
      else ecase (redis_Get key)
             (\<lambda>err. if \<not> errors_Is err RedisNil then fail err else ok (0 \<ge> LoginFailLimit h))
             (\<lambda>count. ok (count \<ge> LoginFailLimit h)))"

definition Handler_increaseLoginFailCount :: "Handler \<Rightarrow> string \<Rightarrow> ('d, unit) proc" where
  "Handler_increaseLoginFailCount h key =
     (if \<not> h_Redis h then ok ()
      else ecase (redis_Incr key) (\<lambda>_. ok ())
             (\<lambda>count. if count = 1
                      then ecase (client_Expire key (LoginFailWindow h)) (\<lambda>_. ok ()) (\<lambda>_. ok ())
                      else ok ()))"

definition Handler_issueTokens :: "lib \<Rightarrow> Handler \<Rightarrow> string \<Rightarrow> string \<Rightarrow> string \<Rightarrow> string \<Rightarrow> (db, string \<times> string) proc" where
  "Handler_issueTokens L h uid tid userAgent ip =
     (let tenantID = (if TrimSpace tid \<noteq> [] then Some tid else None)
      in ebind (SignAccessToken L (JWTSecret h) (JWTIssuer h) (JWTAudience h) uid tenantID (AccessTTL h)) (\<lambda>at.
         ebind (RandomToken 32) (\<lambda>rt.
         ebind time_Now (\<lambda>now.
         ebind (Store_SaveRefreshSession L rt uid (now + RefreshTTL h) userAgent ip) (\<lambda>_.
         ok (at, rt))))))"

definition login_key :: "request \<Rightarrow> string \<Rightarrow> string" where
  "login_key c email = ''login_fail:'' @ rq_ClientIP c @ '':'' @ email"

definition Handler_Login :: "lib \<Rightarrow> Handler \<Rightarrow> (go_error, RegisterRequest) result \<Rightarrow> db handler" where
  "Handler_Login L h body c = bindJSON body (\<lambda>req.
     (let email = TrimSpace (ToLower L (gq_Email req)); key = login_key c email
      in if mail_ParseAddress L email = None then bad ''invalid_email''
         else if TrimSpace (gq_Password req) = [] then bad ''password_required''
         else
           ebind (Handler_isLoginRateLimited h key) (\<lambda>blocked.
           if blocked then fail (App (RateLimited (New ''login_rate_limited'')))
           else
           ecase (Store_GetLoginUserByEmail email)
             (\<lambda>err. if errors_Is err ErrNoRows
                     then ebind (Handler_increaseLoginFailCount h key) (\<lambda>_.
                          fail (App (Unauthorized (New ''invalid_credentials''))))
                     else fail err) (\<lambda>user.
           if lu_EmailVerifiedAt user = None
           then fail (App (WithData (Forbidden (Some (New ''email_not_verified''))) [(''reason'', JStr ''email_not_verified''),
                  (''message'', JStr ''Please verify your email before logging in.'')]))
           else if lu_Status user \<noteq> userStatusActive then fail (App (Unauthorized (New ''invalid_credentials'')))
           else if VerifyPassword L (lu_PasswordHash user) (gq_Password req) \<noteq> None
           then ebind (Handler_increaseLoginFailCount h key) (\<lambda>_.
                fail (App (Unauthorized (New ''invalid_credentials''))))
           else
           ebind (Handler_issueTokens L h (lu_ID user) [] (rq_Header c ''User-Agent'') (rq_ClientIP c)) (\<lambda>(at, rt).
           ebind (if h_Redis h then ecase (redis_Del key) (\<lambda>_. ok ()) (\<lambda>_. ok ()) else ok ()) (\<lambda>_.
           ok (resp_OK (ctx_request_id c) (LoginResponse at (wholeSeconds (AccessTTL h)) rt
                 (wholeSeconds (RefreshTTL h)) (UserSummary (lu_ID user) (lu_Email user))))))))))"

definition refresh_error :: "go_error \<Rightarrow> go_error" where
  "refresh_error err =
     (if errors_Is err ErrRefreshSessionNotFound then App (Unauthorized err)
      else if errors_Is err ErrRefreshExpired then App (WithData (Unauthorized err) (reason ''refresh_expired''))
      else if errors_Is err ErrRefreshSessionRevoked then App (WithData (Unauthorized err) (reason ''session_revoked''))
      else err)"

definition Handler_Refresh :: "lib \<Rightarrow> Handler \<Rightarrow> (go_error, string) result \<Rightarrow> db handler" where
  "Handler_Refresh L h body c = bindJSON body (\<lambda>refreshToken.
     ebind (RandomToken 32) (\<lambda>newRT.
     ebind time_Now (\<lambda>now.
     ecase (Store_RotateRefreshToken L refreshToken newRT (now + RefreshTTL h))
       (\<lambda>err. fail (refresh_error err)) (\<lambda>(uid, _).
     ebind (SignAccessToken L (JWTSecret h) (JWTIssuer h) (JWTAudience h) uid None (AccessTTL h)) (\<lambda>at.
     ok (resp_OK (ctx_request_id c) (RefreshResponse at (wholeSeconds (AccessTTL h)) newRT
           (wholeSeconds (RefreshTTL h)))))))))"

definition Handler_Logout :: "lib \<Rightarrow> (go_error, string) result \<Rightarrow> db handler" where
  "Handler_Logout L body c = bindJSON body (\<lambda>refreshToken.
     ebind (Store_RevokeRefreshToken L refreshToken) (\<lambda>_.
     ok (resp_OK (ctx_request_id c) (LogoutResponse True))))"

definition Handler_LogoutAll :: "db handler" where
  "Handler_LogoutAll c =
     (let uid = TrimSpace (ctx_uid c)
      in if uid = [] then fail (App (Unauthorized (New ''invalid_access_token'')))
         else
           ebind (Store_RevokeAllRefreshTokensByUser uid) (\<lambda>revokedCount.
           ok (resp_OK (ctx_request_id c) (LogoutAllResponse True (int revokedCount)))))"

definition Handler_SwitchTenant :: "lib \<Rightarrow> Handler \<Rightarrow> (go_error, string) result \<Rightarrow> db handler" where
  "Handler_SwitchTenant L h body c =
     (let uid = TrimSpace (ctx_uid c)
      in if uid = [] then fail (App (WithData (Unauthorized (New ''invalid_access_token'')) (reason ''invalid_access_token'')))
         else bindJSON body (\<lambda>reqTenant.
           (let tenantID = TrimSpace reqTenant
            in if tenantID = [] then bad ''tenant_id_required''
               else if \<not> uuid_Parse L tenantID then bad ''invalid_tenant_id''
               else
                 ecase (Store_EnsureUserInTenant uid tenantID)
                   (\<lambda>err. if errors_Is err ErrNotInTenant
                           then fail (App (WithData (Forbidden (Some err)) (reason ''not_in_tenant'')))
                           else fail err) (\<lambda>_.
                 ebind (SignAccessToken L (JWTSecret h) (JWTIssuer h) (JWTAudience h) uid (Some tenantID) (AccessTTL h)) (\<lambda>at.
                 ok (resp_OK (ctx_request_id c) (SwitchTenantResponse at (wholeSeconds (AccessTTL h)))))))))"

definition Handler_NotFound :: "request \<Rightarrow> response" where
  "Handler_NotFound c = resp_Fail (ctx_request_id c) 404 1004 ''not_found'' (JObj (reason ''route_not_found''))"

end
