(* ===== verification/Auth_Steps.thy ===== *)
theory Auth_Steps
  imports Auth_Store
begin

text \<open>
  How the methods of \<open>Auth_Store\<close> compose. The locale \<open>store_relation\<close> is the contract
  between single SQL statements and the methods built from them: a preorder on databases
  that every statement respects is respected by every method, whatever fails inside it.
  The theory then states which methods are all-or-nothing, and defines \<open>store_step\<close>, one
  call of any method with any arguments against any clock, randomness and failure pattern;
  \<open>store_steps\<close> is its closure, so it covers every interleaving of requests at the
  granularity of store calls.
\<close>

locale store_relation = db_preorder R for R :: "db \<Rightarrow> db \<Rightarrow> bool" +
  assumes R_insert_user: "insert_user ru d = Inr (n, d') \<Longrightarrow> u_status ru = 0 \<Longrightarrow>
      u_email_verified_at ru = None \<Longrightarrow> R d d'"
    and R_insert_cred: "insert_cred rc d = Inr (n, d') \<Longrightarrow> R d d'"
    and R_insert_tenant: "insert_tenant rt d = Inr (n, d') \<Longrightarrow> R d d'"
    and R_insert_tenant_user: "insert_tenant_user rtu d = Inr (n, d') \<Longrightarrow> R d d'"
    and R_insert_user_role: "insert_user_role rur d = Inr (n, d') \<Longrightarrow> R d d'"
    and R_insert_session: "insert_session rs d = Inr (n, d') \<Longrightarrow> s_revoked_at rs = None \<Longrightarrow>
      s_replaced_by rs = None \<Longrightarrow> R d d'"
    and R_insert_verification: "insert_verification rv d = Inr (n, d') \<Longrightarrow> v_verified_at rv = None \<Longrightarrow>
      v_attempts rv = 0 \<Longrightarrow> pg_ts (v_expires_at rv) = v_expires_at rv \<Longrightarrow> R d d'"
    and R_insert_email_record: "insert_email_record re d = Inr (n, d') \<Longrightarrow> e_status re = ''queued'' \<Longrightarrow> R d d'"
    and R_delete_email_records: "delete_email_records pe d = Inr (n, d') \<Longrightarrow> R d d'"
    and R_delete_pending_user: "delete_pending_user i d = Inr (n, d') \<Longrightarrow> R d d'"
    and R_expire_outstanding: "expire_outstanding i now d = Inr (n, d') \<Longrightarrow> R d d'"
    and R_delete_verifications: "delete_verifications pv d = Inr (n, d') \<Longrightarrow>
      (\<And>v. pv v \<Longrightarrow> v_verified_at v = None) \<Longrightarrow> R d d'"
    and R_restore_expiry: "restore_expiry snap i now d = Inr (n, d') \<Longrightarrow> R d d'"
    and R_set_attempts: "set_attempts i k d = Inr (n, d') \<Longrightarrow>
      k \<le> maxOTPVerificationAttempts + 1 \<Longrightarrow> R d d'"
    and R_mark_verified: "mark_verified i now d = Inr (n, d') \<Longrightarrow> R d d'"
    and R_activate_user: "activate_user i now d = Inr (n, d') \<Longrightarrow> R d d'"
    and R_touch_user: "touch_user i now d = Inr (n, d') \<Longrightarrow> R d d'"
    and R_revoke_sessions: "revoke_sessions ps rep now d = Inr (n, d') \<Longrightarrow> R d d'"
begin

lemmas statements = R_insert_user R_insert_cred R_insert_tenant R_insert_tenant_user
  R_insert_user_role R_insert_session R_insert_verification R_insert_email_record
  R_delete_email_records R_delete_pending_user R_expire_outstanding R_delete_verifications
  R_restore_expiry R_set_attempts R_mark_verified R_activate_user R_touch_user R_revoke_sessions

lemma tx_scan_string: "tx_keeps R (scan_string x)"
  by (rule tx_silent) (simp add: scan_string_def split: option.split)

lemma tx_insertRegisteredUser: "tx_keeps R (insertRegisteredUserWithPassword L i e p c)"
  unfolding insertRegisteredUserWithPassword_def
  by (intro tx_rules) (auto intro: tx_silent statements)

lemma tx_createVerificationWithIDs: "tx_keeps R (createVerificationWithIDsTx L params)"
  unfolding createVerificationWithIDsTx_def
  by (intro tx_rules tx_scan_string) (auto intro: tx_silent statements)

lemma tx_createVerification: "tx_keeps R (createVerificationTx L params)"
  unfolding createVerificationTx_def
  by (intro tx_rules tx_createVerificationWithIDs) (auto intro: tx_silent)

lemma Register_keeps: "op_keeps R (Store_Register L e p c)"
  unfolding Store_Register_def
  by (intro op_run_tx tx_rules tx_insertRegisteredUser) (auto intro: tx_silent)

lemma RegisterWithVerification_keeps:
  "op_keeps R (Store_RegisterWithVerification L e p c otp mt ex)"
  unfolding Store_RegisterWithVerification_def
  by (intro op_run_tx tx_rules tx_insertRegisteredUser tx_createVerification) (auto intro: tx_silent)

lemma CreateVerification_keeps: "op_keeps R (Store_CreateVerification L params)"
  unfolding Store_CreateVerification_def
  by (intro op_run_tx tx_rules tx_createVerification) (auto intro: tx_silent)

lemma CleanupPendingRegistration_keeps: "op_keeps R (Store_CleanupPendingRegistration i)"
  unfolding Store_CleanupPendingRegistration_def
  by (intro op_run_tx tx_rules) (auto intro: tx_silent statements)

lemma ResendVerification_keeps: "op_keeps R (Store_ResendVerification L e otp mt ex now)"
  unfolding Store_ResendVerification_def
  by (intro op_run_tx tx_rules tx_createVerificationWithIDs tx_scan_string)
    (auto intro: tx_silent statements)

lemma tx_restore_all: "tx_keeps R (restore_all snaps i t)"
  by (induction snaps) (auto intro!: tx_rules intro: tx_silent statements)

lemma RollbackResendVerification_keeps: "op_keeps R (Store_RollbackResendVerification r)"
proof (cases r)
  case None
  then show ?thesis by (simp add: Store_RollbackResendVerification_def op_silent)
next
  case (Some x)
  show ?thesis
    unfolding Store_RollbackResendVerification_def Some option.case
    by (intro op_run_tx tx_rules tx_restore_all) (auto intro: tx_silent statements)
qed

lemma VerifyEmailOTP_keeps: "op_keeps R (Store_VerifyEmailOTP L e otp now)"
  unfolding Store_VerifyEmailOTP_def Let_def
  by (intro op_run_tx tx_rules) (auto intro: tx_silent statements)

lemma VerifyMagicLinkToken_keeps: "op_keeps R (Store_VerifyMagicLinkToken L tok now)"
  unfolding Store_VerifyMagicLinkToken_def
  by (intro op_run_tx tx_rules) (auto intro: tx_silent statements)

lemma tx_bootstrap_owner:
  "tx_keeps R (bootstrap_new_owner L e p c)"
  "tx_keeps R (bootstrap_existing_owner L p u h)"
  unfolding bootstrap_new_owner_def bootstrap_existing_owner_def
  by (intro tx_rules; auto intro: tx_silent statements)+

lemma Bootstrap_keeps: "op_keeps R (Store_Bootstrap L e p tn c)"
  unfolding Store_Bootstrap_def
  by (intro op_run_tx tx_rules tx_bootstrap_owner) (auto intro: tx_silent statements)

lemma SaveRefreshSession_keeps: "op_keeps R (Store_SaveRefreshSession L tok i ex ua ip)"
  unfolding Store_SaveRefreshSession_def
  by (intro op_rules stmt_keepsI) (auto intro: op_silent statements)

lemma RotateRefreshToken_keeps: "op_keeps R (Store_RotateRefreshToken L old new ex)"
  unfolding Store_RotateRefreshToken_def Let_def
  by (intro op_run_tx tx_rules) (auto intro: tx_silent statements)

lemma RevokeRefreshToken_keeps: "op_keeps R (Store_RevokeRefreshToken L tok)"
  unfolding Store_RevokeRefreshToken_def
  by (intro op_rules stmt_keepsI) (auto intro: op_silent statements)

lemma RevokeAll_keeps: "op_keeps R (Store_RevokeAllRefreshTokensByUser i)"
  unfolding Store_RevokeAllRefreshTokensByUser_def
  by (intro op_rules stmt_keepsI) (auto intro: statements)

lemmas store_keeps = Register_keeps RegisterWithVerification_keeps CreateVerification_keeps
  CleanupPendingRegistration_keeps ResendVerification_keeps RollbackResendVerification_keeps
  VerifyEmailOTP_keeps VerifyMagicLinkToken_keeps Bootstrap_keeps SaveRefreshSession_keeps
  RotateRefreshToken_keeps RevokeRefreshToken_keeps RevokeAll_keeps

end

subsection \<open>Sequences of calls\<close>

inductive store_step :: "db \<Rightarrow> db \<Rightarrow> bool" where
  Register: "Store_Register L e p c w = (r, w') \<Longrightarrow> store_step (disk w) (disk w')"
| RegisterWithVerification: "Store_RegisterWithVerification L e p c otp mt ex w = (r2, w') \<Longrightarrow>
    store_step (disk w) (disk w')"
| CreateVerification: "Store_CreateVerification L params w = (r3, w') \<Longrightarrow> store_step (disk w) (disk w')"
| CleanupPendingRegistration: "Store_CleanupPendingRegistration i w = (r4, w') \<Longrightarrow>
    store_step (disk w) (disk w')"
| ResendVerification: "Store_ResendVerification L e otp mt ex now w = (r5, w') \<Longrightarrow>
    store_step (disk w) (disk w')"
| RollbackResendVerification: "Store_RollbackResendVerification res w = (r6, w') \<Longrightarrow>
    store_step (disk w) (disk w')"
| VerifyEmailOTP: "Store_VerifyEmailOTP L e otp now w = (r7, w') \<Longrightarrow> store_step (disk w) (disk w')"
| VerifyMagicLinkToken: "Store_VerifyMagicLinkToken L mt now w = (r8, w') \<Longrightarrow>
    store_step (disk w) (disk w')"
| Bootstrap: "Store_Bootstrap L e p tn c w = (r9, w') \<Longrightarrow> store_step (disk w) (disk w')"
| SaveRefreshSession: "Store_SaveRefreshSession L tok i ex ua ip w = (r10, w') \<Longrightarrow>
    store_step (disk w) (disk w')"
| RotateRefreshToken: "Store_RotateRefreshToken L old new ex w = (r11, w') \<Longrightarrow>
    store_step (disk w) (disk w')"
| RevokeRefreshToken: "Store_RevokeRefreshToken L tok w = (r12, w') \<Longrightarrow> store_step (disk w) (disk w')"
| RevokeAll: "Store_RevokeAllRefreshTokensByUser i w = (r13, w') \<Longrightarrow> store_step (disk w) (disk w')"

abbreviation store_steps :: "db \<Rightarrow> db \<Rightarrow> bool" where
  "store_steps \<equiv> store_step\<^sup>*\<^sup>*"

lemma op_keepsD: "op_keeps R m \<Longrightarrow> m w = (r, w') \<Longrightarrow> R (disk w) (disk w')"
  unfolding op_keeps_def by (metis snd_conv)

context store_relation
begin

lemma store_step_keeps: "store_step d d' \<Longrightarrow> R d d'"
  by (induction rule: store_step.induct) (erule op_keepsD [OF store_keeps(1)]
    op_keepsD [OF store_keeps(2)] op_keepsD [OF store_keeps(3)] op_keepsD [OF store_keeps(4)]
    op_keepsD [OF store_keeps(5)] op_keepsD [OF store_keeps(6)] op_keepsD [OF store_keeps(7)]
    op_keepsD [OF store_keeps(8)] op_keepsD [OF store_keeps(9)] op_keepsD [OF store_keeps(10)]
    op_keepsD [OF store_keeps(11)] op_keepsD [OF store_keeps(12)] op_keepsD [OF store_keeps(13)])+

lemma store_steps_keep: "store_steps d d' \<Longrightarrow> R d d'"
  by (induction rule: rtranclp_induct) (auto intro: R_refl R_trans [OF _ store_step_keeps])

end

subsection \<open>The schema and the monotone facts\<close>

text \<open>\<open>mono_rel\<close>: from a database that satisfies the schema, the new one satisfies it; a
  verified user stays verified at the same time; the revoked sessions and the consumed
  verifications of verified users stay.\<close>

definition verified_at :: "string \<Rightarrow> instant \<Rightarrow> db \<Rightarrow> bool" where
  "verified_at i t d \<longleftrightarrow> (\<exists>u \<in> set (users d). u_id u = i \<and> u_email_verified_at u = Some t)"

definition revoked_row :: "session_row \<Rightarrow> db \<Rightarrow> bool" where
  "revoked_row s d \<longleftrightarrow> s \<in> set (sessions d) \<and> s_revoked_at s \<noteq> None"

definition consumed :: "string \<Rightarrow> string \<Rightarrow> string \<Rightarrow> string \<Rightarrow> db \<Rightarrow> bool" where
  "consumed vid uid ty h d \<longleftrightarrow> (\<exists>v \<in> set (verifications d). v_id v = vid \<and> v_user_id v = uid \<and>
     v_token_type v = ty \<and> v_token_hash v = h \<and> v_verified_at v \<noteq> None)"

definition mono_rel :: "db \<Rightarrow> db \<Rightarrow> bool" where
  "mono_rel d d' \<longleftrightarrow> (schema_ok d \<longrightarrow> schema_ok d' \<and>
     (\<forall>i t. verified_at i t d \<longrightarrow> verified_at i t d' \<and>
        (\<forall>s. s_user_id s = i \<longrightarrow> revoked_row s d \<longrightarrow> revoked_row s d') \<and>
        (\<forall>vid ty h. consumed vid i ty h d \<longrightarrow> consumed vid i ty h d')))"

lemmas mono_defs = verified_at_def revoked_row_def consumed_def

lemma mono_relI:
  assumes "schema_ok d \<Longrightarrow> schema_ok d'"
    and "\<And>i t. schema_ok d \<Longrightarrow> verified_at i t d \<Longrightarrow> verified_at i t d'"
    and "\<And>i t s. schema_ok d \<Longrightarrow> verified_at i t d \<Longrightarrow> s_user_id s = i \<Longrightarrow> revoked_row s d \<Longrightarrow> revoked_row s d'"
    and "\<And>i t vid ty h. schema_ok d \<Longrightarrow> verified_at i t d \<Longrightarrow> consumed vid i ty h d \<Longrightarrow> consumed vid i ty h d'"
  shows "mono_rel d d'"
  using assms by (auto simp: mono_rel_def)

text \<open>A statement that leaves the three tables alone only has to keep the schema.\<close>

lemma mono_rel_frame:
  assumes "schema_ok d \<Longrightarrow> schema_ok d'" "users d' = users d" "sessions d' = sessions d"
    "verifications d' = verifications d"
  shows "mono_rel d d'"
  using assms by (intro mono_relI) (auto simp: mono_defs)

lemma update_schema:
  "expire_outstanding i now d = Inr (n, d') \<Longrightarrow> schema_ok d \<Longrightarrow> schema_ok d'"
  "restore_expiry snap i now d = Inr (n, d') \<Longrightarrow> schema_ok d \<Longrightarrow> schema_ok d'"
  "set_attempts i k d = Inr (n, d') \<Longrightarrow> schema_ok d \<Longrightarrow> schema_ok d'"
  "mark_verified i now d = Inr (n, d') \<Longrightarrow> schema_ok d \<Longrightarrow> schema_ok d'"
  "activate_user i now d = Inr (n, d') \<Longrightarrow> schema_ok d \<Longrightarrow> schema_ok d'"
  "touch_user i now d = Inr (n, d') \<Longrightarrow> schema_ok d \<Longrightarrow> schema_ok d'"
  by (clarsimp simp: stmt_defs schema_defs schema_simps map_update_where unique_on_update
      refs_in_update image_update_where magic_hash_def Let_def; auto simp: set_update_where)+

lemma delete_verifications_schema:
  "delete_verifications p d = Inr (n, d') \<Longrightarrow> schema_ok d \<Longrightarrow> schema_ok d'"
  by (clarsimp simp: delete_verifications_def schema_defs schema_simps)

lemma delete_pending_user_schema:
  "delete_pending_user i d = Inr (n, d') \<Longrightarrow> schema_ok d \<Longrightarrow> schema_ok d'"
  unfolding delete_pending_user_def by (rule delete_users_schema)

lemma revoke_sessions_schema:
  assumes "revoke_sessions p rep now d = Inr (n, d')" "schema_ok d"
  shows "schema_ok d'"
proof -
  define q :: "session_row \<Rightarrow> bool" where "q = (\<lambda>s. p s \<and> s_revoked_at s = None)"
  define f :: "session_row \<Rightarrow> session_row" where "f = (\<lambda>s. s\<lparr>s_revoked_at := Some now,
    s_replaced_by := (case rep of None \<Rightarrow> s_replaced_by s | Some i \<Rightarrow> Some i)\<rparr>)"
  have d': "d' = d\<lparr>sessions := update_where q f (sessions d)\<rparr>"
    and fk: "0 < affected q (sessions d) \<Longrightarrow> rep = None \<or> the rep \<in> s_id ` set (sessions d)"
    using assms(1) by (auto simp: revoke_sessions_def q_def f_def Let_def has_key_iff
        split: if_splits option.splits)
  have f: "s_id (f s) = s_id s" "s_token_hash (f s) = s_token_hash s" "s_user_id (f s) = s_user_id s" for s
    by (simp_all add: f_def)
  have "refs_in s_replaced_by (sessions d) (session_ids d)"
    using assms(2) by (simp add: schema_ok_def refs_ok_def)
  moreover have "rep = Some k \<Longrightarrow> r \<in> set (sessions d) \<Longrightarrow> q r \<Longrightarrow> k \<in> session_ids d" for r k
    using fk by (auto simp: affected_pos id_defs)
  ultimately have "refs_in s_replaced_by (update_where q f (sessions d)) (session_ids d)"
    by (auto simp: refs_in_def set_update_where f_def split: option.splits)
  with assms(2) show ?thesis
    by (simp add: d' schema_defs f map_update_where image_update_where refs_in_update)
qed

lemmas statement_schema = insert_user_schema insert_cred_schema insert_tenant_schema
  insert_tenant_user_schema insert_user_role_schema insert_session_schema
  insert_verification_schema insert_email_record_schema insert_history_schema
  delete_email_records_schema delete_pending_user_schema delete_verifications_schema
  update_schema revoke_sessions_schema

text \<open>Only pending users are deleted, so a verified user and everything that cascades from it
  survive.\<close>

lemma delete_pending_user_mono:
  assumes del: "delete_pending_user i d = Inr (n, d')"
  shows "mono_rel d d'"
proof (rule mono_relI)
  assume "schema_ok d"
  with del show "schema_ok d'" by (rule delete_pending_user_schema)
next
  fix j t assume "verified_at j t d"
  with del show "verified_at j t d'"
    by (auto simp: delete_pending_user_def delete_users_def Let_def verified_at_def split: if_splits)
next
  fix j t s assume ok: "schema_ok d" and v: "verified_at j t d" and s: "s_user_id s = j" "revoked_row s d"
  from ok v have "\<forall>u \<in> set (users d). u_id u = j \<longrightarrow> u_email_verified_at u = Some t"
    by (auto simp: schema_defs verified_at_def dest: distinct_mapD)
  with del s show "revoked_row s d'"
    by (auto simp: delete_pending_user_def delete_users_def Let_def revoked_row_def split: if_splits)
next
  fix j t vid ty h assume ok: "schema_ok d" and v: "verified_at j t d" and c: "consumed vid j ty h d"
  from ok v have "\<forall>u \<in> set (users d). u_id u = j \<longrightarrow> u_email_verified_at u = Some t"
    by (auto simp: schema_defs verified_at_def dest: distinct_mapD)
  moreover from c obtain x where x: "x \<in> set (verifications d)" "v_user_id x = j" "v_id x = vid"
    "v_token_type x = ty" "v_token_hash x = h" "v_verified_at x \<noteq> None"
    by (auto simp: consumed_def)
  ultimately have "x \<in> set (verifications d')"
    using del by (auto simp: delete_pending_user_def delete_users_def Let_def split: if_splits)
  with x show "consumed vid j ty h d'" by (auto simp: consumed_def)
qed

lemma insert_mono:
  "insert_user ru d = Inr (n, d') \<Longrightarrow> mono_rel d d'"
  "insert_session rs d = Inr (n, d') \<Longrightarrow> s_replaced_by rs = None \<Longrightarrow> mono_rel d d'"
  "insert_verification rv d = Inr (n, d') \<Longrightarrow> mono_rel d d'"
  subgoal by (rule mono_relI, erule (1) insert_user_schema)
      (auto simp: mono_defs insert_user_def split: if_splits)
  subgoal by (rule mono_relI, erule (2) insert_session_schema)
      (auto simp: mono_defs insert_session_def split: if_splits)
  subgoal by (rule mono_relI, erule (1) insert_verification_schema)
      (auto simp: mono_defs insert_verification_def split: if_splits)
  done

lemma consumed_update:
  assumes "consumed vid uid ty h d"
    and "\<And>v. p v \<Longrightarrow> v_id (f v) = v_id v \<and> v_user_id (f v) = v_user_id v \<and>
      v_token_type (f v) = v_token_type v \<and> v_token_hash (f v) = v_token_hash v \<and>
      (v_verified_at v \<noteq> None \<longrightarrow> v_verified_at (f v) \<noteq> None)"
  shows "consumed vid uid ty h (d\<lparr>verifications := update_where p f (verifications d)\<rparr>)"
proof -
  obtain v where v: "v \<in> set (verifications d)" "v_id v = vid" "v_user_id v = uid"
    "v_token_type v = ty" "v_token_hash v = h" "v_verified_at v \<noteq> None"
    using assms(1) by (auto simp: consumed_def)
  define x where "x = (if p v then f v else v)"
  have "x \<in> set (update_where p f (verifications d))"
    using v(1) by (auto simp: set_update_where x_def)
  moreover have "v_id x = vid \<and> v_user_id x = uid \<and> v_token_type x = ty \<and> v_token_hash x = h
      \<and> v_verified_at x \<noteq> None"
    using v assms(2) [of v] by (auto simp: x_def)
  ultimately show ?thesis unfolding consumed_def by auto
qed

lemma mono_rel_verifications:
  assumes "schema_ok d \<Longrightarrow> schema_ok (d\<lparr>verifications := update_where p f (verifications d)\<rparr>)"
    and "\<And>v. p v \<Longrightarrow> v_id (f v) = v_id v \<and> v_user_id (f v) = v_user_id v \<and>
      v_token_type (f v) = v_token_type v \<and> v_token_hash (f v) = v_token_hash v \<and>
      (v_verified_at v \<noteq> None \<longrightarrow> v_verified_at (f v) \<noteq> None)"
  shows "mono_rel d (d\<lparr>verifications := update_where p f (verifications d)\<rparr>)"
  using assms by (intro mono_relI consumed_update) (auto simp: verified_at_def revoked_row_def)

lemma update_verifications_mono:
  "expire_outstanding i now d = Inr (n, d') \<Longrightarrow> mono_rel d d'"
  "restore_expiry snap i now d = Inr (n, d') \<Longrightarrow> mono_rel d d'"
  "set_attempts i k d = Inr (n, d') \<Longrightarrow> mono_rel d d'"
  "mark_verified i now d = Inr (n, d') \<Longrightarrow> mono_rel d d'"
  using update_schema(1) [of i now d n d'] update_schema(2) [of snap i now d n d']
    update_schema(3) [of i k d n d'] update_schema(4) [of i now d n d']
  by (auto simp: stmt_defs Let_def intro!: mono_rel_verifications)

lemma delete_verifications_mono:
  assumes "delete_verifications p d = Inr (n, d')" "\<And>v. p v \<Longrightarrow> v_verified_at v = None"
  shows "mono_rel d d'"
proof (rule mono_relI)
  fix i t vid ty h assume "consumed vid i ty h d"
  with assms show "consumed vid i ty h d'"
    by (fastforce simp: consumed_def delete_verifications_def)
next
  show "schema_ok d \<Longrightarrow> schema_ok d'" by (rule delete_verifications_schema [OF assms(1)])
qed (use assms in \<open>auto simp: delete_verifications_def mono_defs\<close>)

lemma mono_rel_users:
  assumes "schema_ok d \<Longrightarrow> schema_ok (d\<lparr>users := update_where p f (users d)\<rparr>)"
    and "\<And>u. p u \<Longrightarrow> u_id (f u) = u_id u \<and>
      (u_email_verified_at u \<noteq> None \<longrightarrow> u_email_verified_at (f u) = u_email_verified_at u)"
  shows "mono_rel d (d\<lparr>users := update_where p f (users d)\<rparr>)"
proof (rule mono_relI)
  fix i t assume "verified_at i t d"
  then obtain u where u: "u \<in> set (users d)" "u_id u = i" "u_email_verified_at u = Some t"
    by (auto simp: verified_at_def)
  then have "(if p u then f u else u) \<in> set (update_where p f (users d))"
    by (auto simp: set_update_where)
  with u assms(2) [of u] show "verified_at i t (d\<lparr>users := update_where p f (users d)\<rparr>)"
    unfolding verified_at_def by (intro bexI [of _ "if p u then f u else u"]) auto
qed (auto simp: assms(1) revoked_row_def consumed_def)

lemma update_users_mono:
  "activate_user i now d = Inr (n, d') \<Longrightarrow> mono_rel d d'"
  "touch_user i now d = Inr (n, d') \<Longrightarrow> mono_rel d d'"
  using update_schema(5,6) [of i now d n d']
  by (auto simp: activate_user_def touch_user_def Let_def intro!: mono_rel_users)

lemma revoke_sessions_mono:
  assumes "revoke_sessions p rep now d = Inr (n, d')"
  shows "mono_rel d d'"
  by (rule mono_relI, rule revoke_sessions_schema [OF assms])
    (use assms in \<open>force simp: mono_defs revoke_sessions_def Let_def set_update_where split: if_splits\<close>)+

lemma other_mono:
  "insert_cred rc d = Inr (n, d') \<Longrightarrow> mono_rel d d'"
  "insert_tenant rt d = Inr (n, d') \<Longrightarrow> mono_rel d d'"
  "insert_tenant_user rtu d = Inr (n, d') \<Longrightarrow> mono_rel d d'"
  "insert_user_role rur d = Inr (n, d') \<Longrightarrow> mono_rel d d'"
  "insert_email_record re d = Inr (n, d') \<Longrightarrow> mono_rel d d'"
  "delete_email_records pe d = Inr (n, d') \<Longrightarrow> mono_rel d d'"
  by (rule mono_rel_frame, erule (1) statement_schema; auto simp: stmt_defs Let_def split: if_splits)+

interpretation mono: store_relation mono_rel
proof unfold_locales
  show "mono_rel d d" for d by (simp add: mono_rel_def)
next
  fix d d' d'' assume "mono_rel d d'" "mono_rel d' d''"
  then show "mono_rel d d''" unfolding mono_rel_def by blast
qed (erule insert_mono other_mono update_verifications_mono update_users_mono
    delete_verifications_mono delete_pending_user_mono revoke_sessions_mono; simp)+

text \<open>The attempt counter of a verification never passes one more than the limit.\<close>

definition attempts_bounded :: "db \<Rightarrow> bool" where
  "attempts_bounded d \<longleftrightarrow> (\<forall>v \<in> set (verifications d). v_attempts v \<le> maxOTPVerificationAttempts + 1)"

interpretation attempts: store_relation "\<lambda>d d'. attempts_bounded d \<longrightarrow> attempts_bounded d'"
  by unfold_locales (auto simp: attempts_bounded_def stmt_defs set_update_where Let_def
      maxOTPVerificationAttempts_def split: if_splits option.splits)

text \<open>Every stored expiry is a value of the column type: whole microseconds.\<close>

definition expiry_ok :: "db \<Rightarrow> bool" where
  "expiry_ok d \<longleftrightarrow> (\<forall>v \<in> set (verifications d). pg_ts (v_expires_at v) = v_expires_at v)"

interpretation expiry: store_relation "\<lambda>d d'. expiry_ok d \<longrightarrow> expiry_ok d'"
  by unfold_locales (auto simp: expiry_ok_def stmt_defs set_update_where Let_def
      split: if_splits option.splits)

subsection \<open>All-or-nothing methods\<close>

lemma tx_quiet_if [atomic]: "tx_quiet m \<Longrightarrow> tx_quiet n \<Longrightarrow> tx_quiet (if b then m else n)"
  by simp

lemma all_or_nothing_if [atomic]:
  "all_or_nothing m \<Longrightarrow> all_or_nothing n \<Longrightarrow> all_or_nothing (if b then m else n)"
  by simp

lemma all_or_nothing_fail [atomic]: "all_or_nothing (fail e)"
  by (simp add: all_or_nothing_def fail_def)

lemma all_or_nothing_last_commit [atomic]: "all_or_nothing tx_commit"
  by (auto simp: all_or_nothing_def proc_defs)

lemma tx_quiet_helpers [atomic]:
  "tx_quiet (scan_string x)"
  "tx_quiet (insertRegisteredUserWithPassword L i e p c)"
  "tx_quiet (createVerificationWithIDsTx L params)"
  unfolding scan_string_def insertRegisteredUserWithPassword_def createVerificationWithIDsTx_def
  by (auto intro!: atomic split: option.split)

lemma tx_quiet_restore_all [atomic]: "tx_quiet (restore_all snaps i t)"
  by (induction snaps) (auto intro!: atomic)

lemma all_or_nothing_store:
  "all_or_nothing (Store_Register L e p c)"
  "all_or_nothing (Store_RegisterWithVerification L e p c otp mt ex)"
  "all_or_nothing (Store_CreateVerification L params)"
  "all_or_nothing (Store_CleanupPendingRegistration i)"
  "all_or_nothing (Store_ResendVerification L e otp mt ex now)"
  "all_or_nothing (Store_VerifyMagicLinkToken L mt now)"
  "all_or_nothing (Store_Bootstrap L e p tn c)"
  "all_or_nothing (Store_RotateRefreshToken L old new ex)"
  unfolding Store_Register_def Store_RegisterWithVerification_def Store_CreateVerification_def
    Store_CleanupPendingRegistration_def Store_ResendVerification_def Store_VerifyMagicLinkToken_def
    Store_Bootstrap_def Store_RotateRefreshToken_def createVerificationTx_def
    bootstrap_new_owner_def bootstrap_existing_owner_def Let_def
  by (auto intro!: atomic split: prod.split)

end
