(* ===== verification/Auth_Sessions.thy ===== *)
theory Auth_Sessions
  imports Auth_Steps Samples
begin

text \<open>
  Refresh sessions: what rotation, logout and logout-all do to the session table, seen
  through \<open>session_by_hash\<close>, the lookup every client of the table uses.
\<close>

subsection \<open>Lookup in a table that satisfies the schema\<close>

lemma session_by_hash_eq:
  assumes "schema_ok d"
  shows "session_by_hash h d = Some s \<longleftrightarrow> s \<in> set (sessions d) \<and> s_token_hash s = h"
  using assms find_key [of s_token_hash "sessions d" s]
  by (auto simp: session_by_hash_def schema_ok_def keys_ok_def dest: find_SomeD)

lemma session_by_hash_None: "session_by_hash h d = None \<longleftrightarrow> h \<notin> s_token_hash ` set (sessions d)"
  by (auto simp: session_by_hash_def find_None_iff_all)

lemma find_update_where:
  "(\<And>r. p r \<Longrightarrow> key (f r) = key r) \<Longrightarrow>
   List.find (\<lambda>r. key r = k) (update_where p f rows) =
     map_option (\<lambda>r. if p r then f r else r) (List.find (\<lambda>r. key r = k) rows)"
  by (induction rows) auto

definition rotated :: "instant \<Rightarrow> string \<Rightarrow> session_row \<Rightarrow> session_row" where
  "rotated now newID s = s\<lparr>s_revoked_at := Some now, s_replaced_by := Some newID\<rparr>"

definition fresh_session :: "string \<Rightarrow> string \<Rightarrow> string \<Rightarrow> instant \<Rightarrow> instant \<Rightarrow> session_row" where
  "fresh_session i uid h ex now = \<lparr>s_id = i, s_user_id = uid, s_token_hash = h, s_user_agent = None,
     s_ip = None, s_expires_at = pg_ts ex, s_revoked_at = None, s_replaced_by = None, s_created_at = now\<rparr>"

text \<open>Everything a successful rotation implies.\<close>

lemma rotate_run:
  assumes "Store_RotateRefreshToken L oldTok newTok ex w = (Inr (uid, tid), w')"
  obtains s newID now where
    "session_by_hash (HashRefreshToken L oldTok) (disk w) = Some s" "s_revoked_at s = None"
    "o_clock (orc w) (tick w + 2) \<le> s_expires_at s" "uid = s_user_id s" "tid = []"
    "newID \<notin> s_id ` set (sessions (disk w))"
    "HashRefreshToken L newTok \<notin> s_token_hash ` set (sessions (disk w))"
    "disk w' = (disk w)\<lparr>sessions := update_where
        (\<lambda>x. s_token_hash x = HashRefreshToken L oldTok \<and> s_revoked_at x = None) (rotated now newID)
        (sessions (disk w)) @ [fresh_session newID uid (HashRefreshToken L newTok) ex now]\<rparr>"
proof -
  have "\<exists>s. session_by_hash (HashRefreshToken L oldTok) (disk w) = Some s \<and> s_revoked_at s = None \<and>
    o_clock (orc w) (Suc (Suc (tick w))) \<le> s_expires_at s \<and> uid = s_user_id s \<and> tid = [] \<and>
    o_uuid (orc w) (Suc (Suc (Suc (tick w)))) \<notin> s_id ` set (sessions (disk w)) \<and>
    HashRefreshToken L newTok \<notin> s_token_hash ` set (sessions (disk w)) \<and>
    disk w' = (disk w)\<lparr>sessions := update_where
        (\<lambda>x. s_token_hash x = HashRefreshToken L oldTok \<and> s_revoked_at x = None)
        (rotated (o_dbclock (orc w) (tick w)) (o_uuid (orc w) (Suc (Suc (Suc (tick w))))))
        (sessions (disk w)) @ [fresh_session (o_uuid (orc w) (Suc (Suc (Suc (tick w))))) uid
          (HashRefreshToken L newTok) ex (o_dbclock (orc w) (tick w))]\<rparr>"
    using assms
    apply (clarsimp simp: Store_RotateRefreshToken_def HashRefreshToken_def Let_def runs
        run_query_error split: if_splits)
    apply (clarsimp simp: insert_session_def revoke_sessions_def clash_Some Let_def split: if_splits)
    apply (auto simp: session_by_hash_def rotated_def [abs_def] fresh_session_def image_iff dest!: find_SomeD)
    done
  then show ?thesis using that by (auto simp: numeral_2_eq_2)
qed

text \<open>The sample database satisfies the schema and rotates its session.\<close>

lemma sample_schema: "schema_ok sample_db" "verified_at ''alice'' 0 sample_db"
  by code_simp+

lemma sample_rotation:
  "fst (Store_RotateRefreshToken sample_lib ''old'' ''new'' 5000000000 (sample_world sample_db)) =
     Inr (''alice'', [])"
  by code_simp

text \<open>A session that is revoked stays refused in every database that extends it monotonically, and a
  rotation leaves the session it replaces revoked.\<close>

lemma revoked_refused:
  assumes "session_by_hash (HashRefreshToken L tok) d = Some s" "s_revoked_at s \<noteq> None"
    and "schema_ok d" "verified_at (s_user_id s) t d" "mono_rel d (disk v)"
  shows "fst (Store_RotateRefreshToken L tok newTok ex v) \<in> {Inl ErrRefreshSessionRevoked, Inl db_error}
    \<and> disk (snd (Store_RotateRefreshToken L tok newTok ex v)) = disk v"
proof -
  have "schema_ok (disk v)" "revoked_row s (disk v)"
    using assms session_by_hash_eq [OF assms(3)] unfolding mono_rel_def revoked_row_def by blast+
  then have "session_by_hash (HashRefreshToken L tok) (disk v) = Some s"
    using assms(1) session_by_hash_eq [OF assms(3)] by (auto simp: session_by_hash_eq revoked_row_def)
  with assms(2) show ?thesis
    by (simp add: Store_RotateRefreshToken_def HashRefreshToken_def proc_defs Let_def)
qed

lemma rotate_revokes:
  assumes "Store_RotateRefreshToken L oldTok newTok ex w = (Inr (uid, tid), w')"
    and "schema_ok (disk w)" "verified_at uid t (disk w)"
  obtains s where "session_by_hash (HashRefreshToken L oldTok) (disk w') = Some s" "s_revoked_at s \<noteq> None"
    "s_user_id s = uid" "schema_ok (disk w')" "verified_at uid t (disk w')"
proof -
  obtain s newID now where s: "session_by_hash (HashRefreshToken L oldTok) (disk w) = Some s"
    "s_revoked_at s = None" "uid = s_user_id s"
    and w': "disk w' = (disk w)\<lparr>sessions := update_where
        (\<lambda>x. s_token_hash x = HashRefreshToken L oldTok \<and> s_revoked_at x = None) (rotated now newID)
        (sessions (disk w)) @ [fresh_session newID uid (HashRefreshToken L newTok) ex now]\<rparr>"
    using assms(1) by (rule rotate_run) blast
  have ok: "schema_ok (disk w')" "verified_at uid t (disk w')"
    using mono.store_step_keeps [OF store_step.RotateRefreshToken [OF assms(1)]] assms(2,3) by (auto simp: mono_rel_def)
  have "rotated now newID s \<in> set (sessions (disk w'))"
    using s session_by_hash_eq [OF assms(2)] by (auto simp: w' set_update_where)
  with ok show ?thesis
    using that [of "rotated now newID s"] s session_by_hash_eq [OF assms(2)] session_by_hash_eq [OF ok(1)]
    by (auto simp: rotated_def)
qed

subsection \<open>The abstract session registry\<close>

text \<open>What the table promises its clients: a partial map from token hashes to the owner of the
  session and, while it is active, its expiry.\<close>

datatype session_state = Active string instant | Revoked string

type_synonym registry = "string \<rightharpoonup> session_state"

definition state_of :: "session_row \<Rightarrow> session_state" where
  "state_of s = (case s_revoked_at s of None \<Rightarrow> Active (s_user_id s) (s_expires_at s)
     | Some _ \<Rightarrow> Revoked (s_user_id s))"

definition abs_sessions :: "db \<Rightarrow> registry" where
  "abs_sessions d h = map_option state_of (session_by_hash h d)"

definition revoke_state :: "session_state \<Rightarrow> session_state" where
  "revoke_state x = (case x of Active u e \<Rightarrow> Revoked u | Revoked u \<Rightarrow> Revoked u)"

definition owner :: "session_state \<Rightarrow> string" where
  "owner x = (case x of Active u e \<Rightarrow> u | Revoked u \<Rightarrow> u)"

definition spec_save :: "string \<Rightarrow> string \<Rightarrow> instant \<Rightarrow> registry \<Rightarrow> registry" where
  "spec_save h uid ex m = m(h \<mapsto> Active uid (pg_ts ex))"

definition spec_revoke :: "string \<Rightarrow> registry \<Rightarrow> registry" where
  "spec_revoke h m = m(h := map_option revoke_state (m h))"

definition spec_rotate :: "string \<Rightarrow> string \<Rightarrow> instant \<Rightarrow> registry \<Rightarrow> registry" where
  "spec_rotate old new ex m =
     (case m old of Some (Active uid e) \<Rightarrow> spec_save new uid ex (spec_revoke old m) | _ \<Rightarrow> m)"

definition spec_revoke_all :: "string \<Rightarrow> registry \<Rightarrow> registry" where
  "spec_revoke_all uid m = (\<lambda>h. map_option (\<lambda>x. if owner x = uid then revoke_state x else x) (m h))"

lemma state_of_simps [simp]:
  "state_of (rotated now i s) = Revoked (s_user_id s)"
  "state_of (s\<lparr>s_revoked_at := Some t\<rparr>) = Revoked (s_user_id s)"
  "s_revoked_at s = None \<Longrightarrow> state_of s = Active (s_user_id s) (s_expires_at s)"
  "s_revoked_at s = Some t \<Longrightarrow> state_of s = Revoked (s_user_id s)"
  "state_of (fresh_session i uid h ex now) = Active uid (pg_ts ex)"
  "owner (state_of s) = s_user_id s"
  by (auto simp: state_of_def rotated_def fresh_session_def owner_def split: option.splits)

lemma revoke_state_simps [simp]: "revoke_state x = Revoked (owner x)" "owner (Active u e) = u" "owner (Revoked u) = u"
  by (auto simp: owner_def revoke_state_def split: session_state.split)

lemma session_by_hash_snoc:
  "session_by_hash h (d\<lparr>sessions := rows @ [r]\<rparr>) =
     (case session_by_hash h (d\<lparr>sessions := rows\<rparr>) of
        None \<Rightarrow> if s_token_hash r = h then Some r else None | Some x \<Rightarrow> Some x)"
  by (auto simp: session_by_hash_def find_append split: option.split)

lemma session_by_hash_update:
  "(\<And>r. s_token_hash (f r) = s_token_hash r) \<Longrightarrow>
   session_by_hash h (d\<lparr>sessions := update_where p f (sessions d)\<rparr>) =
     map_option (\<lambda>r. if p r then f r else r) (session_by_hash h d)"
  by (simp add: session_by_hash_def find_update_where)

lemma rotated_hash [simp]: "s_token_hash (rotated now i s) = s_token_hash s"
  by (simp add: rotated_def)

lemma fresh_session_hash [simp]: "s_token_hash (fresh_session i uid h ex now) = h"
  by (simp add: fresh_session_def)

lemma session_by_hash_hash: "session_by_hash h d = Some s \<Longrightarrow> s_token_hash s = h"
  by (auto simp: session_by_hash_def dest: find_SomeD)

text \<open>C6: rotation implements its specification: it succeeds only on an active, unexpired session,
  returns its owner, revokes the old token and registers the new one for the same user with the
  given expiry; every other token keeps its state and every other table is untouched.\<close>

theorem rotate_refines:
  assumes "Store_RotateRefreshToken L oldTok newTok ex w = (Inr (uid, tid), w')"
  shows "\<exists>e. abs_sessions (disk w) (HashRefreshToken L oldTok) = Some (Active uid e)
      \<and> o_clock (orc w) (tick w + 2) \<le> e
      \<and> abs_sessions (disk w') = spec_rotate (HashRefreshToken L oldTok) (HashRefreshToken L newTok) ex
          (abs_sessions (disk w))
      \<and> disk w' = (disk w)\<lparr>sessions := sessions (disk w')\<rparr>"
proof -
  obtain s newID now where s: "session_by_hash (HashRefreshToken L oldTok) (disk w) = Some s"
    "s_revoked_at s = None" "o_clock (orc w) (tick w + 2) \<le> s_expires_at s" "uid = s_user_id s"
    and new: "HashRefreshToken L newTok \<notin> s_token_hash ` set (sessions (disk w))"
    and w': "disk w' = (disk w)\<lparr>sessions := update_where
        (\<lambda>x. s_token_hash x = HashRefreshToken L oldTok \<and> s_revoked_at x = None) (rotated now newID)
        (sessions (disk w)) @ [fresh_session newID uid (HashRefreshToken L newTok) ex now]\<rparr>"
    using assms by (rule rotate_run) blast
  have "HashRefreshToken L newTok \<noteq> HashRefreshToken L oldTok"
    using new s(1) by (metis option.distinct(1) session_by_hash_None)
  moreover have "session_by_hash (HashRefreshToken L newTok) (disk w) = None"
    using new by (simp add: session_by_hash_None)
  ultimately have "abs_sessions (disk w') = spec_rotate (HashRefreshToken L oldTok)
      (HashRefreshToken L newTok) ex (abs_sessions (disk w))"
    using s by (auto simp: fun_eq_iff abs_sessions_def w' session_by_hash_snoc session_by_hash_update
        spec_rotate_def spec_save_def spec_revoke_def split: option.splits dest: session_by_hash_hash)
  with s w' show ?thesis by (auto simp: abs_sessions_def)
qed

theorem rotate_refines_witness:
  "abs_sessions (disk (snd (Store_RotateRefreshToken sample_lib ''old'' ''new'' 5000000000
     (sample_world sample_db)))) =
   spec_rotate (HashRefreshToken sample_lib ''old'') (HashRefreshToken sample_lib ''new'') 5000000000
     (abs_sessions sample_db)"
  using rotate_refines [OF run_result [OF sample_rotation]] by (auto simp: sample_world_def)

lemma filter_update_where_other:
  "(\<And>r. p r \<Longrightarrow> \<not> q r \<and> \<not> q (f r)) \<Longrightarrow> filter q (update_where p f rows) = filter q rows"
  by (induction rows) auto

lemma filter_update_where_none:
  "(\<And>r. p r \<Longrightarrow> \<not> p (f r)) \<Longrightarrow> filter p (update_where p f rows) = []"
  by (induction rows) auto

text \<open>The statement behind both logouts.\<close>

lemma revoke_run:
  assumes "pool_exec (revoke_sessions p None) w = (Inr n, w')"
  shows "n = affected (\<lambda>s. p s \<and> s_revoked_at s = None) (sessions (disk w))"
    and "disk w' = (disk w)\<lparr>sessions := update_where (\<lambda>s. p s \<and> s_revoked_at s = None)
       (\<lambda>s. s\<lparr>s_revoked_at := Some (o_dbclock (orc w) (tick w))\<rparr>) (sessions (disk w))\<rparr>"
  using assms by (auto simp: runs revoke_sessions_def Let_def split: if_splits)

lemma revoke_leaves_revoked:
  assumes "pool_exec (revoke_sessions p None) w = (Inr n, w')"
    and "session_by_hash h (disk w) = Some s" "p s"
  obtains s' where "session_by_hash h (disk w') = Some s'" "s_revoked_at s' \<noteq> None" "s_user_id s' = s_user_id s"
  using that assms(2,3) by (auto simp: revoke_run(2) [OF assms(1)] session_by_hash_update split: if_splits)

text \<open>logging out one session revokes exactly the session of that token, and succeeds on an
  unknown or already revoked token without changing anything.\<close>

theorem revoke_refines:
  assumes "Store_RevokeRefreshToken L tok w = (Inr u, w')"
  shows "abs_sessions (disk w') = spec_revoke (HashRefreshToken L tok) (abs_sessions (disk w))
    \<and> disk w' = (disk w)\<lparr>sessions := sessions (disk w')\<rparr>"
proof -
  obtain n where "pool_exec (revoke_sessions (\<lambda>s. s_token_hash s = HashRefreshToken L tok) None) w = (Inr n, w')"
    using assms by (auto simp: Store_RevokeRefreshToken_def HashRefreshToken_def run_ebind run_pure)
  note w' = revoke_run(2) [OF this]
  have "abs_sessions (disk w') h = spec_revoke (HashRefreshToken L tok) (abs_sessions (disk w)) h" for h
    by (cases "session_by_hash h (disk w)")
      (auto simp: abs_sessions_def w' session_by_hash_update spec_revoke_def dest: session_by_hash_hash)
  with w' show ?thesis by auto
qed

theorem revoke_refines_witness:
  "abs_sessions (disk (snd (Store_RevokeRefreshToken sample_lib ''old'' (sample_world sample_db)))) =
   spec_revoke (HashRefreshToken sample_lib ''old'') (abs_sessions sample_db)"
proof -
  have "fst (Store_RevokeRefreshToken sample_lib ''old'' (sample_world sample_db)) = Inr ()" by code_simp
  from revoke_refines [OF run_result [OF this]] show ?thesis by (auto simp: sample_world_def)
qed

text \<open>Logging out everywhere revokes every active session of that user and no session of
  another user, and reports how many sessions it ended; a second call reports zero.\<close>

theorem revoke_all_refines:
  assumes "Store_RevokeAllRefreshTokensByUser uid w = (Inr n, w')"
  shows "abs_sessions (disk w') = spec_revoke_all uid (abs_sessions (disk w))
    \<and> n = length (filter (\<lambda>s. s_user_id s = uid \<and> s_revoked_at s = None) (sessions (disk w)))
    \<and> filter (\<lambda>s. s_user_id s = uid \<and> s_revoked_at s = None) (sessions (disk w')) = []
    \<and> filter (\<lambda>s. s_user_id s \<noteq> uid) (sessions (disk w')) =
        filter (\<lambda>s. s_user_id s \<noteq> uid) (sessions (disk w))
    \<and> disk w' = (disk w)\<lparr>sessions := sessions (disk w')\<rparr>"
proof -
  note w' = revoke_run [OF assms [unfolded Store_RevokeAllRefreshTokensByUser_def]]
  have "abs_sessions (disk w') h = spec_revoke_all uid (abs_sessions (disk w)) h" for h
    by (cases "session_by_hash h (disk w)")
      (auto simp: abs_sessions_def w'(2) session_by_hash_update spec_revoke_all_def)
  then have "abs_sessions (disk w') = spec_revoke_all uid (abs_sessions (disk w))" by blast
  moreover have "filter (\<lambda>s. s_user_id s \<noteq> uid) (sessions (disk w')) =
      filter (\<lambda>s. s_user_id s \<noteq> uid) (sessions (disk w))"
    unfolding w'(2) by simp (rule filter_update_where_other, simp)
  moreover have "filter (\<lambda>s. s_user_id s = uid \<and> s_revoked_at s = None) (sessions (disk w')) = []"
    unfolding w'(2) by simp (rule filter_update_where_none, simp)
  ultimately show ?thesis by (simp add: w' affected_def)
qed

theorem revoke_all_refines_witness:
  "abs_sessions (disk (snd (Store_RevokeAllRefreshTokensByUser ''alice'' (sample_world sample_db)))) =
   spec_revoke_all ''alice'' (abs_sessions sample_db)"
proof -
  have "fst (Store_RevokeAllRefreshTokensByUser ''alice'' (sample_world sample_db)) = Inr 1" by code_simp
  from revoke_all_refines [OF run_result [OF this]] show ?thesis by (auto simp: sample_world_def)
qed

text \<open>the session saved at login is registered under the hash of the token, for the user,
  with the given expiry, and a token hash that is already registered is refused.\<close>

theorem save_refines:
  assumes "Store_SaveRefreshSession L tok uid ex ua ip w = (Inr u, w')"
  shows "abs_sessions (disk w) (HashRefreshToken L tok) = None
    \<and> abs_sessions (disk w') = spec_save (HashRefreshToken L tok) uid ex (abs_sessions (disk w))
    \<and> uid \<in> u_id ` set (users (disk w))
    \<and> disk w' = (disk w)\<lparr>sessions := sessions (disk w')\<rparr>"
proof -
  let ?r = "\<lparr>s_id = o_uuid (orc w) (tick w), s_user_id = uid, s_token_hash = HashRefreshToken L tok,
    s_user_agent = Some ua, s_ip = Some ip, s_expires_at = pg_ts ex, s_revoked_at = None,
    s_replaced_by = None, s_created_at = o_dbclock (orc w) (Suc (tick w))\<rparr>"
  have r: "disk w' = (disk w)\<lparr>sessions := sessions (disk w) @ [?r]\<rparr>"
    "HashRefreshToken L tok \<notin> s_token_hash ` set (sessions (disk w))" "uid \<in> u_id ` set (users (disk w))"
    using assms by (auto simp: Store_SaveRefreshSession_def HashRefreshToken_def runs insert_session_def
        clash_Some has_key_iff split: if_splits)
  then have "session_by_hash (HashRefreshToken L tok) (disk w) = None"
    by (simp add: session_by_hash_None)
  with r show ?thesis
    by (auto simp: fun_eq_iff abs_sessions_def session_by_hash_snoc spec_save_def
        split: option.split)
qed

theorem save_refines_witness:
  "abs_sessions (disk (snd (Store_SaveRefreshSession sample_lib ''t'' ''alice'' 7 ''ua'' ''ip''
     (sample_world sample_db)))) = spec_save (HashRefreshToken sample_lib ''t'') ''alice'' 7 (abs_sessions sample_db)"
proof -
  have "fst (Store_SaveRefreshSession sample_lib ''t'' ''alice'' 7 ''ua'' ''ip'' (sample_world sample_db)) = Inr ()"
    by code_simp
  from save_refines [OF run_result [OF this]] show ?thesis by (auto simp: sample_world_def)
qed

text \<open>rotation is all-or-nothing: when it reports an error, whatever call failed, the committed
  database is what it was, so the old token is still usable and no orphan session exists.\<close>

theorem rotate_atomic:
  assumes "Store_RotateRefreshToken L oldTok newTok ex w = (Inl e, w')"
  shows "disk w' = disk w"
  using all_or_nothing_store(8) [of L oldTok newTok ex] assms
  by (auto simp: all_or_nothing_def dest: spec [of _ w])

theorem rotate_atomic_witness:
  "disk (snd (Store_RotateRefreshToken sample_lib ''unknown'' ''new'' 9 (sample_world sample_db))) = sample_db"
proof -
  have "fst (Store_RotateRefreshToken sample_lib ''unknown'' ''new'' 9 (sample_world sample_db)) =
      Inl ErrRefreshSessionNotFound" by code_simp
  from rotate_atomic [OF run_error [OF this]] show ?thesis by (simp add: sample_world_def)
qed

text \<open>an active session that has not expired can be rotated when nothing fails and the new
  identifiers are fresh: the call returns the owner.\<close>

theorem rotate_succeeds:
  assumes "no_faults (orc w)" "schema_ok (disk w)"
    and "session_by_hash (HashRefreshToken L oldTok) (disk w) = Some s" "s_revoked_at s = None"
    and "o_clock (orc w) (tick w + 2) \<le> s_expires_at s"
    and "o_uuid (orc w) (tick w + 3) \<notin> s_id ` set (sessions (disk w))"
    and "HashRefreshToken L newTok \<notin> s_token_hash ` set (sessions (disk w))"
  shows "fst (Store_RotateRefreshToken L oldTok newTok ex w) = Inr (s_user_id s, [])"
proof -
  have "s \<in> set (sessions (disk w))" using assms(2,3) session_by_hash_eq by blast
  then have "s_user_id s \<in> u_id ` set (users (disk w))"
    using assms(2) by (auto simp: schema_defs refs_in_def)
  with assms show ?thesis
    by (simp add: Store_RotateRefreshToken_def HashRefreshToken_def proc_defs Let_def insert_session_def
        revoke_sessions_def clash_Some has_key_iff numeral_2_eq_2 numeral_3_eq_3)
qed

theorem rotate_succeeds_witness:
  "fst (Store_RotateRefreshToken sample_lib ''old'' ''new'' 9 (sample_world sample_db)) = Inr (''alice'', [])"
proof -
  have "session_by_hash (HashRefreshToken sample_lib ''old'') sample_db = Some sample_session"
    "HashRefreshToken sample_lib ''new'' \<notin> s_token_hash ` set (sessions sample_db)"
    "o_uuid sample_orc (0 + 3) \<notin> s_id ` set (sessions sample_db)"
    "o_clock sample_orc (0 + 2) \<le> s_expires_at sample_session" by code_simp+
  with rotate_succeeds [of "sample_world sample_db" sample_lib "''old''" sample_session "''new''" 9]
  show ?thesis using sample_schema by (simp add: sample_world_def sample_session_def)
qed

end
