(* ===== verification/Auth_Verification.thy ===== *)
theory Auth_Verification
  imports Auth_Steps Samples
begin

text \<open>
  Email verification: one-time codes, magic links, resending and its rollback, and the
  compensation of a registration whose mail could not be queued.
\<close>

subsection \<open>The pending code of an address\<close>

lemma first_by_update:
  assumes "\<And>x y. before (f x) (f y) = before x y"
  shows "first_by before (map f rows) = map_option f (first_by before rows)"
proof -
  have "List.find (\<lambda>r. list_all (\<lambda>x. \<not> before x r) (map f all)) (map f rows) =
      map_option f (List.find (\<lambda>r. list_all (\<lambda>x. \<not> before x r) all) rows)" for all
    using assms by (induction rows) (auto simp: list_all_iff)
  then show ?thesis by (simp add: first_by_def)
qed

lemma pending_otp_set_attempts:
  assumes "set_attempts vid k d = Inr (n, d')"
  shows "pending_otp addr d' = map_option (\<lambda>v. if v_id v = vid then v\<lparr>v_attempts := k\<rparr> else v) (pending_otp addr d)"
proof -
  let ?f = "\<lambda>v :: verification_row. if v_id v = vid then v\<lparr>v_attempts := k\<rparr> else v"
  let ?P = "\<lambda>v :: verification_row. v_token_type v = ''otp'' \<and> v_verified_at v = None \<and>
        list_ex (\<lambda>u. u_id u = v_user_id v \<and> u_email u = Some addr) (users d)"
  have "filter ?P (map ?f rows) = map ?f (filter ?P rows)" for rows
    by (induction rows) auto
  moreover have "first_by newer (map ?f rows) = map_option ?f (first_by newer rows)" for rows
    by (rule first_by_update) (simp add: newer_def)
  ultimately show ?thesis
    using assms by (auto simp: pending_otp_def set_attempts_def update_where_def)
qed

text \<open>A wrong guess against a live code.\<close>

lemma wrong_guess:
  assumes "no_faults (orc w)" "pending_otp addr (disk w) = Some ev"
    and "v_attempts ev \<le> maxOTPVerificationAttempts" "now < v_expires_at ev"
    and "HashToken L g \<noteq> v_token_hash ev"
  shows "fst (Store_VerifyEmailOTP L addr g now w) =
      (if v_attempts ev = maxOTPVerificationAttempts then Inl ErrTooManyOTPAttempts else Inl ErrInvalidVerificationOTP)"
    and "pending_otp addr (disk (snd (Store_VerifyEmailOTP L addr g now w))) =
      Some (ev\<lparr>v_attempts := v_attempts ev + 1\<rparr>)"
    and "users (disk (snd (Store_VerifyEmailOTP L addr g now w))) = users (disk w)"
    and "orc (snd (Store_VerifyEmailOTP L addr g now w)) = orc w"
proof -
  obtain n d' where sa: "set_attempts (v_id ev) (v_attempts ev + 1) (disk w) = Inr (n, d')"
    "users d' = users (disk w)"
    by (auto simp: set_attempts_def)
  have run: "Store_VerifyEmailOTP L addr g now w =
      (if v_attempts ev = maxOTPVerificationAttempts then Inl ErrTooManyOTPAttempts else Inl ErrInvalidVerificationOTP,
       w\<lparr>txnow := o_dbclock (orc w) (tick w), tick := Suc (Suc (Suc (Suc (tick w)))), disk := d', work := d'\<rparr>)"
    using assms sa by (auto simp: Store_VerifyEmailOTP_def proc_defs Let_def)
  show "fst (Store_VerifyEmailOTP L addr g now w) =
      (if v_attempts ev = maxOTPVerificationAttempts then Inl ErrTooManyOTPAttempts else Inl ErrInvalidVerificationOTP)"
    "users (disk (snd (Store_VerifyEmailOTP L addr g now w))) = users (disk w)"
    "orc (snd (Store_VerifyEmailOTP L addr g now w)) = orc w"
    using run sa by auto
  show "pending_otp addr (disk (snd (Store_VerifyEmailOTP L addr g now w))) =
      Some (ev\<lparr>v_attempts := v_attempts ev + 1\<rparr>)"
    using run pending_otp_set_attempts [OF sa(1), of addr] assms(2) by auto
qed

text \<open>A locked code refuses everything and changes nothing.\<close>

lemma locked_guess:
  assumes "no_faults (orc w)" "pending_otp addr (disk w) = Some ev"
    and "v_attempts ev > maxOTPVerificationAttempts"
  shows "fst (Store_VerifyEmailOTP L addr g now w) = Inl ErrTooManyOTPAttempts
    \<and> disk (snd (Store_VerifyEmailOTP L addr g now w)) = disk w
    \<and> orc (snd (Store_VerifyEmailOTP L addr g now w)) = orc w"
  using assms by (auto simp: Store_VerifyEmailOTP_def proc_defs Let_def)

fun guesses :: "lib \<Rightarrow> string \<Rightarrow> instant \<Rightarrow> string list \<Rightarrow> db world \<Rightarrow> db world" where
  "guesses L addr now [] w = w"
| "guesses L addr now (g # gs) w = guesses L addr now gs (snd (Store_VerifyEmailOTP L addr g now w))"

lemma guesses_count:
  assumes "no_faults (orc w)" "pending_otp addr (disk w) = Some ev" "now < v_expires_at ev"
    and "0 \<le> v_attempts ev" "v_attempts ev \<le> maxOTPVerificationAttempts + 1"
    and "\<forall>g \<in> set gs. HashToken L g \<noteq> v_token_hash ev"
  shows "pending_otp addr (disk (guesses L addr now gs w)) = Some (ev\<lparr>v_attempts :=
      min (v_attempts ev + int (length gs)) (maxOTPVerificationAttempts + 1)\<rparr>)
    \<and> no_faults (orc (guesses L addr now gs w))
    \<and> users (disk (guesses L addr now gs w)) = users (disk w)"
  using assms
proof (induction gs arbitrary: w ev)
  case Nil
  then show ?case by (simp add: min_def)
next
  case (Cons g gs)
  let ?w = "snd (Store_VerifyEmailOTP L addr g now w)"
  show ?case
  proof (cases "v_attempts ev \<le> maxOTPVerificationAttempts")
    case True
    let ?ev = "ev\<lparr>v_attempts := v_attempts ev + 1\<rparr>"
    have ne: "HashToken L g \<noteq> v_token_hash ev" using Cons.prems(6) by simp
    note step = wrong_guess [OF Cons.prems(1,2) True Cons.prems(3) ne]
    have "pending_otp addr (disk (guesses L addr now gs ?w)) = Some (?ev\<lparr>v_attempts :=
        min (v_attempts ?ev + int (length gs)) (maxOTPVerificationAttempts + 1)\<rparr>)
      \<and> no_faults (orc (guesses L addr now gs ?w)) \<and> users (disk (guesses L addr now gs ?w)) = users (disk ?w)"
      by (rule Cons.IH) (use step Cons.prems True in auto)
    with step show ?thesis by (simp add: add.commute add.left_commute)
  next
    case False
    then have locked: "v_attempts ev > maxOTPVerificationAttempts" by simp
    note step = locked_guess [OF Cons.prems(1,2) locked]
    have "pending_otp addr (disk (guesses L addr now gs ?w)) = Some (ev\<lparr>v_attempts :=
        min (v_attempts ev + int (length gs)) (maxOTPVerificationAttempts + 1)\<rparr>)
      \<and> no_faults (orc (guesses L addr now gs ?w)) \<and> users (disk (guesses L addr now gs ?w)) = users (disk ?w)"
      by (rule Cons.IH) (use step Cons.prems in auto)
    with step locked show ?thesis by (simp add: min_def)
  qed
qed


definition sample_pending :: db where
  "sample_pending = empty_db\<lparr>users := [sample_user\<lparr>u_status := 0, u_email_verified_at := None\<rparr>],
     verifications := [
       \<lparr>v_id = ''v1'', v_user_id = ''alice'', v_token_hash = hex_encode ''000007'', v_token_type = ''otp'',
        v_expires_at = 5000000000, v_verified_at = None, v_attempts = 0, v_created_at = 0\<rparr>,
       \<lparr>v_id = ''v2'', v_user_id = ''alice'', v_token_hash = hex_encode ''tok'', v_token_type = ''magic_link'',
        v_expires_at = 5000000000, v_verified_at = None, v_attempts = 0, v_created_at = 0\<rparr>]\<rparr>"

definition sample_code :: verification_row where
  "sample_code = hd (verifications sample_pending)"

lemma sample_pending_facts:
  "schema_ok sample_pending" "pending_otp ''a@x'' sample_pending = Some sample_code"
  "v_token_hash sample_code = HashToken sample_lib ''000007''"
  "HashToken sample_lib ''111111'' \<noteq> v_token_hash sample_code"
  "1000000000 < v_expires_at sample_code" "v_attempts sample_code = 0"
  by code_simp+


subsection \<open>Successful verification\<close>

definition activated :: "verification_row \<Rightarrow> instant \<Rightarrow> db \<Rightarrow> db" where
  "activated ev t d = d\<lparr>
     verifications := update_where (\<lambda>v. v_id v = v_id ev) (\<lambda>v. v\<lparr>v_verified_at := Some t\<rparr>) (verifications d),
     users := update_where (\<lambda>u. u_id u = v_user_id ev \<and> u_email_verified_at u = None)
       (\<lambda>u. u\<lparr>u_status := 1, u_email_verified_at := Some t, u_updated_at := t\<rparr>) (users d)\<rparr>"

lemma activated_runs:
  "tx_exec (mark_verified (v_id ev)) w = (Inr n, w1) \<Longrightarrow> tx_exec (activate_user (v_user_id ev)) w1 = (Inr k, w2) \<Longrightarrow>
     work w2 = activated ev (txnow w) (work w) \<and> disk w2 = disk w \<and>
     (0 < k \<longleftrightarrow> (\<exists>u \<in> set (users (work w)). u_id u = v_user_id ev \<and> u_email_verified_at u = None))"
  by (auto simp: runs mark_verified_def activate_user_def activated_def affected_pos Let_def)

lemma otp_run:
  assumes "Store_VerifyEmailOTP L addr otp now w = (Inr b, w')"
  obtains ev t where "pending_otp addr (disk w) = Some ev" "v_attempts ev \<le> maxOTPVerificationAttempts"
    "now < v_expires_at ev" "v_token_hash ev = HashToken L otp" "disk w' = activated ev t (disk w)"
    "b \<longleftrightarrow> (\<exists>u \<in> set (users (disk w)). u_id u = v_user_id ev \<and> u_email_verified_at u = None)"
proof -
  have "\<exists>ev. pending_otp addr (disk w) = Some ev \<and> v_attempts ev \<le> maxOTPVerificationAttempts \<and>
    now < v_expires_at ev \<and> v_token_hash ev = HashToken L otp \<and>
    disk w' = activated ev (o_dbclock (orc w) (tick w)) (disk w) \<and>
    (b \<longleftrightarrow> (\<exists>u \<in> set (users (disk w)). u_id u = v_user_id ev \<and> u_email_verified_at u = None))"
    using assms by (auto simp: Store_VerifyEmailOTP_def runs run_query_error Let_def mark_verified_def
        activate_user_def activated_def affected_pos split: if_splits)
  then show ?thesis using that by blast
qed

lemma magic_run:
  assumes "Store_VerifyMagicLinkToken L tok now w = (Inr b, w')"
  obtains ev t where "pending_magic (HashToken L tok) (disk w) = Some ev"
    "now < v_expires_at ev" "disk w' = activated ev t (disk w)"
    "b \<longleftrightarrow> (\<exists>u \<in> set (users (disk w)). u_id u = v_user_id ev \<and> u_email_verified_at u = None)"
proof -
  have "\<exists>ev. pending_magic (HashToken L tok) (disk w) = Some ev \<and> now < v_expires_at ev \<and>
    disk w' = activated ev (o_dbclock (orc w) (tick w)) (disk w) \<and>
    (b \<longleftrightarrow> (\<exists>u \<in> set (users (disk w)). u_id u = v_user_id ev \<and> u_email_verified_at u = None))"
    using assms by (auto simp: Store_VerifyMagicLinkToken_def runs run_query_error Let_def mark_verified_def
        activate_user_def activated_def affected_pos split: if_splits)
  then show ?thesis using that by blast
qed

lemma activated_verifies:
  assumes "schema_ok d" "ev \<in> set (verifications d)"
  shows "\<exists>t'. verified_at (v_user_id ev) t' (activated ev t d)"
    and "consumed (v_id ev) (v_user_id ev) (v_token_type ev) (v_token_hash ev) (activated ev t d)"
proof -
  obtain u where u: "u \<in> set (users d)" "u_id u = v_user_id ev"
    using assms by (auto simp: schema_defs refs_in_def)
  show "\<exists>t'. verified_at (v_user_id ev) t' (activated ev t d)"
  proof (cases "u_email_verified_at u")
    case None
    with u have "u\<lparr>u_status := 1, u_email_verified_at := Some t, u_updated_at := t\<rparr> \<in> set (users (activated ev t d))"
      by (auto simp: activated_def set_update_where intro!: image_eqI [of _ _ u])
    with u show ?thesis unfolding verified_at_def by (intro exI [of _ t]) (auto elim!: bexI [rotated])
  next
    case (Some t')
    with u show ?thesis by (force simp: verified_at_def activated_def set_update_where)
  qed
  show "consumed (v_id ev) (v_user_id ev) (v_token_type ev) (v_token_hash ev) (activated ev t d)"
  proof -
    have "ev\<lparr>v_verified_at := Some t\<rparr> \<in> set (verifications (activated ev t d))"
      using assms(2) by (auto simp: activated_def set_update_where intro!: image_eqI [of _ _ ev])
    then show ?thesis unfolding consumed_def by (auto elim!: bexI [rotated])
  qed
qed

lemma pending_magicD:
  "pending_magic h d = Some ev \<Longrightarrow> ev \<in> set (verifications d) \<and> v_token_type ev = ''magic_link'' \<and>
     v_token_hash ev = h \<and> v_verified_at ev = None"
  by (auto simp: pending_magic_def dest: find_SomeD)

lemma pending_otpD:
  assumes "pending_otp addr d = Some ev"
  shows "ev \<in> set (verifications d) \<and> v_token_type ev = ''otp'' \<and> v_verified_at ev = None \<and>
     (\<exists>u \<in> set (users d). u_id u = v_user_id ev \<and> u_email u = Some addr)"
  using first_byD [OF assms [unfolded pending_otp_def]] by (auto simp: list_ex_iff)

text \<open>A consumed magic link is not pending, because at most one row has its hash.\<close>

lemma consumed_not_pending:
  assumes "schema_ok d" "consumed vid uid ''magic_link'' h d"
  shows "pending_magic h d = None"
proof -
  from assms(2) obtain x where x: "x \<in> set (verifications d)" "magic_hash x = Some h" "v_verified_at x \<noteq> None"
    by (auto simp: consumed_def magic_hash_def)
  have "v = x" if "v \<in> set (verifications d)" "magic_hash v = Some h" for v
    using unique_onD [OF _ that(1) x(1) that(2) x(2)] assms(1) by (simp add: schema_ok_def keys_ok_def)
  with x(3) show ?thesis
    by (auto simp: pending_magic_def find_None_iff_all magic_hash_def)
qed

text \<open>a successful OTP check consumed the newest pending code of that address, which had the
  submitted code's hash, at most five failed attempts and had not expired; afterwards the owner of
  the address is verified and the code is consumed. The result says whether the account was
  activated by this call.\<close>

theorem otp_verifies:
  assumes "Store_VerifyEmailOTP L addr otp now w = (Inr b, w')" "schema_ok (disk w)"
  shows "\<exists>ev u t. pending_otp addr (disk w) = Some ev \<and> v_attempts ev \<le> maxOTPVerificationAttempts
    \<and> now < v_expires_at ev \<and> v_token_hash ev = HashToken L otp
    \<and> u \<in> set (users (disk w)) \<and> u_id u = v_user_id ev \<and> u_email u = Some addr
    \<and> verified_at (u_id u) t (disk w')
    \<and> consumed (v_id ev) (u_id u) ''otp'' (HashToken L otp) (disk w')
    \<and> (b \<longleftrightarrow> u_email_verified_at u = None)"
proof -
  obtain ev t where ev: "pending_otp addr (disk w) = Some ev" "v_attempts ev \<le> maxOTPVerificationAttempts"
    "now < v_expires_at ev" "v_token_hash ev = HashToken L otp"
    and w': "disk w' = activated ev t (disk w)"
    and b: "b \<longleftrightarrow> (\<exists>u \<in> set (users (disk w)). u_id u = v_user_id ev \<and> u_email_verified_at u = None)"
    using assms(1) by (rule otp_run)
  obtain u where u: "u \<in> set (users (disk w))" "u_id u = v_user_id ev" "u_email u = Some addr"
    using pending_otpD [OF ev(1)] by blast
  have "\<And>x. x \<in> set (users (disk w)) \<Longrightarrow> u_id x = v_user_id ev \<Longrightarrow> x = u"
    using assms(2) u by (auto simp: schema_ok_def keys_ok_def dest: distinct_mapD)
  with b u have "b \<longleftrightarrow> u_email_verified_at u = None" by metis
  moreover have evd: "ev \<in> set (verifications (disk w))" "v_token_type ev = ''otp''"
    using pending_otpD [OF ev(1)] by blast+
  note act = activated_verifies [OF assms(2) evd(1), of t, folded w']
  moreover from act(1) obtain t' where "verified_at (v_user_id ev) t' (disk w')" ..
  ultimately show ?thesis using ev u evd(2) by (intro exI [of _ ev] exI [of _ u] exI [of _ t']) simp
qed

theorem otp_verifies_witness:
  "\<exists>u t. u \<in> set (users sample_pending) \<and> verified_at (u_id u) t
     (disk (snd (Store_VerifyEmailOTP sample_lib ''a@x'' ''000007'' 1000000000 (sample_world sample_pending))))"
proof -
  have "fst (Store_VerifyEmailOTP sample_lib ''a@x'' ''000007'' 1000000000 (sample_world sample_pending)) = Inr True"
    by code_simp
  from otp_verifies [OF run_result [OF this]] show ?thesis
    using sample_pending_facts(1) by (auto simp: sample_world_def)
qed

text \<open>A link that was used stays refused in every database that extends it monotonically.\<close>

lemma used_link_refused:
  assumes "Store_VerifyMagicLinkToken L tok now w = (Inr b, w')" "schema_ok (disk w)"
    and "mono_rel (disk w') (disk v)"
  shows "fst (Store_VerifyMagicLinkToken L tok now' v) \<in> {Inl ErrInvalidMagicLink, Inl db_error}
    \<and> disk (snd (Store_VerifyMagicLinkToken L tok now' v)) = disk v"
proof -
  obtain ev t where ev: "pending_magic (HashToken L tok) (disk w) = Some ev"
    and w': "disk w' = activated ev t (disk w)" using assms(1) by (rule magic_run)
  note ev' = pending_magicD [OF ev]
  obtain t' where v: "verified_at (v_user_id ev) t' (disk w')"
    and c: "consumed (v_id ev) (v_user_id ev) ''magic_link'' (HashToken L tok) (disk w')"
    using activated_verifies [OF assms(2), of ev t] ev' w' by auto
  have "schema_ok (disk w')"
    using mono.store_step_keeps [OF store_step.VerifyMagicLinkToken [OF assms(1)]] assms(2)
    by (simp add: mono_rel_def)
  with v c have "schema_ok (disk v)" "consumed (v_id ev) (v_user_id ev) ''magic_link'' (HashToken L tok) (disk v)"
    using assms(3) unfolding mono_rel_def by blast+
  then have "pending_magic (HashToken L tok) (disk v) = None" by (rule consumed_not_pending)
  then show ?thesis
    by (simp add: Store_VerifyMagicLinkToken_def proc_defs)
qed

subsection \<open>Creating, resending and rolling back\<close>

definition new_verification :: "string \<Rightarrow> string \<Rightarrow> string \<Rightarrow> string \<Rightarrow> instant \<Rightarrow> instant \<Rightarrow> verification_row" where
  "new_verification i uid h ty ex now = \<lparr>v_id = i, v_user_id = uid, v_token_hash = h, v_token_type = ty,
     v_expires_at = pg_ts ex, v_verified_at = None, v_attempts = 0, v_created_at = now\<rparr>"

definition new_mail :: "string \<Rightarrow> string \<Rightarrow> string \<Rightarrow> instant \<Rightarrow> email_row" where
  "new_mail i uid addr now = \<lparr>e_id = i, e_user_id = Some uid, e_to_email = addr,
     e_template = ''verification_email'', e_subject = ''Verify your email'', e_external_id = None,
     e_status = ''queued'', e_created_at = now, e_updated_at = now\<rparr>"

definition with_verification :: "lib \<Rightarrow> CreateVerificationParams \<Rightarrow> string \<Rightarrow> createVerificationTxResult \<Rightarrow> instant \<Rightarrow> db \<Rightarrow> db" where
  "with_verification L params addr c now d = d\<lparr>
     verifications := verifications d @
       [new_verification (ct_OTPVerificationID c) (cv_UserID params) (HashToken L (cv_OTP params)) ''otp''
          (cv_ExpiresAt params) now,
        new_verification (ct_MagicVerificationID c) (cv_UserID params) (HashToken L (cv_MagicToken params))
          ''magic_link'' (cv_ExpiresAt params) now],
     email_records := email_records d @ [new_mail (ct_EmailRecordID c) (cv_UserID params) addr now]\<rparr>"

definition fresh_ids :: "createVerificationTxResult \<Rightarrow> db \<Rightarrow> bool" where
  "fresh_ids c d \<longleftrightarrow> ct_OTPVerificationID c \<notin> v_id ` set (verifications d)
     \<and> ct_MagicVerificationID c \<notin> v_id ` set (verifications d)
     \<and> ct_EmailRecordID c \<notin> e_id ` set (email_records d)"

lemma create_run:
  assumes "createVerificationWithIDsTx L params w = (Inr c, w')"
  obtains u addr where "user_by_id (cv_UserID params) (work w) = Some u" "u_email u = Some addr"
    "fresh_ids c (work w)" "ct_OTPVerificationID c \<noteq> ct_MagicVerificationID c"
    "Some (HashToken L (cv_MagicToken params)) \<notin> magic_hash ` set (verifications (work w))"
    "work w' = with_verification L params addr c (txnow w) (work w)"
    "disk w' = disk w" "txnow w' = txnow w" "orc w' = orc w"
proof -
  have "\<exists>u addr. user_by_id (cv_UserID params) (work w) = Some u \<and> u_email u = Some addr \<and>
    fresh_ids c (work w) \<and> ct_OTPVerificationID c \<noteq> ct_MagicVerificationID c \<and>
    Some (HashToken L (cv_MagicToken params)) \<notin> magic_hash ` set (verifications (work w)) \<and>
    work w' = with_verification L params addr c (txnow w) (work w) \<and>
    disk w' = disk w \<and> txnow w' = txnow w \<and> orc w' = orc w"
    using assms
    apply (clarsimp simp: createVerificationWithIDsTx_def scan_string_def runs split: option.splits)
    apply (clarsimp simp: insert_verification_def insert_email_record_def clash_Some split: if_splits)
    apply (auto simp: fresh_ids_def with_verification_def new_verification_def new_mail_def clash_def
        magic_hash_def list_ex_iff)
    done
  then show ?thesis using that by blast
qed

definition expired_db :: "string \<Rightarrow> instant \<Rightarrow> db \<Rightarrow> db" where
  "expired_db uid now d = d\<lparr>verifications := update_where (outstanding uid now)
     (\<lambda>v. v\<lparr>v_expires_at := pg_ts now\<rparr>) (verifications d)\<rparr>"

definition resend_params :: "user_row \<Rightarrow> string \<Rightarrow> string \<Rightarrow> instant \<Rightarrow> CreateVerificationParams" where
  "resend_params u otp tok ex = \<lparr>cv_UserID = u_id u, cv_OTP = otp, cv_MagicToken = tok, cv_ExpiresAt = ex\<rparr>"

definition resend_result :: "user_row \<Rightarrow> string \<Rightarrow> createVerificationTxResult \<Rightarrow> instant \<Rightarrow> db \<Rightarrow> ResendVerificationResult" where
  "resend_result u addr c now d = \<lparr>rs_UserID = u_id u, rs_UserEmail = addr, rs_EmailRecordID = ct_EmailRecordID c,
     rs_OTPVerificationID = ct_OTPVerificationID c, rs_MagicVerificationID = ct_MagicVerificationID c,
     rs_RevokedAt = now, rs_RevokedVerifications = map (\<lambda>v. \<lparr>sn_ID = v_id v, sn_ExpiresAt = v_expires_at v\<rparr>)
       (filter (outstanding (u_id u) now) (verifications d))\<rparr>"

lemma user_by_emailD: "user_by_email addr d = Some u \<Longrightarrow> u \<in> set (users d) \<and> u_email u = Some addr"
  by (auto simp: user_by_email_def dest: find_SomeD)

lemma resend_body:
  assumes "Store_ResendVerification L addr otp tok ex now w = (Inr r, w')"
  shows "\<exists>u w1 c w2. user_by_email addr (disk w) = Some u \<and> u_email_verified_at u = None \<and>
    createVerificationWithIDsTx L (resend_params u otp tok ex) w1 = (Inr c, w2) \<and>
    work w1 = expired_db (u_id u) now (disk w) \<and> disk w' = work w2 \<and> r = resend_result u addr c now (disk w)"
  using assms
  apply (clarsimp simp: Store_ResendVerification_def scan_string_def runs run_query_error split: option.splits if_splits)
  apply (frule user_by_emailD)
  apply (clarsimp simp: expire_outstanding_def resend_params_def expired_db_def resend_result_def)
  apply (rule exI, rule exI, rule exI, rule conjI, assumption)
  apply simp
  done

text \<open>A resend expires everything outstanding and adds one code, one link and one mail.\<close>

lemma resend_run:
  assumes "Store_ResendVerification L addr otp tok ex now w = (Inr r, w')" "schema_ok (disk w)"
  obtains u c t where "user_by_email addr (disk w) = Some u" "u_email_verified_at u = None"
    "r = resend_result u addr c now (disk w)" "fresh_ids c (disk w)"
    "ct_OTPVerificationID c \<noteq> ct_MagicVerificationID c"
    "disk w' = with_verification L (resend_params u otp tok ex) addr c t (expired_db (u_id u) now (disk w))"
proof -
  obtain u w1 c w2 where u: "user_by_email addr (disk w) = Some u" "u_email_verified_at u = None"
    and c: "createVerificationWithIDsTx L (resend_params u otp tok ex) w1 = (Inr c, w2)"
    and w1: "work w1 = expired_db (u_id u) now (disk w)" and d: "disk w' = work w2"
    and r: "r = resend_result u addr c now (disk w)"
    using resend_body [OF assms(1)] by blast
  obtain v a where v: "user_by_id (u_id u) (work w1) = Some v" "u_email v = Some a" "fresh_ids c (work w1)"
    "ct_OTPVerificationID c \<noteq> ct_MagicVerificationID c"
    "work w2 = with_verification L (resend_params u otp tok ex) a c (txnow w1) (work w1)"
    using c by (rule create_run) (auto simp: resend_params_def)
  have "v = u"
    using v(1) user_by_emailD [OF u(1)] assms(2) w1
    by (auto simp: user_by_id_def expired_db_def schema_ok_def keys_ok_def dest!: find_SomeD dest: distinct_mapD)
  then have "a = addr" using v(2) user_by_emailD [OF u(1)] by simp
  moreover have "fresh_ids c (disk w)"
    using v(3) by (simp add: fresh_ids_def w1 expired_db_def image_update_where)
  ultimately show ?thesis using that u r v(4,5) d w1 by simp
qed

subsection \<open>Rolling back a resend\<close>

definition restore_rows :: "string \<Rightarrow> instant \<Rightarrow> RevokedVerificationSnapshot \<Rightarrow> verification_row list \<Rightarrow> verification_row list" where
  "restore_rows uid at sn = update_where (\<lambda>v. v_id v = sn_ID sn \<and> v_user_id v = uid \<and> v_verified_at v = None
     \<and> v_expires_at v \<le> pg_ts at) (\<lambda>v. v\<lparr>v_expires_at := pg_ts (sn_ExpiresAt sn)\<rparr>)"

lemma restore_all_run:
  assumes "no_faults (orc w)"
  shows "restore_all snaps uid at w = (Inr (), w\<lparr>tick := tick w + length snaps, work := (work w)\<lparr>verifications :=
     fold (restore_rows uid at) snaps (verifications (work w))\<rparr>\<rparr>)"
  using assms
  by (induction snaps arbitrary: w)
    (auto simp: ebind_def ecase_def tx_exec_def ext_def ok_def restore_expiry_def restore_rows_def Let_def)

lemma restore_rows_other: "sn_ID sn \<notin> v_id ` set rows \<Longrightarrow> restore_rows uid at sn rows = rows"
  unfolding restore_rows_def by (rule update_where_none) (auto simp: image_iff)

lemma restore_rows_append: "restore_rows uid at sn (xs @ ys) = restore_rows uid at sn xs @ restore_rows uid at sn ys"
  by (simp add: restore_rows_def)

text \<open>Restoring the snapshots taken before the expiry gives the table back.\<close>

lemma fold_restore:
  assumes "distinct (map v_id (pre @ rows))" "\<forall>v \<in> set rows. pg_ts (v_expires_at v) = v_expires_at v"
  shows "fold (restore_rows uid now)
      (map (\<lambda>v. \<lparr>sn_ID = v_id v, sn_ExpiresAt = v_expires_at v\<rparr>) (filter (outstanding uid now) rows))
      (pre @ update_where (outstanding uid now) (\<lambda>v. v\<lparr>v_expires_at := pg_ts now\<rparr>) rows) = pre @ rows"
  using assms
proof (induction rows arbitrary: pre)
  case (Cons x rows)
  let ?upd = "update_where (outstanding uid now) (\<lambda>v. v\<lparr>v_expires_at := pg_ts now\<rparr>)"
  let ?snap = "\<lambda>v :: verification_row. \<lparr>sn_ID = v_id v, sn_ExpiresAt = v_expires_at v\<rparr>"
  have ids: "v_id x \<notin> v_id ` set pre" "v_id x \<notin> v_id ` set (?upd rows)"
    using Cons.prems(1) by (auto simp: image_update_where)
  have IH: "fold (restore_rows uid now) (map ?snap (filter (outstanding uid now) rows)) ((pre @ [x]) @ ?upd rows)
      = (pre @ [x]) @ rows"
    by (rule Cons.IH) (use Cons.prems in auto)
  have "restore_rows uid now (?snap x) (pre @ (x\<lparr>v_expires_at := pg_ts now\<rparr>) # ?upd rows) = pre @ x # ?upd rows"
    if "outstanding uid now x"
  proof -
    have "restore_rows uid now (?snap x) pre = pre" "restore_rows uid now (?snap x) (?upd rows) = ?upd rows"
      using ids by (simp_all add: restore_rows_other)
    moreover have "restore_rows uid now (?snap x) [x\<lparr>v_expires_at := pg_ts now\<rparr>] = [x]"
      using that Cons.prems(2) by (simp add: restore_rows_def outstanding_def)
    ultimately show ?thesis
      using restore_rows_append [of uid now "?snap x" pre "[x\<lparr>v_expires_at := pg_ts now\<rparr>] @ ?upd rows"]
        restore_rows_append [of uid now "?snap x" "[x\<lparr>v_expires_at := pg_ts now\<rparr>]" "?upd rows"] by simp
  qed
  with IH show ?case by simp
qed simp

text \<open>The rows a resend added are exactly what the rollback's deletes remove.\<close>

lemma delete_added:
  assumes "ct_OTPVerificationID c \<notin> v_id ` set rows" "ct_MagicVerificationID c \<notin> v_id ` set rows"
  shows "delete_where (\<lambda>v. v_user_id v = uid \<and> v_verified_at v = None
        \<and> (v_id v = ct_OTPVerificationID c \<or> v_id v = ct_MagicVerificationID c))
      (rows @ [new_verification (ct_OTPVerificationID c) uid h1 ty1 ex now,
         new_verification (ct_MagicVerificationID c) uid h2 ty2 ex now]) = rows"
  using assms by (induction rows) (auto simp: new_verification_def)

lemma delete_mail:
  assumes "schema_ok d" "i \<notin> e_id ` set (email_records d)"
    and "p (new_mail i uid addr now)" "\<And>e. e \<in> set (email_records d) \<Longrightarrow> \<not> p e"
    and "email_records d' = email_records d @ [new_mail i uid addr now]" "status_history d' = status_history d"
  shows "delete_email_records p d' = Inr (1, d'\<lparr>email_records := email_records d\<rparr>)"
proof -
  have "filter p (rows @ [new_mail i uid addr now]) = [new_mail i uid addr now] \<and>
      delete_where p (rows @ [new_mail i uid addr now]) = rows" if "\<And>e. e \<in> set rows \<Longrightarrow> \<not> p e" for rows
    using that assms(3) by (induction rows) auto
  from this [OF assms(4)] have rows: "filter p (email_records d') = [new_mail i uid addr now]"
    "delete_where p (email_records d') = email_records d" using assms(5) by simp_all
  have "delete_where (\<lambda>h. h_record_id h \<in> {i}) (status_history d') = status_history d'"
    using assms by (intro delete_where_none) (auto simp: schema_defs refs_in_def)
  with rows show ?thesis
    by (simp add: delete_email_records_def affected_def Let_def new_mail_def)
qed

lemma restore_all_result:
  "restore_all snaps uid at w = (Inr (), w') \<Longrightarrow> work w' = (work w)\<lparr>verifications :=
     fold (restore_rows uid at) snaps (verifications (work w))\<rparr> \<and> disk w' = disk w"
proof (induction snaps arbitrary: w)
  case (Cons sn snaps)
  from Cons.prems obtain v where v: "restore_all snaps uid at v = (Inr (), w')" "disk v = disk w"
    "work v = (work w)\<lparr>verifications := restore_rows uid at sn (verifications (work w))\<rparr>"
    by (auto simp: runs restore_expiry_def restore_rows_def Let_def)
  then show ?case using Cons.IH [OF v(1)] by simp
qed (simp add: runs)

text \<open>The three steps of the rollback, on the database a resend left.\<close>

lemma rollback_statements:
  assumes "Store_ResendVerification L addr otp tok ex now w = (Inr r, w')"
    and "schema_ok (disk w)" "expiry_ok (disk w)"
  obtains n d1 d2 where "rs_RevokedAt r = now"
    "delete_verifications (\<lambda>v. v_user_id v = rs_UserID r \<and> v_verified_at v = None
       \<and> v_id v \<in> {rs_OTPVerificationID r, rs_MagicVerificationID r}) (disk w') = Inr (n, d1)"
    "delete_email_records (\<lambda>e. e_id e = rs_EmailRecordID r \<and> e_user_id e = Some (rs_UserID r)) d1 = Inr (1, d2)"
    "d2\<lparr>verifications := fold (restore_rows (rs_UserID r) now) (rs_RevokedVerifications r) (verifications d2)\<rparr> = disk w"
proof -
  obtain u c t where r: "r = resend_result u addr c now (disk w)" and fr: "fresh_ids c (disk w)"
    and w': "disk w' = with_verification L (resend_params u otp tok ex) addr c t (expired_db (u_id u) now (disk w))"
    using assms(1,2) by (rule resend_run)
  note gone = delete_added [of c "verifications (expired_db (u_id u) now (disk w))" "u_id u"]
  have mail: "delete_email_records (\<lambda>e. e_id e = ct_EmailRecordID c \<and> e_user_id e = Some (u_id u)) D =
      Inr (1, D\<lparr>email_records := email_records (disk w)\<rparr>)"
    if "email_records D = email_records (disk w) @ [new_mail (ct_EmailRecordID c) (u_id u) addr t]"
      "status_history D = status_history (disk w)" for D
    using fr by (intro delete_mail [OF assms(2) _ _ _ that]) (auto simp: fresh_ids_def new_mail_def image_iff)
  have "fold (restore_rows (u_id u) now) (rs_RevokedVerifications r)
      (update_where (outstanding (u_id u) now) (\<lambda>v. v\<lparr>v_expires_at := pg_ts now\<rparr>) (verifications (disk w)))
      = verifications (disk w)"
    using fold_restore [of "[]" "verifications (disk w)" "u_id u" now] assms(2,3)
    by (simp add: r resend_result_def schema_ok_def keys_ok_def expiry_ok_def)
  note fold = this
  let ?d1 = "(disk w')\<lparr>verifications := verifications (expired_db (u_id u) now (disk w))\<rparr>"
  show ?thesis
  proof (rule that [of _ ?d1 "?d1\<lparr>email_records := email_records (disk w)\<rparr>"])
    show "rs_RevokedAt r = now" by (simp add: r resend_result_def)
    show "delete_verifications (\<lambda>v. v_user_id v = rs_UserID r \<and> v_verified_at v = None
       \<and> v_id v \<in> {rs_OTPVerificationID r, rs_MagicVerificationID r}) (disk w') = Inr (affected (\<lambda>v. v_user_id v = rs_UserID r
       \<and> v_verified_at v = None \<and> v_id v \<in> {rs_OTPVerificationID r, rs_MagicVerificationID r}) (verifications (disk w')), ?d1)"
      using gone fr by (simp add: delete_verifications_def r resend_result_def w' with_verification_def resend_params_def
          fresh_ids_def expired_db_def image_update_where)
    show "delete_email_records (\<lambda>e. e_id e = rs_EmailRecordID r \<and> e_user_id e = Some (rs_UserID r)) ?d1
        = Inr (1, ?d1\<lparr>email_records := email_records (disk w)\<rparr>)"
      using mail [of ?d1] by (simp add: r resend_result_def w' with_verification_def resend_params_def expired_db_def)
    show "?d1\<lparr>email_records := email_records (disk w)\<rparr>\<lparr>verifications := fold (restore_rows (rs_UserID r) now)
        (rs_RevokedVerifications r) (verifications (?d1\<lparr>email_records := email_records (disk w)\<rparr>))\<rparr> = disk w"
      using fold by (simp add: r resend_result_def w' with_verification_def resend_params_def expired_db_def)
  qed
qed

lemma rollback_success:
  assumes "Store_ResendVerification L addr otp tok ex now w = (Inr r, w')"
    and "schema_ok (disk w)" "expiry_ok (disk w)" "now \<noteq> zero_time"
    and "disk v = disk w'" "Store_RollbackResendVerification (Some r) v = (Inr x, v')"
  shows "disk v' = disk w"
proof -
  obtain n d1 d2 where "rs_RevokedAt r = now"
    "delete_verifications (\<lambda>v. v_user_id v = rs_UserID r \<and> v_verified_at v = None
       \<and> v_id v \<in> {rs_OTPVerificationID r, rs_MagicVerificationID r}) (disk w') = Inr (n, d1)"
    "delete_email_records (\<lambda>e. e_id e = rs_EmailRecordID r \<and> e_user_id e = Some (rs_UserID r)) d1 = Inr (1, d2)"
    "d2\<lparr>verifications := fold (restore_rows (rs_UserID r) now) (rs_RevokedVerifications r) (verifications d2)\<rparr> = disk w"
    using assms(1-3) by (rule rollback_statements)
  with assms(4-6) show ?thesis
    by (auto simp: Store_RollbackResendVerification_def runs dest!: restore_all_result)
qed

text \<open>C25: rolling back a resend undoes it exactly: whenever the resend committed and the rollback
  runs without a fault, every table is what it was before the resend, the expiry of each
  verification it had cut short included.\<close>

theorem rollback_resend_restores:
  assumes "Store_ResendVerification L addr otp tok ex now w = (Inr r, w')"
    and "schema_ok (disk w)" "expiry_ok (disk w)" "now \<noteq> zero_time"
    and "disk v = disk w'" "no_faults (orc v)"
  shows "fst (Store_RollbackResendVerification (Some r) v) = Inr ()
    \<and> disk (snd (Store_RollbackResendVerification (Some r) v)) = disk w"
proof -
  obtain n d1 d2 where "rs_RevokedAt r = now"
    "delete_verifications (\<lambda>v. v_user_id v = rs_UserID r \<and> v_verified_at v = None
       \<and> v_id v \<in> {rs_OTPVerificationID r, rs_MagicVerificationID r}) (disk w') = Inr (n, d1)"
    "delete_email_records (\<lambda>e. e_id e = rs_EmailRecordID r \<and> e_user_id e = Some (rs_UserID r)) d1 = Inr (1, d2)"
    "d2\<lparr>verifications := fold (restore_rows (rs_UserID r) now) (rs_RevokedVerifications r) (verifications d2)\<rparr> = disk w"
    using assms(1-3) by (rule rollback_statements)
  then show ?thesis
    using assms(4-6)
    by (simp add: Store_RollbackResendVerification_def run_tx_def ebind_def ecase_def tx_begin_def
        tx_exec_def tx_commit_def ext_def ok_def restore_all_run)
qed

definition sample_resend :: "ResendVerificationResult" where
  "sample_resend = projr (fst (Store_ResendVerification sample_lib ''a@x'' ''999999'' ''tok2'' 9000000000 1000000000
     (sample_world sample_pending)))"

lemma sample_resend_run: "fst (Store_ResendVerification sample_lib ''a@x'' ''999999'' ''tok2'' 9000000000 1000000000
     (sample_world sample_pending)) = Inr sample_resend"
  by code_simp

theorem rollback_resend_restores_witness:
  "disk (snd (Store_RollbackResendVerification (Some sample_resend) (sample_world
     (disk (snd (Store_ResendVerification sample_lib ''a@x'' ''999999'' ''tok2'' 9000000000 1000000000
        (sample_world sample_pending))))))) = sample_pending"
proof -
  have "expiry_ok sample_pending" "(1000000000 :: int) \<noteq> zero_time" by code_simp+
  with rollback_resend_restores [OF run_result [OF sample_resend_run], of "sample_world (disk (snd
      (Store_ResendVerification sample_lib ''a@x'' ''999999'' ''tok2'' 9000000000 1000000000
        (sample_world sample_pending))))"]
  show ?thesis using sample_pending_facts(1) by simp
qed

text \<open>C27: after a resend the only verifications of that user that can still succeed are the two new
  ones: every older unverified code or link has expired at the time of the resend.\<close>

theorem resend_supersedes:
  assumes "Store_ResendVerification L addr otp tok ex now w = (Inr r, w')" "schema_ok (disk w)"
    and "v \<in> set (verifications (disk w'))" "v_user_id v = rs_UserID r" "v_verified_at v = None"
    and "now < v_expires_at v"
  shows "v_id v \<in> {rs_OTPVerificationID r, rs_MagicVerificationID r}"
proof -
  obtain u c t where r: "r = resend_result u addr c now (disk w)"
    and w': "disk w' = with_verification L (resend_params u otp tok ex) addr c t (expired_db (u_id u) now (disk w))"
    using assms(1,2) by (rule resend_run)
  have "\<not> now < v_expires_at x" if x: "x \<in> set (verifications (expired_db (u_id u) now (disk w)))"
    "v_user_id x = u_id u" "v_verified_at x = None" for x
    using x pg_ts_le [of now]
    by (auto simp: expired_db_def set_update_where outstanding_def not_less split: if_splits)
  with assms(3-6) show ?thesis
    by (auto simp: w' with_verification_def r resend_result_def new_verification_def)
qed

theorem resend_supersedes_witness:
  "v_id (last (verifications (disk (snd (Store_ResendVerification sample_lib ''a@x'' ''999999'' ''tok2''
      9000000000 1000000000 (sample_world sample_pending))))))
   \<in> {rs_OTPVerificationID sample_resend, rs_MagicVerificationID sample_resend}"
proof -
  let ?w = "snd (Store_ResendVerification sample_lib ''a@x'' ''999999'' ''tok2'' 9000000000 1000000000
      (sample_world sample_pending))"
  have "last (verifications (disk ?w)) \<in> set (verifications (disk ?w))"
    "v_user_id (last (verifications (disk ?w))) = rs_UserID sample_resend"
    "v_verified_at (last (verifications (disk ?w))) = None"
    "1000000000 < v_expires_at (last (verifications (disk ?w)))" by code_simp+
  with resend_supersedes [OF run_result [OF sample_resend_run]] show ?thesis
    using sample_pending_facts(1) by simp
qed

subsection \<open>Registration and its compensation\<close>

definition new_user :: "string \<Rightarrow> string \<Rightarrow> instant \<Rightarrow> user_row" where
  "new_user i addr now = \<lparr>u_id = i, u_email = Some addr, u_status = 0, u_email_verified_at = None,
     u_created_at = now, u_updated_at = now\<rparr>"

definition with_user :: "string \<Rightarrow> string \<Rightarrow> string \<Rightarrow> instant \<Rightarrow> db \<Rightarrow> db" where
  "with_user i addr h now d = d\<lparr>users := users d @ [new_user i addr now],
     creds := creds d @ [\<lparr>c_user_id = i, c_password_hash = h, c_updated_at = now\<rparr>]\<rparr>"

lemma insert_user_run:
  assumes "insertRegisteredUserWithPassword L i addr pw cost w = (Inr x, w')"
  shows "\<exists>h. work w' = with_user i addr h (txnow w) (work w) \<and> disk w' = disk w \<and> txnow w' = txnow w \<and>
    orc w' = orc w \<and> i \<notin> u_id ` set (users (work w)) \<and> Some addr \<notin> u_email ` set (users (work w)) \<and>
    i \<notin> c_user_id ` set (creds (work w)) \<and> (bcrypt_ok L \<longrightarrow> bcrypt_Compare L h pw = None)"
  using assms
  apply (clarsimp simp: insertRegisteredUserWithPassword_def HashPassword_def runs Let_def)
  apply (clarsimp simp: insert_iff)
  apply (unfold with_user_def new_user_def)
  apply (rule exI, rule conjI, rule refl)
  apply (auto simp: clash_def list_ex_iff bcrypt_ok_def)
  done

lemma register_run:
  assumes "Store_RegisterWithVerification L addr pw cost otp tok ex w = (Inr r, w')"
  obtains c h t where "rw_User r = \<lparr>ru_ID = ru_ID (rw_User r), ru_Email = addr\<rparr>"
    "rw_EmailRecordID r = ct_EmailRecordID c"
    "ru_ID (rw_User r) \<notin> u_id ` set (users (disk w))" "Some addr \<notin> u_email ` set (users (disk w))"
    "fresh_ids c (disk w)" "ct_OTPVerificationID c \<noteq> ct_MagicVerificationID c"
    "Some (HashToken L tok) \<notin> magic_hash ` set (verifications (disk w))"
    "disk w' = with_verification L \<lparr>cv_UserID = ru_ID (rw_User r), cv_OTP = otp, cv_MagicToken = tok, cv_ExpiresAt = ex\<rparr>
       addr c t (with_user (ru_ID (rw_User r)) addr h t (disk w))"
    "bcrypt_ok L \<Longrightarrow> bcrypt_Compare L h pw = None"
proof -
  let ?i = "o_uuid (orc w) (Suc (tick w))"
  let ?w0 = "w\<lparr>work := disk w, txnow := o_dbclock (orc w) (tick w), tick := Suc (Suc (tick w))\<rparr>"
  let ?params = "\<lparr>cv_UserID = ?i, cv_OTP = otp, cv_MagicToken = tok, cv_ExpiresAt = ex\<rparr>"
  obtain u w1 c w2 where u: "insertRegisteredUserWithPassword L ?i addr pw cost ?w0 = (Inr u, w1)"
    and c: "createVerificationWithIDsTx L ?params w1 = (Inr c, w2)" and w': "disk w' = work w2"
    and r: "r = \<lparr>rw_User = \<lparr>ru_ID = ?i, ru_Email = addr\<rparr>, rw_EmailRecordID = ct_EmailRecordID c\<rparr>"
    using assms by (clarsimp simp: Store_RegisterWithVerification_def createVerificationTx_def runs)
  from insert_user_run [OF u] obtain h where h: "work w1 = with_user ?i addr h (txnow w1) (disk w)"
    "?i \<notin> u_id ` set (users (disk w))" "Some addr \<notin> u_email ` set (users (disk w))"
    "bcrypt_ok L \<longrightarrow> bcrypt_Compare L h pw = None" by auto
  obtain x a where x: "user_by_id ?i (work w1) = Some x" "u_email x = Some a" "fresh_ids c (work w1)"
    "ct_OTPVerificationID c \<noteq> ct_MagicVerificationID c"
    "Some (HashToken L tok) \<notin> magic_hash ` set (verifications (work w1))"
    "work w2 = with_verification L ?params a c (txnow w1) (work w1)"
    using c by (rule create_run) auto
  have "x \<in> set (users (work w1))" "u_id x = ?i" using x(1) by (auto simp: user_by_id_def dest: find_SomeD)
  then have "a = addr" using h(1,2) x(2) by (auto simp: with_user_def new_user_def image_iff)
  with x h have "fresh_ids c (disk w)" "Some (HashToken L tok) \<notin> magic_hash ` set (verifications (disk w))"
    by (auto simp: fresh_ids_def with_user_def)
  with that [of c "txnow w1" h] r h x(4,6) w' \<open>a = addr\<close> show ?thesis by simp
qed

lemma delete_users_gone:
  assumes "set (map u_id (filter p (users d))) = {i}" "\<forall>s \<in> set (sessions d). s_user_id s \<noteq> i"
    and "\<forall>e \<in> set (email_records d). e_user_id e \<noteq> Some i"
  shows "delete_users p d = Inr (affected p (users d), d\<lparr>users := delete_where p (users d),
      creds := delete_where (\<lambda>c. c_user_id c = i) (creds d),
      tenant_users := delete_where (\<lambda>r. tu_user_id r = i) (tenant_users d),
      user_roles := delete_where (\<lambda>r. ur_user_id r = i) (user_roles d),
      verifications := delete_where (\<lambda>v. v_user_id v = i) (verifications d)\<rparr>)"
proof -
  have "filter (\<lambda>s. s_user_id s = i) (sessions d) = []" "delete_where (\<lambda>s. s_user_id s = i) (sessions d) = sessions d"
    using assms(2) by (auto simp: filter_empty_conv intro: delete_where_none)
  moreover have "update_where (\<lambda>e. case e_user_id e of None \<Rightarrow> False | Some j \<Rightarrow> j = i) g (email_records d) = email_records d" for g
    using assms(3) by (auto intro!: update_where_none split: option.splits)
  moreover have "(case x of None \<Rightarrow> False | Some j \<Rightarrow> False) = False" for x :: "string option"
    by (simp split: option.split)
  ultimately show ?thesis
    unfolding delete_users_def Let_def assms(1) by (simp add: list_ex_iff cong: option.case_cong)
qed

lemma delete_new_user:
  assumes "schema_ok d" "i \<notin> u_id ` set (users d)" "c_user_id cr = i" "\<forall>v \<in> set vs. v_user_id v = i"
  shows "delete_pending_user i (d\<lparr>users := users d @ [new_user i addr t], creds := creds d @ [cr],
     verifications := verifications d @ vs\<rparr>) = Inr (1, d)" (is "delete_pending_user i ?d = _")
proof -
  let ?p = "\<lambda>u. u_id u = i \<and> u_status u = 0 \<and> u_email_verified_at u = None"
  have us: "filter ?p (users d) = []" "delete_where ?p (users d) = users d"
    using assms(2) by (auto simp: filter_empty_conv intro!: delete_where_none)
  have "delete_users ?p ?d = Inr (affected ?p (users ?d), ?d\<lparr>users := delete_where ?p (users ?d),
      creds := delete_where (\<lambda>c. c_user_id c = i) (creds ?d),
      tenant_users := delete_where (\<lambda>r. tu_user_id r = i) (tenant_users ?d),
      user_roles := delete_where (\<lambda>r. ur_user_id r = i) (user_roles ?d),
      verifications := delete_where (\<lambda>v. v_user_id v = i) (verifications ?d)\<rparr>)"
    using assms(1,2) us
    by (intro delete_users_gone) (auto simp: new_user_def schema_defs refs_in_def)
  moreover have "delete_where (\<lambda>c. c_user_id c = i) (creds d) = creds d"
    "delete_where (\<lambda>r. tu_user_id r = i) (tenant_users d) = tenant_users d"
    "delete_where (\<lambda>r. ur_user_id r = i) (user_roles d) = user_roles d"
    "delete_where (\<lambda>v. v_user_id v = i) (verifications d) = verifications d"
    using assms(1,2) by (auto simp: schema_defs refs_in_def intro!: delete_where_none)
  moreover have "delete_where (\<lambda>v. v_user_id v = i) vs = []"
    using assms(4) by (auto simp: delete_where_def filter_empty_conv)
  ultimately show ?thesis
    using us assms(3) by (simp add: delete_pending_user_def affected_def new_user_def)
qed

text \<open>The two statements of the cleanup, on the database a registration left.\<close>

lemma cleanup_statements:
  assumes "Store_RegisterWithVerification L addr pw cost otp tok ex w = (Inr r, w')" "schema_ok (disk w)"
  obtains d where "delete_email_records (\<lambda>e. e_user_id e = Some (ru_ID (rw_User r))) (disk w') = Inr (1, d)"
    "delete_pending_user (ru_ID (rw_User r)) d = Inr (1, disk w)"
proof -
  let ?i = "ru_ID (rw_User r)"
  let ?params = "\<lparr>cv_UserID = ?i, cv_OTP = otp, cv_MagicToken = tok, cv_ExpiresAt = ex\<rparr>"
  obtain c h t where i: "?i \<notin> u_id ` set (users (disk w))" and fr: "fresh_ids c (disk w)"
    and w': "disk w' = with_verification L ?params addr c t (with_user ?i addr h t (disk w))"
    using assms(1) by (rule register_run)
  let ?d = "with_user ?i addr h t (disk w)\<lparr>verifications := verifications (disk w')\<rparr>"
  have "\<And>e. e \<in> set (email_records (disk w)) \<Longrightarrow> e_user_id e \<noteq> Some ?i"
    using assms(2) i by (auto simp: schema_defs refs_in_def)
  then have "delete_email_records (\<lambda>e. e_user_id e = Some ?i) (disk w') = Inr (1, ?d)"
    using delete_mail [OF assms(2), of "ct_EmailRecordID c" "\<lambda>e. e_user_id e = Some ?i" ?i addr t "disk w'"] fr
    by (simp add: fresh_ids_def w' with_verification_def with_user_def new_mail_def)
  moreover have "delete_pending_user ?i ?d = Inr (1, disk w)"
    using delete_new_user [OF assms(2) i] by (simp add: w' with_verification_def with_user_def new_verification_def)
  ultimately show ?thesis by (rule that)
qed

text \<open>So a cleanup that reports success, whatever calls failed around it, removed the registration.\<close>

lemma cleanup_success:
  assumes "Store_RegisterWithVerification L addr pw cost otp tok ex w = (Inr r, w')" "schema_ok (disk w)"
    and "disk v = disk w'" "Store_CleanupPendingRegistration (ru_ID (rw_User r)) v = (Inr u, v')"
  shows "disk v' = disk w"
proof -
  obtain d where "delete_email_records (\<lambda>e. e_user_id e = Some (ru_ID (rw_User r))) (disk w') = Inr (1, d)"
    "delete_pending_user (ru_ID (rw_User r)) d = Inr (1, disk w)"
    using assms(1,2) by (rule cleanup_statements)
  with assms(3,4) show ?thesis by (auto simp: Store_CleanupPendingRegistration_def runs)
qed

text \<open>C26: when the verification mail cannot be queued, the cleanup removes the registration without
  a trace: the database is what it was before it.\<close>

theorem cleanup_restores:
  assumes "Store_RegisterWithVerification L addr pw cost otp tok ex w = (Inr r, w')"
    and "schema_ok (disk w)" "disk v = disk w'" "no_faults (orc v)"
  shows "fst (Store_CleanupPendingRegistration (ru_ID (rw_User r)) v) = Inr ()
    \<and> disk (snd (Store_CleanupPendingRegistration (ru_ID (rw_User r)) v)) = disk w"
proof -
  obtain d where "delete_email_records (\<lambda>e. e_user_id e = Some (ru_ID (rw_User r))) (disk w') = Inr (1, d)"
    "delete_pending_user (ru_ID (rw_User r)) d = Inr (1, disk w)"
    using assms(1,2) by (rule cleanup_statements)
  then show ?thesis
    using assms(3,4) by (simp add: Store_CleanupPendingRegistration_def run_tx_def ebind_def ecase_def tx_begin_def
        tx_exec_def tx_commit_def ext_def ok_def)
qed

definition sample_registration :: RegisterWithVerificationResult where
  "sample_registration = projr (fst (Store_RegisterWithVerification sample_lib ''b@x'' ''secret12'' 10 ''000009'' ''tok9''
     9000000000 (sample_world sample_pending)))"

lemma sample_register_run:
  "fst (Store_RegisterWithVerification sample_lib ''b@x'' ''secret12'' 10 ''000009'' ''tok9'' 9000000000
     (sample_world sample_pending)) = Inr sample_registration"
  by code_simp

theorem cleanup_restores_witness:
  "disk (snd (Store_CleanupPendingRegistration (ru_ID (rw_User sample_registration)) (sample_world (disk (snd
     (Store_RegisterWithVerification sample_lib ''b@x'' ''secret12'' 10 ''000009'' ''tok9'' 9000000000
       (sample_world sample_pending))))))) = sample_pending"
  using cleanup_restores [OF run_result [OF sample_register_run], of "sample_world (disk (snd
     (Store_RegisterWithVerification sample_lib ''b@x'' ''secret12'' 10 ''000009'' ''tok9'' 9000000000
       (sample_world sample_pending))))"] sample_pending_facts(1)
  by simp

text \<open>The code and the link of a fresh registration are what the two verification queries find.\<close>

lemma registered_pending:
  assumes "Store_RegisterWithVerification L addr pw cost otp tok ex w = (Inr r, w')" "schema_ok (disk w)"
  obtains v1 v2 where "pending_otp addr (disk w') = Some v1" "v_token_hash v1 = HashToken L otp"
    "pending_magic (HashToken L tok) (disk w') = Some v2"
    "\<forall>x \<in> {v1, v2}. v_user_id x = ru_ID (rw_User r) \<and> v_attempts x = 0 \<and> v_expires_at x = pg_ts ex"
    "\<exists>u \<in> set (users (disk w')). u_id u = ru_ID (rw_User r) \<and> u_email_verified_at u = None"
proof -
  let ?i = "ru_ID (rw_User r)"
  let ?params = "\<lparr>cv_UserID = ?i, cv_OTP = otp, cv_MagicToken = tok, cv_ExpiresAt = ex\<rparr>"
  obtain c h t where i: "?i \<notin> u_id ` set (users (disk w))" and a: "Some addr \<notin> u_email ` set (users (disk w))"
    and m: "Some (HashToken L tok) \<notin> magic_hash ` set (verifications (disk w))"
    and w': "disk w' = with_verification L ?params addr c t (with_user ?i addr h t (disk w))"
    using assms(1) by (rule register_run)
  let ?v1 = "new_verification (ct_OTPVerificationID c) ?i (HashToken L otp) ''otp'' ex t"
  let ?v2 = "new_verification (ct_MagicVerificationID c) ?i (HashToken L tok) ''magic_link'' ex t"
  have old: "v_user_id v \<in> u_id ` set (users (disk w))" "magic_hash v \<noteq> Some (HashToken L tok)"
    if "v \<in> set (verifications (disk w))" for v
    using assms(2) m that by (auto simp: schema_defs refs_in_def image_iff)
  have "\<not> list_ex (\<lambda>u. u_id u = v_user_id v \<and> u_email u = Some addr) (users (disk w'))"
    if "v \<in> set (verifications (disk w))" for v
    using old(1) [OF that] i a by (auto simp: list_ex_iff w' with_verification_def with_user_def new_user_def image_iff)
  then have "filter (\<lambda>v. v_token_type v = ''otp'' \<and> v_verified_at v = None \<and>
      list_ex (\<lambda>u. u_id u = v_user_id v \<and> u_email u = Some addr) (users (disk w'))) (verifications (disk w)) = []"
    by (simp add: filter_empty_conv)
  then have "pending_otp addr (disk w') = first_by newer [?v1]"
    by (simp add: pending_otp_def w' with_verification_def with_user_def new_user_def new_verification_def)
  then have "pending_otp addr (disk w') = Some ?v1" by (simp add: first_by_def newer_def)
  moreover have "List.find (\<lambda>v. v_token_type v = ''magic_link'' \<and> v_token_hash v = HashToken L tok \<and>
      v_verified_at v = None) (verifications (disk w)) = None"
    using old(2) by (fastforce simp: find_None_iff_all magic_hash_def)
  then have "pending_magic (HashToken L tok) (disk w') = Some ?v2"
    by (simp add: pending_magic_def find_append w' with_verification_def with_user_def new_verification_def)
  moreover have "\<exists>u \<in> set (users (disk w')). u_id u = ?i \<and> u_email_verified_at u = None"
    by (simp add: w' with_verification_def with_user_def new_user_def)
  ultimately show ?thesis using that by (auto simp: new_verification_def)
qed

text \<open>so does the link that was mailed with it.\<close>

theorem registered_link_activates:
  assumes "Store_RegisterWithVerification L addr pw cost otp tok ex w = (Inr r, w')" "schema_ok (disk w)"
    and "disk v = disk w'" "no_faults (orc v)" "now < pg_ts ex"
  shows "fst (Store_VerifyMagicLinkToken L tok now v) = Inr True"
proof -
  obtain v1 v2 where "pending_magic (HashToken L tok) (disk v) = Some v2"
    "\<forall>x \<in> {v1, v2}. v_user_id x = ru_ID (rw_User r) \<and> v_attempts x = 0 \<and> v_expires_at x = pg_ts ex"
    "\<exists>u \<in> set (users (disk v)). u_id u = ru_ID (rw_User r) \<and> u_email_verified_at u = None"
    using assms(3) by (metis registered_pending [OF assms(1,2)])
  then show ?thesis
    using assms(4,5) by (auto simp: Store_VerifyMagicLinkToken_def proc_defs Let_def
        mark_verified_def activate_user_def affected_pos)
qed

theorem registered_link_activates_witness:
  "fst (Store_VerifyMagicLinkToken sample_lib ''tok9'' 1000000000 (sample_world (disk (snd
     (Store_RegisterWithVerification sample_lib ''b@x'' ''secret12'' 10 ''000009'' ''tok9'' 9000000000
       (sample_world sample_pending)))))) = Inr True"
  using registered_link_activates [OF run_result [OF sample_register_run], of "sample_world (disk (snd
     (Store_RegisterWithVerification sample_lib ''b@x'' ''secret12'' 10 ''000009'' ''tok9'' 9000000000
       (sample_world sample_pending))))" 1000000000] sample_pending_facts(1)
  by (simp add: pg_ts_def)

end
