(* ===== verification/Frames.thy ===== *)
theory Frames
  imports World
begin

text \<open>
  What a program leaves alone. \<open>keeps f m\<close>: the part \<open>f\<close> of the world is the same after \<open>m\<close>. The
  locale \<open>db_view\<close> is the contract of a part that the database and the clocks do not touch,
  \<open>outside_view\<close> extends it to Redis and the analytics; their lemmas say that every primitive for
  those keeps the part. They are interpreted on the events that were tracked, and on the mails
  that were sent, the pending timers and the oracle. \<open>errs P m\<close>: every error of
  \<open>m\<close> satisfies \<open>P\<close>. \<open>advances m\<close>: the tick does not go back.
\<close>

subsection \<open>Parts of the world\<close>

definition keeps :: "('d world \<Rightarrow> 'x) \<Rightarrow> ('d, 'a) proc \<Rightarrow> bool" where
  "keeps f m \<longleftrightarrow> (\<forall>w. f (snd (m w)) = f w)"

lemma keepsD [simp]: "keeps f m \<Longrightarrow> f (snd (m w)) = f w"
  by (simp add: keeps_def)

lemma keeps_pairD: "keeps f m \<Longrightarrow> m w = (r, w') \<Longrightarrow> f w' = f w"
  by (metis keeps_def snd_conv)

lemma keeps_ecase:
  assumes "keeps f m" "\<And>e. keeps f (h e)" "\<And>x. keeps f (k x)"
  shows "keeps f (ecase m h k)"
  unfolding keeps_def
proof
  fix w
  obtain r w' where m: "m w = (r, w')" by (cases "m w")
  with assms(1) have "f w' = f w" by (rule keeps_pairD)
  with assms(2,3) m show "f (snd (ecase m h k w)) = f w"
    by (cases r) (auto simp: ecase_def)
qed

lemma keeps_results [simp]: "keeps f (ok x)" "keeps f (fail e)" "keeps f (of_result r)"
  by (simp_all add: keeps_def ok_def fail_def of_result_def)

lemma keeps_ebind: "keeps f m \<Longrightarrow> (\<And>x. keeps f (k x)) \<Longrightarrow> keeps f (ebind m k)"
  unfolding ebind_def by (rule keeps_ecase) auto

lemma keeps_if: "(b \<Longrightarrow> keeps f m) \<Longrightarrow> (\<not> b \<Longrightarrow> keeps f n) \<Longrightarrow> keeps f (if b then m else n)"
  by simp

lemma keeps_prod: "(\<And>a b. keeps f (m a b)) \<Longrightarrow> keeps f (case x of (a, b) \<Rightarrow> m a b)"
  by (cases x) simp

lemmas keeps_rules = keeps_ebind keeps_ecase keeps_if keeps_prod

locale db_view =
  fixes f :: "'d world \<Rightarrow> 'x"
  assumes f_tick: "f (w\<lparr>tick := t\<rparr>) = f w"
    and f_disk: "f (w\<lparr>disk := d\<rparr>) = f w"
    and f_work: "f (w\<lparr>work := d\<rparr>) = f w"
    and f_txnow: "f (w\<lparr>txnow := i\<rparr>) = f w"
begin

lemmas db_simps = f_tick f_disk f_work f_txnow

lemma keeps_ext: "(\<And>t. keeps f (g t)) \<Longrightarrow> keeps f (ext e g)"
  by (simp add: keeps_def ext_def f_tick)

lemma keeps_clock: "keeps f time_Now" "keeps f uuid_NewString" "keeps f (rand_Read n)" "keeps f (rand_Int k)"
  unfolding rand_Read_def rand_Int_def
  by (auto simp: time_Now_def uuid_NewString_def keeps_def db_simps ext_def)

lemma keeps_db: "keeps f (tx_query q)" "keeps f (tx_exec g)" "keeps f (pool_query q)" "keeps f (pool_exec g)"
  "keeps f tx_begin" "keeps f tx_commit"
  unfolding tx_query_def tx_exec_def pool_query_def pool_exec_def tx_begin_def tx_commit_def
  by (rule keeps_ext; auto simp: keeps_def db_simps split: sum.splits prod.splits)+

lemma keeps_run_tx: "keeps f m \<Longrightarrow> keeps f (run_tx m)"
  unfolding run_tx_def
proof (rule keeps_ebind)
  assume m: "keeps f m"
  show "keeps f (\<lambda>w. case m w of (r, w') \<Rightarrow> (r, w'\<lparr>work := disk w'\<rparr>))" for x :: unit
    unfolding keeps_def
  proof
    fix w obtain r w' where "m w = (r, w')" by (cases "m w")
    with keeps_pairD [OF m this] show "f (snd (case m w of (r, w') \<Rightarrow> (r, w'\<lparr>work := disk w'\<rparr>))) = f w"
      by (simp add: f_work)
  qed
qed (rule keeps_db)

lemmas keeps_prims = keeps_clock keeps_db keeps_run_tx

end

locale outside_view = db_view f for f :: "'d world \<Rightarrow> 'x" +
  assumes f_rds: "f (w\<lparr>rds := r\<rparr>) = f w"
    and f_events: "f (w\<lparr>events := es\<rparr>) = f w"
    and f_metrics: "f (w\<lparr>metrics_of := ms\<rparr>) = f w"
begin

lemmas view_simps = db_simps f_rds f_events f_metrics

lemma keeps_redis: "keeps f (redis_Incr s)" "keeps f (redis_Expire s i)" "keeps f (redis_Get s)" "keeps f (redis_Del s)"
  "keeps f (redis_RPush s v)" "keeps f (redis_BLPop s)" "keeps f (redis_LLen s)"
  unfolding redis_Incr_def redis_Expire_def redis_Get_def redis_Del_def redis_RPush_def redis_BLPop_def redis_LLen_def
  by (rule keeps_ext; auto simp: keeps_def view_simps Let_def split: prod.splits list.splits)+

lemma keeps_other: "keeps f (analytics_Track ev)" "keeps f (with_metrics g)"
  unfolding analytics_Track_def
  by (rule keeps_ext, simp add: keeps_def view_simps) (simp add: keeps_def with_metrics_def view_simps)

lemmas keeps_all = keeps_prims keeps_redis keeps_other

end

interpretation mails: outside_view outbox
  by unfold_locales auto

interpretation alarms: outside_view timers
  by unfold_locales auto

interpretation oracles: outside_view orc
  by unfold_locales auto

interpretation tracked: db_view events
  by unfold_locales auto

lemma keeps_worker [simp]:
  "keeps outbox (AfterFunc i q p)" "keeps timers (smtp_SendMail m)"
  "keeps orc (AfterFunc i q p)" "keeps orc (smtp_SendMail m)"
  by (simp_all add: keeps_def AfterFunc_def smtp_SendMail_def split: option.split)

subsection \<open>Errors\<close>

definition errs :: "(go_error \<Rightarrow> bool) \<Rightarrow> ('d, 'a) proc \<Rightarrow> bool" where
  "errs P m \<longleftrightarrow> (\<forall>w e. fst (m w) = Inl e \<longrightarrow> P e)"

lemma errsD: "errs P m \<Longrightarrow> m w = (Inl e, w') \<Longrightarrow> P e"
  by (metis errs_def fst_conv)

lemma errs_ok [simp]: "errs P (ok x)" and errs_fail [simp]: "errs P (fail e) \<longleftrightarrow> P e"
  by (auto simp: errs_def ok_def fail_def)

lemma errs_ecase:
  assumes "\<And>e. errs P (h e)" "\<And>x. errs P (k x)"
  shows "errs P (ecase m h k)"
  unfolding errs_def
proof (intro allI impI)
  fix w e assume "fst (ecase m h k w) = Inl e"
  with assms show "P e" by (auto simp: ecase_def errs_def split: prod.splits sum.splits)
qed

lemma errs_ebind:
  assumes "errs P m" "\<And>x. errs P (k x)"
  shows "errs P (ebind m k)"
  unfolding errs_def
proof (intro allI impI)
  fix w e assume e: "fst (ebind m k w) = Inl e"
  obtain r w' where m: "m w = (r, w')" by (cases "m w")
  show "P e"
  proof (cases r)
    case (Inl e')
    with e m have "m w = (Inl e, w')" by (simp add: ebind_def ecase_def fail_def)
    with assms(1) show ?thesis by (rule errsD)
  next
    case (Inr x)
    with e m have "fst (k x w') = Inl e" by (simp add: ebind_def ecase_def)
    with assms(2) show ?thesis by (auto simp: errs_def)
  qed
qed

lemma errs_if: "(b \<Longrightarrow> errs P m) \<Longrightarrow> (\<not> b \<Longrightarrow> errs P n) \<Longrightarrow> errs P (if b then m else n)"
  by simp

lemma errs_clock [simp]: "errs P time_Now" "errs P uuid_NewString"
  by (simp_all add: errs_def time_Now_def uuid_NewString_def)

text \<open>Errors of the database: what a statement returns, no row, or the database is unavailable.\<close>

lemma errs_db:
  assumes "P db_error"
  shows "P ErrNoRows \<Longrightarrow> errs P (tx_query q)" "P ErrNoRows \<Longrightarrow> errs P (pool_query q)"
    "(\<And>t d e. g t d = Inl e \<Longrightarrow> P e) \<Longrightarrow> errs P (tx_exec g)"
    "(\<And>t d e. g t d = Inl e \<Longrightarrow> P e) \<Longrightarrow> errs P (pool_exec g)"
    "errs P tx_begin" "errs P tx_commit"
  using assms
  by (auto simp: errs_def tx_query_def pool_query_def tx_exec_def pool_exec_def tx_begin_def tx_commit_def ext_def
      split: if_splits sum.splits prod.splits)

lemma errs_run_tx:
  assumes "P db_error" "errs P m"
  shows "errs P (run_tx m)"
  unfolding run_tx_def
proof (rule errs_ebind)
  show "errs P tx_begin" using errs_db(5) assms(1) by blast
  show "errs P (\<lambda>w. case m w of (r, w') \<Rightarrow> (r, w'\<lparr>work := disk w'\<rparr>))" for x :: unit
    using assms(2) by (auto simp: errs_def split: prod.splits) (metis fst_conv)
qed

text \<open>Inversion of runs that end in an error.\<close>

lemma err_ecase: "ecase m h k w = (Inl e, w') \<longleftrightarrow>
    (\<exists>e0 v. m w = (Inl e0, v) \<and> h e0 v = (Inl e, w')) \<or> (\<exists>x v. m w = (Inr x, v) \<and> k x v = (Inl e, w'))"
  by (auto simp: ecase_def split: prod.splits sum.splits)

lemma err_ebind: "ebind m k w = (Inl e, w') \<longleftrightarrow>
    m w = (Inl e, w') \<or> (\<exists>x v. m w = (Inr x, v) \<and> k x v = (Inl e, w'))"
  by (auto simp: ebind_def err_ecase fail_def)

lemma err_pure [simp]:
  "ok x w = (Inl e, w') \<longleftrightarrow> False" "fail e0 w = (Inl e, w') \<longleftrightarrow> e = e0 \<and> w' = w"
  "time_Now w = (Inl e, w') \<longleftrightarrow> False" "uuid_NewString w = (Inl e, w') \<longleftrightarrow> False"
  by (auto simp: ok_def fail_def time_Now_def uuid_NewString_def)

lemmas errs_rules = errs_ebind errs_if errs_run_tx

subsection \<open>Ticks\<close>

definition advances :: "('d, 'a) proc \<Rightarrow> bool" where
  "advances m \<longleftrightarrow> (\<forall>w. tick w \<le> tick (snd (m w)))"

lemma advancesD: "advances m \<Longrightarrow> m w = (r, w') \<Longrightarrow> tick w \<le> tick w'"
  by (metis advances_def snd_conv)

lemma advances_ecase:
  assumes "advances m" "\<And>e. advances (h e)" "\<And>x. advances (k x)"
  shows "advances (ecase (m :: ('d, 'a) proc) h k)"
  unfolding advances_def
proof
  fix w :: "'d world"
  obtain r w' where m: "m w = (r, w')" by (cases "m w")
  with assms(1) have "tick w \<le> tick w'" by (rule advancesD)
  also have "tick w' \<le> tick (snd (ecase m h k w))"
    using assms(2,3) m by (cases r) (auto simp: ecase_def advances_def)
  finally show "tick w \<le> tick (snd (ecase m h k w))" .
qed

lemma advances_pure [simp]:
  "advances (ok x)" "advances (fail e)" "advances (of_result r)" "advances time_Now" "advances uuid_NewString"
  "advances (AfterFunc i q p)" "advances (smtp_SendMail m)" "advances (with_metrics g)"
  by (simp_all add: advances_def ok_def fail_def of_result_def time_Now_def uuid_NewString_def AfterFunc_def
      smtp_SendMail_def with_metrics_def split: option.split)

lemma advances_ext:
  assumes "\<And>t. advances (g t)"
  shows "advances (ext e g)"
  unfolding advances_def
proof
  fix w
  have "tick (w\<lparr>tick := Suc (tick w)\<rparr>) \<le> tick (snd (g (tick w) (w\<lparr>tick := Suc (tick w)\<rparr>)))"
    using assms unfolding advances_def by blast
  then show "tick w \<le> tick (snd (ext e g w))" by (simp add: ext_def)
qed

lemma advances_prims [simp]:
  "advances (tx_query q)" "advances (tx_exec st)" "advances (pool_query q)" "advances (pool_exec st)"
  "advances tx_begin" "advances tx_commit" "advances (rand_Read n)" "advances (rand_Int k)" "advances (analytics_Track ev)"
  "advances (redis_RPush s v)" "advances (redis_BLPop s)"
  unfolding tx_query_def tx_exec_def pool_query_def pool_exec_def tx_begin_def tx_commit_def rand_Read_def
    rand_Int_def analytics_Track_def redis_RPush_def redis_BLPop_def
  by (rule advances_ext; simp add: advances_def Let_def split: sum.split prod.split list.split)+

lemma advances_ebind: "advances m \<Longrightarrow> (\<And>x. advances (k x)) \<Longrightarrow> advances (ebind m k)"
  unfolding ebind_def by (rule advances_ecase) auto

lemma advances_if: "(b \<Longrightarrow> advances m) \<Longrightarrow> (\<not> b \<Longrightarrow> advances n) \<Longrightarrow> advances (if b then m else n)"
  by simp

lemma advances_run_tx:
  assumes "advances m"
  shows "advances (run_tx (m :: ('d, 'a) proc))"
  unfolding run_tx_def
proof (rule advances_ebind)
  show "advances (\<lambda>w. case m w of (r, w') \<Rightarrow> (r, w'\<lparr>work := disk w'\<rparr>))" for x :: unit
    unfolding advances_def
  proof
    fix w :: "'d world"
    obtain r w' where "m w = (r, w')" by (cases "m w")
    with advancesD [OF assms this] show "tick w \<le> tick (snd (case m w of (r, w') \<Rightarrow> (r, w'\<lparr>work := disk w'\<rparr>)))"
      by simp
  qed
qed simp

lemmas advances_rules = advances_ebind advances_ecase advances_if advances_run_tx

end
