(* ===== verification/Auth_Requests.thy ===== *)
theory Auth_Requests
  imports Auth_Handler Auth_Sessions Auth_Verification Frames
begin

text \<open>
  Properties of the HTTP handlers of auth-api. A request to any endpoint is a sequence of store
  calls, so what holds for every sequence of those holds for every sequence of requests.
\<close>

subsection \<open>Requests are sequences of store calls\<close>

interpretation calls: db_preorder store_steps
  by unfold_locales auto

lemma op_store_step: "(\<And>w r w'. m w = (r, w') \<Longrightarrow> store_step (disk w) (disk w')) \<Longrightarrow> op_keeps store_steps m"
  unfolding op_keeps_def by (metis prod.collapse r_into_rtranclp)

lemma store_calls [intro!]:
  "op_keeps store_steps (Store_RegisterWithVerification L e p c otp mt ex)"
  "op_keeps store_steps (Store_CreateVerification L params)"
  "op_keeps store_steps (Store_CleanupPendingRegistration i)"
  "op_keeps store_steps (Store_ResendVerification L e otp mt ex now)"
  "op_keeps store_steps (Store_RollbackResendVerification res)"
  "op_keeps store_steps (Store_VerifyEmailOTP L e otp now)"
  "op_keeps store_steps (Store_VerifyMagicLinkToken L mt now)"
  "op_keeps store_steps (Store_Bootstrap L e p tn c)"
  "op_keeps store_steps (Store_SaveRefreshSession L tok i ex ua ip)"
  "op_keeps store_steps (Store_RotateRefreshToken L old new ex)"
  "op_keeps store_steps (Store_RevokeRefreshToken L tok)"
  "op_keeps store_steps (Store_RevokeAllRefreshTokensByUser i)"
  by (rule op_store_step, erule store_step.intros)+

lemma db_silent_store [simp]:
  "db_silent (scan_string x)" "db_silent (Store_LookupAnalyticsUserByEmail e)" "db_silent (Store_LookupMagicLinkAnalytics L mt now)"
  "db_silent (Store_ValidateMagicLinkToken L mt now)" "db_silent (Store_GetLoginUserByEmail e)" "db_silent (Store_EnsureUserInTenant u t)"
  unfolding Store_LookupAnalyticsUserByEmail_def Store_LookupMagicLinkAnalytics_def Store_ValidateMagicLinkToken_def
    Store_GetLoginUserByEmail_def Store_EnsureUserInTenant_def scan_string_def
  by (auto intro!: db_silent_ebind db_silent_ecase split: option.split prod.split)

lemma db_silent_client_Expire [simp]: "db_silent (client_Expire k d)"
  by (simp add: client_Expire_def)

lemma db_silent_if: "(b \<Longrightarrow> db_silent m) \<Longrightarrow> (\<not> b \<Longrightarrow> db_silent n) \<Longrightarrow> db_silent (if b then m else n)"
  by simp

lemma db_silent_prod: "(\<And>a b. db_silent (m a b)) \<Longrightarrow> db_silent (case x of (a, b) \<Rightarrow> m a b)"
  by (cases x) simp

lemmas silent_rules = db_silent_ebind db_silent_ecase db_silent_if db_silent_prod

lemma db_silent_script [simp]: "db_silent (script_Run k n)"
  unfolding script_Run_def by (rule db_silent_ext) (simp add: db_silent_def split: prod.split)

lemma db_silent_handler [simp]:
  "db_silent (Handler_track h ev)" "db_silent (trackVerificationRegistrationStarted h u e f)"
  "db_silent (trackVerificationOTPFailure h e rs)" "db_silent (enqueue_job L h j)"
  "db_silent (setMagicLinkStateCookie L c s t)" "db_silent (Handler_checkResendRateLimit h e)"
  "db_silent (Handler_isLoginRateLimited h k)" "db_silent (Handler_increaseLoginFailCount h k)"
  "db_silent (getOrCreateMagicLinkState c)" "db_silent (magic_link_error err)"
  "db_silent (bad msg)" "db_silent (resend_limited er rs n)"
  unfolding Handler_track_def trackVerificationRegistrationStarted_def trackVerificationOTPFailure_def enqueue_job_def
    setMagicLinkStateCookie_def Handler_checkResendRateLimit_def Handler_isLoginRateLimited_def Handler_increaseLoginFailCount_def
    getOrCreateMagicLinkState_def magic_link_error_def bad_def resend_limited_def Let_def
  by (auto intro!: silent_rules split: option.split redis_value.split list.split)

lemma op_bindJSON: "(\<And>q. op_keeps store_steps (k q)) \<Longrightarrow> op_keeps store_steps (bindJSON r k)"
  by (auto simp: bindJSON_def intro: calls.op_silent split: sum.split)

lemma op_option: "op_keeps store_steps n \<Longrightarrow> (\<And>x. op_keeps store_steps (k x)) \<Longrightarrow> op_keeps store_steps (case y of None \<Rightarrow> n | Some x \<Rightarrow> k x)"
  by (cases y) auto

lemma handler_calls:
  "op_keeps store_steps (Handler_Bootstrap L h b1 c)" "op_keeps store_steps (Handler_Register L h b2 c)"
  "op_keeps store_steps (Handler_ResendVerification L h b3 c)" "op_keeps store_steps (Handler_VerifyEmail L h b4 c)"
  "op_keeps store_steps (Handler_VerifyMagicLink L h c)" "op_keeps store_steps (Handler_Login L h b2 c)"
  "op_keeps store_steps (Handler_Refresh L h b3 c)" "op_keeps store_steps (Handler_Logout L b3 c)"
  "op_keeps store_steps (Handler_LogoutAll c)" "op_keeps store_steps (Handler_SwitchTenant L h b3 c)"
  unfolding Handler_Bootstrap_def Handler_Register_def Handler_ResendVerification_def Handler_VerifyEmail_def
    Handler_VerifyMagicLink_def Handler_Login_def Handler_Refresh_def Handler_Logout_def Handler_LogoutAll_def
    Handler_SwitchTenant_def Handler_enqueueVerificationEmail_def undo_registration_def rollbackResend_def otp_rejected_def
    Handler_issueTokens_def Let_def
  by (intro op_bindJSON calls.op_ebind calls.op_ecase calls.op_if calls.op_prod op_option store_calls calls.op_silent; simp)+

subsection \<open>Refreshing\<close>

lemma refresh_run:
  assumes "Handler_Refresh L h (Inr tok) c w = (Inr resp, w')"
  obtains newTok v uid v' where "disk v = disk w" "Store_RotateRefreshToken L tok newTok (o_clock (orc w) (Suc (tick w)) + RefreshTTL h) v = (Inr (uid, []), v')"
    "disk w' = disk v'" "orc v = orc w"
proof -
  obtain newTok v1 v2 uid tid v3 at v4 where
    r: "RandomToken 32 w = (Inr newTok, v1)" "v2 = v1\<lparr>tick := Suc (tick v1)\<rparr>"
    "Store_RotateRefreshToken L tok newTok (o_clock (orc v1) (tick v1) + RefreshTTL h) v2 = (Inr (uid, tid), v3)"
    "SignAccessToken L (JWTSecret h) (JWTIssuer h) (JWTAudience h) uid None (AccessTTL h) v3 = (Inr at, v4)" "w' = v4"
    using assms by (auto simp: Handler_Refresh_def bindJSON_def runs)
  have v1: "v1 = w\<lparr>tick := Suc (tick w)\<rparr>" using r(1) by (auto simp: RandomToken_def runs)
  have "tid = []" using rotate_run [OF r(3)] by blast
  moreover have "disk v4 = disk v3"
    using r(4) db_silentD [OF db_silent_SignAccessToken, of L "JWTSecret h" "JWTIssuer h" "JWTAudience h" uid None "AccessTTL h" v3] by simp
  ultimately show ?thesis using that [of v2 newTok uid v3] r(2-5) v1 by simp
qed

lemma revoked_refresh:
  assumes "session_by_hash (HashRefreshToken L tok) d = Some s" "s_revoked_at s \<noteq> None"
    and "schema_ok d" "verified_at (s_user_id s) t d" "mono_rel d (disk v)"
  shows "(\<exists>err. fst (Handler_Refresh L h (Inr tok) c v) = Inl err) \<and> disk (snd (Handler_Refresh L h (Inr tok) c v)) = disk v"
proof -
  have rot: "\<exists>e x'. Store_RotateRefreshToken L tok newTok ex x = (Inl e, x') \<and> disk x' = disk v" if "disk x = disk v" for newTok ex x
    using revoked_refused [OF assms(1-4), of x newTok ex] assms(5) that
    by (cases "Store_RotateRefreshToken L tok newTok ex x") auto
  obtain r x where rt: "RandomToken 32 v = (r, x)" by (cases "RandomToken 32 v")
  have x: "disk x = disk v" using rt db_silent_tokens by (metis db_silentD snd_conv)
  show ?thesis
  proof (cases r)
    case (Inr b)
    obtain e x' where
      "Store_RotateRefreshToken L tok b (o_clock (orc x) (tick x) + RefreshTTL h) (x\<lparr>tick := Suc (tick x)\<rparr>) = (Inl e, x')" "disk x' = disk v"
      using rot [of "x\<lparr>tick := Suc (tick x)\<rparr>" b "o_clock (orc x) (tick x) + RefreshTTL h"] x by auto
    then show ?thesis using rt Inr by (simp add: Handler_Refresh_def bindJSON_def ebind_def ecase_def fail_def time_Now_def)
  qed (use rt x in \<open>simp add: Handler_Refresh_def bindJSON_def ebind_def ecase_def fail_def\<close>)
qed

lemma refresh_refused:
  assumes "Handler_Refresh L h (Inr tok) c w = (Inr resp, w')" "schema_ok (disk w)"
    and "session_by_hash (HashRefreshToken L tok) (disk w) = Some s" "verified_at (s_user_id s) t (disk w)"
    and "mono_rel (disk w') (disk v)"
  shows "(\<exists>err. fst (Handler_Refresh L h' (Inr tok) c' v) = Inl err) \<and> disk (snd (Handler_Refresh L h' (Inr tok) c' v)) = disk v"
proof -
  obtain newTok u uid u' ex where u: "disk u = disk w" "Store_RotateRefreshToken L tok newTok ex u = (Inr (uid, []), u')" "disk w' = disk u'"
    using refresh_run [OF assms(1)] by metis
  have "uid = s_user_id s" using rotate_run [OF u(2)] assms(3) u(1) by (metis option.inject)
  then obtain s' where "session_by_hash (HashRefreshToken L tok) (disk w') = Some s'" "s_revoked_at s' \<noteq> None"
    "schema_ok (disk w')" "verified_at (s_user_id s') t (disk w')"
    using rotate_revokes [OF u(2), of t] assms(2,4) u(1,3) by metis
  from revoked_refresh [OF this assms(5)] show ?thesis .
qed

subsection \<open>Logging out\<close>

text \<open>Both logouts run one statement, which leaves revoked every session it selects.\<close>

lemma logout_run:
  assumes "Handler_Logout L (Inr tok) c w = (Inr resp, w')"
  obtains n where "pool_exec (revoke_sessions (\<lambda>s. s_token_hash s = HashRefreshToken L tok) None) w = (Inr n, w')"
  using that assms by (auto simp: Handler_Logout_def bindJSON_def Store_RevokeRefreshToken_def HashRefreshToken_def run_ebind run_pure)

lemma logout_all_run:
  assumes "Handler_LogoutAll c w = (Inr resp, w')"
  obtains n where "pool_exec (revoke_sessions (\<lambda>s. s_user_id s = TrimSpace (ctx_uid c)) None) w = (Inr n, w')"
  using that assms
  by (auto simp: Handler_LogoutAll_def Let_def Store_RevokeAllRefreshTokensByUser_def run_ebind run_pure split: if_splits)

lemma logout_refused:
  assumes "Handler_Logout L (Inr tok) c w = (Inr resp, w') \<or>
      Handler_LogoutAll c w = (Inr resp, w') \<and> TrimSpace (ctx_uid c) = s_user_id s"
    and "schema_ok (disk w)" "session_by_hash (HashRefreshToken L tok) (disk w) = Some s" "verified_at (s_user_id s) t (disk w)"
    and "mono_rel (disk w) (disk w')" "mono_rel (disk w') (disk v)"
  shows "(\<exists>err. fst (Handler_Refresh L h' (Inr tok) c' v) = Inl err) \<and> disk (snd (Handler_Refresh L h' (Inr tok) c' v)) = disk v"
proof -
  have "s_token_hash s = HashRefreshToken L tok" using assms(3) by (rule session_by_hash_hash)
  then obtain p n where "pool_exec (revoke_sessions p None) w = (Inr n, w')" "p s"
    using assms(1) logout_run logout_all_run by (metis (mono_tags, lifting))
  then obtain s' where s': "session_by_hash (HashRefreshToken L tok) (disk w') = Some s'" "s_revoked_at s' \<noteq> None" "s_user_id s' = s_user_id s"
    using revoke_leaves_revoked [OF _ assms(3)] by metis
  moreover have "schema_ok (disk w')" "verified_at (s_user_id s') t (disk w')"
    using assms(2,4,5) s'(3) by (auto simp: mono_rel_def)
  ultimately show ?thesis using revoked_refresh [OF s'(1,2)] assms(6) by blast
qed

subsection \<open>Logging in\<close>

definition norm_email :: "lib \<Rightarrow> string \<Rightarrow> string" where
  "norm_email L e = TrimSpace (ToLower L e)"

lemma GetLoginUser_run:
  "Store_GetLoginUserByEmail e w = (Inr lu, w') \<longleftrightarrow> \<not> o_fault (orc w) (tick w) \<and> w' = w\<lparr>tick := Suc (tick w)\<rparr> \<and>
     (\<exists>u cr addr. login_row e (disk w) = Some (u, cr) \<and> u_email u = Some addr \<and> lu = \<lparr>lu_ID = u_id u, lu_Email = addr,
        lu_Status = u_status u, lu_EmailVerifiedAt = u_email_verified_at u, lu_PasswordHash = c_password_hash cr\<rparr>)"
  by (auto simp: Store_GetLoginUserByEmail_def scan_string_def runs split: option.splits)

lemma isLoginRateLimited_run:
  assumes "Handler_isLoginRateLimited h key w = (Inr False, w')"
  shows "disk w' = disk w \<and> (h_Redis h \<longrightarrow> counter_value key (o_rclock (orc w) (tick w)) (rds w) < LoginFailLimit h)"
  using assms
  by (auto simp: Handler_isLoginRateLimited_def ecase_def redis_Get_def ext_def ok_def fail_def counter_value_def redis_error_def
      errors_Is_def split: if_splits option.splits)

lemma issueTokens_run:
  assumes "Handler_issueTokens L h uid tid ua ip w = (Inr (at, rt), w')"
  obtains i t ex where "disk w' = (disk w)\<lparr>sessions := sessions (disk w) @ [\<lparr>s_id = i, s_user_id = uid,
     s_token_hash = HashRefreshToken L rt, s_user_agent = Some ua, s_ip = Some ip, s_expires_at = pg_ts ex,
     s_revoked_at = None, s_replaced_by = None, s_created_at = t\<rparr>]\<rparr>"
proof -
  obtain w1 w2 ex where w: "disk w2 = disk w" "Store_SaveRefreshSession L rt uid ex ua ip w2 = (Inr (), w')"
  proof -
    obtain v1 v2 where v: "SignAccessToken L (JWTSecret h) (JWTIssuer h) (JWTAudience h) uid (if TrimSpace tid \<noteq> [] then Some tid else None) (AccessTTL h) w = (Inr at, v1)"
      "RandomToken 32 v1 = (Inr rt, v2)"
      "Store_SaveRefreshSession L rt uid (o_clock (orc v2) (tick v2) + RefreshTTL h) ua ip (v2\<lparr>tick := Suc (tick v2)\<rparr>) = (Inr (), w')"
      using assms by (auto simp: Handler_issueTokens_def Let_def runs)
    have "disk v1 = disk w" using v(1) db_silent_SignAccessToken by (metis db_silentD snd_conv)
    moreover have "disk v2 = disk v1" using v(2) db_silent_tokens(1) by (metis db_silentD snd_conv)
    ultimately show thesis using that [of "v2\<lparr>tick := Suc (tick v2)\<rparr>"] v(3) by simp
  qed
  then show ?thesis
    using that by (auto simp: Store_SaveRefreshSession_def HashRefreshToken_def runs insert_iff)
qed

text \<open>The part of \<open>Handler_Login\<close> that runs once the address is not blocked, and its end.\<close>

definition login_grant :: "lib \<Rightarrow> Handler \<Rightarrow> request \<Rightarrow> string \<Rightarrow> string \<Rightarrow> string \<Rightarrow> (db, response) proc" where
  "login_grant L h c email uid addr =
     ebind (Handler_issueTokens L h uid [] (rq_Header c ''User-Agent'') (rq_ClientIP c)) (\<lambda>(at, rt).
     ebind (if h_Redis h then ecase (redis_Del (login_key c email)) (\<lambda>_. ok ()) (\<lambda>_. ok ()) else ok ()) (\<lambda>_.
     ok (resp_OK (ctx_request_id c) (LoginResponse at (wholeSeconds (AccessTTL h)) rt
           (wholeSeconds (RefreshTTL h)) (UserSummary uid addr)))))"

definition login_user :: "lib \<Rightarrow> Handler \<Rightarrow> RegisterRequest \<Rightarrow> request \<Rightarrow> string \<Rightarrow> (db, response) proc" where
  "login_user L h req c email =
     ecase (Store_GetLoginUserByEmail email)
       (\<lambda>err. if errors_Is err ErrNoRows
               then ebind (Handler_increaseLoginFailCount h (login_key c email)) (\<lambda>_.
                    fail (App (Unauthorized (New ''invalid_credentials''))))
               else fail err) (\<lambda>user.
     if lu_EmailVerifiedAt user = None
     then fail (App (WithData (Forbidden (Some (New ''email_not_verified''))) [(''reason'', JStr ''email_not_verified''),
            (''message'', JStr ''Please verify your email before logging in.'')]))
     else if lu_Status user \<noteq> userStatusActive then fail (App (Unauthorized (New ''invalid_credentials'')))
     else if VerifyPassword L (lu_PasswordHash user) (gq_Password req) \<noteq> None
     then ebind (Handler_increaseLoginFailCount h (login_key c email)) (\<lambda>_.
          fail (App (Unauthorized (New ''invalid_credentials''))))
     else
     login_grant L h c email (lu_ID user) (lu_Email user))"

lemma Handler_Login_unfold:
  "Handler_Login L h (Inr req) c =
     (if mail_ParseAddress L (norm_email L (gq_Email req)) = None then bad ''invalid_email''
      else if TrimSpace (gq_Password req) = [] then bad ''password_required''
      else ebind (Handler_isLoginRateLimited h (login_key c (norm_email L (gq_Email req)))) (\<lambda>blocked.
           if blocked then fail (App (RateLimited (New ''login_rate_limited'')))
           else login_user L h req c (norm_email L (gq_Email req))))"
  unfolding Handler_Login_def bindJSON_def norm_email_def login_user_def login_grant_def Let_def sum.case by (rule refl)

lemma login_user_run:
  assumes "login_user L h req c e w = (Inr resp, w')"
  obtains u cr addr v where "login_row e (disk w) = Some (u, cr)" "u_email u = Some addr" "u_email_verified_at u \<noteq> None"
    "u_status u = 1" "VerifyPassword L (c_password_hash cr) (gq_Password req) = None" "disk v = disk w"
    "login_grant L h c e (u_id u) addr v = (Inr resp, w')"
proof -
  obtain lu v where v: "Store_GetLoginUserByEmail e w = (Inr lu, v)" "lu_EmailVerifiedAt lu \<noteq> None" "lu_Status lu = 1"
    "VerifyPassword L (lu_PasswordHash lu) (gq_Password req) = None" "login_grant L h c e (lu_ID lu) (lu_Email lu) v = (Inr resp, w')"
    using assms by (auto simp: login_user_def run_ecase run_ebind run_pure userStatusActive_def split: if_splits)
  then obtain u cr addr where "login_row e (disk w) = Some (u, cr)" "u_email u = Some addr" "v = w\<lparr>tick := Suc (tick w)\<rparr>"
    "lu = \<lparr>lu_ID = u_id u, lu_Email = addr, lu_Status = u_status u, lu_EmailVerifiedAt = u_email_verified_at u,
       lu_PasswordHash = c_password_hash cr\<rparr>"
    by (auto simp: GetLoginUser_run)
  then show ?thesis using v(2-5) that [of u cr addr v] by simp
qed

text \<open>C8: a login succeeds only for an account that exists under the normalised address, is verified and
  active, whose stored hash matches the password, and whose failure counter is below the limit;
  it then adds exactly one session, for that account and the returned refresh token, and changes
  nothing else.\<close>

theorem login_sound:
  assumes "Handler_Login L h (Inr req) c w = (Inr resp, w')"
  shows "\<exists>u cr at rt s. login_row (norm_email L (gq_Email req)) (disk w) = Some (u, cr)
    \<and> u_email_verified_at u \<noteq> None \<and> u_status u = 1
    \<and> bcrypt_Compare L (c_password_hash cr) (gq_Password req) = None
    \<and> (h_Redis h \<longrightarrow> counter_value (login_key c (norm_email L (gq_Email req))) (o_rclock (orc w) (tick w)) (rds w) < LoginFailLimit h)
    \<and> resp = resp_OK (ctx_request_id c) (LoginResponse at (wholeSeconds (AccessTTL h)) rt (wholeSeconds (RefreshTTL h))
        (UserSummary (u_id u) (the (u_email u))))
    \<and> s_user_id s = u_id u \<and> s_token_hash s = HashRefreshToken L rt \<and> s_revoked_at s = None
    \<and> disk w' = (disk w)\<lparr>sessions := sessions (disk w) @ [s]\<rparr>"
proof -
  let ?e = "norm_email L (gq_Email req)"
  obtain v1 where lim: "Handler_isLoginRateLimited h (login_key c ?e) w = (Inr False, v1)"
    and run: "login_user L h req c ?e v1 = (Inr resp, w')"
    using assms by (auto simp: Handler_Login_unfold bad_def run_ebind run_pure split: if_splits)
  have v1: "disk v1 = disk w" "h_Redis h \<longrightarrow> counter_value (login_key c ?e) (o_rclock (orc w) (tick w)) (rds w) < LoginFailLimit h"
    using isLoginRateLimited_run [OF lim] by simp_all
  obtain u cr addr v2 where u: "login_row ?e (disk w) = Some (u, cr)" "u_email u = Some addr" "u_email_verified_at u \<noteq> None" "u_status u = 1"
    "VerifyPassword L (c_password_hash cr) (gq_Password req) = None" "disk v2 = disk w"
    and k: "login_grant L h c ?e (u_id u) addr v2 = (Inr resp, w')"
    using login_user_run [OF run] v1(1) by metis
  obtain at rt v3 where it: "Handler_issueTokens L h (u_id u) [] (rq_Header c ''User-Agent'') (rq_ClientIP c) v2 = (Inr (at, rt), v3)"
    and rest: "ebind (if h_Redis h then ecase (redis_Del (login_key c ?e)) (\<lambda>_. ok ()) (\<lambda>_. ok ()) else ok ()) (\<lambda>_.
           ok (resp_OK (ctx_request_id c) (LoginResponse at (wholeSeconds (AccessTTL h)) rt
                 (wholeSeconds (RefreshTTL h)) (UserSummary (u_id u) addr)))) v3 = (Inr resp, w')"
    using k by (auto simp: login_grant_def run_ebind)
  have "db_silent (ebind (if h_Redis h then ecase (redis_Del (login_key c ?e)) (\<lambda>_. ok ()) (\<lambda>_. ok ()) else ok ()) (\<lambda>_. ok resp))"
    by (auto intro!: silent_rules)
  moreover have resp: "resp = resp_OK (ctx_request_id c) (LoginResponse at (wholeSeconds (AccessTTL h)) rt
                 (wholeSeconds (RefreshTTL h)) (UserSummary (u_id u) addr))"
    using rest by (auto simp: run_ebind run_pure)
  ultimately have "disk w' = disk v3" using rest by (metis db_silentD snd_conv)
  moreover obtain s where "disk v3 = (disk w)\<lparr>sessions := sessions (disk w) @ [s]\<rparr>" "s_user_id s = u_id u"
    "s_token_hash s = HashRefreshToken L rt" "s_revoked_at s = None"
    using issueTokens_run [OF it] u(6) by (metis session_row.select_convs(2,3,7))
  moreover have "bcrypt_Compare L (c_password_hash cr) (gq_Password req) = None" using u(5) by (simp add: VerifyPassword_None)
  ultimately show ?thesis
    using u(1-4) v1(2) resp
    by (intro exI [of _ u] exI [of _ cr] exI [of _ at] exI [of _ rt] exI [of _ s]) simp
qed

end
