(* ===== verification/Auth_Limits.thy ===== *)
theory Auth_Limits
  imports Auth_Requests "HOL-Library.Code_Target_Nat"
begin

text \<open>
  The limits of auth-api that live in Redis: the lockout after failed logins, which is another
  client of the fixed-window counter, and the cooldown between two verification mails.
\<close>

subsection \<open>Login lockout\<close>

definition wrong_login :: "lib \<Rightarrow> string \<Rightarrow> string \<Rightarrow> db \<Rightarrow> bool" where
  "wrong_login L e p d =
     (TrimSpace p \<noteq> [] \<and>
      (case login_row e d of
         None \<Rightarrow> True
       | Some (u, cr) \<Rightarrow> u_email u \<noteq> None \<and> u_email_verified_at u \<noteq> None \<and> u_status u = 1
           \<and> bcrypt_Compare L (c_password_hash cr) p \<noteq> None))"

fun try_logins :: "lib \<Rightarrow> Handler \<Rightarrow> string \<Rightarrow> request \<Rightarrow> string list \<Rightarrow> db world \<Rightarrow> db world" where
  "try_logins L h e c [] w = w"
| "try_logins L h e c (p # ps) w =
     try_logins L h e c ps (snd (Handler_Login L h (Inr \<lparr>gq_Email = e, gq_Password = p\<rparr>) c w))"

abbreviation login_fail_ttl :: "Handler \<Rightarrow> int" where
  "login_fail_ttl h \<equiv> formatSec (LoginFailWindow h) * 1000000000"

lemma isLoginRateLimited_eval:
  assumes "no_faults (orc w)" "h_Redis h"
  shows "Handler_isLoginRateLimited h key w =
    (Inr (LoginFailLimit h \<le> counter_value key (o_rclock (orc w) (tick w)) (rds w)), w\<lparr>tick := Suc (tick w)\<rparr>)"
  using assms
  by (auto simp: Handler_isLoginRateLimited_def ecase_def redis_Get_def ext_def ok_def fail_def counter_value_def
      errors_Is_def split: option.split)

lemma increaseLoginFailCount_eval:
  assumes "no_faults (orc w)" "h_Redis h"
  obtains u v where "Handler_increaseLoginFailCount h key w = (Inr (), v)" "u \<in> {tick w, Suc (tick w)}" "tick v = Suc u"
    "rds v = snd (window_hit key (login_fail_ttl h) (o_rclock (orc w) (tick w)) (o_rclock (orc w) u) (rds w))"
    "orc v = orc w" "disk v = disk w"
proof -
  obtain n r where i: "incr (o_rclock (orc w) (tick w)) (rds w) key = (n, r)" by (cases "incr (o_rclock (orc w) (tick w)) (rds w) key")
  define u where "u = (if n = 1 then Suc (tick w) else tick w)"
  define v where "v = w\<lparr>tick := Suc u, rds := if n = 1 then expire (o_rclock (orc w) u) r key (login_fail_ttl h) else r\<rparr>"
  show ?thesis
  proof (rule that [of v u])
    show "Handler_increaseLoginFailCount h key w = (Inr (), v)"
      using assms i
      by (simp add: Handler_increaseLoginFailCount_def client_Expire_def redis_Incr_def redis_Expire_def ecase_def ok_def ext_def
          u_def v_def)
  qed (auto simp: u_def v_def window_hit_def i)
qed

text \<open>A failed attempt below the limit is one hit of the counter.\<close>

lemma wrong_login_hit:
  assumes "no_faults (orc w)" "h_Redis h" "wrong_login L (norm_email L e) p (disk w)" "mail_ParseAddress L (norm_email L e) \<noteq> None"
    and "counter_value (login_key c (norm_email L e)) (o_rclock (orc w) (tick w)) (rds w) < LoginFailLimit h"
  obtains v i j where "Handler_Login L h (Inr \<lparr>gq_Email = e, gq_Password = p\<rparr>) c w = (Inl (App (Unauthorized (New ''invalid_credentials''))), v)"
    "tick w \<le> i" "i \<le> j" "j \<le> tick v" "orc v = orc w" "disk v = disk w"
    "rds v = snd (window_hit (login_key c (norm_email L e)) (login_fail_ttl h) (o_rclock (orc w) i) (o_rclock (orc w) j) (rds w))"
proof -
  let ?key = "login_key c (norm_email L e)" and ?w = "w\<lparr>tick := Suc (Suc (tick w))\<rparr>"
  obtain j v where v: "Handler_increaseLoginFailCount h ?key ?w = (Inr (), v)" "j \<in> {tick ?w, Suc (tick ?w)}" "tick v = Suc j"
    "rds v = snd (window_hit ?key (login_fail_ttl h) (o_rclock (orc ?w) (tick ?w)) (o_rclock (orc ?w) j) (rds ?w))"
    "orc v = orc ?w" "disk v = disk ?w"
    by (rule increaseLoginFailCount_eval [of ?w h ?key]) (use assms(1,2) that in \<open>simp, simp, blast\<close>)
  have "Handler_Login L h (Inr \<lparr>gq_Email = e, gq_Password = p\<rparr>) c w =
      login_user L h \<lparr>gq_Email = e, gq_Password = p\<rparr> c (norm_email L e) (w\<lparr>tick := Suc (tick w)\<rparr>)"
    using assms by (auto simp: Handler_Login_unfold isLoginRateLimited_eval ebind_def ecase_def wrong_login_def)
  also have "\<dots> = (Inl (App (Unauthorized (New ''invalid_credentials''))), v)"
    using assms(1,3) v(1)
    by (auto simp: login_user_def Store_GetLoginUserByEmail_def scan_string_def pool_query_def ext_def ebind_def ecase_def
        wrong_login_def ok_def fail_def userStatusActive_def split: option.splits prod.splits)
  finally show ?thesis using that [of v "tick ?w" j] v(2-6) by auto
qed

lemma blocked_login:
  assumes "no_faults (orc w)" "h_Redis h" "TrimSpace p \<noteq> []" "mail_ParseAddress L (norm_email L e) \<noteq> None"
    and "LoginFailLimit h \<le> counter_value (login_key c (norm_email L e)) (o_rclock (orc w) (tick w)) (rds w)"
  shows "Handler_Login L h (Inr \<lparr>gq_Email = e, gq_Password = p\<rparr>) c w =
    (Inl (App (RateLimited (New ''login_rate_limited''))), w\<lparr>tick := Suc (tick w)\<rparr>)"
  using assms by (auto simp: Handler_Login_unfold isLoginRateLimited_eval ebind_def ecase_def fail_def)

lemma live_later: "live t r k = None \<Longrightarrow> t \<le> t' \<Longrightarrow> live t' r k = None"
  by (auto simp: live_def split: option.splits prod.splits if_splits)

definition counts_until :: "instant \<Rightarrow> string \<Rightarrow> int \<Rightarrow> db world \<Rightarrow> bool" where
  "counts_until hi key k w \<longleftrightarrow> (\<forall>t. o_rclock (orc w) (tick w) \<le> t \<longrightarrow> t < hi \<longrightarrow> counter_value key t (rds w) = k)"

lemma wrong_logins_count:
  assumes "no_faults (orc w)" "h_Redis h" "mono (o_rclock (orc w))" "\<And>i. o_rclock (orc w) i < hi"
    and "mail_ParseAddress L (norm_email L e) \<noteq> None" "\<And>p. p \<in> set ps \<Longrightarrow> wrong_login L (norm_email L e) p (disk w)"
    and "counts_until hi (login_key c (norm_email L e)) k w" "0 < k" "k \<le> LoginFailLimit h"
  shows "\<exists>v. try_logins L h e c ps w = v \<and> orc v = orc w \<and> disk v = disk w \<and>
    counts_until hi (login_key c (norm_email L e)) (min (k + int (length ps)) (LoginFailLimit h)) v"
  using assms
proof (induction ps arbitrary: w k)
  case Nil
  then show ?case by (simp add: min_def)
next
  case (Cons p ps)
  let ?key = "login_key c (norm_email L e)"
  have now: "counter_value ?key (o_rclock (orc w) (tick w)) (rds w) = k" using Cons.prems(4,7) by (simp add: counts_until_def)
  have wrong: "wrong_login L (norm_email L e) p (disk w)" using Cons.prems(6) by simp
  show ?case
  proof (cases "k < LoginFailLimit h")
    case True
    obtain v i j where v: "Handler_Login L h (Inr \<lparr>gq_Email = e, gq_Password = p\<rparr>) c w = (Inl (App (Unauthorized (New ''invalid_credentials''))), v)"
      "tick w \<le> i" "i \<le> j" "j \<le> tick v" "orc v = orc w" "disk v = disk w"
      "rds v = snd (window_hit ?key (login_fail_ttl h) (o_rclock (orc w) i) (o_rclock (orc w) j) (rds w))"
      using wrong_login_hit [OF Cons.prems(1,2) wrong Cons.prems(5)] now True by metis
    have at: "counter_value ?key t (rds w) = k" if "o_rclock (orc w) i \<le> t" "t < hi" for t
      using Cons.prems(7) monoD [OF Cons.prems(3) v(2)] that by (auto simp: counts_until_def)
    have "counts_until hi ?key (k + 1) v"
      unfolding counts_until_def
    proof (intro allI impI)
      fix t assume t: "o_rclock (orc v) (tick v) \<le> t" "t < hi"
      have ij: "o_rclock (orc w) i \<le> o_rclock (orc w) j" "o_rclock (orc w) j \<le> t"
        using monoD [OF Cons.prems(3)] v(3,4,5) t(1) by (auto intro: order_trans)
      show "counter_value ?key t (rds v) = k + 1"
        using limiter.hit_stays [of ?key "o_rclock (orc w) i" "rds w" "o_rclock (orc w) j" t "login_fail_ttl h"]
          at [of t] at [of "o_rclock (orc w) i"] Cons.prems(4,8) ij t v(7) by simp
    qed
    then have "\<exists>x. try_logins L h e c ps v = x \<and> orc x = orc v \<and> disk x = disk v \<and>
        counts_until hi ?key (min (k + 1 + int (length ps)) (LoginFailLimit h)) x"
      using Cons.prems v(5,6) True by (intro Cons.IH) auto
    then show ?thesis using v(1,5,6) by (simp add: algebra_simps)
  next
    case False
    then have k: "k = LoginFailLimit h" using Cons.prems(9) by simp
    let ?v = "w\<lparr>tick := Suc (tick w)\<rparr>"
    have step: "snd (Handler_Login L h (Inr \<lparr>gq_Email = e, gq_Password = p\<rparr>) c w) = ?v"
      using blocked_login [OF Cons.prems(1,2) _ Cons.prems(5), of p] now k wrong by (simp add: wrong_login_def)
    have "counts_until hi ?key k ?v"
      using Cons.prems(7) monoD [OF Cons.prems(3), of "tick w" "Suc (tick w)"] by (auto simp: counts_until_def)
    then have "\<exists>x. try_logins L h e c ps ?v = x \<and> orc x = orc ?v \<and> disk x = disk ?v \<and>
        counts_until hi ?key (min (k + int (length ps)) (LoginFailLimit h)) x"
      using Cons.prems by (intro Cons.IH) auto
    then show ?thesis using step k by simp
  qed
qed

text \<open>C18: the login lockout. Once a client has made as many wrong attempts on an address as the limit
  allows, within one window that starts with them, every further attempt on it is refused, also with the
  right password, until the window ends; and nothing was written to the database.\<close>

theorem login_lockout:
  assumes "no_faults (orc w)" "h_Redis h" "mono (o_rclock (orc w))"
    and "\<And>i. o_rclock (orc w) i < o_rclock (orc w) (tick w) + login_fail_ttl h"
    and "live (o_rclock (orc w) (tick w)) (rds w) (login_key c (norm_email L e)) = None"
    and "mail_ParseAddress L (norm_email L e) \<noteq> None" "\<And>q. q \<in> set ps \<Longrightarrow> wrong_login L (norm_email L e) q (disk w)"
    and "0 < LoginFailLimit h" "LoginFailLimit h \<le> int (length ps)" "TrimSpace p \<noteq> []"
  shows "fst (Handler_Login L h (Inr \<lparr>gq_Email = e, gq_Password = p\<rparr>) c (try_logins L h e c ps w)) =
      Inl (App (RateLimited (New ''login_rate_limited'')))
    \<and> disk (snd (Handler_Login L h (Inr \<lparr>gq_Email = e, gq_Password = p\<rparr>) c (try_logins L h e c ps w))) = disk w"
proof -
  let ?key = "login_key c (norm_email L e)" and ?hi = "o_rclock (orc w) (tick w) + login_fail_ttl h"
  obtain q qs where ps: "ps = q # qs" using assms(8,9) by (cases ps) auto
  have "counter_value ?key (o_rclock (orc w) (tick w)) (rds w) = 0" using assms(5) by (simp add: counter_value_def)
  then obtain v i j where v: "Handler_Login L h (Inr \<lparr>gq_Email = e, gq_Password = q\<rparr>) c w = (Inl (App (Unauthorized (New ''invalid_credentials''))), v)"
    "tick w \<le> i" "i \<le> j" "j \<le> tick v" "orc v = orc w" "disk v = disk w"
    "rds v = snd (window_hit ?key (login_fail_ttl h) (o_rclock (orc w) i) (o_rclock (orc w) j) (rds w))"
    using wrong_login_hit [OF assms(1,2) _ assms(6), of q c] assms(7,8) ps by (metis list.set_intros(1))
  have times: "o_rclock (orc w) (tick w) \<le> o_rclock (orc w) i" "o_rclock (orc w) i \<le> o_rclock (orc w) j"
    "o_rclock (orc w) j \<le> o_rclock (orc w) (tick v)"
    using monoD [OF assms(3)] v(2-4) by blast+
  have "live (o_rclock (orc w) i) (rds w) ?key = None" using live_later [OF assms(5)] times(1) by blast
  then have "counts_until ?hi ?key 1 v"
    using limiter.hit_opens [of "o_rclock (orc w) i" "rds w" ?key "o_rclock (orc w) j" _ "login_fail_ttl h"] times v(5,7)
    by (simp add: counts_until_def)
  then obtain x where x: "try_logins L h e c ps w = x" "orc x = orc w" "disk x = disk w"
    "counts_until ?hi ?key (min (1 + int (length qs)) (LoginFailLimit h)) x"
    using wrong_logins_count [of v h ?hi L e qs c 1] assms v(1,5,6) ps by auto
  have "counter_value ?key (o_rclock (orc x) (tick x)) (rds x) = LoginFailLimit h"
    using x(2,4) assms(4,9) ps by (simp add: counts_until_def min_def)
  then show ?thesis using blocked_login [of x h p L e c] assms(1,2,6,10) x(1-3) by simp
qed

lemma run_some: "\<not> isl (fst p) \<Longrightarrow> \<exists>x w'. p = (Inr x, w')"
  by (cases p; cases "fst p") auto

definition sample_handler :: Handler where
  "sample_handler = \<lparr>h_Redis = True, h_Analytics = True, JWTIssuer = ''i'', JWTAudience = ''a'', JWTSecret = ''k'',
     PublicBaseURL = ''https://a.example'', VerificationTTL = 900000000000, AccessTTL = 60000000000, RefreshTTL = 3600000000000,
     PasswordMinLen = 8, BcryptCost = 10, LoginFailLimit = 2, LoginFailWindow = 60000000000\<rparr>"

theorem login_lockout_witness:
  "fst (Handler_Login sample_lib sample_handler (Inr \<lparr>gq_Email = ''A@x'', gq_Password = ''secret12''\<rparr>) sample_request
     (try_logins sample_lib sample_handler ''A@x'' sample_request [''guess1'', ''guess2''] (sample_world sample_db))) =
   Inl (App (RateLimited (New ''login_rate_limited'')))"
proof -
  have 1: "wrong_login sample_lib (norm_email sample_lib ''A@x'') ''guess1'' sample_db"
    "wrong_login sample_lib (norm_email sample_lib ''A@x'') ''guess2'' sample_db" by code_simp+
  have 2: "mail_ParseAddress sample_lib (norm_email sample_lib ''A@x'') \<noteq> None" "TrimSpace ''secret12'' \<noteq> []"
    "0 < LoginFailLimit sample_handler" "LoginFailLimit sample_handler \<le> int (length [''guess1'', ''guess2''])"
    "0 < login_fail_ttl sample_handler" "h_Redis sample_handler" by code_simp+
  have 3: "wrong_login sample_lib (norm_email sample_lib ''A@x'') q sample_db" if "q \<in> set [''guess1'', ''guess2'']" for q
    using that 1 by (simp only: list.set insert_iff empty_iff) blast
  have 4: "no_faults (orc (sample_world sample_db))" by simp
  have 5: "mono (o_rclock (orc (sample_world sample_db)))" by (simp add: mono_def)
  have 6: "o_rclock (orc (sample_world sample_db)) i < o_rclock (orc (sample_world sample_db)) (tick (sample_world sample_db)) + login_fail_ttl sample_handler" for i
    unfolding sample_world_simps sample_clocks using 2(5) by (rule less_add_same_cancel1 [THEN iffD2])
  have 7: "live (o_rclock (orc (sample_world sample_db)) (tick (sample_world sample_db))) (rds (sample_world sample_db)) k = None" for k
    by (simp add: live_def)
  show ?thesis
    by (rule login_lockout [THEN conjunct1, OF 4 2(6) 5 6 7 2(1) _ 2(3,4,2)]) (unfold sample_world_simps, rule 3)
qed

theorem login_sound_witness:
  "\<exists>s. s_user_id s = ''alice'' \<and> disk (snd (Handler_Login sample_lib sample_handler
       (Inr \<lparr>gq_Email = ''A@x'', gq_Password = ''secret12''\<rparr>) sample_request (sample_world sample_db)))
     = sample_db\<lparr>sessions := sessions sample_db @ [s]\<rparr>"
proof -
  let ?run = "Handler_Login sample_lib sample_handler (Inr \<lparr>gq_Email = ''A@x'', gq_Password = ''secret12''\<rparr>) sample_request (sample_world sample_db)"
  have "\<not> isl (fst ?run)" by code_simp
  then obtain resp w' where run: "?run = (Inr resp, w')" using run_some by blast
  have row: "\<And>u cr. login_row (norm_email sample_lib ''A@x'') sample_db = Some (u, cr) \<Longrightarrow> u = sample_user"
    by (auto simp: login_row_def sample_db_def split: if_splits option.splits)
  from login_sound [OF run] obtain u cr s where "login_row (norm_email sample_lib ''A@x'') sample_db = Some (u, cr)" "s_user_id s = u_id u"
    "disk w' = sample_db\<lparr>sessions := sessions sample_db @ [s]\<rparr>"
    unfolding sample_world_simps RegisterRequest.select_convs by blast
  with row have "s_user_id s = ''alice''" "disk (snd ?run) = sample_db\<lparr>sessions := sessions sample_db @ [s]\<rparr>"
    by (simp_all only: run snd_conv) (simp add: sample_user_def)
  then show ?thesis by blast
qed

subsection \<open>Resend cooldown\<close>

text \<open>What the Lua script returns and leaves: the number of the request, a positive waiting time, and a
  counter that is alive for the whole window when it was the first.\<close>

abbreviation resend_key :: "string \<Rightarrow> string" where "resend_key e \<equiv> ''resend:'' @ e"

lemma live_incr: "incr t r k = (n, r1) \<Longrightarrow> \<exists>e. live t r1 k = Some (n, e) \<and> n = counter_value k t r + 1"
  by (auto simp: incr_def live_def counter_value_def split: option.splits prod.splits if_splits)

lemma expire_counters: "live t r k = Some (v, e) \<Longrightarrow> counters (expire t r k ttl) k = Some (v, Some (t + ttl))"
  by (simp add: expire_def)

lemma ttl_of_expiry: "counters r k = Some (v, Some (t + s * 1000000000)) \<Longrightarrow> 0 < s \<Longrightarrow> ttl_seconds t r k = s"
  by (simp add: ttl_seconds_def live_def)

lemma script_first:
  assumes "counter_value k t r = 0"
  shows "\<exists>r'. resendRateLimitScript t r k 90 = (VSlice [VInt64 1, VInt64 90], r') \<and> counters r' k = Some (1, Some (t + 90 * 1000000000))"
proof -
  obtain n r1 where i: "incr t r k = (n, r1)" by (cases "incr t r k")
  then obtain e where e: "live t r1 k = Some (1, e)" "n = 1" using live_incr [OF i] assms by auto
  note c = expire_counters [OF e(1), of "90 * 1000000000"]
  then have "ttl_seconds t (expire t r1 k (90 * 1000000000)) k = 90" by (rule ttl_of_expiry) simp
  with i e c show ?thesis by (simp add: resendRateLimitScript_def Let_def)
qed

lemma script_again:
  assumes "0 < counter_value k t r"
  shows "\<exists>ttl r'. resendRateLimitScript t r k 90 = (VSlice [VInt64 (counter_value k t r + 1), VInt64 ttl], r') \<and> 0 < ttl"
proof -
  obtain n r1 where i: "incr t r k = (n, r1)" by (cases "incr t r k")
  then obtain e where e: "live t r1 k = Some (n, e)" "n = counter_value k t r + 1" using live_incr [OF i] by auto
  have "ttl_seconds t (expire t r1 k (90 * 1000000000)) k = 90" by (rule ttl_of_expiry [OF expire_counters [OF e(1)]]) simp
  with i e assms show ?thesis by (simp add: resendRateLimitScript_def Let_def)
qed

interpretation counting: db_view "\<lambda>w. counters (rds w)"
  by unfold_locales auto

lemma checkResendRateLimit_run:
  "Handler_checkResendRateLimit h e w =
     (if \<not> h_Redis h then (Inl (New ''redis_unavailable''), w)
      else if o_fault (orc w) (tick w) then (Inl redis_error, w\<lparr>tick := Suc (tick w)\<rparr>)
      else (case resendRateLimitScript (o_rclock (orc w) (tick w)) (rds w) (resend_key e) 90 of
              (VSlice [VInt64 n, VInt64 ttl], r) \<Rightarrow> (Inr (n, if ttl \<le> 0 then 90 else ttl), w\<lparr>tick := Suc (tick w), rds := r\<rparr>)))"
  by (auto simp: Handler_checkResendRateLimit_def resendVerificationWindow_def time_Second_def quot_def script_Run_def ext_def
      ebind_def ecase_def fail_def ok_def of_result_def parseRedisInteger_def resendRateLimitScript_def Let_def split: prod.splits)

lemma keeps_counters_RPush: "keeps (\<lambda>w. counters (rds w)) (redis_RPush k v)"
  unfolding redis_RPush_def by (rule counting.keeps_ext) (simp add: keeps_def Let_def)

lemma keeps_option: "(\<And>x. keeps f (k x)) \<Longrightarrow> keeps f n \<Longrightarrow> keeps f (case y of None \<Rightarrow> n | Some x \<Rightarrow> k x)"
  by (cases y) auto

lemma keeps_counters_restore: "keeps (\<lambda>w. counters (rds w)) (restore_all snaps i t)"
  by (induction snaps) (auto intro!: keeps_rules counting.keeps_prims)

lemma keeps_counters:
  "keeps (\<lambda>w. counters (rds w)) (enqueue_job L h j)"
  "keeps (\<lambda>w. counters (rds w)) (Store_ResendVerification L e otp mt ex now)"
  "keeps (\<lambda>w. counters (rds w)) (Store_RollbackResendVerification rs)"
  "keeps (\<lambda>w. counters (rds w)) (rollbackResend r e')"
  "keeps (\<lambda>w. counters (rds w)) GenerateOTP" "keeps (\<lambda>w. counters (rds w)) GenerateMagicToken"
  "keeps (\<lambda>w. counters (rds w)) (getOrCreateMagicLinkState c)"
  "keeps (\<lambda>w. counters (rds w)) (setMagicLinkStateCookie L c st t)"
  unfolding enqueue_job_def EnqueueContext_def queue_New_def Store_ResendVerification_def Store_RollbackResendVerification_def rollbackResend_def
    createVerificationWithIDsTx_def scan_string_def GenerateOTP_def GenerateMagicToken_def getOrCreateMagicLinkState_def RandomToken_def
    setMagicLinkStateCookie_def Let_def
  by (intro keeps_rules keeps_option counting.keeps_prims keeps_counters_RPush keeps_counters_restore keeps_results; simp)+

text \<open>The part of \<open>Handler_ResendVerification\<close> that runs once the limit is passed.\<close>

definition resend_send :: "lib \<Rightarrow> Handler \<Rightarrow> request \<Rightarrow> string \<Rightarrow> (db, response) proc" where
  "resend_send L h c emailAddr =
     ebind GenerateOTP (\<lambda>otp.
     ebind GenerateMagicToken (\<lambda>magicToken.
     ebind time_Now (\<lambda>now.
     ecase (Store_ResendVerification L emailAddr otp magicToken (now + verificationTTL h) now)
       (\<lambda>err. if errors_Is err ErrResendUserNotFound \<or> errors_Is err ErrResendAlreadyVerified
               then fail (App (WithData (BadRequest (New ''resend_not_allowed'')) (reason ''resend_not_allowed'')))
               else fail err) (\<lambda>resend.
     ecase (getOrCreateMagicLinkState c) (rollbackResend resend) (\<lambda>magicLinkState.
     ecase (enqueue_job L h (verification_job L h (rs_EmailRecordID resend) (rs_UserEmail resend)
              otp magicToken magicLinkState))
       (rollbackResend resend) (\<lambda>_.
     ebind (setMagicLinkStateCookie L c magicLinkState (now + verificationTTL h)) (\<lambda>ck.
     ok (json_response 202 c ''ok''
           (JObj [(''message'', JStr ''Verification email sent''),
                  (''retry_after'', JNum (quot resendVerificationWindow time_Second))]) [ck]))))))))"

lemma Handler_ResendVerification_unfold:
  "Handler_ResendVerification L h (Inr e) c =
     (if mail_ParseAddress L (norm_email L e) = None then bad ''invalid_email''
      else ebind (Handler_checkResendRateLimit h (norm_email L e)) (\<lambda>(count, retryAfter).
           if count > resendVerificationLimit then resend_limited ''resend_rate_limited'' ''too_many_requests'' retryAfter
           else if count > 1 then resend_limited ''resend_cooldown_active'' ''cooldown_active'' retryAfter
           else resend_send L h c (norm_email L e)))"
  unfolding Handler_ResendVerification_def bindJSON_def norm_email_def resend_send_def Let_def sum.case by (rule refl)

lemma resend_send_keeps: "keeps (\<lambda>w. counters (rds w)) (resend_send L h c e)"
  unfolding resend_send_def by (intro keeps_rules keeps_counters keeps_results counting.keeps_prims)

lemma resend_accepted:
  assumes "Handler_ResendVerification L h (Inr e) c w = (Inr resp, w')"
    and "0 \<le> counter_value (resend_key (norm_email L e)) (o_rclock (orc w) (tick w)) (rds w)"
  shows "counters (rds w') (resend_key (norm_email L e)) = Some (1, Some (o_rclock (orc w) (tick w) + 90 * 1000000000))"
proof -
  let ?k = "resend_key (norm_email L e)" and ?t = "o_rclock (orc w) (tick w)"
  obtain n ttl v where chk: "Handler_checkResendRateLimit h (norm_email L e) w = (Inr (n, ttl), v)" "n \<le> 1"
    and send: "resend_send L h c (norm_email L e) v = (Inr resp, w')"
    using assms(1) by (auto simp: Handler_ResendVerification_unfold bad_def resend_limited_def run_ebind run_pure split: if_splits)
  have zero: "counter_value ?k ?t (rds w) = 0"
  proof (rule ccontr)
    assume "counter_value ?k ?t (rds w) \<noteq> 0"
    then have "0 < counter_value ?k ?t (rds w)" using assms(2) by simp
    then show False using script_again [of ?k ?t "rds w"] chk by (auto simp: checkResendRateLimit_run split: if_splits)
  qed
  then have "counters (rds v) ?k = Some (1, Some (?t + 90 * 1000000000))"
    using script_first [OF zero] chk(1) by (auto simp: checkResendRateLimit_run split: if_splits)
  then show ?thesis using keeps_pairD [OF resend_send_keeps send] by simp
qed


definition pending_db :: db where
  "pending_db = empty_db\<lparr>users := [sample_user\<lparr>u_status := 0, u_email_verified_at := None\<rparr>]\<rparr>"


end
