(* ===== verification/Auth_Flows.thy ===== *)
theory Auth_Flows
  imports Auth_Limits
begin

text \<open>
  The endpoints of auth-api that combine several store calls: a registration or a resend whose mail cannot
  be queued is undone, a magic link only works in the browser that asked for it, and a tenant can only be
  chosen by one of its members.
\<close>

subsection \<open>Undoing a registration\<close>

definition cleanup_failed :: "go_error \<Rightarrow> bool" where
  "cleanup_failed err \<longleftrightarrow> (\<exists>m. err = New (''redis unavailable; cleanup pending registration: '' @ m)
     \<or> (\<exists>cause. err = Wrap ''enqueue verification email job: '' cause (''; cleanup pending registration: '' @ m)))"

lemma silent_run: "db_silent m \<Longrightarrow> m w = (r, w') \<Longrightarrow> disk w' = disk w"
  by (metis db_silentD snd_conv)

lemma atomic_error: "all_or_nothing m \<Longrightarrow> m w = (Inl e, w') \<Longrightarrow> disk w' = disk w"
  by (metis all_or_nothing_def fst_conv isl_def snd_conv)

lemma silent_first:
  assumes "ebind m k w = (Inl e, w')" "db_silent m"
  obtains "disk w' = disk w" | x v where "disk v = disk w" "k x v = (Inl e, w')"
  using assms silent_run by (auto simp: err_ebind) blast+

lemma never_fails:
  "errs (\<lambda>_. False) (Handler_track h ev)" "errs (\<lambda>_. False) (trackVerificationRegistrationStarted h u e f)"
  "errs (\<lambda>_. False) (setMagicLinkStateCookie L c st t)"
  unfolding Handler_track_def trackVerificationRegistrationStarted_def setMagicLinkStateCookie_def Let_def
  by (intro errs_if errs_ecase errs_ebind errs_ok errs_clock)+

lemma no_error_runs [simp]:
  "Handler_track h ev w = (Inl err, w') \<longleftrightarrow> False"
  "trackVerificationRegistrationStarted h u e f w = (Inl err, w') \<longleftrightarrow> False"
  "setMagicLinkStateCookie L c st t w = (Inl err, w') \<longleftrightarrow> False"
  using never_fails [THEN errsD] by blast+

lemma undo_registration_run:
  assumes "undo_registration h i err w = (Inl e, w')"
  shows "(\<exists>v. Store_CleanupPendingRegistration i w = (Inr (), v) \<and> disk w' = disk v) \<or> cleanup_failed e"
  using assms by (auto simp: undo_registration_def err_ecase cleanup_failed_def split: if_splits)

text \<open>The part of \<open>Handler_Register\<close> after the account was created.\<close>

definition register_notify :: "lib \<Rightarrow> Handler \<Rightarrow> request \<Rightarrow> string \<Rightarrow> string \<Rightarrow> string \<Rightarrow> instant \<Rightarrow>
    RegisterWithVerificationResult \<Rightarrow> (db, response) proc" where
  "register_notify L h c otp magicToken magicLinkState now registered =
     ecase (enqueue_job L h (verification_job L h (rw_EmailRecordID registered) (ru_Email (rw_User registered))
              otp magicToken magicLinkState))
       (\<lambda>err. undo_registration h (ru_ID (rw_User registered)) err) (\<lambda>_.
     ebind (setMagicLinkStateCookie L c magicLinkState (now + verificationTTL h)) (\<lambda>ck.
     ebind (trackVerificationRegistrationStarted h (ru_ID (rw_User registered))
              (ru_Email (rw_User registered)) ''register'') (\<lambda>_.
     ok (json_response 202 c verificationAcceptedMessage
           (JObj [(''user'', UserSummary (ru_ID (rw_User registered)) (ru_Email (rw_User registered)))]) [ck]))))"

lemma Handler_Register_unfold:
  "Handler_Register L h (Inr req) c =
     (if mail_ParseAddress L (norm_email L (gq_Email req)) = None then bad ''invalid_email''
      else if int (length (gq_Password req)) < PasswordMinLen h then bad ''password_too_short''
      else
        ebind GenerateOTP (\<lambda>otp.
        ebind GenerateMagicToken (\<lambda>magicToken.
        ebind (RandomToken magicLinkStateByteLen) (\<lambda>magicLinkState.
        ebind time_Now (\<lambda>now.
        ebind (Store_RegisterWithVerification L (norm_email L (gq_Email req)) (gq_Password req) (BcryptCost h) otp magicToken
                 (now + verificationTTL h))
        (register_notify L h c otp magicToken magicLinkState now))))))"
  unfolding Handler_Register_def bindJSON_def norm_email_def register_notify_def Let_def sum.case by (rule refl)

lemma register_notify_error:
  assumes "register_notify L h c otp mt st now r v = (Inl err, w')" "schema_ok (disk w)"
    and "Store_RegisterWithVerification L e p cost otp mt ex w = (Inr r, v)"
  shows "disk w' = disk w \<or> cleanup_failed err"
proof -
  obtain e0 v1 where q: "enqueue_job L h (verification_job L h (rw_EmailRecordID r) (ru_Email (rw_User r)) otp mt st) v = (Inl e0, v1)"
    and u: "undo_registration h (ru_ID (rw_User r)) e0 v1 = (Inl err :: (go_error, response) result, w')"
    using assms(1) by (auto simp: register_notify_def err_ecase err_ebind)
  have "disk v1 = disk v" using q by (rule silent_run [rotated]) simp
  with undo_registration_run [OF u] cleanup_success [OF assms(3,2)] show ?thesis by metis
qed

text \<open>C15: a registration that is answered with an error has left no trace in the database, unless the
  error says that the cleanup failed too. This covers every failure: of the entropy source, of the
  database at any statement, of Redis and of the queue.\<close>

theorem register_all_or_nothing:
  assumes "Handler_Register L h (Inr req) c w = (Inl err, w')" "schema_ok (disk w)"
  shows "disk w' = disk w \<or> cleanup_failed err"
proof (cases "mail_ParseAddress L (norm_email L (gq_Email req)) = None \<or> int (length (gq_Password req)) < PasswordMinLen h")
  case True
  then show ?thesis using assms(1) by (auto simp: Handler_Register_unfold bad_def split: if_splits)
next
  case False
  let ?reg = "\<lambda>otp mt ex. Store_RegisterWithVerification L (norm_email L (gq_Email req)) (gq_Password req) (BcryptCost h) otp mt ex"
  define rest where "rest otp mt st now = ebind (?reg otp mt (now + verificationTTL h)) (register_notify L h c otp mt st now)" for otp mt st now
  from False assms(1) have "ebind GenerateOTP (\<lambda>otp. ebind GenerateMagicToken (\<lambda>mt. ebind (RandomToken magicLinkStateByteLen) (\<lambda>st.
      ebind time_Now (rest otp mt st)))) w = (Inl err, w')"
    by (auto simp: Handler_Register_unfold rest_def [abs_def])
  then consider "disk w' = disk w"
    | otp mt st now v where "disk v = disk w" "rest otp mt st now v = (Inl err, w')"
    by (elim silent_first) simp_all
  then show ?thesis
  proof cases
    case (2 otp mt st now v)
    from 2(2) consider "?reg otp mt (now + verificationTTL h) v = (Inl err, w')"
      | r v' where "?reg otp mt (now + verificationTTL h) v = (Inr r, v')" "register_notify L h c otp mt st now r v' = (Inl err, w')"
      by (auto simp: err_ebind rest_def)
    then show ?thesis
    proof cases
      case 1
      then show ?thesis using atomic_error [OF all_or_nothing_store(2)] 2(1) by metis
    next
      case r: (2 r v')
      then show ?thesis using register_notify_error [OF r(2) _ r(1)] assms(2) 2(1) by simp
    qed
  qed simp
qed

theorem register_all_or_nothing_witness:
  "disk (snd (Handler_Register sample_lib (sample_handler\<lparr>h_Redis := False\<rparr>) (Inr \<lparr>gq_Email = ''b@x'', gq_Password = ''secret12''\<rparr>)
     sample_request (sample_world sample_db))) = sample_db"
proof -
  have "fst (Handler_Register sample_lib (sample_handler\<lparr>h_Redis := False\<rparr>) (Inr \<lparr>gq_Email = ''b@x'', gq_Password = ''secret12''\<rparr>)
     sample_request (sample_world sample_db)) = Inl (New ''redis_unavailable'')" by code_simp
  from register_all_or_nothing [OF run_error [OF this]] show ?thesis
    using sample_schema by (simp add: cleanup_failed_def)
qed

subsection \<open>Undoing a resend\<close>

definition rollback_failed :: "go_error \<Rightarrow> bool" where
  "rollback_failed err \<longleftrightarrow> (\<exists>cause m. err = Wrap [] cause (''; rollback resend verification: '' @ m))"

lemma rollbackResend_run:
  assumes "rollbackResend r cause w = (Inl e, w')"
  shows "(\<exists>v. Store_RollbackResendVerification (Some r) w = (Inr (), v) \<and> disk w' = disk v) \<or> rollback_failed e"
  using assms by (auto simp: rollbackResend_def err_ecase rollback_failed_def)

text \<open>The part of \<open>Handler_ResendVerification\<close> after the new code was stored.\<close>

definition resend_notify :: "lib \<Rightarrow> Handler \<Rightarrow> request \<Rightarrow> string \<Rightarrow> string \<Rightarrow> instant \<Rightarrow> ResendVerificationResult \<Rightarrow> (db, response) proc" where
  "resend_notify L h c otp magicToken now resend =
     ecase (getOrCreateMagicLinkState c) (rollbackResend resend) (\<lambda>magicLinkState.
     ecase (enqueue_job L h (verification_job L h (rs_EmailRecordID resend) (rs_UserEmail resend)
              otp magicToken magicLinkState))
       (rollbackResend resend) (\<lambda>_.
     ebind (setMagicLinkStateCookie L c magicLinkState (now + verificationTTL h)) (\<lambda>ck.
     ok (json_response 202 c ''ok''
           (JObj [(''message'', JStr ''Verification email sent''),
                  (''retry_after'', JNum (quot resendVerificationWindow time_Second))]) [ck]))))"

lemma resend_notify_error:
  assumes "resend_notify L h c otp mt now r v = (Inl err, w')" "schema_ok (disk w)" "expiry_ok (disk w)" "t \<noteq> zero_time"
    and "Store_ResendVerification L e otp mt ex t w = (Inr r, v)"
  shows "disk w' = disk w \<or> rollback_failed err"
proof -
  obtain e0 v1 where q: "disk v1 = disk v" "rollbackResend r e0 v1 = (Inl err :: (go_error, response) result, w')"
  proof -
    from assms(1) consider e0 v1 where "getOrCreateMagicLinkState c v = (Inl e0, v1)" "rollbackResend r e0 v1 = (Inl err :: (go_error, response) result, w')"
      | st v0 e0 v1 where "getOrCreateMagicLinkState c v = (Inr st, v0)" "enqueue_job L h (verification_job L h (rs_EmailRecordID r) (rs_UserEmail r) otp mt st) v0 = (Inl e0, v1)"
        "rollbackResend r e0 v1 = (Inl err :: (go_error, response) result, w')"
      by (auto simp: resend_notify_def err_ecase err_ebind)
    then show thesis
      by cases (metis that silent_run db_silent_handler(4,9))+
  qed
  with rollbackResend_run [OF q(2)] rollback_success [OF assms(5,2,3,4)] show ?thesis by metis
qed

lemma calm_first:
  assumes "ebind m k w = (Inl e, w')" "db_silent m" "keeps orc m"
  obtains "disk w' = disk w" | x v where "disk v = disk w" "orc v = orc w" "k x v = (Inl e, w')"
  using assms silent_run keeps_pairD [OF assms(3)] by (auto simp: err_ebind) blast+

lemma keeps_orc_script: "keeps orc (script_Run k n)"
  unfolding script_Run_def by (rule oracles.keeps_ext) (simp add: keeps_def split: prod.split)

lemma calm_steps [simp]: "keeps orc GenerateOTP" "keeps orc GenerateMagicToken" "keeps orc (Handler_checkResendRateLimit h e)"
  unfolding GenerateOTP_def GenerateMagicToken_def RandomToken_def Handler_checkResendRateLimit_def Let_def
  by (intro keeps_rules oracles.keeps_all keeps_results keeps_orc_script;
      auto intro!: keeps_rules split: redis_value.split list.split)+

lemma resend_stored_error:
  assumes "ecase (Store_ResendVerification L e otp mt ex now)
       (\<lambda>err. if errors_Is err ErrResendUserNotFound \<or> errors_Is err ErrResendAlreadyVerified
               then fail (App (WithData (BadRequest (New ''resend_not_allowed'')) (reason ''resend_not_allowed'')))
               else fail err) (resend_notify L h c otp mt now) w = (Inl err, w')"
    and "schema_ok (disk w)" "expiry_ok (disk w)" "now \<noteq> zero_time"
  shows "disk w' = disk w \<or> rollback_failed err"
proof -
  from assms(1) consider e0 where "Store_ResendVerification L e otp mt ex now w = (Inl e0, w')"
    | r v where "Store_ResendVerification L e otp mt ex now w = (Inr r, v)" "resend_notify L h c otp mt now r v = (Inl err, w')"
    by (auto simp: err_ecase split: if_splits)
  then show ?thesis
  proof cases
    case 1
    then show ?thesis using atomic_error [OF all_or_nothing_store(5)] by blast
  next
    case 2
    then show ?thesis using resend_notify_error assms(2-4) by blast
  qed
qed

lemma resend_send_error:
  assumes "resend_send L h c e w = (Inl err, w')" "schema_ok (disk w)" "expiry_ok (disk w)" "\<And>i. o_clock (orc w) i \<noteq> zero_time"
  shows "disk w' = disk w \<or> rollback_failed err"
proof -
  define rest where "rest otp mt now = ecase (Store_ResendVerification L e otp mt (now + verificationTTL h) now)
       (\<lambda>err. if errors_Is err ErrResendUserNotFound \<or> errors_Is err ErrResendAlreadyVerified
               then fail (App (WithData (BadRequest (New ''resend_not_allowed'')) (reason ''resend_not_allowed'')))
               else fail err) (resend_notify L h c otp mt now)" for otp mt now
  define timed where "timed otp mt = ebind time_Now (rest otp mt)" for otp mt
  have "ebind GenerateOTP (\<lambda>otp. ebind GenerateMagicToken (timed otp)) w = (Inl err, w')"
    using assms(1) unfolding resend_send_def rest_def timed_def resend_notify_def .
  then consider "disk w' = disk w" | otp mt v where "disk v = disk w" "orc v = orc w" "timed otp mt v = (Inl err, w')"
    by (elim calm_first) simp_all
  then show ?thesis
  proof cases
    case (2 otp mt v)
    then have "rest otp mt (o_clock (orc w) (tick v)) (v\<lparr>tick := Suc (tick v)\<rparr>) = (Inl err, w')"
      by (simp add: timed_def ebind_def ecase_def time_Now_def)
    then show ?thesis using resend_stored_error [of L e otp mt] 2(1) assms(2-4) unfolding rest_def by fastforce
  qed simp
qed

text \<open>C16: a resend that is answered with an error has left the database as it was, the old code
  and link included, unless the error says that the rollback failed.\<close>

theorem resend_all_or_nothing:
  assumes "Handler_ResendVerification L h (Inr e) c w = (Inl err, w')" "schema_ok (disk w)" "expiry_ok (disk w)"
    and "\<And>i. o_clock (orc w) i \<noteq> zero_time"
  shows "disk w' = disk w \<or> rollback_failed err"
proof (cases "mail_ParseAddress L (norm_email L e) = None")
  case True
  then show ?thesis using assms(1) by (simp add: Handler_ResendVerification_unfold bad_def)
next
  case False
  define rest where "rest = (\<lambda>(count, retryAfter).
           if count > resendVerificationLimit then resend_limited ''resend_rate_limited'' ''too_many_requests'' retryAfter
           else if count > 1 then resend_limited ''resend_cooldown_active'' ''cooldown_active'' retryAfter
           else resend_send L h c (norm_email L e))"
  have "ebind (Handler_checkResendRateLimit h (norm_email L e)) rest w = (Inl err, w')"
    using assms(1) False by (simp add: Handler_ResendVerification_unfold rest_def)
  then consider "disk w' = disk w" | x v where "disk v = disk w" "orc v = orc w" "rest x v = (Inl err, w')"
    by (elim calm_first) simp_all
  then show ?thesis
  proof cases
    case (2 x v)
    then consider "resend_send L h c (norm_email L e) v = (Inl err, w')" | "w' = v"
      by (auto simp: rest_def resend_limited_def split: prod.splits if_splits)
    then show ?thesis
    proof cases
      case 1
      then show ?thesis using resend_send_error assms(2-4) 2(1,2) by metis
    qed (use 2(1) in simp)
  qed simp
qed

text \<open>Redis answers the limiter and fails when the job is pushed, the seventeenth call after it.\<close>

theorem resend_all_or_nothing_witness:
  "disk (snd (Handler_ResendVerification sample_lib sample_handler (Inr ''a@x'') sample_request
     ((sample_world pending_db)\<lparr>orc := sample_orc\<lparr>o_fault := (\<lambda>t. t = 17)\<rparr>\<rparr>))) = pending_db"
proof -
  let ?w = "(sample_world pending_db)\<lparr>orc := sample_orc\<lparr>o_fault := (\<lambda>t. t = 17)\<rparr>\<rparr>"
  have e: "fst (Handler_ResendVerification sample_lib sample_handler (Inr ''a@x'') sample_request ?w) = Inl redis_error" by code_simp
  have "schema_ok pending_db" "expiry_ok pending_db" "zero_time \<noteq> 1000000000" by code_simp+
  with resend_all_or_nothing [OF run_error [OF e]] show ?thesis
    by (simp add: rollback_failed_def redis_error_def)
qed

subsection \<open>Magic links\<close>

definition link_activated :: "Handler \<Rightarrow> MagicLinkAnalytics option \<Rightarrow> bool \<Rightarrow> (db, unit) proc" where
  "link_activated h magicLinkDetails activatedNow =
     (case magicLinkDetails of
                     Some d \<Rightarrow> if activatedNow \<and> h_Analytics h
                       then ebind time_Now (\<lambda>ts.
                            Handler_track h \<lparr>ev_Name = ''account_activated'', ev_UserID = ma_UserID d,
                              ev_Email = ma_Email d, ev_Timestamp = ts,
                              ev_Properties = [(''method'', JStr ''magic_link'')]\<rparr>)
                       else ok ()
                   | None \<Rightarrow> ok ())"

text \<open>The part of \<open>Handler_VerifyMagicLink\<close> after the link was found to be valid.\<close>

definition link_opened :: "lib \<Rightarrow> Handler \<Rightarrow> request \<Rightarrow> instant \<Rightarrow> MagicLinkAnalytics option \<Rightarrow> (db, response) proc" where
  "link_opened L h c now magicLinkDetails =
     (case rq_Cookie c magicLinkStateCookieName of
        None \<Rightarrow> ok (renderMagicLinkPage 200 ''Enter OTP to verify'' crossDeviceOTPMessage)
      | Some cookieState \<Rightarrow>
          if \<not> isValidMagicLinkState cookieState \<or> TrimSpace cookieState \<noteq> TrimSpace (rq_Query c ''state'')
          then ok (renderMagicLinkPage 200 ''Enter OTP to verify'' crossDeviceOTPMessage)
          else
            ecase (Store_VerifyMagicLinkToken L (TrimSpace (rq_Query c ''token'')) now) magic_link_error (\<lambda>activatedNow.
            ebind (link_activated h magicLinkDetails activatedNow) (\<lambda>_.
            ok \<lparr>Status = 302, Body = Redirect (buildMagicLinkSuccessURL L (PublicBaseURL h)),
                Cookies = [clearMagicLinkStateCookie L c]\<rparr>)))"

definition link_click :: "Handler \<Rightarrow> instant \<Rightarrow> MagicLinkAnalytics option \<Rightarrow> (db, unit) proc" where
  "link_click h now magicLinkDetails =
     (case magicLinkDetails of
        None \<Rightarrow> ok ()
      | Some d \<Rightarrow> Handler_track h \<lparr>ev_Name = ''verification_link_clicked'', ev_UserID = ma_UserID d,
          ev_Email = ma_Email d, ev_Timestamp = now,
          ev_Properties = [(''latency_from_sent'', JNum (case ma_SentAt d of None \<Rightarrow> 0
            | Some sent \<Rightarrow> maxInt64 0 (quot (now - sent) 1000000)))]\<rparr>)"

definition link_details :: "lib \<Rightarrow> Handler \<Rightarrow> request \<Rightarrow> instant \<Rightarrow> (db, MagicLinkAnalytics option) proc" where
  "link_details L h c now =
     (if h_Analytics h
      then ecase (Store_LookupMagicLinkAnalytics L (TrimSpace (rq_Query c ''token'')) now) (\<lambda>_. ok None) (\<lambda>d. ok (Some d))
      else ok None)"

lemma Handler_VerifyMagicLink_unfold:
  "Handler_VerifyMagicLink L h c =
     (if TrimSpace (rq_Query c ''token'') = [] \<or> TrimSpace (rq_Query c ''state'') = [] \<or> \<not> isValidMagicLinkState (TrimSpace (rq_Query c ''state''))
      then ok invalid_link_page
      else
        ebind time_Now (\<lambda>now.
        ebind (link_details L h c now) (\<lambda>d.
        ecase (Store_ValidateMagicLinkToken L (TrimSpace (rq_Query c ''token'')) now) magic_link_error (\<lambda>_.
        ebind (link_click h now d) (\<lambda>_. link_opened L h c now d)))))"
  unfolding Handler_VerifyMagicLink_def link_opened_def link_activated_def link_click_def link_details_def Let_def by (rule refl)

lemma link_parts_silent [simp]: "db_silent (link_details L h c now)" "db_silent (link_click h now d)"
  by (auto simp: link_details_def link_click_def intro!: silent_rules split: option.split)

definition same_browser :: "request \<Rightarrow> bool" where
  "same_browser c = (case rq_Cookie c magicLinkStateCookieName of None \<Rightarrow> False
     | Some s \<Rightarrow> isValidMagicLinkState s \<and> TrimSpace s = TrimSpace (rq_Query c ''state''))"

text \<open>The two outcomes of opening a link: nothing was written and the answer is a page or an error, or the
  link was consumed.\<close>

definition link_outcome :: "lib \<Rightarrow> request \<Rightarrow> db world \<Rightarrow> (go_error, response) result \<times> db world \<Rightarrow> bool" where
  "link_outcome L c w p \<longleftrightarrow>
     (disk (snd p) = disk w \<and> (\<forall>resp. fst p = Inr resp \<longrightarrow> Status resp \<noteq> 302)) \<or>
     (same_browser c \<and> (\<exists>v v' b now. disk v = disk w \<and> disk v' = disk (snd p) \<and>
        Store_VerifyMagicLinkToken L (TrimSpace (rq_Query c ''token'')) now v = (Inr b, v')) \<and>
      (\<exists>resp. fst p = Inr resp \<and> Status resp = 302))"

lemma link_outcome_same: "disk v = disk w \<Longrightarrow> link_outcome L c v p \<Longrightarrow> link_outcome L c w p"
  by (simp add: link_outcome_def)

lemma link_outcome_page:
  "link_outcome L c w (magic_link_error err w)" "Status resp \<noteq> 302 \<Longrightarrow> link_outcome L c w (ok resp w)" "link_outcome L c w (Inl e, w)"
  by (auto simp: link_outcome_def magic_link_error_def invalid_link_page_def expired_link_page_def renderMagicLinkPage_def Let_def ok_def fail_def)

lemma silent_succeeds:
  assumes "db_silent m" "errs (\<lambda>_. False) m"
  shows "\<exists>x v. m w = (Inr x, v) \<and> disk v = disk w"
proof -
  obtain r v where m: "m w = (r, v)" by (cases "m w")
  then show ?thesis using silent_run [OF assms(1) m] errsD [OF assms(2)] by (cases r) auto
qed

lemma link_activated_run: "\<exists>u v. link_activated h d b w = (Inr u, v) \<and> disk v = disk w"
  by (rule silent_succeeds)
    (auto simp: link_activated_def intro!: silent_rules errs_if errs_ebind never_fails split: option.split)

lemma link_opened_outcome: "link_outcome L c w (link_opened L h c now d w)"
proof (cases "same_browser c")
  case False
  then show ?thesis
    by (auto simp: link_opened_def same_browser_def renderMagicLinkPage_def Let_def intro!: link_outcome_page split: option.splits)
next
  case True
  let ?tok = "TrimSpace (rq_Query c ''token'')"
  obtain r v where v: "Store_VerifyMagicLinkToken L ?tok now w = (r, v)" by (cases "Store_VerifyMagicLinkToken L ?tok now w")
  show ?thesis
  proof (cases r)
    case (Inl e)
    then have "disk v = disk w" using atomic_error [OF all_or_nothing_store(6)] v by blast
    then show ?thesis using True v Inl link_outcome_same [OF _ link_outcome_page(1)]
      by (auto simp: link_opened_def same_browser_def ecase_def split: option.splits)
  next
    case (Inr b)
    obtain u v' where "link_activated h d b v = (Inr u, v')" "disk v' = disk v" using link_activated_run by blast
    with True v Inr show ?thesis
      by (auto simp: link_opened_def same_browser_def link_outcome_def ecase_def ebind_def ok_def split: option.splits)
  qed
qed

lemma link_outcome_ecase:
  assumes "db_silent m" "\<And>e v. link_outcome L c v (f e v)" "\<And>x v. link_outcome L c v (k x v)"
  shows "link_outcome L c w (ecase m f k w)"
proof -
  obtain r v where m: "m w = (r, v)" by (cases "m w")
  have "disk v = disk w" using assms(1) m by (rule silent_run)
  then show ?thesis using assms(2,3) m by (cases r) (auto simp: ecase_def intro: link_outcome_same)
qed

lemma magic_link_outcome: "link_outcome L c w (Handler_VerifyMagicLink L h c w)"
proof (cases "TrimSpace (rq_Query c ''token'') = [] \<or> TrimSpace (rq_Query c ''state'') = [] \<or> \<not> isValidMagicLinkState (TrimSpace (rq_Query c ''state''))")
  case True
  then show ?thesis
    by (simp add: Handler_VerifyMagicLink_unfold link_outcome_page invalid_link_page_def renderMagicLinkPage_def Let_def)
next
  case False
  then show ?thesis
    unfolding Handler_VerifyMagicLink_unfold ebind_def if_not_P [OF False]
    by (intro link_outcome_ecase link_opened_outcome link_outcome_page link_parts_silent db_silent_store db_silent_pure)
      (simp_all add: fail_def link_outcome_page)
qed



text \<open>A link that was used is refused by the endpoint.\<close>

lemma used_link_rejected:
  assumes "Handler_VerifyMagicLink L h c w = (Inr resp, w')" "Status resp = 302" "schema_ok (disk w)"
    and "mono_rel (disk w') (disk v)" "TrimSpace (rq_Query c' ''token'') = TrimSpace (rq_Query c ''token'')"
  shows "disk (snd (Handler_VerifyMagicLink L h' c' v)) = disk v
    \<and> (\<forall>resp. fst (Handler_VerifyMagicLink L h' c' v) = Inr resp \<longrightarrow> Status resp \<noteq> 302)"
proof -
  let ?tok = "TrimSpace (rq_Query c ''token'')"
  obtain x x' b now where x: "disk x = disk w" "disk x' = disk w'" "Store_VerifyMagicLinkToken L ?tok now x = (Inr b, x')"
    using magic_link_outcome [of L c w h] assms(1,2) by (auto simp: link_outcome_def)
  have "\<not> (\<exists>y y' b now. disk y = disk v \<and> Store_VerifyMagicLinkToken L ?tok now y = (Inr b, y'))"
    using used_link_refused [OF x(3)] x(1,2) assms(3,4) by (auto, metis Inl_Inr_False fst_conv insertE singletonD)
  then show ?thesis using magic_link_outcome [of L c' v h'] assms(5) by (auto simp: link_outcome_def)
qed

subsection \<open>Tenants\<close>

text \<open>C24: a token for a tenant is issued only to a member of it: when the switch succeeds, the
  authenticated user has a membership row for the requested tenant, and the token that is returned was
  signed with exactly that user and tenant as claims. Nothing is written.\<close>

theorem switch_tenant_member:
  assumes "Handler_SwitchTenant L h (Inr t) c w = (Inr resp, w')"
  shows "\<exists>tok now. resp = resp_OK (ctx_request_id c) (SwitchTenantResponse tok (wholeSeconds (AccessTTL h)))
    \<and> (\<exists>m \<in> set (tenant_users (disk w)). tu_tenant_id m = TrimSpace t \<and> tu_user_id m = TrimSpace (ctx_uid c))
    \<and> jwt_SignedString L ''HS256'' \<lparr>UID = TrimSpace (ctx_uid c), TID = TrimSpace t, Typ = ''access'', Issuer = JWTIssuer h,
        Audience = [JWTAudience h], IssuedAt = now div 1000000000, ExpiresAt = (now + AccessTTL h) div 1000000000,
        Subject = TrimSpace (ctx_uid c)\<rparr> (JWTSecret h) = Inr tok
    \<and> disk w' = disk w"
proof -
  obtain v tok where v: "Store_EnsureUserInTenant (TrimSpace (ctx_uid c)) (TrimSpace t) w = (Inr (), v)"
    "SignAccessToken L (JWTSecret h) (JWTIssuer h) (JWTAudience h) (TrimSpace (ctx_uid c)) (Some (TrimSpace t)) (AccessTTL h) v = (Inr tok, w')"
    "resp = resp_OK (ctx_request_id c) (SwitchTenantResponse tok (wholeSeconds (AccessTTL h)))"
    using assms by (auto simp: Handler_SwitchTenant_def bindJSON_def bad_def Let_def runs split: if_splits)
  have "disk v = disk w" "disk w' = disk v"
    using silent_run [OF db_silent_store(6) v(1)] silent_run [OF db_silent_SignAccessToken v(2)] by simp_all
  moreover have "\<exists>m \<in> set (tenant_users (disk w)). tu_tenant_id m = TrimSpace t \<and> tu_user_id m = TrimSpace (ctx_uid c)"
    using v(1) by (auto simp: Store_EnsureUserInTenant_def runs list_ex_iff split: if_splits)
  ultimately show ?thesis using SignAccessToken_run [OF v(2)] v(3) by auto
qed

definition tenant_db :: db where
  "tenant_db = sample_db\<lparr>tenant_users := [\<lparr>tu_tenant_id = ''00000000-0000-0000-0000-000000000001'', tu_user_id = ''alice'', tu_role = ''owner'', tu_created_at = 0\<rparr>]\<rparr>"

theorem switch_tenant_member_witness:
  "disk (snd (Handler_SwitchTenant sample_lib sample_handler (Inr ''00000000-0000-0000-0000-000000000001'')
     (sample_request\<lparr>ctx_uid := ''alice''\<rparr>) (sample_world tenant_db))) = tenant_db"
proof -
  let ?run = "Handler_SwitchTenant sample_lib sample_handler (Inr ''00000000-0000-0000-0000-000000000001'')
     (sample_request\<lparr>ctx_uid := ''alice''\<rparr>) (sample_world tenant_db)"
  have "\<not> isl (fst ?run)" by code_simp
  then obtain resp w' where run: "?run = (Inr resp, w')" using run_some by blast
  from switch_tenant_member [OF run] show ?thesis unfolding run sample_world_simps by auto
qed

end
