(* ===== verification/Admin.thy ===== *)
theory Admin
  imports Auth_Flows
begin

text \<open>
  The service admin-api: the store (\<open>services/admin-api/internal/store\<close>), the handlers and the
  middleware \<open>AdminRBAC\<close> (\<open>internal/handler\<close>) and the mapping of roles (\<open>internal/rbac/role_mapping.go\<close>).
  Casbin is outside this repository: the decision \<open>Enforce\<close> is an argument. So is the full path of the
  matched route, which gin provides, and the text of a time in JSON.
\<close>

subsection \<open>Store\<close>

record MemberDTO =
  mb_UserID :: string
  mb_Email :: string
  mb_Role :: string
  mb_CreatedAt :: instant

definition member_row :: "string \<Rightarrow> string \<Rightarrow> tenant_user_row \<Rightarrow> bool" where
  "member_row tid uid r \<longleftrightarrow> tu_tenant_id r = tid \<and> tu_user_id r = uid"

definition role_of :: "string \<Rightarrow> string \<Rightarrow> db \<Rightarrow> string option" where
  "role_of tid uid d = map_option tu_role (List.find (member_row tid uid) (tenant_users d))"

definition AStore_TenantUserRole :: "string \<Rightarrow> string \<Rightarrow> (db, string \<times> bool) proc" where
  "AStore_TenantUserRole tenantID userID =
     ecase (pool_query (role_of tenantID userID))
       (\<lambda>err. if errors_Is err ErrNoRows then ok ([], False) else fail err)
       (\<lambda>role. ok (role, True))"

text \<open>The rows of one tenant joined with their users, oldest first; the order of rows with the same time
  is open in SQL and is that of insertion here.\<close>

definition members_of :: "string \<Rightarrow> db \<Rightarrow> MemberDTO list" where
  "members_of tid d = concat (map (\<lambda>tu. map (\<lambda>u.
       \<lparr>mb_UserID = tu_user_id tu, mb_Email = case_option [] id (u_email u), mb_Role = tu_role tu, mb_CreatedAt = tu_created_at tu\<rparr>)
       (filter (\<lambda>u. u_id u = tu_user_id tu) (users d)))
     (sort_key tu_created_at (filter (\<lambda>tu. tu_tenant_id tu = tid) (tenant_users d))))"

definition AStore_ListMembers :: "string \<Rightarrow> (db, MemberDTO list) proc" where
  "AStore_ListMembers tenantID = pool_query (\<lambda>d. Some (members_of tenantID d))"

definition AStore_AddMember :: "string \<Rightarrow> string \<Rightarrow> string \<Rightarrow> (db, unit) proc" where
  "AStore_AddMember tenantID userID role =
     ebind (pool_exec (\<lambda>now. insert_tenant_user
       \<lparr>tu_tenant_id = tenantID, tu_user_id = userID, tu_role = role, tu_created_at = now\<rparr>)) (\<lambda>_. ok ())"

definition update_member :: "string \<Rightarrow> string \<Rightarrow> string \<Rightarrow> db \<Rightarrow> (go_error, nat \<times> db) result" where
  "update_member tid uid role d =
     (if list_ex (member_row tid uid) (tenant_users d) \<and> role \<notin> set member_roles then Inl check_violation
      else Inr (affected (member_row tid uid) (tenant_users d),
             d\<lparr>tenant_users := update_where (member_row tid uid) (\<lambda>r. r\<lparr>tu_role := role\<rparr>) (tenant_users d)\<rparr>))"

definition AStore_UpdateMemberRole :: "string \<Rightarrow> string \<Rightarrow> string \<Rightarrow> (db, bool) proc" where
  "AStore_UpdateMemberRole tenantID userID role =
     ebind (pool_exec (\<lambda>_. update_member tenantID userID role)) (\<lambda>n. ok (n > 0))"

definition delete_member :: "string \<Rightarrow> string \<Rightarrow> db \<Rightarrow> (go_error, nat \<times> db) result" where
  "delete_member tid uid d =
     Inr (affected (member_row tid uid) (tenant_users d),
          d\<lparr>tenant_users := delete_where (member_row tid uid) (tenant_users d)\<rparr>)"

definition AStore_RemoveMember :: "string \<Rightarrow> string \<Rightarrow> (db, bool) proc" where
  "AStore_RemoveMember tenantID userID =
     ebind (pool_exec (\<lambda>_. delete_member tenantID userID)) (\<lambda>n. ok (n > 0))"

definition AStore_UserExists :: "string \<Rightarrow> (db, bool) proc" where
  "AStore_UserExists userID = pool_query (\<lambda>d. Some (has_key u_id userID (users d)))"

definition AStore_RolesForUser :: "string \<Rightarrow> string \<Rightarrow> (db, string list) proc" where
  "AStore_RolesForUser tenantID userID = pool_query (\<lambda>d. Some (map ur_role
     (filter (\<lambda>r. ur_tenant_id r = tenantID \<and> ur_user_id r = userID) (user_roles d))))"

text \<open>\<open>on conflict do nothing\<close>\<close>

definition assign_role :: "user_role_row \<Rightarrow> db \<Rightarrow> (go_error, nat \<times> db) result" where
  "assign_role r d =
     (if clash (\<lambda>x. Some (ur_tenant_id x, ur_user_id x, ur_role x)) r (user_roles d) then Inr (0, d)
      else insert_user_role r d)"

definition AStore_AssignRole :: "string \<Rightarrow> string \<Rightarrow> string \<Rightarrow> (db, unit) proc" where
  "AStore_AssignRole tenantID userID role =
     ebind (pool_exec (\<lambda>now. assign_role
       \<lparr>ur_tenant_id = tenantID, ur_user_id = userID, ur_role = role, ur_created_at = now\<rparr>)) (\<lambda>_. ok ())"

subsection \<open>Roles and the middleware\<close>

type_synonym enforcer = "string \<Rightarrow> string \<Rightarrow> string \<Rightarrow> string \<Rightarrow> (go_error, bool) result"

definition MapTenantRoleToCasbin :: "string \<Rightarrow> (go_error, string) result" where
  "MapTenantRoleToCasbin role =
     (if role = ''owner'' then Inr ''tenant_owner''
      else if role = ''admin'' then Inr ''tenant_admin''
      else if role = ''member'' then Inr ''member''
      else Inl (New (''invalid tenant role: '' @ role)))"

definition tenantIDFromPath :: "request \<Rightarrow> string" where
  "tenantIDFromPath c = (if rq_Param c ''tid'' \<noteq> [] then rq_Param c ''tid'' else rq_Param c ''tenantId'')"

definition forbidden :: "string \<Rightarrow> ('d, 'a) proc" where
  "forbidden rsn = fail (App (WithData (Forbidden (Some (New rsn))) [(''reason'', JStr rsn), (''code'', JNum errcode_Forbidden)]))"

definition AdminRBAC :: "enforcer option \<Rightarrow> string \<Rightarrow> db handler \<Rightarrow> db handler" where
  "AdminRBAC enforcer fullPath next c =
     (case enforcer of
        None \<Rightarrow> forbidden ''casbin_denied''
      | Some Enforce \<Rightarrow>
          if ctx_uid c = [] then fail (App (WithData (Unauthorized (New ''missing_uid'')) (reason ''missing_uid'')))
          else
          (let pathTid = tenantIDFromPath c
           in if pathTid = []
              then fail (App (WithData (BadRequest (New ''missing_tenant_id_param''))
                     [(''reason'', JStr ''missing_tenant_id_param''), (''code'', JNum errcode_BadRequest)]))
              else if ctx_tid c \<noteq> [] \<and> ctx_tid c \<noteq> pathTid then forbidden ''tenant_mismatch''
              else
                ebind (AStore_TenantUserRole pathTid (ctx_uid c)) (\<lambda>(tenantRole, present).
                if \<not> present then forbidden ''not_in_tenant''
                else (case MapTenantRoleToCasbin tenantRole of
                        Inl _ \<Rightarrow> forbidden ''insufficient_role''
                      | Inr casbinRole \<Rightarrow>
                          (case Enforce casbinRole (''tenant:'' @ pathTid) fullPath (rq_Method c) of
                             Inl err \<Rightarrow> fail err
                           | Inr allowed \<Rightarrow> if \<not> allowed then forbidden ''casbin_denied'' else next c)))))"

subsection \<open>Handlers\<close>

definition allowedMemberRoles :: "string list" where
  "allowedMemberRoles = [''owner'', ''admin'', ''member'']"

definition invalid_argument :: "go_error \<Rightarrow> go_error" where
  "invalid_argument err = App (WithData (BadRequest err) (reason ''invalid_argument''))"

definition validateRole :: "string \<Rightarrow> go_error option" where
  "validateRole role = (if role \<notin> set allowedMemberRoles then Some (invalid_argument (New (''invalid role: '' @ role))) else None)"

definition validateUserID :: "string \<Rightarrow> go_error option" where
  "validateUserID i = (if TrimSpace i = [] then Some (invalid_argument (New ''missing_user_id'')) else None)"

definition guard :: "go_error option \<Rightarrow> ('d, 'a) proc \<Rightarrow> ('d, 'a) proc" where
  "guard e k = (case e of Some err \<Rightarrow> fail err | None \<Rightarrow> k)"

text \<open>\<open>uid.(string)\<close> panics when no middleware has set it.\<close>

definition uid_string :: "request \<Rightarrow> ('d, string) proc" where
  "uid_string c = (if ctx_uid c = [] then fail (Panic ''interface conversion: interface {} is nil, not string'') else ok (ctx_uid c))"

fun Handler_enforce :: "enforcer \<Rightarrow> string list \<Rightarrow> string \<Rightarrow> string \<Rightarrow> string \<Rightarrow> go_error option" where
  "Handler_enforce Enforce [] domain obj act =
     Some (App (WithData (Forbidden None) [(''reason'', JStr ''rbac_denied''), (''code'', JNum errcode_Forbidden)]))"
| "Handler_enforce Enforce (role # roles) domain obj act =
     (case Enforce role domain obj act of
        Inl err \<Rightarrow> Some err
      | Inr allowed \<Rightarrow> if allowed then None else Handler_enforce Enforce roles domain obj act)"

definition Admin_Healthz :: "db handler" where
  "Admin_Healthz c = ok (resp_OK (ctx_request_id c) (JObj [(''status'', JStr ''ok'')]))"

definition Admin_MeRoles :: "enforcer \<Rightarrow> string \<Rightarrow> db handler" where
  "Admin_MeRoles Enforce fullPath c =
     ebind (uid_string c) (\<lambda>uid.
     (let tid = rq_Param c ''tenantId''
      in ebind (AStore_RolesForUser tid uid) (\<lambda>roles.
         guard (Handler_enforce Enforce roles (''tenant:'' @ tid) fullPath (rq_Method c))
           (ok (resp_OK (ctx_request_id c) (JObj [(''roles'', JArr (map JStr roles))]))))))"

definition Admin_AssignRole :: "enforcer \<Rightarrow> string \<Rightarrow> db handler" where
  "Admin_AssignRole Enforce fullPath c =
     ebind (uid_string c) (\<lambda>uid.
     (let tid = rq_Param c ''tenantId''
      in ebind (AStore_RolesForUser tid uid) (\<lambda>roles.
         guard (Handler_enforce Enforce roles (''tenant:'' @ tid) fullPath (rq_Method c))
           (ebind (AStore_AssignRole tid (rq_Param c ''userId'') (rq_Param c ''role'')) (\<lambda>_.
            ok (resp_OK (ctx_request_id c) (JObj [(''assigned'', JBool True)])))))))"

definition memberItem :: "(instant \<Rightarrow> string) \<Rightarrow> MemberDTO \<Rightarrow> json" where
  "memberItem time_text m = JObj [(''user_id'', JStr (mb_UserID m)), (''email'', JStr (mb_Email m)), (''role'', JStr (mb_Role m)),
     (''created_at'', JStr (time_text (mb_CreatedAt m)))]"

definition Admin_ListMembers :: "(instant \<Rightarrow> string) \<Rightarrow> db handler" where
  "Admin_ListMembers time_text c =
     ebind (AStore_ListMembers (rq_Param c ''tenantId'')) (\<lambda>members.
     ok (resp_OK (ctx_request_id c) (JObj [(''members'', JArr (map (memberItem time_text) members))])))"

record addMemberReq =
  am_UserID :: string
  am_Role :: string

definition Admin_AddMember :: "(go_error, addMemberReq) result \<Rightarrow> db handler" where
  "Admin_AddMember body c =
     (let tid = rq_Param c ''tenantId''
      in case body of
           Inl err \<Rightarrow> fail (invalid_argument err)
         | Inr req \<Rightarrow>
             guard (validateUserID (am_UserID req)) (
             guard (validateRole (am_Role req)) (
             ebind (AStore_UserExists (am_UserID req)) (\<lambda>present.
             if \<not> present then fail (App (WithData (NotFound (New ''user_not_found'')) (reason ''user_not_found'')))
             else
             ecase (AStore_AddMember tid (am_UserID req) (am_Role req))
               (\<lambda>err. if as_Pg err = Some ''23505''
                       then fail (App (WithData (Conflict err) (reason ''member_exists'')))
                       else fail err) (\<lambda>_.
             ok (resp_OK (ctx_request_id c) (JObj [(''ok'', JBool True)])))))))"

definition member_not_found :: go_error where
  "member_not_found = App (WithData (NotFound (New ''member_not_found'')) (reason ''member_not_found''))"

definition Admin_UpdateMemberRole :: "(go_error, string) result \<Rightarrow> db handler" where
  "Admin_UpdateMemberRole body c =
     (let tid = rq_Param c ''tenantId''; targetUID = rq_Param c ''uid''
      in guard (validateUserID targetUID) (
         case body of
           Inl err \<Rightarrow> fail (invalid_argument err)
         | Inr role \<Rightarrow>
             guard (validateRole role) (
             ebind (AStore_UpdateMemberRole tid targetUID role) (\<lambda>updated.
             if \<not> updated then fail member_not_found
             else ok (resp_OK (ctx_request_id c) (JObj [(''ok'', JBool True)]))))))"

definition Admin_RemoveMember :: "db handler" where
  "Admin_RemoveMember c =
     (let tid = rq_Param c ''tenantId''; targetUID = rq_Param c ''uid''
      in guard (validateUserID targetUID) (
         ebind (AStore_RemoveMember tid targetUID) (\<lambda>removed.
         if \<not> removed then fail member_not_found
         else ok (resp_OK (ctx_request_id c) (JObj [(''ok'', JBool True)])))))"

definition Admin_NotFound :: "request \<Rightarrow> response" where
  "Admin_NotFound c = resp_Fail (ctx_request_id c) 404 errcode_NotFound ''not_found'' (JObj (reason ''route_not_found''))"

subsection \<open>Routes\<close>

datatype admin_call = MeRoles | AssignRole | ListMembers | AddMember "(go_error, addMemberReq) result"
  | UpdateMemberRole "(go_error, string) result" | RemoveMember

definition admin_path :: "admin_call \<Rightarrow> string" where
  "admin_path call = ''/api/v1/admin/tenants/:tenantId'' @ (case call of
       MeRoles \<Rightarrow> ''/me/roles''
     | AssignRole \<Rightarrow> ''/users/:userId/roles/:role''
     | ListMembers \<Rightarrow> ''/members''
     | AddMember _ \<Rightarrow> ''/members''
     | UpdateMemberRole _ \<Rightarrow> ''/members/:uid''
     | RemoveMember \<Rightarrow> ''/members/:uid'')"

definition Admin_call :: "(instant \<Rightarrow> string) \<Rightarrow> enforcer \<Rightarrow> admin_call \<Rightarrow> db handler" where
  "Admin_call time_text Enforce call = (case call of
       MeRoles \<Rightarrow> Admin_MeRoles Enforce (admin_path call)
     | AssignRole \<Rightarrow> Admin_AssignRole Enforce (admin_path call)
     | ListMembers \<Rightarrow> Admin_ListMembers time_text
     | AddMember body \<Rightarrow> Admin_AddMember body
     | UpdateMemberRole body \<Rightarrow> Admin_UpdateMemberRole body
     | RemoveMember \<Rightarrow> Admin_RemoveMember)"

text \<open>The group \<open>/api/v1/admin\<close> of \<open>main.go\<close>: authentication, then the role check, then the handler.\<close>

definition admin_api :: "lib \<Rightarrow> string \<Rightarrow> string \<Rightarrow> string \<Rightarrow> (instant \<Rightarrow> string) \<Rightarrow> enforcer \<Rightarrow> admin_call \<Rightarrow> db handler" where
  "admin_api L secret issuer audience time_text Enforce call =
     AuthN L secret issuer audience (AdminRBAC (Some Enforce) (admin_path call) (Admin_call time_text Enforce call))"

subsection \<open>Membership as a map\<close>

text \<open>What the three statements on \<open>tenant_users\<close> promise: a partial map from tenant and user to the role.\<close>

locale membership =
  fixes lookup :: "'k \<Rightarrow> 'd \<Rightarrow> 'v option"
    and put :: "'k \<Rightarrow> 'v \<Rightarrow> instant \<Rightarrow> 'd \<Rightarrow> (go_error, nat \<times> 'd) result"
    and change :: "'k \<Rightarrow> 'v \<Rightarrow> 'd \<Rightarrow> (go_error, nat \<times> 'd) result"
    and remove :: "'k \<Rightarrow> 'd \<Rightarrow> (go_error, nat \<times> 'd) result"
  assumes put_law: "put k v t d = Inr (n, d') \<Longrightarrow> lookup k d = None \<and> (\<lambda>x. lookup x d') = (\<lambda>x. lookup x d)(k \<mapsto> v)"
    and change_law: "change k v d = Inr (n, d') \<Longrightarrow> (0 < n \<longleftrightarrow> lookup k d \<noteq> None) \<and>
      (\<lambda>x. lookup x d') = (if lookup k d = None then (\<lambda>x. lookup x d) else (\<lambda>x. lookup x d)(k \<mapsto> v))"
    and remove_law: "remove k d = Inr (n, d') \<Longrightarrow> (0 < n \<longleftrightarrow> lookup k d \<noteq> None) \<and> (\<lambda>x. lookup x d') = (\<lambda>x. lookup x d)(k := None)"
begin

lemma put_remove:
  assumes "put k v t d = Inr (n, d1)" "remove k d1 = Inr (m, d2)"
  shows "0 < m \<and> (\<lambda>x. lookup x d2) = (\<lambda>x. lookup x d)"
  using put_law [OF assms(1)] remove_law [OF assms(2)] by (auto simp: fun_eq_iff)

lemma removed_absent: "remove k d = Inr (n, d1) \<Longrightarrow> change k v d1 = Inr (m, d2) \<Longrightarrow> m = 0"
  using remove_law change_law by (metis fun_upd_same gr0I)

end

lemma role_of_none: "role_of tid uid d = None \<longleftrightarrow> (\<forall>r \<in> set (tenant_users d). \<not> member_row tid uid r)"
  by (auto simp: role_of_def find_None_iff)

lemma find_member_update:
  "List.find p (update_where q f rows) = map_option (\<lambda>r. if q r then f r else r) (List.find p rows)"
  if "\<And>r. p (if q r then f r else r) = p r"
  using that by (induction rows) auto

lemma find_delete_where: "(\<And>r. p r \<Longrightarrow> \<not> q r) \<Longrightarrow> List.find p (delete_where q rows) = List.find p rows"
  by (induction rows) auto

interpretation members: membership "\<lambda>(tid, uid). role_of tid uid"
    "\<lambda>(tid, uid) role now. insert_tenant_user \<lparr>tu_tenant_id = tid, tu_user_id = uid, tu_role = role, tu_created_at = now\<rparr>"
    "\<lambda>(tid, uid). update_member tid uid" "\<lambda>(tid, uid). delete_member tid uid"
proof unfold_locales
  fix k :: "string \<times> string" and v :: string and t :: instant and d d' :: db and n :: nat
  obtain tid uid where k: "k = (tid, uid)" by (cases k)
  {
    assume "(case k of (tid, uid) \<Rightarrow> \<lambda>role now. insert_tenant_user \<lparr>tu_tenant_id = tid, tu_user_id = uid, tu_role = role, tu_created_at = now\<rparr>) v t d = Inr (n, d')"
    then have none: "role_of tid uid d = None" and d': "tenant_users d' = tenant_users d @ [\<lparr>tu_tenant_id = tid, tu_user_id = uid, tu_role = v, tu_created_at = t\<rparr>]"
      by (auto simp: k insert_tenant_user_def clash_Some role_of_none member_row_def image_iff split: if_splits)
    then show "(case k of (tid, uid) \<Rightarrow> role_of tid uid) d = None \<and>
      (\<lambda>x. (case x of (tid, uid) \<Rightarrow> role_of tid uid) d') = (\<lambda>x. (case x of (tid, uid) \<Rightarrow> role_of tid uid) d)(k \<mapsto> v)"
      by (auto simp: k fun_eq_iff role_of_def find_append member_row_def split: option.splits)
  }
  {
    assume "(case k of (tid, uid) \<Rightarrow> update_member tid uid) v d = Inr (n, d')"
    then have n: "n = affected (member_row tid uid) (tenant_users d)"
      and d': "tenant_users d' = update_where (member_row tid uid) (\<lambda>r. r\<lparr>tu_role := v\<rparr>) (tenant_users d)"
      by (auto simp: k update_member_def split: if_splits)
    have "role_of a b d' = (if (a, b) = (tid, uid) \<and> role_of tid uid d \<noteq> None then Some v else role_of a b d)" for a b
    proof -
      have "List.find (member_row a b) (tenant_users d') =
          map_option (\<lambda>r. if member_row tid uid r then r\<lparr>tu_role := v\<rparr> else r) (List.find (member_row a b) (tenant_users d))"
        unfolding d' by (rule find_member_update) (simp add: member_row_def)
      then show ?thesis
        using find_SomeD [of "member_row a b" "tenant_users d"]
        by (cases "List.find (member_row a b) (tenant_users d)") (auto simp: role_of_def member_row_def)
    qed
    then show "(0 < n) = ((case k of (tid, uid) \<Rightarrow> role_of tid uid) d \<noteq> None) \<and>
      (\<lambda>x. (case x of (tid, uid) \<Rightarrow> role_of tid uid) d') =
      (if (case k of (tid, uid) \<Rightarrow> role_of tid uid) d = None then \<lambda>x. (case x of (tid, uid) \<Rightarrow> role_of tid uid) d
       else (\<lambda>x. (case x of (tid, uid) \<Rightarrow> role_of tid uid) d)(k \<mapsto> v))"
      by (auto simp: k n affected_pos role_of_none fun_eq_iff)
  }
  {
    assume "(case k of (tid, uid) \<Rightarrow> delete_member tid uid) d = Inr (n, d')"
    then have n: "n = affected (member_row tid uid) (tenant_users d)" and d': "tenant_users d' = delete_where (member_row tid uid) (tenant_users d)"
      by (auto simp: k delete_member_def)
    have "role_of a b d' = (if (a, b) = (tid, uid) then None else role_of a b d)" for a b
    proof (cases "(a, b) = (tid, uid)")
      case True
      then show ?thesis by (simp add: role_of_none d')
    next
      case False
      then show ?thesis unfolding role_of_def d' by (subst find_delete_where) (auto simp: member_row_def)
    qed
    then show "(0 < n) = ((case k of (tid, uid) \<Rightarrow> role_of tid uid) d \<noteq> None) \<and>
      (\<lambda>x. (case x of (tid, uid) \<Rightarrow> role_of tid uid) d') = (\<lambda>x. (case x of (tid, uid) \<Rightarrow> role_of tid uid) d)(k := None)"
      by (auto simp: k n affected_pos role_of_none fun_eq_iff)
  }
qed

end
