(* ===== verification/Admin_Access.thy ===== *)
theory Admin_Access
  imports Admin
begin

text \<open>
  What an administrative request can do. \<open>tenant_only t\<close> relates databases that differ at most in the
  memberships and roles of tenant \<open>t\<close>; every handler stays within it for the tenant of its path, and the
  role check in front of them decides who gets there. The member operations implement a map from
  tenant and user to the role.
\<close>

subsection \<open>Tenants are isolated\<close>

definition tenant_only :: "string \<Rightarrow> db \<Rightarrow> db \<Rightarrow> bool" where
  "tenant_only t d d' \<longleftrightarrow>
     (\<exists>tus urs. d' = d\<lparr>tenant_users := tus, user_roles := urs\<rparr>
        \<and> filter (\<lambda>r. tu_tenant_id r \<noteq> t) tus = filter (\<lambda>r. tu_tenant_id r \<noteq> t) (tenant_users d)
        \<and> filter (\<lambda>r. ur_tenant_id r \<noteq> t) urs = filter (\<lambda>r. ur_tenant_id r \<noteq> t) (user_roles d))"

interpretation isolated: db_preorder "tenant_only t" for t
proof unfold_locales
  show "tenant_only t d d" for d unfolding tenant_only_def by (intro exI [of _ "tenant_users d"] exI [of _ "user_roles d"]) simp
  show "tenant_only t d d''" if "tenant_only t d d'" "tenant_only t d' d''" for d d' d''
    using that unfolding tenant_only_def by force
qed

lemma filter_update_where: "(\<And>r. p r \<Longrightarrow> \<not> q r \<and> \<not> q (f r)) \<Longrightarrow> filter q (update_where p f rows) = filter q rows"
  by (induction rows) auto

lemma filter_delete_where: "(\<And>r. p r \<Longrightarrow> \<not> q r) \<Longrightarrow> filter q (delete_where p rows) = filter q rows"
  by (induction rows) auto

lemma tenant_only_statements:
  "insert_tenant_user \<lparr>tu_tenant_id = t, tu_user_id = u, tu_role = r, tu_created_at = i\<rparr> d = Inr (n, d') \<Longrightarrow> tenant_only t d d'"
  "update_member t u r d = Inr (n, d') \<Longrightarrow> tenant_only t d d'"
  "delete_member t u d = Inr (n, d') \<Longrightarrow> tenant_only t d d'"
  "assign_role \<lparr>ur_tenant_id = t, ur_user_id = u, ur_role = r, ur_created_at = i\<rparr> d = Inr (n, d') \<Longrightarrow> tenant_only t d d'"
proof -
  assume "insert_tenant_user \<lparr>tu_tenant_id = t, tu_user_id = u, tu_role = r, tu_created_at = i\<rparr> d = Inr (n, d')"
  then show "tenant_only t d d'"
    unfolding tenant_only_def
    by (intro exI [of _ "tenant_users d'"] exI [of _ "user_roles d"])
      (auto simp: insert_tenant_user_def split: if_splits)
next
  assume "update_member t u r d = Inr (n, d')"
  then show "tenant_only t d d'"
    unfolding tenant_only_def
    by (intro exI [of _ "tenant_users d'"] exI [of _ "user_roles d"])
      (auto simp: update_member_def member_row_def intro!: filter_update_where split: if_splits)
next
  assume "delete_member t u d = Inr (n, d')"
  then show "tenant_only t d d'"
    unfolding tenant_only_def
    by (intro exI [of _ "tenant_users d'"] exI [of _ "user_roles d"])
      (auto simp: delete_member_def member_row_def intro!: filter_delete_where)
next
  assume "assign_role \<lparr>ur_tenant_id = t, ur_user_id = u, ur_role = r, ur_created_at = i\<rparr> d = Inr (n, d')"
  then show "tenant_only t d d'"
    unfolding tenant_only_def
    by (intro exI [of _ "tenant_users d"] exI [of _ "user_roles d'"])
      (auto simp: assign_role_def insert_user_role_def split: if_splits)
qed

lemma admin_reads_silent [simp]:
  "db_silent (AStore_TenantUserRole t u)" "db_silent (AStore_ListMembers t)" "db_silent (AStore_UserExists u)"
  "db_silent (AStore_RolesForUser t u)" "db_silent (uid_string c)" "db_silent (forbidden rs)"
  unfolding AStore_TenantUserRole_def AStore_ListMembers_def AStore_UserExists_def AStore_RolesForUser_def uid_string_def forbidden_def
  by (auto intro!: silent_rules)

text \<open>A relation that the four writing calls of the store keep is kept by the handlers, whatever
  they check before.\<close>

locale admin_calls = db_preorder R for R :: "db \<Rightarrow> db \<Rightarrow> bool" +
  fixes t :: string
  assumes R_add_member: "op_keeps R (AStore_AddMember t u r)"
    and R_update_member: "op_keeps R (AStore_UpdateMemberRole t u r)"
    and R_remove_member: "op_keeps R (AStore_RemoveMember t u)"
    and R_assign_role: "op_keeps R (AStore_AssignRole t u r)"
begin

lemmas admin_store_keeps = R_add_member R_update_member R_remove_member R_assign_role

lemma op_guard: "op_keeps R m \<Longrightarrow> op_keeps R (guard e m)"
  by (auto simp: guard_def intro: op_silent split: option.split)

lemma admin_call_keeps:
  assumes "rq_Param c ''tenantId'' = t"
  shows "op_keeps R (Admin_call time_text Enforce call c)"
  unfolding Admin_call_def Admin_MeRoles_def Admin_AssignRole_def Admin_ListMembers_def Admin_AddMember_def Admin_UpdateMemberRole_def
    Admin_RemoveMember_def Let_def
  by (cases call)
    (auto simp: assms intro!: op_ebind op_ecase op_if op_guard admin_store_keeps intro: op_silent split: sum.split)

lemma admin_rbac_keeps:
  assumes "op_keeps R (next c)"
  shows "op_keeps R (AdminRBAC enf path next c)"
proof -
  have sums: "op_keeps R (case x of Inl e \<Rightarrow> f e | Inr y \<Rightarrow> g y)"
    if "\<And>e. op_keeps R (f e)" "\<And>y. op_keeps R (g y)" for x :: "(go_error, 'y) result" and f g
    using that by (cases x) auto
  have opts: "op_keeps R (case x of None \<Rightarrow> f | Some y \<Rightarrow> g y)" if "op_keeps R f" "\<And>y. op_keeps R (g y)" for x :: "'y option" and f g
    using that by (cases x) auto
  show ?thesis
    unfolding AdminRBAC_def Let_def
    by (intro opts sums op_if op_ebind op_prod assms) (simp_all add: op_silent)
qed

end

text \<open>A relation that the member statements for one tenant keep is kept by the calls.\<close>

locale admin_relation = db_preorder R for R :: "db \<Rightarrow> db \<Rightarrow> bool" +
  fixes t :: string
  assumes R_put: "insert_tenant_user \<lparr>tu_tenant_id = t, tu_user_id = u, tu_role = r, tu_created_at = i\<rparr> d = Inr (n, d') \<Longrightarrow> R d d'"
    and R_change: "update_member t u r d = Inr (n, d') \<Longrightarrow> R d d'"
    and R_remove: "delete_member t u d = Inr (n, d') \<Longrightarrow> R d d'"
    and R_assign: "assign_role \<lparr>ur_tenant_id = t, ur_user_id = u, ur_role = r, ur_created_at = i\<rparr> d = Inr (n, d') \<Longrightarrow> R d d'"

sublocale admin_relation \<subseteq> admin_calls R t
  unfolding admin_calls_def admin_calls_axioms_def
    AStore_AddMember_def AStore_UpdateMemberRole_def AStore_RemoveMember_def AStore_AssignRole_def
  by (intro conjI allI db_preorder_axioms op_ebind op_pool_exec stmt_keepsI;
    (erule R_put R_change R_remove R_assign | rule op_silent, simp))

interpretation isolation: admin_relation "tenant_only t" t for t
  by unfold_locales (erule tenant_only_statements)+

subsection \<open>Who may act\<close>

definition may_act :: "enforcer \<Rightarrow> string \<Rightarrow> request \<Rightarrow> db \<Rightarrow> bool" where
  "may_act Enforce path c d \<longleftrightarrow> ctx_uid c \<noteq> [] \<and> (ctx_tid c = [] \<or> ctx_tid c = tenantIDFromPath c) \<and>
     (\<exists>role cr. role_of (tenantIDFromPath c) (ctx_uid c) d = Some role \<and> MapTenantRoleToCasbin role = Inr cr
        \<and> Enforce cr (''tenant:'' @ tenantIDFromPath c) path (rq_Method c) = Inr True)"

lemma TenantUserRole_run:
  "AStore_TenantUserRole t u w = (if o_fault (orc w) (tick w) then (Inl db_error, w\<lparr>tick := Suc (tick w)\<rparr>)
     else (Inr (case role_of t u (disk w) of None \<Rightarrow> ([], False) | Some r \<Rightarrow> (r, True)), w\<lparr>tick := Suc (tick w)\<rparr>))"
  by (auto simp: AStore_TenantUserRole_def ecase_def pool_query_def ext_def ok_def fail_def split: option.split)

lemma rbac_passes:
  "(\<exists>err. AdminRBAC (Some Enforce) path next c w = (Inl err, snd (AdminRBAC (Some Enforce) path next c w))
      \<and> disk (snd (AdminRBAC (Some Enforce) path next c w)) = disk w)
   \<or> (may_act Enforce path c (disk w) \<and> AdminRBAC (Some Enforce) path next c w = next c (w\<lparr>tick := Suc (tick w)\<rparr>))"
  by (auto simp: AdminRBAC_def Let_def ebind_def ecase_def TenantUserRole_run may_act_def forbidden_def fail_def
      split: option.splits sum.splits)

text \<open>C7: an administrative request changes the database only for a caller with a valid access token who is
  a member of the tenant in the path, whose role Casbin allows this path and method, and whose token
  is for no other tenant; and then it changes at most the memberships and roles of that tenant.\<close>

theorem admin_authorized:
  assumes "rq_Param c ''tid'' = []" "disk (snd (admin_api L secret iss aud time_text Enforce call c w)) \<noteq> disk w"
  shows "\<exists>claims uid. jwt_ParseWithClaims L (jwt_keyfunc secret) iss aud (o_clock (orc w) (tick w))
           (TrimSpace (TrimPrefix (TrimSpace (rq_Header c ''Authorization'')) ''Bearer '')) = Inr (claims, True)
     \<and> uid = (if Subject claims = [] then UID claims else Subject claims)
     \<and> may_act Enforce (admin_path call) (c\<lparr>ctx_uid := uid, ctx_tid := TID claims\<rparr>) (disk w)
     \<and> tenant_only (rq_Param c ''tenantId'') (disk w) (disk (snd (admin_api L secret iss aud time_text Enforce call c w)))"
proof -
  let ?next = "AdminRBAC (Some Enforce) (admin_path call) (Admin_call time_text Enforce call)"
  obtain claims uid where a: "jwt_ParseWithClaims L (jwt_keyfunc secret) iss aud (o_clock (orc w) (tick w))
           (TrimSpace (TrimPrefix (TrimSpace (rq_Header c ''Authorization'')) ''Bearer '')) = Inr (claims, True)"
    "uid = (if Subject claims = [] then UID claims else Subject claims)"
    and run: "admin_api L secret iss aud time_text Enforce call c w = ?next (c\<lparr>ctx_uid := uid, ctx_tid := TID claims\<rparr>) (w\<lparr>tick := Suc (tick w)\<rparr>)"
    using AuthN_cases [of L secret iss aud ?next c w] assms(2) unfolding admin_api_def by metis
  let ?c = "c\<lparr>ctx_uid := uid, ctx_tid := TID claims\<rparr>" and ?w = "w\<lparr>tick := Suc (tick w)\<rparr>"
  have "may_act Enforce (admin_path call) ?c (disk ?w)"
    using rbac_passes [of Enforce "admin_path call" "Admin_call time_text Enforce call" ?c ?w] assms(2) run by auto
  moreover have "tenant_only (rq_Param c ''tenantId'') (disk ?w) (disk (snd (?next ?c ?w)))"
  proof -
    have "op_keeps (tenant_only (rq_Param c ''tenantId'')) (?next ?c)"
      by (rule isolation.admin_rbac_keeps, rule isolation.admin_call_keeps) simp
    then show ?thesis by (simp only: op_keeps_def)
  qed
  ultimately show ?thesis using a run by auto
qed

subsection \<open>The rest of the schema\<close>

text \<open>The administrative statements keep the schema, and everything \<open>mono_rel\<close> and \<open>tenant_only\<close> say.\<close>

lemma member_schema:
  "update_member t u r d = Inr (n, d') \<Longrightarrow> schema_ok d \<Longrightarrow> schema_ok d'"
  "delete_member t u d = Inr (n, d') \<Longrightarrow> schema_ok d \<Longrightarrow> schema_ok d'"
  "assign_role ur d = Inr (n, d') \<Longrightarrow> schema_ok d \<Longrightarrow> schema_ok d'"
    apply (clarsimp simp: update_member_def schema_defs schema_simps map_update_where refs_in_update split: if_splits)
    apply (auto simp: set_update_where list_ex_iff update_where_none)[1]
   apply (clarsimp simp: delete_member_def schema_defs schema_simps)
  apply (auto simp: assign_role_def insert_user_role_schema split: if_splits)
  done

lemma admin_mono: "schema_ok d \<longrightarrow> schema_ok d' \<Longrightarrow> tenant_only t d d' \<Longrightarrow> mono_rel d d'"
  by (rule mono_rel_frame) (auto simp: tenant_only_def)

interpretation admin_mono: admin_relation mono_rel t for t
  by unfold_locales
    (rule mono.R_insert_tenant_user, assumption | rule admin_mono [of _ _ t], blast dest: member_schema, erule tenant_only_statements)+

subsection \<open>Members\<close>

definition abs_members :: "db \<Rightarrow> string \<times> string \<Rightarrow> string option" where
  "abs_members d = (\<lambda>(tid, uid). role_of tid uid d)"

lemma abs_members_eq: "(\<lambda>x. (case x of (tid, uid) \<Rightarrow> role_of tid uid) d) = abs_members d"
  by (auto simp: abs_members_def)

lemma put_refines:
  assumes "AStore_AddMember t u r w = (Inr x, w')"
  shows "abs_members (disk w) (t, u) = None \<and> abs_members (disk w') = (abs_members (disk w))((t, u) \<mapsto> r)"
proof -
  obtain now n where "insert_tenant_user \<lparr>tu_tenant_id = t, tu_user_id = u, tu_role = r, tu_created_at = now\<rparr> (disk w) = Inr (n, disk w')"
    using assms by (auto simp: AStore_AddMember_def runs)
  then show ?thesis using members.put_law [of "(t, u)" r now "disk w" n "disk w'"] by (simp add: abs_members_eq) (simp add: abs_members_def)
qed

lemma change_refines:
  assumes "AStore_UpdateMemberRole t u r w = (Inr b, w')"
  shows "(b \<longleftrightarrow> abs_members (disk w) (t, u) \<noteq> None) \<and> abs_members (disk w') = (if b then (abs_members (disk w))((t, u) \<mapsto> r) else abs_members (disk w))"
proof -
  obtain n where "update_member t u r (disk w) = Inr (n, disk w')" "b = (n > 0)"
    using assms by (auto simp: AStore_UpdateMemberRole_def runs)
  then show ?thesis using members.change_law [of "(t, u)" r "disk w" n "disk w'"]
    unfolding abs_members_eq by (auto simp: abs_members_def)
qed

lemma remove_refines:
  assumes "AStore_RemoveMember t u w = (Inr b, w')"
  shows "(b \<longleftrightarrow> abs_members (disk w) (t, u) \<noteq> None) \<and> abs_members (disk w') = (abs_members (disk w))((t, u) := None)"
proof -
  obtain n where "delete_member t u (disk w) = Inr (n, disk w')" "b = (n > 0)"
    using assms by (auto simp: AStore_RemoveMember_def runs)
  then show ?thesis using members.remove_law [of "(t, u)" "disk w" n "disk w'"]
    unfolding abs_members_eq by (auto simp: abs_members_def)
qed

text \<open>What each member call does to the map from tenant and user to the role, when it is answered
  with success.\<close>

definition member_effect :: "admin_call \<Rightarrow> request \<Rightarrow> (string \<times> string \<Rightarrow> string option) \<Rightarrow> (string \<times> string \<Rightarrow> string option) option" where
  "member_effect call c m =
     (let t = rq_Param c ''tenantId''; u = rq_Param c ''uid''
      in case call of
           AddMember (Inr req) \<Rightarrow> if m (t, am_UserID req) = None then Some (m((t, am_UserID req) \<mapsto> am_Role req)) else None
         | UpdateMemberRole (Inr role) \<Rightarrow> if m (t, u) \<noteq> None then Some (m((t, u) \<mapsto> role)) else None
         | RemoveMember \<Rightarrow> if m (t, u) \<noteq> None then Some (m((t, u) := None)) else None
         | AddMember (Inl e) \<Rightarrow> None
         | UpdateMemberRole (Inl e) \<Rightarrow> None
         | _ \<Rightarrow> Some m)"

text \<open>C23: the member calls implement the map: a call that is answered with success had the effect of
  its abstract operation, so adding requires that there is no membership, and changing or removing one
  requires that there is.\<close>

theorem admin_members_refine:
  assumes "Admin_call time_text Enforce call c w = (Inr resp, w')"
  shows "member_effect call c (abs_members (disk w)) = Some (abs_members (disk w'))"
proof (cases call)
  case MeRoles
  then show ?thesis using assms
    by (auto simp: Admin_call_def Admin_MeRoles_def Let_def AStore_RolesForUser_def uid_string_def guard_def member_effect_def runs
        split: option.splits if_splits)
next
  case AssignRole
  then show ?thesis using assms
    by (auto simp: Admin_call_def Admin_AssignRole_def Let_def AStore_RolesForUser_def uid_string_def guard_def member_effect_def runs
        AStore_AssignRole_def assign_role_def insert_user_role_def abs_members_def role_of_def split: option.splits if_splits)
next
  case ListMembers
  then show ?thesis using assms
    by (auto simp: Admin_call_def Admin_ListMembers_def AStore_ListMembers_def member_effect_def runs)
next
  case (AddMember body)
  then obtain req where body: "body = Inr req" using assms by (cases body) (auto simp: Admin_call_def Admin_AddMember_def Let_def run_pure)
  have "AStore_AddMember (rq_Param c ''tenantId'') (am_UserID req) (am_Role req) (w\<lparr>tick := Suc (tick w)\<rparr>) = (Inr (), w')"
    using assms by (auto simp: AddMember body Admin_call_def Admin_AddMember_def Let_def guard_def AStore_UserExists_def runs
        split: option.splits if_splits)
  then show ?thesis using put_refines [of "rq_Param c ''tenantId''" "am_UserID req" "am_Role req" "w\<lparr>tick := Suc (tick w)\<rparr>"]
    by (auto simp: AddMember body member_effect_def)
next
  case (UpdateMemberRole body)
  then obtain role where body: "body = Inr role"
    using assms by (cases body) (auto simp: Admin_call_def Admin_UpdateMemberRole_def guard_def Let_def run_pure split: option.splits)
  have "AStore_UpdateMemberRole (rq_Param c ''tenantId'') (rq_Param c ''uid'') role w = (Inr True, w')"
    using assms by (auto simp: UpdateMemberRole body Admin_call_def Admin_UpdateMemberRole_def Let_def guard_def runs split: option.splits if_splits)
  then show ?thesis using change_refines [of "rq_Param c ''tenantId''" "rq_Param c ''uid''" role w]
    by (auto simp: UpdateMemberRole body member_effect_def)
next
  case RemoveMember
  have "AStore_RemoveMember (rq_Param c ''tenantId'') (rq_Param c ''uid'') w = (Inr True, w')"
    using assms by (auto simp: RemoveMember Admin_call_def Admin_RemoveMember_def Let_def guard_def runs split: option.splits if_splits)
  then show ?thesis using remove_refines [of "rq_Param c ''tenantId''" "rq_Param c ''uid''" w]
    by (auto simp: RemoveMember member_effect_def)
qed

subsection \<open>Instances\<close>

text \<open>Alice owns the tenant and adds Bob; Casbin allows owners everything.\<close>

definition owner_enforcer :: enforcer where
  "owner_enforcer role dm obj act = Inr (role = ''tenant_owner'')"

definition team_db :: db where
  "team_db = sample_db\<lparr>users := [sample_user, sample_user\<lparr>u_id := ''bob'', u_email := None\<rparr>],
     tenants := [\<lparr>t_id = ''t1'', t_name = ''T'', t_created_at = 0\<rparr>],
     tenant_users := [\<lparr>tu_tenant_id = ''t1'', tu_user_id = ''alice'', tu_role = ''owner'', tu_created_at = 0\<rparr>]\<rparr>"

definition team_request :: request where
  "team_request = sample_request\<lparr>rq_Header := (\<lambda>h. ''Bearer '' @ sample_token), rq_Param := (\<lambda>p. if p = ''tenantId'' then ''t1'' else [])\<rparr>"

definition add_bob :: admin_call where
  "add_bob = AddMember (Inr \<lparr>am_UserID = ''bob'', am_Role = ''admin''\<rparr>)"

theorem admin_authorized_witness:
  "tenant_only ''t1'' team_db
     (disk (snd (admin_api sample_lib ''k'' ''i'' ''a'' (\<lambda>t. []) owner_enforcer add_bob team_request (sample_world team_db))))"
proof -
  have "length (tenant_users (disk (snd (admin_api sample_lib ''k'' ''i'' ''a'' (\<lambda>t. []) owner_enforcer add_bob team_request (sample_world team_db))))) = 2"
    "length (tenant_users team_db) = 1" by code_simp+
  then have "disk (snd (admin_api sample_lib ''k'' ''i'' ''a'' (\<lambda>t. []) owner_enforcer add_bob team_request (sample_world team_db))) \<noteq> disk (sample_world team_db)"
    by auto
  moreover have "rq_Param team_request ''tid'' = []" "rq_Param team_request ''tenantId'' = ''t1''" by code_simp+
  ultimately show ?thesis using admin_authorized [of team_request] by (metis sample_world_simps(1))
qed

theorem admin_members_refine_witness:
  "abs_members (disk (snd (Admin_call (\<lambda>t. []) owner_enforcer add_bob team_request (sample_world team_db)))) (''t1'', ''bob'') = Some ''admin''"
proof -
  have "fst (Admin_call (\<lambda>t. []) owner_enforcer add_bob team_request (sample_world team_db)) =
      Inr (resp_OK ''r'' (JObj [(''ok'', JBool True)]))" by code_simp
  note ref = admin_members_refine [OF run_result [OF this]]
  have "member_effect add_bob team_request m = Some m' \<Longrightarrow> m' (''t1'', ''bob'') = Some ''admin''" for m m'
    by (auto simp: member_effect_def add_bob_def team_request_def Let_def split: if_splits)
  from this [OF ref] show ?thesis .
qed

end
