(* ===== verification/Worker_Store.thy ===== *)
theory Worker_Store
  imports Auth_Steps Samples
begin

text \<open>
  The data layer of email-worker, \<open>services/email-worker/internal/store/store.go\<close>: one
  definition per method of its \<open>Store\<close> (named \<open>WStore_...\<close> to tell it from the one of
  auth-api), and the locale \<open>worker_relation\<close> that lifts a relation from its statements to
  its methods.
\<close>

subsection \<open>Errors and rows\<close>

abbreviation ErrEmailRecordNotFound :: go_error where
  "ErrEmailRecordNotFound \<equiv> Sentinel ''workerstore'' ''email_record_not_found''"
abbreviation ErrEmptyRecordID :: go_error where "ErrEmptyRecordID \<equiv> Sentinel ''workerstore'' ''empty_record_id''"
abbreviation ErrEmptyExternalID :: go_error where "ErrEmptyExternalID \<equiv> Sentinel ''workerstore'' ''empty_external_id''"
abbreviation ErrEmptyStatus :: go_error where "ErrEmptyStatus \<equiv> Sentinel ''workerstore'' ''empty_status''"
abbreviation ErrEmptyEmail :: go_error where "ErrEmptyEmail \<equiv> Sentinel ''workerstore'' ''empty_email''"

record AnalyticsRecord =
  ar_UserID :: string
  ar_Email :: string
  ar_QueuedAt :: instant
  ar_SentAt :: "instant option"

subsection \<open>Statements\<close>

definition set_email_status :: "string \<Rightarrow> string option \<Rightarrow> string \<Rightarrow> instant \<Rightarrow> db \<Rightarrow> (go_error, nat \<times> db) result" where
  "set_email_status i xid status now d =
     Inr (affected (\<lambda>e. e_id e = i) (email_records d),
       d\<lparr>email_records := update_where (\<lambda>e. e_id e = i)
          (\<lambda>e. e\<lparr>e_external_id := (case xid of None \<Rightarrow> e_external_id e | Some x \<Rightarrow> Some x),
                 e_status := status, e_updated_at := now\<rparr>) (email_records d)\<rparr>)"

definition history_entry :: "string \<Rightarrow> string \<Rightarrow> string \<Rightarrow> string \<Rightarrow> json option \<Rightarrow> instant \<Rightarrow> history_row" where
  "history_entry i recordID status message meta now = \<lparr>h_id = i, h_record_id = recordID, h_status = status,
     h_message = message, h_meta = meta, h_created_at = now\<rparr>"

definition pg_lower :: "lib \<Rightarrow> string \<Rightarrow> string" where
  "pg_lower L s = (if is_ascii s then map ascii_lower s else db_lower L s)"

text \<open>\<open>insert ... on conflict (email) do update\<close>, with the lower-case check and the unique index on
  \<open>lower(email)\<close>.\<close>

definition upsert_blacklist :: "lib \<Rightarrow> string \<Rightarrow> string \<Rightarrow> string \<Rightarrow> instant \<Rightarrow> db \<Rightarrow> (go_error, nat \<times> db) result" where
  "upsert_blacklist L i addr reason now d =
     (if pg_lower L addr \<noteq> addr then Inl check_violation
      else if has_key b_email addr (blacklist d)
      then Inr (1, d\<lparr>blacklist := update_where (\<lambda>b. b_email b = addr)
             (\<lambda>b. b\<lparr>b_reason := reason, b_updated_at := now\<rparr>) (blacklist d)\<rparr>)
      else if has_key b_id i (blacklist d) \<or> has_key (\<lambda>b. pg_lower L (b_email b)) (pg_lower L addr) (blacklist d)
      then Inl unique_violation
      else Inr (1, d\<lparr>blacklist := blacklist d @ [\<lparr>b_id = i, b_email = addr, b_reason = reason,
             b_created_at = now, b_updated_at = now\<rparr>]\<rparr>))"

subsection \<open>Methods\<close>

definition WStore_MarkSent :: "string \<Rightarrow> string \<Rightarrow> (db, unit) proc" where
  "WStore_MarkSent recordID externalID =
     (if TrimSpace recordID = [] then fail ErrEmptyRecordID
      else if TrimSpace externalID = [] then fail ErrEmptyExternalID
      else run_tx (
        ebind (tx_exec (set_email_status recordID (Some externalID) ''sent'')) (\<lambda>n.
        if n = 0 then fail ErrEmailRecordNotFound
        else
        ebind uuid_NewString (\<lambda>i.
        ebind (tx_exec (\<lambda>now. insert_history (history_entry i recordID ''sent'' ''email sent successfully'' None now))) (\<lambda>_.
        tx_commit)))))"

definition WStore_MarkFailed :: "string \<Rightarrow> string \<Rightarrow> (db, unit) proc" where
  "WStore_MarkFailed recordID reason =
     (if TrimSpace recordID = [] then fail ErrEmptyRecordID
      else
        (let msg = (if TrimSpace reason = [] then ''email delivery failed'' else reason)
         in run_tx (
        ebind (tx_exec (set_email_status recordID None ''failed'')) (\<lambda>n.
        if n = 0 then fail ErrEmailRecordNotFound
        else
        ebind uuid_NewString (\<lambda>i.
        ebind (tx_exec (\<lambda>now. insert_history (history_entry i recordID ''failed'' msg None now))) (\<lambda>_.
        tx_commit))))))"

definition bounce_meta :: "string \<Rightarrow> int \<Rightarrow> int \<Rightarrow> json" where
  "bounce_meta bounceType smtpCode retryCount = JObj [(''bounce_type'', JStr bounceType),
     (''retry_count'', JNum retryCount), (''smtp_code'', JNum smtpCode)]"

definition WStore_MarkBounced :: "string \<Rightarrow> string \<Rightarrow> string \<Rightarrow> int \<Rightarrow> int \<Rightarrow> (db, unit) proc" where
  "WStore_MarkBounced recordID reason bounceType smtpCode retryCount =
     (if TrimSpace recordID = [] then fail ErrEmptyRecordID
      else
        (let msg = (if TrimSpace reason = [] then ''email bounced'' else reason);
             ty = (if TrimSpace bounceType = [] then ''unknown'' else bounceType)
         in run_tx (
        ebind (tx_exec (set_email_status recordID None ''bounced'')) (\<lambda>n.
        if n = 0 then fail ErrEmailRecordNotFound
        else
        ebind uuid_NewString (\<lambda>i.
        ebind (tx_exec (\<lambda>now. insert_history (history_entry i recordID ''bounced'' msg
           (Some (bounce_meta ty smtpCode retryCount)) now))) (\<lambda>_.
        tx_commit))))))"

definition WStore_Blacklist :: "lib \<Rightarrow> string \<Rightarrow> string \<Rightarrow> (db, unit) proc" where
  "WStore_Blacklist L emailAddr reason =
     (let addr = TrimSpace (ToLower L emailAddr);
          msg = (if TrimSpace reason = [] then ''hard bounce'' else reason)
      in if addr = [] then fail ErrEmptyEmail
         else ebind uuid_NewString (\<lambda>i.
              ebind (pool_exec (upsert_blacklist L i addr msg)) (\<lambda>_. ok ())))"

definition WStore_IsBlacklisted :: "lib \<Rightarrow> string \<Rightarrow> (db, bool) proc" where
  "WStore_IsBlacklisted L emailAddr =
     (let addr = TrimSpace (ToLower L emailAddr)
      in if addr = [] then fail ErrEmptyEmail
         else pool_query (\<lambda>d. Some (has_key (\<lambda>b. pg_lower L (b_email b)) (pg_lower L addr) (blacklist d))))"

definition newer_record :: "email_row \<Rightarrow> email_row \<Rightarrow> bool" where
  "newer_record x y \<longleftrightarrow> e_updated_at x > e_updated_at y
     \<or> (e_updated_at x = e_updated_at y \<and> (e_created_at x > e_created_at y
         \<or> (e_created_at x = e_created_at y \<and> e_id x > e_id y)))"

definition record_by_external :: "string \<Rightarrow> db \<Rightarrow> email_row option" where
  "record_by_external xid d = first_by newer_record (filter (\<lambda>e. e_external_id e = Some xid) (email_records d))"

text \<open>\<open>meta->>'event_id'\<close>: the field as text, NULL when it is missing or a JSON null.\<close>

definition meta_text :: "lib \<Rightarrow> string \<Rightarrow> json option \<Rightarrow> string option" where
  "meta_text L k meta =
     (case meta of
        Some (JObj fs) \<Rightarrow>
          (case map_of fs k of
             None \<Rightarrow> None
           | Some JNull \<Rightarrow> None
           | Some (JStr s) \<Rightarrow> Some s
           | Some j \<Rightarrow> Some (json_text L j))
      | _ \<Rightarrow> None)"

definition set_field :: "string \<Rightarrow> json \<Rightarrow> (string \<times> json) list \<Rightarrow> (string \<times> json) list" where
  "set_field k v fs = (k, v) # filter (\<lambda>f. fst f \<noteq> k) fs"

definition seen_event :: "lib \<Rightarrow> string \<Rightarrow> string \<Rightarrow> string \<Rightarrow> db \<Rightarrow> bool" where
  "seen_event L recordID status eventID d \<longleftrightarrow> list_ex (\<lambda>h. h_record_id h = recordID \<and> h_status h = status
     \<and> meta_text L ''event_id'' (h_meta h) = Some eventID) (status_history d)"

definition WStore_UpsertWebhookStatusByExternalID ::
    "lib \<Rightarrow> string \<Rightarrow> string \<Rightarrow> string \<Rightarrow> string \<Rightarrow> (string \<times> json) list option \<Rightarrow> (db, bool) proc" where
  "WStore_UpsertWebhookStatusByExternalID L externalID status message eventID meta =
     (let xid = TrimSpace externalID; st = TrimSpace status; ev = TrimSpace eventID;
          fields = (case meta of None \<Rightarrow> [] | Some fs \<Rightarrow> fs)
      in if xid = [] then fail ErrEmptyExternalID
         else if st = [] then fail ErrEmptyStatus
         else run_tx (
           ecase (tx_query (record_by_external xid))
             (\<lambda>err. if errors_Is err ErrNoRows then fail ErrEmailRecordNotFound else fail err) (\<lambda>e.
           ebind (if ev \<noteq> [] then tx_query (\<lambda>d. Some (seen_event L (e_id e) st ev d)) else ok False) (\<lambda>exists.
           if exists then ebind tx_commit (\<lambda>_. ok False)
           else
           ebind (tx_exec (set_email_status (e_id e) None st)) (\<lambda>_.
           ebind uuid_NewString (\<lambda>i.
           ebind (tx_exec (\<lambda>now. insert_history (history_entry i (e_id e) st message
              (Some (JObj (if ev \<noteq> [] then set_field ''event_id'' (JStr ev) fields else fields))) now))) (\<lambda>_.
           ebind tx_commit (\<lambda>_. ok True))))))))"

definition latest_sent :: "string \<Rightarrow> db \<Rightarrow> instant option" where
  "latest_sent recordID d = map_option h_created_at (first_by (\<lambda>x y. h_created_at x > h_created_at y)
     (filter (\<lambda>h. h_record_id h = recordID \<and> h_status h = ''sent'') (status_history d)))"

definition WStore_lookupAnalyticsRecord :: "(email_row \<Rightarrow> bool) \<Rightarrow> (db, AnalyticsRecord) proc" where
  "WStore_lookupAnalyticsRecord p =
     ecase (pool_query (\<lambda>d. map_option (\<lambda>e. \<lparr>ar_UserID = (case e_user_id e of None \<Rightarrow> [] | Some u \<Rightarrow> u),
          ar_Email = e_to_email e, ar_QueuedAt = e_created_at e, ar_SentAt = latest_sent (e_id e) d\<rparr>)
        (first_by newer_record (filter p (email_records d)))))
       (\<lambda>err. if errors_Is err ErrNoRows then fail ErrEmailRecordNotFound else fail err) ok"

definition WStore_LookupAnalyticsRecordByID :: "string \<Rightarrow> (db, AnalyticsRecord) proc" where
  "WStore_LookupAnalyticsRecordByID recordID =
     WStore_lookupAnalyticsRecord (\<lambda>e. e_id e = TrimSpace recordID)"

definition WStore_LookupAnalyticsRecordByExternalID :: "string \<Rightarrow> (db, AnalyticsRecord) proc" where
  "WStore_LookupAnalyticsRecordByExternalID externalID =
     WStore_lookupAnalyticsRecord (\<lambda>e. e_external_id e = Some (TrimSpace externalID))"

subsection \<open>Relations kept by the worker\<close>

locale worker_relation = db_preorder R for R :: "db \<Rightarrow> db \<Rightarrow> bool" +
  assumes R_set_email_status: "set_email_status i xid st now d = Inr (n, d') \<Longrightarrow> R d d'"
    and R_insert_history: "insert_history rh d = Inr (n, d') \<Longrightarrow> R d d'"
    and R_upsert_blacklist: "upsert_blacklist L i addr reason now d = Inr (n, d') \<Longrightarrow> R d d'"
begin

lemmas worker_statements = R_set_email_status R_insert_history R_upsert_blacklist

lemma Mark_keeps:
  "op_keeps R (WStore_MarkSent i x)" "op_keeps R (WStore_MarkFailed i r)"
  "op_keeps R (WStore_MarkBounced i r ty code k)"
  unfolding WStore_MarkSent_def WStore_MarkFailed_def WStore_MarkBounced_def Let_def
  by (intro op_if op_run_tx tx_rules; auto intro: op_silent tx_silent worker_statements)+

lemma Blacklist_keeps: "op_keeps R (WStore_Blacklist L a r)"
  unfolding WStore_Blacklist_def Let_def
  by (intro op_if op_ebind op_pool_exec stmt_keepsI) (auto intro: op_silent worker_statements)

lemma Upsert_keeps: "op_keeps R (WStore_UpsertWebhookStatusByExternalID L x st m ev meta)"
  unfolding WStore_UpsertWebhookStatusByExternalID_def Let_def
  by (intro op_if op_run_tx tx_rules) (auto intro: op_silent tx_silent worker_statements)

lemmas worker_keeps = Mark_keeps Blacklist_keeps Upsert_keeps

end

lemma db_silent_lookups [simp]:
  "db_silent (WStore_lookupAnalyticsRecord p)" "db_silent (WStore_LookupAnalyticsRecordByID i)"
  "db_silent (WStore_LookupAnalyticsRecordByExternalID x)" "db_silent (WStore_IsBlacklisted L a)"
  by (auto simp: WStore_lookupAnalyticsRecord_def WStore_LookupAnalyticsRecordByID_def
      WStore_LookupAnalyticsRecordByExternalID_def WStore_IsBlacklisted_def Let_def intro!: db_silent_ecase)

lemma set_email_status_schema:
  "set_email_status i xid st now d = Inr (n, d') \<Longrightarrow> schema_ok d \<Longrightarrow> schema_ok d'"
  by (clarsimp simp: set_email_status_def schema_defs schema_simps map_update_where refs_in_update
      image_update_where)

lemma upsert_blacklist_schema:
  assumes "upsert_blacklist L i addr reason now d = Inr (n, d')" "schema_ok d"
  shows "schema_ok d'"
  using assms
  by (clarsimp simp: upsert_blacklist_def schema_defs has_key_iff map_update_where split: if_splits)

interpretation worker_mono: worker_relation mono_rel
proof unfold_locales
  fix i xid st now d n d' assume "set_email_status i xid st now d = Inr (n, d')"
  then show "mono_rel d d'"
    using set_email_status_schema by (intro mono_rel_frame) (auto simp: set_email_status_def)
next
  fix rh d n d' assume "insert_history rh d = Inr (n, d')"
  then show "mono_rel d d'"
    using insert_history_schema by (intro mono_rel_frame) (auto simp: insert_history_def split: if_splits)
next
  fix L i addr reason now d n d' assume "upsert_blacklist L i addr reason now d = Inr (n, d')"
  then show "mono_rel d d'"
    using upsert_blacklist_schema by (intro mono_rel_frame) (auto simp: upsert_blacklist_def split: if_splits)
qed

end
