(* ===== verification/Email.thy ===== *)
theory Email
  imports Externals Samples
begin

text \<open>
  Sending mail: \<open>SMTPConfig\<close> and the message builder of \<open>modules/common-go/pkg/email/email.go\<close>,
  and the sender of email-worker (\<open>internal/sender/sender.go\<close>, \<open>bounce.go\<close>) with its
  classification of SMTP errors.
\<close>

subsection \<open>Package email\<close>

abbreviation ErrEmptySMTPHost :: go_error where "ErrEmptySMTPHost \<equiv> Sentinel ''email'' ''empty_smtp_host''"
abbreviation ErrInvalidSMTPPort :: go_error where "ErrInvalidSMTPPort \<equiv> Sentinel ''email'' ''invalid_smtp_port''"
abbreviation ErrEmptyFromEmail :: go_error where "ErrEmptyFromEmail \<equiv> Sentinel ''email'' ''empty_from_email''"
abbreviation ErrInvalidToEmail :: go_error where "ErrInvalidToEmail \<equiv> Sentinel ''email'' ''invalid_to_email''"
abbreviation ErrEmptyBody :: go_error where "ErrEmptyBody \<equiv> Sentinel ''email'' ''empty_body''"
abbreviation ErrInvalidHeader :: go_error where "ErrInvalidHeader \<equiv> Sentinel ''email'' ''invalid_header''"

record SMTPConfig =
  sc_Host :: string
  sc_Port :: int
  sc_Username :: string
  sc_Password :: string
  sc_FromEmail :: string
  sc_FromName :: string

definition hasHeaderBreak :: "string \<Rightarrow> bool" where
  "hasHeaderBreak v = ContainsAny v [CHR 0x0D, CHR 0x0A]"

definition SMTPConfig_validate :: "lib \<Rightarrow> SMTPConfig \<Rightarrow> go_error option" where
  "SMTPConfig_validate L c =
     (if TrimSpace (sc_Host c) = [] then Some ErrEmptySMTPHost
      else if sc_Port c \<le> 0 \<or> sc_Port c > 65535 then Some ErrInvalidSMTPPort
      else if TrimSpace (sc_FromEmail c) = [] then Some ErrEmptyFromEmail
      else (case mail_ParseAddress L (TrimSpace (sc_FromEmail c)) of
              None \<Rightarrow> Some ErrEmptyFromEmail
            | Some (name, addr) \<Rightarrow> if addr = [] then Some ErrEmptyFromEmail else None))"

definition crlf :: string where "crlf = [CHR 0x0D, CHR 0x0A]"

text \<open>\<open>multipart.Writer\<close>: the delimiter before a part has a leading line break from the second
  part on; the header keys are written in order.\<close>

definition writePart :: "lib \<Rightarrow> string \<Rightarrow> string \<Rightarrow> string \<Rightarrow> string \<Rightarrow> string" where
  "writePart L boundary written contentType body =
     written @ (if written = [] then [] else crlf) @ ''--'' @ boundary @ crlf @
     ''Content-Transfer-Encoding: quoted-printable'' @ crlf @
     ''Content-Type: '' @ contentType @ crlf @ crlf @ quoted_printable L body"

definition buildMessage :: "lib \<Rightarrow> string \<Rightarrow> string \<Rightarrow> string \<Rightarrow> string \<Rightarrow> string \<Rightarrow> string \<Rightarrow> string" where
  "buildMessage L boundary fromHeader toHeader subject htmlBody textBody =
     (let p1 = (if TrimSpace textBody \<noteq> [] then writePart L boundary [] ''text/plain; charset=UTF-8'' textBody else []);
          p2 = (if TrimSpace htmlBody \<noteq> [] then writePart L boundary p1 ''text/html; charset=UTF-8'' htmlBody else p1)
      in ''From: '' @ fromHeader @ crlf @ ''To: '' @ toHeader @ crlf @
         ''Subject: '' @ mime_QEncode L subject @ crlf @ ''MIME-Version: 1.0'' @ crlf @
         ''Content-Type: multipart/alternative; boundary='' @ [CHR 0x22] @ boundary @ [CHR 0x22] @ crlf @ crlf @
         p2 @ crlf @ ''--'' @ boundary @ ''--'' @ crlf)"

text \<open>\<open>net.JoinHostPort\<close> brackets a host that contains a colon. The boundary is thirty random bytes
  in hex. The credentials only reach the SMTP library.\<close>

definition JoinHostPort :: "string \<Rightarrow> string \<Rightarrow> string" where
  "JoinHostPort host port =
     (if CHR '':'' \<in> set host then ''['' @ host @ '']:'' @ port else host @ '':'' @ port)"

definition SMTPConfig_SendEmail :: "lib \<Rightarrow> SMTPConfig \<Rightarrow> string \<Rightarrow> string \<Rightarrow> string \<Rightarrow> string \<Rightarrow> ('d, unit) proc" where
  "SMTPConfig_SendEmail L c to subject htmlBody textBody =
     (case SMTPConfig_validate L c of
        Some err \<Rightarrow> fail err
      | None \<Rightarrow>
          if TrimSpace htmlBody = [] \<and> TrimSpace textBody = [] then fail ErrEmptyBody
          else if hasHeaderBreak subject \<or> hasHeaderBreak (sc_FromName c) then fail ErrInvalidHeader
          else (case mail_ParseAddress L (TrimSpace to) of
                  None \<Rightarrow> fail ErrInvalidToEmail
                | Some (toName, toAddress) \<Rightarrow>
                    if toAddress = [] then fail ErrInvalidToEmail
                    else
                      ebind (rand_Read 30) (\<lambda>b.
                      smtp_SendMail \<lparr>sm_Addr = JoinHostPort (sc_Host c) (Itoa (sc_Port c)), sm_From = sc_FromEmail c,
                        sm_To = [toAddress],
                        sm_Msg = buildMessage L (hex_encode b)
                          (mail_Address_String L (TrimSpace (sc_FromName c)) (TrimSpace (sc_FromEmail c)))
                          (mail_Address_String L toName toAddress) subject htmlBody textBody\<rparr>)))"

subsection \<open>Bounces\<close>

datatype BounceType = BounceTypeNone | BounceTypeSoft | BounceTypeHard

fun bounce_string :: "BounceType \<Rightarrow> string" where
  "bounce_string BounceTypeNone = []"
| "bounce_string BounceTypeSoft = ''soft''"
| "bounce_string BounceTypeHard = ''hard''"

definition classifySMTPCode :: "int \<Rightarrow> BounceType \<times> int" where
  "classifySMTPCode code =
     (if 400 \<le> code \<and> code < 500 then (BounceTypeSoft, code)
      else if 500 \<le> code \<and> code < 600 then (BounceTypeHard, code)
      else (BounceTypeNone, code))"

text \<open>The regular expression \<open>\b([45][0-9]{2})\b\<close>: the leftmost three digits that start with 4 or
  5 and touch no other word character.\<close>

definition is_word_char :: "char \<Rightarrow> bool" where
  "is_word_char c \<longleftrightarrow> is_digit c \<or> (65 \<le> byte_val c \<and> byte_val c \<le> 90)
     \<or> (97 \<le> byte_val c \<and> byte_val c \<le> 122) \<or> c = CHR ''_''"

definition code_here :: "bool \<Rightarrow> string \<Rightarrow> bool" where
  "code_here prevWord s \<longleftrightarrow> \<not> prevWord \<and> length s \<ge> 3 \<and> (s ! 0 = CHR ''4'' \<or> s ! 0 = CHR ''5'')
     \<and> is_digit (s ! 1) \<and> is_digit (s ! 2) \<and> (length s = 3 \<or> \<not> is_word_char (s ! 3))"

fun find_smtp_code :: "bool \<Rightarrow> string \<Rightarrow> string option" where
  "find_smtp_code prevWord [] = None"
| "find_smtp_code prevWord (c # s) =
     (if code_here prevWord (c # s) then Some (take 3 (c # s)) else find_smtp_code (is_word_char c) s)"

fun is_TextProto :: "go_error \<Rightarrow> bool" where
  "is_TextProto (TextProtoError _ _) = True" | "is_TextProto _ = False"

definition as_TextProto :: "go_error \<Rightarrow> int option" where
  "as_TextProto e = (case List.find is_TextProto (chain e) of Some (TextProtoError c m) \<Rightarrow> Some c | _ \<Rightarrow> None)"

definition ClassifySMTPError :: "go_error option \<Rightarrow> BounceType \<times> int" where
  "ClassifySMTPError err =
     (case err of
        None \<Rightarrow> (BounceTypeNone, 0)
      | Some e \<Rightarrow>
          (case as_TextProto e of
             Some code \<Rightarrow> classifySMTPCode code
           | None \<Rightarrow>
               (case find_smtp_code False (err_message e) of
                  None \<Rightarrow> (BounceTypeNone, 0)
                | Some digits \<Rightarrow>
                    (case Atoi digits of None \<Rightarrow> (BounceTypeNone, 0) | Some code \<Rightarrow> classifySMTPCode code))))"

subsection \<open>The sender\<close>

abbreviation ErrEmptyRecipient :: go_error where "ErrEmptyRecipient \<equiv> Sentinel ''sender'' ''empty_recipient''"

record send_request =
  sr_To :: string
  sr_Subject :: string
  sr_HTMLBody :: string
  sr_TextBody :: string

text \<open>\<open>ctx.Err()\<close>: the context may be cancelled at any call.\<close>

definition ctx_Err :: "('d, unit) proc" where
  "ctx_Err = ext (LibError ''context canceled'') (\<lambda>t. ok ())"

lemma db_silent_ctx_Err [simp]: "db_silent ctx_Err"
  unfolding ctx_Err_def by (rule db_silent_ext) simp

definition Sender_Send :: "lib \<Rightarrow> SMTPConfig \<Rightarrow> send_request \<Rightarrow> ('d, string) proc" where
  "Sender_Send L cfg req =
     ebind ctx_Err (\<lambda>_.
      if TrimSpace (sr_To req) = [] then fail ErrEmptyRecipient
      else
        ecase (SMTPConfig_SendEmail L cfg (sr_To req) (sr_Subject req) (sr_HTMLBody req) (sr_TextBody req))
          (\<lambda>err. (case ClassifySMTPError (Some err) of
             (ty, code) \<Rightarrow> fail (DeliveryError err (bounce_string ty) code)))
          (\<lambda>_. uuid_NewString))"

lemma db_silent_SendEmail [simp]: "db_silent (SMTPConfig_SendEmail L c to s hb tb)"
  by (auto simp: SMTPConfig_SendEmail_def intro!: db_silent_ebind split: option.split)

lemma db_silent_Send [simp]: "db_silent (Sender_Send L c r)"
  by (auto simp: Sender_Send_def intro!: db_silent_ebind db_silent_ecase split: prod.split)

subsection \<open>Properties\<close>

text \<open>What the leftmost search finds.\<close>

lemma find_smtp_code_shape:
  "find_smtp_code b s = Some d \<Longrightarrow>
     length d = 3 \<and> (d ! 0 = CHR ''4'' \<or> d ! 0 = CHR ''5'') \<and> list_all is_digit d \<and> sublist d s"
proof (induction b s rule: find_smtp_code.induct)
  case (2 b c s)
  show ?case
  proof (cases "code_here b (c # s)")
    case True
    with 2 have d: "d = take 3 (c # s)" by simp
    obtain x y z r where cs: "c # s = x # y # z # r"
      using True by (cases s; cases "tl s") (auto simp: code_here_def)
    have "is_digit x" using True cs by (auto simp: code_here_def is_digit_def)
    with True d cs show ?thesis by (auto simp: code_here_def intro: sublist_take [of 3 "c # s", unfolded cs, simplified])
  next
    case False
    with 2 show ?thesis by (auto intro: sublist_Cons_right [THEN iffD2])
  qed
qed simp

text \<open>The regular expression as a predicate on positions; \<open>b\<close> says whether a word character
  precedes the string.\<close>

definition code_at :: "bool \<Rightarrow> string \<Rightarrow> nat \<Rightarrow> bool" where
  "code_at b s i \<longleftrightarrow> i + 3 \<le> length s \<and> (s ! i = CHR ''4'' \<or> s ! i = CHR ''5'')
     \<and> is_digit (s ! (i + 1)) \<and> is_digit (s ! (i + 2))
     \<and> (if i = 0 then \<not> b else \<not> is_word_char (s ! (i - 1)))
     \<and> (i + 3 = length s \<or> \<not> is_word_char (s ! (i + 3)))"

lemma code_at_0: "code_at b (c # s) 0 = code_here b (c # s)"
  by (auto simp: code_at_def code_here_def numeral_3_eq_3 numeral_2_eq_2)

lemma code_at_Suc: "code_at b (c # s) (Suc i) = code_at (is_word_char c) s i"
  by (cases i) (auto simp: code_at_def)

lemma find_smtp_code_eq:
  "find_smtp_code b s = Some d \<longleftrightarrow> (\<exists>i. code_at b s i \<and> (\<forall>j < i. \<not> code_at b s j) \<and> d = take 3 (drop i s))"
proof (induction b s rule: find_smtp_code.induct)
  case (1 b)
  then show ?case by (simp add: code_at_def)
next
  case (2 b c s)
  show ?case
  proof (cases "code_here b (c # s)")
    case True
    then have "code_at b (c # s) 0" by (simp add: code_at_0)
    then have "(code_at b (c # s) i \<and> (\<forall>j < i. \<not> code_at b (c # s) j) \<and> d = take 3 (drop i (c # s))) =
        (i = 0 \<and> d = take 3 (c # s))" for i
      by (cases i) auto
    with True show ?thesis by auto
  next
    case False
    then have no: "\<not> code_at b (c # s) 0" by (simp add: code_at_0)
    have "(\<exists>i. code_at b (c # s) i \<and> (\<forall>j < i. \<not> code_at b (c # s) j) \<and> d = take 3 (drop i (c # s))) =
      (\<exists>i. code_at b (c # s) (Suc i) \<and> (\<forall>j < Suc i. \<not> code_at b (c # s) j) \<and> d = take 3 (drop (Suc i) (c # s)))"
      using no by (metis not0_implies_Suc)
    also have "\<dots> = (\<exists>i. code_at (is_word_char c) s i \<and> (\<forall>j < i. \<not> code_at (is_word_char c) s j) \<and> d = take 3 (drop i s))"
    proof -
      have "(\<forall>j < Suc i. \<not> code_at b (c # s) j) = (\<forall>j < i. \<not> code_at (is_word_char c) s j)" for i
        using no by (metis code_at_Suc less_Suc_eq_0_disj)
      then show ?thesis by (simp add: code_at_Suc)
    qed
    finally show ?thesis using False 2 by simp
  qed
qed


text \<open>an error is classified as hard exactly for the codes 500 to 599 and as soft for 400 to 499;
  the code of a protocol error decides whatever its text says.\<close>

theorem classify_ranges:
  "(fst (classifySMTPCode code) = BounceTypeHard \<longleftrightarrow> 500 \<le> code \<and> code \<le> 599)
   \<and> (fst (classifySMTPCode code) = BounceTypeSoft \<longleftrightarrow> 400 \<le> code \<and> code \<le> 499)
   \<and> ClassifySMTPError (Some (TextProtoError code msg)) = classifySMTPCode code"
  by (auto simp: classifySMTPCode_def ClassifySMTPError_def as_TextProto_def)

text \<open>one call sends at most one message, and then with a subject free of line breaks, to
  exactly the parsed recipient, from a configuration that passed the checks.\<close>

theorem send_email_once:
  "(\<exists>err. fst (SMTPConfig_SendEmail L c to subject hb tb w) = Inl err
      \<and> outbox (snd (SMTPConfig_SendEmail L c to subject hb tb w)) = outbox w)
   \<or> (\<exists>name addr msg. fst (SMTPConfig_SendEmail L c to subject hb tb w) = Inr ()
      \<and> outbox (snd (SMTPConfig_SendEmail L c to subject hb tb w)) = outbox w @
          [\<lparr>sm_Addr = JoinHostPort (sc_Host c) (Itoa (sc_Port c)), sm_From = sc_FromEmail c, sm_To = [addr], sm_Msg = msg\<rparr>]
      \<and> mail_ParseAddress L (TrimSpace to) = Some (name, addr) \<and> addr \<noteq> []
      \<and> \<not> hasHeaderBreak subject \<and> SMTPConfig_validate L c = None \<and> 1 \<le> sc_Port c \<and> sc_Port c \<le> 65535)"
proof (cases "SMTPConfig_validate L c")
  case None
  then have "1 \<le> sc_Port c \<and> sc_Port c \<le> 65535"
    by (auto simp: SMTPConfig_validate_def split: if_splits)
  with None show ?thesis
    by (auto simp: SMTPConfig_SendEmail_def ebind_def ecase_def fail_def rand_Read_def ext_def smtp_SendMail_def
        split: option.splits)
next
  case (Some err)
  then show ?thesis by (simp add: SMTPConfig_SendEmail_def fail_def)
qed

end
