(* ===== verification/Json_Decode.thy ===== *)
theory Json_Decode
  imports Externals
begin

text \<open>
  \<open>json.Unmarshal\<close> into a struct, on parsed values: a key selects the field whose name it equals
  up to case, later keys overwrite earlier ones, \<open>null\<close> leaves a string or number alone and
  resets a map, and a value of another type is a type error. The facts evaluate the lookup on
  objects with literal keys.
\<close>

definition rbind :: "('e, 'a) result \<Rightarrow> ('a \<Rightarrow> ('e, 'b) result) \<Rightarrow> ('e, 'b) result" where
  "rbind r k = (case r of Inl e \<Rightarrow> Inl e | Inr x \<Rightarrow> k x)"

definition field_values :: "lib \<Rightarrow> string \<Rightarrow> (string \<times> json) list \<Rightarrow> json list" where
  "field_values L k fs = map snd (filter (\<lambda>f. EqualFold L (fst f) k) fs)"

fun str_field :: "json list \<Rightarrow> string \<Rightarrow> (go_error, string) result" where
  "str_field [] cur = Inr cur"
| "str_field (JNull # js) cur = str_field js cur"
| "str_field (JStr s # js) cur = str_field js s"
| "str_field (_ # js) cur = Inl JsonTypeError"

text \<open>An \<open>int\<close> field takes whole numbers of 64 bits.\<close>

fun int_field :: "json list \<Rightarrow> int \<Rightarrow> (go_error, int) result" where
  "int_field [] cur = Inr cur"
| "int_field (JNull # js) cur = int_field js cur"
| "int_field (JNum i # js) cur = (if - (2 ^ 63) \<le> i \<and> i < 2 ^ 63 then int_field js i else Inl JsonTypeError)"
| "int_field (_ # js) cur = Inl JsonTypeError"

text \<open>A Go map built from the fields of an object: of two equal keys the later one stays.\<close>

fun go_map :: "(string \<times> json) list \<Rightarrow> (string \<times> json) list" where
  "go_map [] = []"
| "go_map (f # fs) = (if fst f \<in> fst ` set fs then go_map fs else f # go_map fs)"

fun map_field :: "json list \<Rightarrow> (string \<times> json) list option \<Rightarrow> (go_error, (string \<times> json) list option) result" where
  "map_field [] cur = Inr cur"
| "map_field (JNull # js) cur = map_field js None"
| "map_field (JObj fs # js) cur = map_field js (Some (go_map ((case cur of None \<Rightarrow> [] | Some gs \<Rightarrow> gs) @ fs)))"
| "map_field (_ # js) cur = Inl JsonTypeError"

definition field_str :: "lib \<Rightarrow> string \<Rightarrow> (string \<times> json) list \<Rightarrow> (go_error, string) result" where
  "field_str L k fs = str_field (field_values L k fs) []"

definition field_int :: "lib \<Rightarrow> string \<Rightarrow> (string \<times> json) list \<Rightarrow> (go_error, int) result" where
  "field_int L k fs = int_field (field_values L k fs) 0"

definition field_map :: "lib \<Rightarrow> string \<Rightarrow> (string \<times> json) list \<Rightarrow> (go_error, (string \<times> json) list option) result" where
  "field_map L k fs = map_field (field_values L k fs) None"

lemmas field_defs = field_str_def field_int_def field_map_def field_values_def rbind_def

lemma rbind_simps [simp]: "rbind (Inr x) k = k x" "rbind (Inl e) k = Inl e"
  by (simp_all add: rbind_def)

lemma EqualFold_ascii:
  "is_ascii s \<Longrightarrow> is_ascii t \<Longrightarrow> EqualFold U s t \<longleftrightarrow> map ascii_lower s = map ascii_lower t"
  by (simp add: EqualFold_def)

lemma rbind_iff: "rbind r k = Inr y \<longleftrightarrow> (\<exists>x. r = Inr x \<and> k x = Inr y)"
  by (cases r) auto

lemma map_of_go_map: "map_of (go_map fs) k = map_of (rev fs) k"
proof (induction fs)
  case (Cons f fs)
  have "map_of (rev fs) (fst f) \<noteq> None \<longleftrightarrow> fst f \<in> fst ` set fs" by (simp add: map_of_eq_None_iff)
  with Cons show ?case
    by (cases f) (auto simp: map_add_def split: option.splits)
qed simp

end
