(* ===== verification/Worker_Consumer.thy ===== *)
theory Worker_Consumer
  imports Worker_Store Email Queue Json_Decode
begin

text \<open>
  The job loop of email-worker: \<open>internal/consumer/consumer.go\<close> and the metrics of
  \<open>internal/monitoring\<close>. \<open>AfterFunc\<close> puts a retry into the pending timers of the world;
  \<open>fire\<close> is a timer that goes off. The loop of \<open>Run\<close> is \<open>consume\<close>: \<open>cancelled t\<close> says whether the
  context is cancelled at tick \<open>t\<close>, and the result is \<open>None\<close> when the fuel, a bound on the number of
  iterations, is used up.
\<close>

subsection \<open>Jobs\<close>

abbreviation ErrNilQueue :: go_error where "ErrNilQueue \<equiv> Sentinel ''consumer'' ''nil_queue''"
abbreviation ErrNilSender :: go_error where "ErrNilSender \<equiv> Sentinel ''consumer'' ''nil_sender''"
abbreviation ErrNilStore :: go_error where "ErrNilStore \<equiv> Sentinel ''consumer'' ''nil_store''"
abbreviation ErrEmptyQueue :: go_error where "ErrEmptyQueue \<equiv> Sentinel ''consumer'' ''empty_queue_name''"
abbreviation ErrInvalidJob :: go_error where "ErrInvalidJob \<equiv> Sentinel ''consumer'' ''invalid_email_job''"
abbreviation ErrEmptyRecord :: go_error where "ErrEmptyRecord \<equiv> Sentinel ''consumer'' ''empty_record_id''"
abbreviation ErrEmptyToEmail :: go_error where "ErrEmptyToEmail \<equiv> Sentinel ''consumer'' ''empty_to_email''"
abbreviation ErrEmptyOTP :: go_error where "ErrEmptyOTP \<equiv> Sentinel ''consumer'' ''empty_otp''"
abbreviation ErrEmptyMagic :: go_error where "ErrEmptyMagic \<equiv> Sentinel ''consumer'' ''empty_magic_link''"
abbreviation ErrEmptyExpiry :: go_error where "ErrEmptyExpiry \<equiv> Sentinel ''consumer'' ''empty_expires_in''"
abbreviation ErrEmailBlacklisted :: go_error where "ErrEmailBlacklisted \<equiv> Sentinel ''consumer'' ''email_blacklisted''"
abbreviation ErrSoftBounceExceeded :: go_error where
  "ErrSoftBounceExceeded \<equiv> Sentinel ''consumer'' ''soft_bounce_retry_exhausted''"

record EmailJob =
  ej_RecordID :: string
  ej_To :: string
  ej_Subject :: string
  ej_HTMLBody :: string
  ej_TextBody :: string
  ej_OTP :: string
  ej_MagicLink :: string
  ej_ExpiresIn :: string
  ej_ResendIn :: string
  ej_RetryCount :: int

definition EmailJob_json :: "EmailJob \<Rightarrow> json" where
  "EmailJob_json j = JObj (
     [(''record_id'', JStr (ej_RecordID j)), (''to'', JStr (ej_To j)), (''subject'', JStr (ej_Subject j)),
      (''html_body'', JStr (ej_HTMLBody j)), (''text_body'', JStr (ej_TextBody j)), (''otp'', JStr (ej_OTP j)),
      (''magic_link'', JStr (ej_MagicLink j)), (''expires_in'', JStr (ej_ExpiresIn j))] @
     (if ej_ResendIn j = [] then [] else [(''resend_in'', JStr (ej_ResendIn j))]) @
     (if ej_RetryCount j = 0 then [] else [(''retry_count'', JNum (ej_RetryCount j))]))"

definition EmailJob_of_json :: "lib \<Rightarrow> json \<Rightarrow> (go_error, EmailJob) result" where
  "EmailJob_of_json L j =
     (case j of
        JObj fs \<Rightarrow>
          rbind (field_str L ''record_id'' fs) (\<lambda>rid.
          rbind (field_str L ''to'' fs) (\<lambda>to.
          rbind (field_str L ''subject'' fs) (\<lambda>subject.
          rbind (field_str L ''html_body'' fs) (\<lambda>hb.
          rbind (field_str L ''text_body'' fs) (\<lambda>tb.
          rbind (field_str L ''otp'' fs) (\<lambda>otp.
          rbind (field_str L ''magic_link'' fs) (\<lambda>link.
          rbind (field_str L ''expires_in'' fs) (\<lambda>ex.
          rbind (field_str L ''resend_in'' fs) (\<lambda>rs.
          rbind (field_int L ''retry_count'' fs) (\<lambda>k.
          Inr \<lparr>ej_RecordID = rid, ej_To = to, ej_Subject = subject, ej_HTMLBody = hb, ej_TextBody = tb,
               ej_OTP = otp, ej_MagicLink = link, ej_ExpiresIn = ex, ej_ResendIn = rs, ej_RetryCount = k\<rparr>))))))))))
      | JNull \<Rightarrow> Inr \<lparr>ej_RecordID = [], ej_To = [], ej_Subject = [], ej_HTMLBody = [], ej_TextBody = [],
               ej_OTP = [], ej_MagicLink = [], ej_ExpiresIn = [], ej_ResendIn = [], ej_RetryCount = 0\<rparr>
      | _ \<Rightarrow> Inl JsonTypeError)"

definition softBounceRetryIntervals :: "int list" where
  "softBounceRetryIntervals = [3600000000000, 4 * 3600000000000, 24 * 3600000000000]"

subsection \<open>Metrics\<close>

definition observeSend :: "string \<Rightarrow> int \<Rightarrow> metrics \<Rightarrow> metrics" where
  "observeSend res duration m = m\<lparr>sendAttempts := (sendAttempts m)(res := sendAttempts m res + 1),
     sendLatency := sendLatency m @ [(res, duration)]\<rparr>"

definition SetQueueBacklog :: "string \<Rightarrow> int \<Rightarrow> metrics \<Rightarrow> metrics" where
  "SetQueueBacklog queueName backlog m = m\<lparr>queueBacklog := (queueBacklog m)(queueName \<mapsto> backlog)\<rparr>"

definition IncQueueBacklogPollFailure :: "string \<Rightarrow> metrics \<Rightarrow> metrics" where
  "IncQueueBacklogPollFailure queueName m =
     m\<lparr>queuePollFail := (queuePollFail m)(queueName := queuePollFail m queueName + 1)\<rparr>"

definition collector_poll :: "string \<Rightarrow> ('d, unit) proc" where
  "collector_poll queueName =
     ecase (QueueLengthContext queueName)
       (\<lambda>err. with_metrics (IncQueueBacklogPollFailure queueName))
       (\<lambda>backlog. with_metrics (SetQueueBacklog queueName backlog))"

subsection \<open>Analytics\<close>

record Consumer =
  co_Queue :: bool
  co_Sender :: bool
  co_Store :: bool
  co_QueueName :: string
  co_SMTP :: SMTPConfig
  co_Analytics :: bool
  co_Metrics :: bool

definition ignore :: "('d, 'a) proc \<Rightarrow> ('d, unit) proc" where
  "ignore m = ecase m (\<lambda>_. ok ()) (\<lambda>_. ok ())"

definition Consumer_trackRecordEvent ::
    "Consumer \<Rightarrow> string \<Rightarrow> string \<Rightarrow> (AnalyticsRecord \<Rightarrow> (string \<times> json) list) \<Rightarrow> (db, unit) proc" where
  "Consumer_trackRecordEvent co recordID eventName propsFn =
     (if \<not> co_Analytics co then ok ()
      else ecase (WStore_LookupAnalyticsRecordByID recordID) (\<lambda>_. ok ()) (\<lambda>r.
           if TrimSpace (ar_UserID r) = [] \<or> TrimSpace (ar_Email r) = [] then ok ()
           else ebind time_Now (\<lambda>now.
                ignore (analytics_Track \<lparr>ev_Name = eventName, ev_UserID = ar_UserID r, ev_Email = ar_Email r,
                  ev_Timestamp = now, ev_Properties = propsFn r\<rparr>))))"

definition trackVerificationEmailSent :: "Consumer \<Rightarrow> string \<Rightarrow> (db, unit) proc" where
  "trackVerificationEmailSent co recordID =
     Consumer_trackRecordEvent co recordID ''verification_email_sent'' (\<lambda>r.
       case ar_SentAt r of
         Some sent \<Rightarrow> if ar_QueuedAt r \<noteq> zero_time
           then [(''latency_from_queue_ms'', JNum (max 0 (quot (sent - ar_QueuedAt r) 1000000)))] else []
       | None \<Rightarrow> [])"

definition trackVerificationEmailBounced :: "Consumer \<Rightarrow> string \<Rightarrow> string \<Rightarrow> (db, unit) proc" where
  "trackVerificationEmailBounced co recordID bounceType =
     Consumer_trackRecordEvent co recordID ''verification_email_bounced'' (\<lambda>r. [(''bounce_type'', JStr bounceType)])"

subsection \<open>Handling a job\<close>

definition defaultResendIn :: "string \<Rightarrow> string" where
  "defaultResendIn raw = (if TrimSpace raw \<noteq> [] then TrimSpace raw else ''90 seconds'')"

definition renderVerificationEmailBody :: "lib \<Rightarrow> EmailJob \<Rightarrow> (go_error, string \<times> string) result" where
  "renderVerificationEmailBody L job =
     (if TrimSpace (ej_OTP job) = [] then Inl ErrEmptyOTP
      else if TrimSpace (ej_MagicLink job) = [] then Inl ErrEmptyMagic
      else if TrimSpace (ej_ExpiresIn job) = [] then Inl ErrEmptyExpiry
      else
        rbind (execute_html L (ej_OTP job) (ej_MagicLink job) (ej_ExpiresIn job) (defaultResendIn (ej_ResendIn job))) (\<lambda>hb.
        rbind (execute_text L (ej_OTP job) (ej_MagicLink job) (ej_ExpiresIn job) (defaultResendIn (ej_ResendIn job))) (\<lambda>tb.
        Inr (hb, tb))))"

text \<open>\<open>MarkFailed\<close> and the error that is returned then; \<open>wrapped\<close> is the one when it fails too.\<close>

definition mark_failed :: "string \<Rightarrow> string \<Rightarrow> (go_error \<Rightarrow> go_error) \<Rightarrow> go_error \<Rightarrow> (db, unit) proc" where
  "mark_failed recordID rsn wrapped err =
     ecase (WStore_MarkFailed recordID rsn) (\<lambda>markErr. fail (wrapped markErr)) (\<lambda>_. fail err)"

fun is_Delivery :: "go_error \<Rightarrow> bool" where
  "is_Delivery (DeliveryError _ _ _) = True" | "is_Delivery _ = False"

definition as_Delivery :: "go_error \<Rightarrow> (string \<times> int) option" where
  "as_Delivery e = (case List.find is_Delivery (chain e) of Some (DeliveryError c ty code) \<Rightarrow> Some (ty, code) | _ \<Rightarrow> None)"

text \<open>Indexing a slice out of range panics.\<close>

definition index_or_panic :: "'a list \<Rightarrow> int \<Rightarrow> ('d, 'a) proc" where
  "index_or_panic xs i = (if 0 \<le> i \<and> i < int (length xs) then ok (xs ! nat i)
     else fail (Panic ''index out of range''))"

definition Consumer_handleDeliveryError :: "lib \<Rightarrow> Consumer \<Rightarrow> EmailJob \<Rightarrow> go_error \<Rightarrow> (db, unit) proc" where
  "Consumer_handleDeliveryError L co job sendErr =
     (let give_up = mark_failed (ej_RecordID job) (err_message sendErr)
            (\<lambda>markErr. Wrap ''send email: '' sendErr (''; mark failed: '' @ err_message markErr)) sendErr
      in case as_Delivery sendErr of
           None \<Rightarrow> give_up
         | Some (ty, smtpCode) \<Rightarrow>
             if ty = [] then give_up
             else if ty = ''hard'' then
               ebind (WStore_MarkBounced (ej_RecordID job) (err_message sendErr) ''hard'' smtpCode (ej_RetryCount job)) (\<lambda>_.
               ebind (trackVerificationEmailBounced co (ej_RecordID job) ''hard'') (\<lambda>_.
               ebind (WStore_Blacklist L (ej_To job) (err_message sendErr)) (\<lambda>_.
               fail sendErr)))
             else if ty = ''soft'' then
               ebind (WStore_MarkBounced (ej_RecordID job) (err_message sendErr) ''soft'' smtpCode (ej_RetryCount job)) (\<lambda>_.
               ebind (trackVerificationEmailBounced co (ej_RecordID job) ''soft'') (\<lambda>_.
               if ej_RetryCount job \<ge> int (length softBounceRetryIntervals)
               then ebind (WStore_MarkFailed (ej_RecordID job) (err_message ErrSoftBounceExceeded)) (\<lambda>_.
                    fail ErrSoftBounceExceeded)
               else
                 ebind (index_or_panic softBounceRetryIntervals (ej_RetryCount job)) (\<lambda>delay.
                 AfterFunc delay (co_QueueName co) (EmailJob_json (job\<lparr>ej_RetryCount := ej_RetryCount job + 1\<rparr>)))))
             else give_up)"

definition ObserveSendSuccess :: "int \<Rightarrow> metrics \<Rightarrow> metrics" where
  "ObserveSendSuccess duration = observeSend ''success'' duration"

definition ObserveSendFailure :: "int \<Rightarrow> metrics \<Rightarrow> metrics" where
  "ObserveSendFailure duration = observeSend ''failure'' duration"

text \<open>\<open>if c.Metrics != nil { c.Metrics.Observe...(time.Since(startedAt)) }\<close>\<close>

definition observe_since :: "Consumer \<Rightarrow> (int \<Rightarrow> metrics \<Rightarrow> metrics) \<Rightarrow> instant \<Rightarrow> ('d, unit) proc" where
  "observe_since co obs startedAt =
     (if \<not> co_Metrics co then ok () else ebind time_Now (\<lambda>now. with_metrics (obs (now - startedAt))))"

definition reject_job :: "string \<Rightarrow> string \<Rightarrow> go_error \<Rightarrow> (db, unit) proc" where
  "reject_job recordID rsn err =
     mark_failed recordID rsn (\<lambda>markErr. New (rsn @ ''; mark failed: '' @ err_message markErr)) err"

definition invalid_job :: "go_error \<Rightarrow> string" where
  "invalid_job err = err_message ErrInvalidJob @ '': '' @ err_message err"

definition Consumer_deliver :: "lib \<Rightarrow> Consumer \<Rightarrow> EmailJob \<Rightarrow> string \<Rightarrow> string \<Rightarrow> (db, unit) proc" where
  "Consumer_deliver L co job htmlBody textBody =
     ebind time_Now (\<lambda>startedAt.
     ecase (Sender_Send L (co_SMTP co) \<lparr>sr_To = ej_To job, sr_Subject = ej_Subject job,
              sr_HTMLBody = htmlBody, sr_TextBody = textBody\<rparr>)
       (\<lambda>err.
          ebind (observe_since co ObserveSendFailure startedAt) (\<lambda>_.
          Consumer_handleDeliveryError L co job err))
       (\<lambda>externalID.
          ebind (observe_since co ObserveSendSuccess startedAt) (\<lambda>_.
          ebind (WStore_MarkSent (ej_RecordID job) externalID) (\<lambda>_.
          trackVerificationEmailSent co (ej_RecordID job)))))"

definition Consumer_handleJob :: "lib \<Rightarrow> Consumer \<Rightarrow> EmailJob \<Rightarrow> (db, unit) proc" where
  "Consumer_handleJob L co job =
     (if TrimSpace (ej_RecordID job) = []
      then fail (Wrap [] ErrInvalidJob ('': '' @ err_message ErrEmptyRecord))
      else if TrimSpace (ej_To job) = []
      then reject_job (ej_RecordID job) (invalid_job ErrEmptyToEmail) (New (invalid_job ErrEmptyToEmail))
      else
        ebind (WStore_IsBlacklisted L (ej_To job)) (\<lambda>isBlacklisted.
        if isBlacklisted
        then reject_job (ej_RecordID job) (err_message ErrEmailBlacklisted) ErrEmailBlacklisted
        else if TrimSpace (ej_HTMLBody job) = [] \<and> TrimSpace (ej_TextBody job) = []
        then (case renderVerificationEmailBody L job of
                Inl err \<Rightarrow> reject_job (ej_RecordID job) (invalid_job err) (New (invalid_job err))
              | Inr (htmlBody, textBody) \<Rightarrow> Consumer_deliver L co job htmlBody textBody)
        else Consumer_deliver L co job (ej_HTMLBody job) (ej_TextBody job)))"

subsection \<open>The loop\<close>

definition isPayloadDecodeError :: "go_error \<Rightarrow> bool" where
  "isPayloadDecodeError err \<longleftrightarrow> errors_Is err JsonSyntaxError \<or> errors_Is err JsonTypeError"

fun is_Panic :: "go_error \<Rightarrow> bool" where
  "is_Panic (Panic _) = True" | "is_Panic _ = False"

fun consume :: "lib \<Rightarrow> Consumer \<Rightarrow> (nat \<Rightarrow> bool) \<Rightarrow> nat \<Rightarrow> db world
    \<Rightarrow> ((go_error, unit) result \<times> db world) option" where
  "consume L co cancelled 0 w = None"
| "consume L co cancelled (Suc n) w =
     (if cancelled (tick w) then Some (Inr (), w)
      else (case DequeueIntoContext L (EmailJob_of_json L) (co_QueueName co) w of
         (Inl err, w1) \<Rightarrow>
           if cancelled (tick w1) then Some (Inr (), w1)
           else if isPayloadDecodeError err then consume L co cancelled n w1
           else Some (Inl (Wrap ''dequeue email job: '' err []), w1)
       | (Inr None, w1) \<Rightarrow> consume L co cancelled n w1
       | (Inr (Some job), w1) \<Rightarrow>
           (case Consumer_handleJob L co job w1 of
              (Inl err, w2) \<Rightarrow> if is_Panic err then Some (Inl err, w2) else consume L co cancelled n w2
            | (Inr _, w2) \<Rightarrow> consume L co cancelled n w2)))"

definition Consumer_Run :: "lib \<Rightarrow> Consumer \<Rightarrow> (nat \<Rightarrow> bool) \<Rightarrow> nat \<Rightarrow> db world
    \<Rightarrow> ((go_error, unit) result \<times> db world) option" where
  "Consumer_Run L co cancelled fuel w =
     (if \<not> co_Queue co then Some (Inl ErrNilQueue, w)
      else if \<not> co_Sender co then Some (Inl ErrNilSender, w)
      else if \<not> co_Store co then Some (Inl ErrNilStore, w)
      else if TrimSpace (co_QueueName co) = [] then Some (Inl ErrEmptyQueue, w)
      else consume L co cancelled fuel w)"

text \<open>The \<open>i\<close>-th pending timer goes off: its callback enqueues the retry and only logs an error.\<close>

definition fire :: "lib \<Rightarrow> nat \<Rightarrow> 'd world \<Rightarrow> 'd world" where
  "fire L i w =
     (if i < length (timers w)
      then (case timers w ! i of (delay, queueName, payload) \<Rightarrow>
              snd (EnqueueContext L queueName payload (w\<lparr>timers := take i (timers w) @ drop (Suc i) (timers w)\<rparr>)))
      else w)"

end
