(* ===== verification/Worker_Delivery.thy ===== *)
theory Worker_Delivery
  imports Worker_Consumer Frames
begin

text \<open>
  Properties of the mail worker: suppression of blacklisted addresses, the chain of retries
  after soft bounces, the payload codec, and the job loop.
\<close>

subsection \<open>What handling a job leaves alone\<close>

lemma keeps_store [simp]:
  "keeps outbox (WStore_MarkSent i x)" "keeps outbox (WStore_MarkFailed i rs)" "keeps outbox (WStore_MarkBounced i rs ty c k)"
  "keeps outbox (WStore_Blacklist L a rs)" "keeps outbox (WStore_IsBlacklisted L a)" "keeps outbox (WStore_LookupAnalyticsRecordByID i)"
  "keeps timers (WStore_MarkSent i x)" "keeps timers (WStore_MarkFailed i rs)" "keeps timers (WStore_MarkBounced i rs ty c k)"
  "keeps timers (WStore_Blacklist L a rs)" "keeps timers (WStore_IsBlacklisted L a)" "keeps timers (WStore_LookupAnalyticsRecordByID i)"
  unfolding WStore_MarkSent_def WStore_MarkFailed_def WStore_MarkBounced_def WStore_Blacklist_def WStore_IsBlacklisted_def
    WStore_LookupAnalyticsRecordByID_def WStore_lookupAnalyticsRecord_def Let_def
  by (auto intro!: keeps_rules mails.keeps_all alarms.keeps_all)

lemma keeps_track [simp]:
  "keeps outbox (Consumer_trackRecordEvent co i ev pf)" "keeps timers (Consumer_trackRecordEvent co i ev pf)"
  unfolding Consumer_trackRecordEvent_def ignore_def
  by (auto intro!: keeps_rules mails.keeps_all alarms.keeps_all)

lemma keeps_tracks [simp]:
  "keeps outbox (trackVerificationEmailSent co i)" "keeps timers (trackVerificationEmailSent co i)"
  "keeps outbox (trackVerificationEmailBounced co i ty)" "keeps timers (trackVerificationEmailBounced co i ty)"
  by (simp_all add: trackVerificationEmailSent_def trackVerificationEmailBounced_def)

lemma keeps_failed [simp]:
  "keeps outbox (mark_failed i rs wr e)" "keeps timers (mark_failed i rs wr e)"
  "keeps outbox (reject_job i rs e)" "keeps timers (reject_job i rs e)"
  by (auto simp: mark_failed_def reject_job_def intro!: keeps_rules)

lemma keeps_observe [simp]: "keeps outbox (observe_since co g t)" "keeps timers (observe_since co g t)"
  by (auto simp: observe_since_def intro!: keeps_rules mails.keeps_all alarms.keeps_all)

subsection \<open>Blacklisted addresses\<close>

definition blacklisted :: "lib \<Rightarrow> string \<Rightarrow> db \<Rightarrow> bool" where
  "blacklisted L addr d \<longleftrightarrow> has_key (\<lambda>b. pg_lower L (b_email b)) (pg_lower L (TrimSpace (ToLower L addr))) (blacklist d)"

lemma IsBlacklisted_run:
  "WStore_IsBlacklisted L addr w = (r, w') \<Longrightarrow> r = Inr b \<Longrightarrow> b = blacklisted L addr (disk w)"
  by (auto simp: WStore_IsBlacklisted_def Let_def blacklisted_def pool_query_def ext_def fail_def split: if_splits)

lemma blacklisted_job:
  assumes "blacklisted L (ej_To job) (disk w)"
  shows "outbox (snd (Consumer_handleJob L co job w)) = outbox w \<and> timers (snd (Consumer_handleJob L co job w)) = timers w"
proof -
  obtain r v where r: "WStore_IsBlacklisted L (ej_To job) w = (r, v)" by (cases "WStore_IsBlacklisted L (ej_To job) w")
  note v = keeps_pairD [OF keeps_store(5) r] keeps_pairD [OF keeps_store(11) r]
  show ?thesis
  proof (cases r)
    case (Inl e)
    with r v show ?thesis by (auto simp: Consumer_handleJob_def ebind_def ecase_def fail_def)
  next
    case (Inr b)
    with r assms have "b" using IsBlacklisted_run by blast
    with Inr r v show ?thesis by (auto simp: Consumer_handleJob_def ebind_def ecase_def fail_def)
  qed
qed

subsection \<open>Hard bounces\<close>

lemma store_errs:
  "errs (\<lambda>e. \<not> is_Delivery e) (WStore_MarkSent i x)" "errs (\<lambda>e. \<not> is_Delivery e) (WStore_MarkFailed i rs)"
  "errs (\<lambda>e. \<not> is_Delivery e) (WStore_MarkBounced i rs ty c k)" "errs (\<lambda>e. \<not> is_Delivery e) (WStore_Blacklist L a rs)"
  "errs (\<lambda>e. \<not> is_Delivery e) (WStore_IsBlacklisted L a)"
  unfolding WStore_MarkSent_def WStore_MarkFailed_def WStore_MarkBounced_def WStore_Blacklist_def WStore_IsBlacklisted_def Let_def
  by (auto intro!: errs_rules errs_db simp: db_error_def set_email_status_def insert_history_def upsert_blacklist_def
      pg_error_defs split: if_splits)

lemma store_no_delivery [simp]:
  "WStore_MarkSent i x w = (Inl (DeliveryError c ty k), w') \<longleftrightarrow> False"
  "WStore_MarkFailed i rs w = (Inl (DeliveryError c ty k), w') \<longleftrightarrow> False"
  "WStore_MarkBounced i rs bt co n w = (Inl (DeliveryError c ty k), w') \<longleftrightarrow> False"
  "WStore_Blacklist L a rs w = (Inl (DeliveryError c ty k), w') \<longleftrightarrow> False"
  "WStore_IsBlacklisted L a w = (Inl (DeliveryError c ty k), w') \<longleftrightarrow> False"
  by (auto dest: store_errs [THEN errsD])

lemma track_never_fails:
  "Consumer_trackRecordEvent co i ev pf w \<noteq> (Inl e, w')"
  by (auto simp: Consumer_trackRecordEvent_def ignore_def err_ecase err_ebind split: if_splits)

lemma tracks_never_fail [simp]:
  "trackVerificationEmailSent co i w = (Inl e, w') \<longleftrightarrow> False" "trackVerificationEmailBounced co i ty w = (Inl e, w') \<longleftrightarrow> False"
  by (simp_all add: trackVerificationEmailSent_def trackVerificationEmailBounced_def track_never_fails)

lemma observe_never_fails [simp]: "observe_since co g t w = (Inl e, w') \<longleftrightarrow> False"
  by (auto simp: observe_since_def err_ebind with_metrics_def)

lemma as_Delivery_simps [simp]:
  "as_Delivery (DeliveryError c ty code) = Some (ty, code)" "as_Delivery (LibError m) = None"
  "as_Delivery (Sentinel p m) = None"
  by (simp_all add: as_Delivery_def)

lemma upsert_blacklist_key:
  assumes "upsert_blacklist L i addr rs t d = Inr (n, d')"
  shows "has_key (\<lambda>b. pg_lower L (b_email b)) (pg_lower L addr) (blacklist d')"
proof (cases "has_key b_email addr (blacklist d)")
  case True
  let ?key = "\<lambda>b. pg_lower L (b_email b)"
  have "?key ` set (blacklist d') = ?key ` set (blacklist d)"
    using assms True image_update_where [of "blacklist d" "\<lambda>b. b_email b = addr" ?key
      "\<lambda>b. b\<lparr>b_reason := rs, b_updated_at := t\<rparr>"]
    by (auto simp: upsert_blacklist_def split: if_splits)
  moreover have "pg_lower L addr \<in> ?key ` set (blacklist d)"
    using True by (auto simp: has_key_iff)
  ultimately show ?thesis by (simp only: has_key_iff)
next
  case False
  with assms show ?thesis by (auto simp: upsert_blacklist_def has_key_iff split: if_splits)
qed

lemma Blacklist_blacklists:
  assumes "WStore_Blacklist L addr rs w = (Inr (), w')"
  shows "blacklisted L addr (disk w')"
  using assms upsert_blacklist_key
  by (fastforce simp: WStore_Blacklist_def Let_def runs blacklisted_def split: if_splits)

lemma mark_failed_error:
  assumes "mark_failed i rs wr e w = (Inl (DeliveryError c ty code), w')"
    and "\<And>e. \<not> is_Delivery (wr e)"
  shows "e = DeliveryError c ty code"
  using assms by (auto simp: mark_failed_def err_ecase) (metis is_Delivery.simps(1))

text \<open>The three outcomes of a delivery error.\<close>

lemma handleDeliveryError_none:
  "as_Delivery e = None \<Longrightarrow> Consumer_handleDeliveryError L co job e = mark_failed (ej_RecordID job) (err_message e)
     (\<lambda>markErr. Wrap ''send email: '' e (''; mark failed: '' @ err_message markErr)) e"
  "ty \<noteq> ''hard'' \<Longrightarrow> ty \<noteq> ''soft'' \<Longrightarrow> Consumer_handleDeliveryError L co job (DeliveryError c ty k) =
     mark_failed (ej_RecordID job) (err_message (DeliveryError c ty k))
       (\<lambda>markErr. Wrap ''send email: '' (DeliveryError c ty k) (''; mark failed: '' @ err_message markErr)) (DeliveryError c ty k)"
  by (simp_all add: Consumer_handleDeliveryError_def Let_def del: err_message.simps)

lemma handleDeliveryError_hard:
  "Consumer_handleDeliveryError L co job (DeliveryError c ''hard'' k) =
     ebind (WStore_MarkBounced (ej_RecordID job) (err_message (DeliveryError c ''hard'' k)) ''hard'' k (ej_RetryCount job)) (\<lambda>_.
     ebind (trackVerificationEmailBounced co (ej_RecordID job) ''hard'') (\<lambda>_.
     ebind (WStore_Blacklist L (ej_To job) (err_message (DeliveryError c ''hard'' k))) (\<lambda>_.
     fail (DeliveryError c ''hard'' k))))"
  by (simp add: Consumer_handleDeliveryError_def Let_def del: err_message.simps)

lemma handleDeliveryError_soft:
  "Consumer_handleDeliveryError L co job (DeliveryError c ''soft'' k) =
     ebind (WStore_MarkBounced (ej_RecordID job) (err_message (DeliveryError c ''soft'' k)) ''soft'' k (ej_RetryCount job)) (\<lambda>_.
     ebind (trackVerificationEmailBounced co (ej_RecordID job) ''soft'') (\<lambda>_.
     if ej_RetryCount job \<ge> int (length softBounceRetryIntervals)
     then ebind (WStore_MarkFailed (ej_RecordID job) (err_message ErrSoftBounceExceeded)) (\<lambda>_. fail ErrSoftBounceExceeded)
     else ebind (index_or_panic softBounceRetryIntervals (ej_RetryCount job)) (\<lambda>delay.
          AfterFunc delay (co_QueueName co) (EmailJob_json (job\<lparr>ej_RetryCount := ej_RetryCount job + 1\<rparr>)))))"
  by (simp add: Consumer_handleDeliveryError_def Let_def del: err_message.simps)

lemma hard_error_blacklists:
  assumes "Consumer_handleDeliveryError L co job e v = (Inl (DeliveryError c ''hard'' code), w')"
    and "is_Delivery e \<or> as_Delivery e = None"
  shows "blacklisted L (ej_To job) (disk w')"
proof (cases "as_Delivery e = None")
  case True
  with assms(1) have "e = DeliveryError c ''hard'' code"
    by (auto simp: handleDeliveryError_none dest: mark_failed_error)
  with True show ?thesis by simp
next
  case False
  with assms(2) obtain c' ty k where e: "e = DeliveryError c' ty k" by (cases e) auto
  consider "ty = ''hard''" | "ty = ''soft''" | "ty \<noteq> ''hard''" "ty \<noteq> ''soft''" by blast
  then show ?thesis
  proof cases
    case 1
    with assms(1) e show ?thesis
      by (auto simp: handleDeliveryError_hard err_ebind intro: Blacklist_blacklists simp del: err_message.simps)
  next
    case 2
    with assms(1) e show ?thesis
      by (auto simp: handleDeliveryError_soft err_ebind index_or_panic_def AfterFunc_def simp del: err_message.simps
          split: if_splits)
  next
    case 3
    with assms(1) e show ?thesis
      by (auto simp: handleDeliveryError_none simp del: err_message.simps dest!: mark_failed_error)
  qed
qed

lemma Send_errors:
  assumes "Sender_Send L cfg req w = (Inl e, w')"
  shows "is_Delivery e \<or> as_Delivery e = None"
  using assms by (auto simp: Sender_Send_def err_ebind err_ecase ctx_Err_def ext_def ok_def uuid_NewString_def
      case_prod_beta split: if_splits)

lemma hard_bounce_blacklists:
  assumes "Consumer_handleJob L co job w = (Inl (DeliveryError c ''hard'' code), w')"
  shows "blacklisted L (ej_To job) (disk w')"
proof -
  have reject: "reject_job i rs e v = (Inl (DeliveryError c ''hard'' code), w') \<Longrightarrow> e = DeliveryError c ''hard'' code"
    for i rs e v by (auto simp: reject_job_def dest: mark_failed_error)
  have deliver: "Consumer_deliver L co job hb tb v = (Inl (DeliveryError c ''hard'' code), w') \<Longrightarrow> ?thesis" for hb tb v
    unfolding Consumer_deliver_def
    by (auto simp: err_ebind err_ecase dest: hard_error_blacklists Send_errors)
  show ?thesis
    using assms by (auto simp: Consumer_handleJob_def err_ebind dest!: reject dest: deliver split: if_splits sum.splits prod.splits)
qed

subsection \<open>The payload\<close>

lemma EmailJob_roundtrip:
  assumes "- (2 ^ 63) \<le> ej_RetryCount job" "ej_RetryCount job < 2 ^ 63"
  shows "EmailJob_of_json L (EmailJob_json job) = Inr job"
  using assms by (simp add: EmailJob_json_def EmailJob_of_json_def field_defs EqualFold_ascii is_ascii_def ascii_lower_def)

text \<open>the payload of a retry decodes to the job it was made from, as long as the retry count fits
  into a Go \<open>int\<close>.\<close>

theorem job_json_roundtrip:
  assumes "- (2 ^ 63) \<le> ej_RetryCount job" "ej_RetryCount job < 2 ^ 63"
  shows "EmailJob_of_json L (EmailJob_json job) = Inr job"
  by (rule EmailJob_roundtrip) (rule assms)+

definition sample_job :: EmailJob where
  "sample_job = \<lparr>ej_RecordID = ''rec'', ej_To = ''A@x'', ej_Subject = ''Hi'', ej_HTMLBody = [], ej_TextBody = [],
     ej_OTP = ''000007'', ej_MagicLink = ''https://a.example/m'', ej_ExpiresIn = ''15 minutes'', ej_ResendIn = [],
     ej_RetryCount = 2\<rparr>"

theorem job_json_roundtrip_witness: "EmailJob_of_json sample_lib (EmailJob_json sample_job) = Inr sample_job"
  by (rule job_json_roundtrip) (simp_all add: sample_job_def)

subsection \<open>Soft bounces\<close>

definition retry_timer :: "Consumer \<Rightarrow> EmailJob \<Rightarrow> int \<times> string \<times> json" where
  "retry_timer co job = (softBounceRetryIntervals ! nat (ej_RetryCount job), co_QueueName co,
     EmailJob_json (job\<lparr>ej_RetryCount := ej_RetryCount job + 1\<rparr>))"

definition schedules :: "Consumer \<Rightarrow> EmailJob \<Rightarrow> db world \<Rightarrow> db world \<Rightarrow> bool" where
  "schedules co job w w' \<longleftrightarrow> timers w' = timers w
     \<or> (0 \<le> ej_RetryCount job \<and> ej_RetryCount job < 3 \<and> timers w' = timers w @ [retry_timer co job])"

lemma schedules_keeps: "keeps timers m \<Longrightarrow> schedules co job w (snd (m w))"
  by (simp add: schedules_def)

lemma schedules_refl [simp]: "schedules co job w w"
  by (simp add: schedules_def)

lemma schedules_if:
  "(b \<Longrightarrow> schedules co job w (snd (m w))) \<Longrightarrow> (\<not> b \<Longrightarrow> schedules co job w (snd (n w))) \<Longrightarrow>
     schedules co job w (snd ((if b then m else n) w))"
  by simp

lemma schedules_start: "timers v = timers w \<Longrightarrow> schedules co job v w' \<Longrightarrow> schedules co job w w'"
  by (simp add: schedules_def)

lemma schedules_ecase:
  assumes "keeps timers m" "\<And>e v. m w = (Inl e, v) \<Longrightarrow> schedules co job v (snd (h e v))"
    "\<And>x v. schedules co job v (snd (k x v))"
  shows "schedules co job w (snd (ecase m h k w))"
proof (cases "m w")
  case (Pair r v)
  with assms(1) have "timers v = timers w" by (rule keeps_pairD)
  with Pair assms(2,3) show ?thesis by (cases r) (auto simp: ecase_def intro: schedules_start)
qed

lemma schedules_ebind:
  "keeps timers m \<Longrightarrow> (\<And>x v. schedules co job v (snd (k x v))) \<Longrightarrow> schedules co job w (snd (ebind m k w))"
  unfolding ebind_def by (rule schedules_ecase) (auto intro: schedules_keeps)

lemma schedules_error:
  assumes "is_Delivery e \<or> as_Delivery e = None"
  shows "schedules co job w (snd (Consumer_handleDeliveryError L co job e w))"
proof (cases "as_Delivery e = None")
  case True
  then show ?thesis by (simp add: handleDeliveryError_none schedules_keeps)
next
  case False
  with assms obtain c ty k where e: "e = DeliveryError c ty k" by (cases e) auto
  consider "ty = ''hard''" | "ty = ''soft''" | "ty \<noteq> ''hard''" "ty \<noteq> ''soft''" by blast
  then show ?thesis
  proof cases
    case 1
    then show ?thesis unfolding e
      by (simp add: handleDeliveryError_hard schedules_keeps keeps_ebind del: err_message.simps)
  next
    case 2
    have "schedules co job v (snd ((if ej_RetryCount job \<ge> int (length softBounceRetryIntervals)
     then ebind (WStore_MarkFailed (ej_RecordID job) (err_message ErrSoftBounceExceeded)) (\<lambda>_. fail ErrSoftBounceExceeded)
     else ebind (index_or_panic softBounceRetryIntervals (ej_RetryCount job)) (\<lambda>delay.
          AfterFunc delay (co_QueueName co) (EmailJob_json (job\<lparr>ej_RetryCount := ej_RetryCount job + 1\<rparr>)))) v))" for v
      by (auto simp: schedules_keeps keeps_ebind)
        (auto simp: schedules_def retry_timer_def index_or_panic_def ebind_def ecase_def ok_def fail_def AfterFunc_def
          softBounceRetryIntervals_def)
    with 2 show ?thesis unfolding e
      by (simp only: handleDeliveryError_soft) (intro schedules_ebind; simp)
  next
    case 3
    then show ?thesis unfolding e by (simp add: handleDeliveryError_none schedules_keeps del: err_message.simps)
  qed
qed

lemma keeps_Send: "keeps timers (Sender_Send L cfg req)"
  unfolding Sender_Send_def SMTPConfig_SendEmail_def ctx_Err_def
  by (auto intro!: keeps_rules alarms.keeps_all alarms.keeps_ext split: option.split)

lemma schedules_deliver: "schedules co job w (snd (Consumer_deliver L co job hb tb w))"
  unfolding Consumer_deliver_def
  by (intro schedules_ebind schedules_ecase keeps_Send schedules_error Send_errors)
    (auto simp: alarms.keeps_all intro!: schedules_keeps keeps_rules)

lemma schedules_handleJob: "schedules co job w (snd (Consumer_handleJob L co job w))"
  unfolding Consumer_handleJob_def
proof (intro schedules_if schedules_ebind)
  show "schedules co job v (snd ((case renderVerificationEmailBody L job of
      Inl err \<Rightarrow> reject_job (ej_RecordID job) (invalid_job err) (New (invalid_job err))
    | Inr (htmlBody, textBody) \<Rightarrow> Consumer_deliver L co job htmlBody textBody) v))" for v
    by (auto intro: schedules_keeps schedules_deliver split: sum.splits prod.splits)
qed (auto intro: schedules_keeps schedules_deliver)

text \<open>The retries of one job: whenever handling it set a timer, the timer's payload is decoded and
  handled next. The result is the list of delays.\<close>

fun retry_chain :: "nat \<Rightarrow> lib \<Rightarrow> Consumer \<Rightarrow> EmailJob \<Rightarrow> db world \<Rightarrow> int list" where
  "retry_chain 0 L co job w = []"
| "retry_chain (Suc n) L co job w =
     (let w' = snd (Consumer_handleJob L co job (w\<lparr>timers := []\<rparr>))
      in case timers w' of
           [] \<Rightarrow> []
         | (delay, q, payload) # _ \<Rightarrow>
             delay # (case EmailJob_of_json L payload of Inl _ \<Rightarrow> [] | Inr job' \<Rightarrow> retry_chain n L co job' w'))"

lemma retry_chain_prefix:
  assumes "0 \<le> ej_RetryCount job" "ej_RetryCount job < 2 ^ 63"
  shows "prefix (retry_chain n L co job w) (drop (nat (ej_RetryCount job)) softBounceRetryIntervals)"
  using assms
proof (induction n arbitrary: job w)
  case (Suc n)
  let ?w = "snd (Consumer_handleJob L co job (w\<lparr>timers := []\<rparr>))"
  have "schedules co job (w\<lparr>timers := []\<rparr>) ?w" by (rule schedules_handleJob)
  then consider "timers ?w = []" | "ej_RetryCount job < 3" "timers ?w = [retry_timer co job]"
    by (auto simp: schedules_def)
  then show ?case
  proof cases
    case 2
    let ?k = "nat (ej_RetryCount job)" and ?job = "job\<lparr>ej_RetryCount := ej_RetryCount job + 1\<rparr>"
    have "EmailJob_of_json L (EmailJob_json ?job) = Inr ?job"
      by (rule EmailJob_roundtrip) (use 2 Suc.prems in auto)
    moreover have "prefix (retry_chain n L co ?job ?w) (drop (nat (ej_RetryCount ?job)) softBounceRetryIntervals)"
      by (rule Suc.IH) (use 2 Suc.prems in auto)
    moreover have "drop ?k softBounceRetryIntervals = softBounceRetryIntervals ! ?k # drop (Suc ?k) softBounceRetryIntervals"
      using 2 Suc.prems by (intro Cons_nth_drop_Suc [symmetric]) (auto simp: softBounceRetryIntervals_def)
    moreover have "nat (ej_RetryCount ?job) = Suc ?k" using Suc.prems by (simp add: nat_add_distrib)
    ultimately show ?thesis using 2 by (simp add: Let_def retry_timer_def)
  qed (simp add: Let_def)
qed simp

text \<open>C20: a job that keeps soft-bouncing is retried at most three times, after one, four and
  twenty-four hours, whatever the mail server and the database answer; and no other outcome
  schedules a retry.\<close>

theorem soft_bounce_retries_bounded:
  assumes "ej_RetryCount job = 0"
  shows "prefix (retry_chain n L co job w) [3600000000000, 14400000000000, 86400000000000]
    \<and> length (retry_chain n L co job w) \<le> 3"
proof -
  have "prefix (retry_chain n L co job w) softBounceRetryIntervals"
    using retry_chain_prefix [of job n L co w] assms by simp
  then show ?thesis using prefix_length_le by (fastforce simp: softBounceRetryIntervals_def)
qed

subsection \<open>Panics\<close>

lemma store_no_panic:
  "errs (\<lambda>e. \<not> is_Panic e) (WStore_MarkSent i x)" "errs (\<lambda>e. \<not> is_Panic e) (WStore_MarkFailed i rs)"
  "errs (\<lambda>e. \<not> is_Panic e) (WStore_MarkBounced i rs ty c k)" "errs (\<lambda>e. \<not> is_Panic e) (WStore_Blacklist L a rs)"
  "errs (\<lambda>e. \<not> is_Panic e) (WStore_IsBlacklisted L a)"
  unfolding WStore_MarkSent_def WStore_MarkFailed_def WStore_MarkBounced_def WStore_Blacklist_def WStore_IsBlacklisted_def Let_def
  by (auto intro!: errs_rules errs_db simp: db_error_def set_email_status_def insert_history_def upsert_blacklist_def
      pg_error_defs split: if_splits)

lemma track_errs: "errs P (Consumer_trackRecordEvent co i ev pf)"
  unfolding errs_def by (metis prod.collapse track_never_fails)

lemma tracks_errs [simp]: "errs P (trackVerificationEmailSent co i)" "errs P (trackVerificationEmailBounced co i ty)"
  by (simp_all add: trackVerificationEmailSent_def trackVerificationEmailBounced_def track_errs)

lemma mark_failed_no_panic:
  "\<not> is_Panic e \<Longrightarrow> (\<And>e. \<not> is_Panic (wr e)) \<Longrightarrow> errs (\<lambda>e. \<not> is_Panic e) (mark_failed i rs wr e)"
  unfolding mark_failed_def by (rule errs_ecase) auto

lemma handleDeliveryError_no_panic:
  assumes "0 \<le> ej_RetryCount job" "\<not> is_Panic e" "is_Delivery e \<or> as_Delivery e = None"
  shows "errs (\<lambda>e. \<not> is_Panic e) (Consumer_handleDeliveryError L co job e)"
proof (cases "as_Delivery e = None")
  case True
  with assms(2) show ?thesis by (simp add: handleDeliveryError_none mark_failed_no_panic)
next
  case False
  with assms(3) obtain c ty k where e: "e = DeliveryError c ty k" by (cases e) auto
  consider "ty = ''hard''" | "ty = ''soft''" | "ty \<noteq> ''hard''" "ty \<noteq> ''soft''" by blast
  then show ?thesis
  proof cases
    case 1
    then show ?thesis unfolding e
      by (simp add: handleDeliveryError_hard errs_ebind store_no_panic del: err_message.simps)
  next
    case 2
    have "errs (\<lambda>e. \<not> is_Panic e) (AfterFunc i q pl)" for i q and pl by (simp add: errs_def AfterFunc_def)
    with 2 assms(1) show ?thesis unfolding e
      by (auto simp: handleDeliveryError_soft index_or_panic_def intro!: errs_rules store_no_panic simp del: err_message.simps)
  next
    case 3
    then show ?thesis unfolding e
      by (simp add: handleDeliveryError_none mark_failed_no_panic del: err_message.simps)
  qed
qed

lemma Send_no_panic: "Sender_Send L cfg req w = (Inl e, w') \<Longrightarrow> \<not> is_Panic e"
  by (auto simp: Sender_Send_def err_ebind err_ecase ctx_Err_def ext_def ok_def uuid_NewString_def
      case_prod_beta split: if_splits)

lemma deliver_no_panic:
  assumes "0 \<le> ej_RetryCount job" "Consumer_deliver L co job hb tb w = (Inl e, w')"
  shows "\<not> is_Panic e"
proof -
  have "\<not> is_Panic e" if "Sender_Send L cfg req v = (Inl e0, v1)" "Consumer_handleDeliveryError L co job e0 v2 = (Inl e, w')"
    for cfg req v e0 v1 v2
    using handleDeliveryError_no_panic [OF assms(1) Send_no_panic [OF that(1)] Send_errors [OF that(1)]] that(2)
    by (rule errsD)
  with assms(2) show ?thesis
    unfolding Consumer_deliver_def by (auto simp: err_ebind err_ecase dest: errsD [OF store_no_panic(1)])
qed

text \<open>C32: handling a job with a non-negative retry count never panics, whatever the mail server, the
  templates and the database answer; every job auth-api enqueues and every retry is such a job.\<close>

theorem handle_job_no_panic:
  assumes "0 \<le> ej_RetryCount job" "Consumer_handleJob L co job w = (Inl e, w')"
  shows "\<not> is_Panic e"
proof -
  have reject: "errs (\<lambda>e. \<not> is_Panic e) (reject_job i rs e0)" if "\<not> is_Panic e0" for i rs e0
    using that by (simp add: reject_job_def mark_failed_no_panic)
  have deliver: "errs (\<lambda>e. \<not> is_Panic e) (Consumer_deliver L co job hb tb)" for hb tb
    unfolding errs_def using deliver_no_panic [OF assms(1)] by (metis prod.collapse)
  have "errs (\<lambda>e. \<not> is_Panic e) (Consumer_handleJob L co job)"
    unfolding Consumer_handleJob_def
  proof (intro errs_if errs_ebind reject deliver store_no_panic(5))
    show "errs (\<lambda>e. \<not> is_Panic e) (case renderVerificationEmailBody L job of
        Inl err \<Rightarrow> reject_job (ej_RecordID job) (invalid_job err) (New (invalid_job err))
      | Inr (htmlBody, textBody) \<Rightarrow> Consumer_deliver L co job htmlBody textBody)"
      by (auto intro: reject deliver split: sum.split prod.split)
  qed auto
  then show ?thesis using assms(2) by (rule errsD)
qed

text \<open>a payload with a negative retry count is decoded without an error, and a soft bounce then
  indexes the retry intervals out of range.\<close>

theorem negative_retry_panics:
  assumes "ej_RetryCount job < 0"
    and "WStore_MarkBounced (ej_RecordID job) (err_message (DeliveryError c ''soft'' k)) ''soft'' k (ej_RetryCount job) w = (Inr (), w1)"
  shows "fst (Consumer_handleDeliveryError L co job (DeliveryError c ''soft'' k) w) = Inl (Panic ''index out of range'')
    \<and> EmailJob_of_json L (JObj [(''retry_count'', JNum (-1))]) = Inr \<lparr>ej_RecordID = [], ej_To = [], ej_Subject = [],
        ej_HTMLBody = [], ej_TextBody = [], ej_OTP = [], ej_MagicLink = [], ej_ExpiresIn = [], ej_ResendIn = [], ej_RetryCount = -1\<rparr>"
proof -
  obtain r v where t: "trackVerificationEmailBounced co (ej_RecordID job) ''soft'' w1 = (r, v)"
    by (cases "trackVerificationEmailBounced co (ej_RecordID job) ''soft'' w1")
  then have "r = Inr ()" by (cases r) auto
  with assms t show ?thesis
    by (simp add: handleDeliveryError_soft ebind_def ecase_def index_or_panic_def fail_def softBounceRetryIntervals_def
        EmailJob_of_json_def field_defs EqualFold_ascii is_ascii_def ascii_lower_def del: err_message.simps)
qed

subsection \<open>The loop ends\<close>

lemma advances_handleJob: "advances (Consumer_handleJob L co job)"
proof -
  have store: "advances (WStore_MarkSent i x)" "advances (WStore_MarkFailed i rs)" "advances (WStore_MarkBounced i rs ty c k)"
    "advances (WStore_Blacklist L a rs)" "advances (WStore_IsBlacklisted L a)" "advances (WStore_LookupAnalyticsRecordByID i)" for i x rs ty c k a
    unfolding WStore_MarkSent_def WStore_MarkFailed_def WStore_MarkBounced_def WStore_Blacklist_def WStore_IsBlacklisted_def
      WStore_LookupAnalyticsRecordByID_def WStore_lookupAnalyticsRecord_def Let_def
    by (auto intro!: advances_rules)
  have track: "advances (trackVerificationEmailSent co i)" "advances (trackVerificationEmailBounced co i ty)" for i ty
    by (auto simp: trackVerificationEmailSent_def trackVerificationEmailBounced_def Consumer_trackRecordEvent_def ignore_def
        intro!: advances_rules store)
  have obs: "advances (observe_since co g t)" for g t by (auto simp: observe_since_def intro!: advances_rules)
  have failed: "advances (mark_failed i rs wr e)" for i rs wr e by (auto simp: mark_failed_def intro!: advances_rules store)
  have err: "advances (Consumer_handleDeliveryError L co job e)" for e
    by (auto simp: Consumer_handleDeliveryError_def Let_def index_or_panic_def intro!: advances_rules store track failed
        split: option.split)
  have send: "advances (Sender_Send L cfg req)" for cfg req
    unfolding Sender_Send_def SMTPConfig_SendEmail_def ctx_Err_def
    by (auto intro!: advances_rules advances_ext split: option.split prod.split)
  have "advances (Consumer_deliver L co job hb tb)" for hb tb
    by (auto simp: Consumer_deliver_def intro!: advances_rules store track obs err send)
  then show ?thesis
    by (auto simp: Consumer_handleJob_def reject_job_def intro!: advances_rules store failed split: sum.split)
qed

lemma Dequeue_ticks:
  assumes "TrimSpace k \<noteq> []" "DequeueIntoContext L dec k w = (r, w')"
  shows "tick w < tick w'"
  using assms(2)
  by (auto simp: DequeueIntoContext_def ebind_def ecase_def fail_def ok_def of_result_def DequeueContext_run [OF assms(1)]
      split: if_splits option.splits sum.splits)

lemma consume_ends:
  assumes "\<And>t. T \<le> t \<Longrightarrow> cancelled t" "TrimSpace (co_QueueName co) \<noteq> []" "T \<le> tick w + n"
  shows "\<exists>res. consume L co cancelled (Suc n) w = Some res"
  using assms(3)
proof (induction n arbitrary: w)
  case 0
  then show ?case using assms(1) by simp
next
  case (Suc n)
  obtain r w1 where d: "DequeueIntoContext L (EmailJob_of_json L) (co_QueueName co) w = (r, w1)"
    by (cases "DequeueIntoContext L (EmailJob_of_json L) (co_QueueName co) w")
  have "tick w < tick w1" using Dequeue_ticks [OF assms(2) d] .
  then have ih: "tick w1 \<le> tick w2 \<Longrightarrow> \<exists>res. consume L co cancelled (Suc n) w2 = Some res" for w2
    using Suc.IH [of w2] Suc.prems by simp
  have "Consumer_handleJob L co job w1 = (q, w2) \<Longrightarrow> \<exists>res. consume L co cancelled (Suc n) w2 = Some res" for job q w2
    using ih advancesD [OF advances_handleJob] by blast
  then show ?case using d ih [of w1]
    by (auto simp del: consume.simps(2) simp: consume.simps(2) [of _ _ _ "Suc n"] split: sum.splits option.splits prod.splits)
qed

text \<open>C31: the worker stops: once the context is cancelled the loop returns after at most one iteration
  per remaining tick, whatever jobs, errors and invalid payloads it meets.\<close>

theorem run_stops:
  assumes "\<And>t. T \<le> t \<Longrightarrow> cancelled t"
  shows "\<exists>res. Consumer_Run L co cancelled (Suc (T - tick w)) w = Some res"
  using consume_ends [of T cancelled co w "T - tick w" L] assms by (auto simp: Consumer_Run_def simp del: consume.simps)

subsection \<open>Instances\<close>

text \<open>A worker whose mail server answers every message with the same code, and one mail record.\<close>

definition sample_consumer :: Consumer where
  "sample_consumer = \<lparr>co_Queue = True, co_Sender = True, co_Store = True, co_QueueName = ''q'',
     co_SMTP = \<lparr>sc_Host = ''mx'', sc_Port = 25, sc_Username = [], sc_Password = [], sc_FromEmail = ''n@x'', sc_FromName = ''N''\<rparr>,
     co_Analytics = True, co_Metrics = True\<rparr>"

definition refusing_world :: "int \<Rightarrow> db world" where
  "refusing_world code = (sample_world mail_db)\<lparr>orc := sample_orc\<lparr>o_smtp := (\<lambda>t. Some (TextProtoError code ''no''))\<rparr>\<rparr>"

theorem soft_bounce_retries_bounded_witness:
  "retry_chain 1 sample_lib sample_consumer (sample_job\<lparr>ej_RetryCount := 0\<rparr>) (refusing_world 451)
     = [3600000000000]
   \<and> length (retry_chain 1 sample_lib sample_consumer (sample_job\<lparr>ej_RetryCount := 0\<rparr>) (refusing_world 451)) \<le> 3"
proof
  show "retry_chain 1 sample_lib sample_consumer (sample_job\<lparr>ej_RetryCount := 0\<rparr>) (refusing_world 451)
     = [3600000000000]" by code_simp
  show "length (retry_chain 1 sample_lib sample_consumer (sample_job\<lparr>ej_RetryCount := 0\<rparr>) (refusing_world 451)) \<le> 3"
    using soft_bounce_retries_bounded [of "sample_job\<lparr>ej_RetryCount := 0\<rparr>"] by (simp del: retry_chain.simps)
qed

theorem handle_job_no_panic_witness:
  "\<not> is_Panic (projl (fst (Consumer_handleJob sample_lib sample_consumer sample_job (refusing_world 550))))"
proof (rule handle_job_no_panic [OF _ run_error])
  show "0 \<le> ej_RetryCount sample_job" by (simp add: sample_job_def)
  show "fst (Consumer_handleJob sample_lib sample_consumer sample_job (refusing_world 550)) =
     Inl (projl (fst (Consumer_handleJob sample_lib sample_consumer sample_job (refusing_world 550))))"
    by code_simp
qed

theorem negative_retry_panics_witness:
  "fst (Consumer_handleDeliveryError sample_lib sample_consumer (sample_job\<lparr>ej_RetryCount := -1\<rparr>)
     (DeliveryError (TextProtoError 451 ''no'') ''soft'' 451) (refusing_world 451)) = Inl (Panic ''index out of range'')"
proof -
  have "fst (WStore_MarkBounced (ej_RecordID (sample_job\<lparr>ej_RetryCount := -1\<rparr>))
      (err_message (DeliveryError (TextProtoError 451 ''no'') ''soft'' 451)) ''soft'' 451 (ej_RetryCount (sample_job\<lparr>ej_RetryCount := -1\<rparr>))
      (refusing_world 451)) = Inr ()" by code_simp
  from negative_retry_panics [OF _ run_result [OF this]] show ?thesis by (simp del: err_message.simps)
qed

theorem run_stops_witness:
  "\<exists>res. Consumer_Run sample_lib sample_consumer (\<lambda>t. 40 \<le> t) 41 (refusing_world 451) = Some res"
  using run_stops [of 40 "\<lambda>t. 40 \<le> t" sample_lib sample_consumer "refusing_world 451"]
  by (simp add: refusing_world_def sample_world_def)

end
