(* ===== verification/Mail_Status.thy ===== *)
theory Mail_Status
  imports Worker_Store
begin

text \<open>
  The status of a mail record against its history, across auth-api and email-worker: the
  invariant \<open>status_ok\<close> says that a record shows the status of its latest history entry, and
  \<open>queued\<close> while it has none. Every method of the auth store keeps it statement by statement
  (an interpretation of \<open>store_relation\<close>); the worker's methods break it inside their
  transaction and restore it before the commit. \<open>worker_step\<close> is one call of a method of the
  worker's store.
\<close>

definition shown_status :: "string \<Rightarrow> db \<Rightarrow> string" where
  "shown_status i d =
     (case rev (filter (\<lambda>h. h_record_id h = i) (status_history d)) of [] \<Rightarrow> ''queued'' | h # _ \<Rightarrow> h_status h)"

definition status_ok :: "db \<Rightarrow> bool" where
  "status_ok d \<longleftrightarrow> (\<forall>e \<in> set (email_records d). e_status e = shown_status (e_id e) d)"

definition mail_rel :: "db \<Rightarrow> db \<Rightarrow> bool" where
  "mail_rel d d' \<longleftrightarrow> (schema_ok d \<and> status_ok d \<longrightarrow> schema_ok d' \<and> status_ok d')"

subsection \<open>The auth store keeps it\<close>

lemma mail_rel_frame:
  assumes "mono_rel d d'" "email_records d' = email_records d" "status_history d' = status_history d"
  shows "mail_rel d d'"
  using assms by (simp add: mail_rel_def mono_rel_def status_ok_def shown_status_def)

lemma mail_rel_insert_record:
  assumes ins: "insert_email_record r d = Inr (n, d')" and q: "e_status r = ''queued''"
  shows "mail_rel d d'"
  unfolding mail_rel_def
proof (intro impI conjI)
  assume ok: "schema_ok d \<and> status_ok d"
  with ins show "schema_ok d'" using insert_email_record_schema by blast
  have fresh: "e_id r \<notin> e_id ` set (email_records d)" and d': "d' = d\<lparr>email_records := email_records d @ [r]\<rparr>"
    using ins by (auto simp: insert_email_record_def clash_Some split: if_splits)
  have "h_record_id h \<in> e_id ` set (email_records d)" if "h \<in> set (status_history d)" for h
    using ok that by (auto simp: schema_defs refs_in_def)
  with fresh have "filter (\<lambda>h. h_record_id h = e_id r) (status_history d) = []"
    by (simp add: filter_empty_conv) metis
  then have "shown_status (e_id r) d = ''queued''" by (simp add: shown_status_def)
  with ok q show "status_ok d'" by (auto simp: d' status_ok_def shown_status_def)
qed

lemma mail_rel_delete_records:
  assumes del: "delete_email_records p d = Inr (n, d')"
  shows "mail_rel d d'"
  unfolding mail_rel_def
proof (intro impI conjI)
  assume ok: "schema_ok d \<and> status_ok d"
  with del show "schema_ok d'" using delete_email_records_schema by blast
  let ?gone = "e_id ` {e \<in> set (email_records d). p e}"
  have d': "email_records d' = delete_where p (email_records d)"
    "status_history d' = delete_where (\<lambda>h. h_record_id h \<in> ?gone) (status_history d)"
    using del by (auto simp: delete_email_records_def Let_def)
  show "status_ok d'"
    unfolding status_ok_def
  proof
    fix e assume "e \<in> set (email_records d')"
    then have e: "e \<in> set (email_records d)" "\<not> p e" by (auto simp: d')
    have "distinct (map e_id (email_records d))" using ok by (simp add: schema_defs)
    then have "p x \<Longrightarrow> x \<in> set (email_records d) \<Longrightarrow> e_id x \<noteq> e_id e" for x using e by (metis distinct_mapD)
    then have "filter (\<lambda>h. h_record_id h = e_id e) (status_history d') = filter (\<lambda>h. h_record_id h = e_id e) (status_history d)"
      unfolding d' delete_where_def filter_filter by (intro filter_cong) auto
    then have "shown_status (e_id e) d' = shown_status (e_id e) d" by (simp add: shown_status_def)
    with ok e show "e_status e = shown_status (e_id e) d'" by (simp add: status_ok_def)
  qed
qed

lemma mail_rel_delete_user:
  assumes del: "delete_pending_user i d = Inr (n, d')"
  shows "mail_rel d d'"
  using delete_pending_user_mono [OF del] del
  by (auto simp: mail_rel_def mono_rel_def status_ok_def shown_status_def delete_pending_user_def delete_users_def Let_def
      set_update_where split: if_splits)

interpretation mailing: store_relation mail_rel
proof unfold_locales
  show "mail_rel d d" for d by (simp add: mail_rel_def)
  show "mail_rel d d''" if "mail_rel d d'" "mail_rel d' d''" for d d' d'' using that by (auto simp: mail_rel_def)
qed (erule mail_rel_insert_record mail_rel_delete_records mail_rel_delete_user; simp |
    rule mail_rel_frame, erule mono.statements; auto simp: stmt_defs Let_def split: if_splits)+

subsection \<open>The worker keeps it\<close>

lemma status_after_entry:
  assumes "set_email_status i xid st now d = Inr (n, d1)" "insert_history (history_entry hid i st msg meta t) d1 = Inr (k, d2)"
  shows "mail_rel d d2"
  unfolding mail_rel_def
proof (intro impI conjI)
  assume ok: "schema_ok d \<and> status_ok d"
  with assms show "schema_ok d2" using set_email_status_schema insert_history_schema by blast
  have d2: "email_records d2 = email_records d1" "status_history d2 = status_history d @ [history_entry hid i st msg meta t]"
    using assms by (auto simp: set_email_status_def insert_history_def split: if_splits)
  have "shown_status j d2 = (if j = i then st else shown_status j d)" for j
    by (simp add: shown_status_def d2 history_entry_def)
  moreover obtain f where "email_records d1 = update_where (\<lambda>e. e_id e = i) f (email_records d)"
    "\<And>e. e_id (f e) = e_id e \<and> e_status (f e) = st"
    using assms(1) by (auto simp: set_email_status_def)
  ultimately show "status_ok d2"
    using ok by (auto simp: status_ok_def d2 set_update_where)
qed

lemma all_or_nothing_worker:
  "all_or_nothing (WStore_MarkSent i x)" "all_or_nothing (WStore_MarkFailed i rs)"
  "all_or_nothing (WStore_MarkBounced i rs ty c k)"
  "all_or_nothing (WStore_UpsertWebhookStatusByExternalID L x st m ev meta)"
  unfolding WStore_MarkSent_def WStore_MarkFailed_def WStore_MarkBounced_def WStore_UpsertWebhookStatusByExternalID_def Let_def
  by (auto intro!: atomic)

text \<open>A method that is all-or-nothing and keeps a relation when it succeeds keeps it.\<close>

lemma op_keeps_atomic:
  assumes "all_or_nothing m" "\<And>d. R d d" "\<And>w x w'. m w = (Inr x, w') \<Longrightarrow> R (disk w) (disk w')"
  shows "op_keeps R m"
  unfolding op_keeps_def
proof
  fix w
  obtain r w' where m: "m w = (r, w')" by (cases "m w")
  then show "R (disk w) (disk (snd (m w)))"
    using assms unfolding all_or_nothing_def by (cases r) (auto dest: spec [of _ w])
qed

lemma worker_keeps_mail:
  "op_keeps mail_rel (WStore_MarkSent i x)" "op_keeps mail_rel (WStore_MarkFailed i rs)"
  "op_keeps mail_rel (WStore_MarkBounced i rs ty c k)"
  "op_keeps mail_rel (WStore_UpsertWebhookStatusByExternalID L xid st m ev meta)"
  by (rule op_keeps_atomic [OF all_or_nothing_worker(1)] op_keeps_atomic [OF all_or_nothing_worker(2)]
      op_keeps_atomic [OF all_or_nothing_worker(3)] op_keeps_atomic [OF all_or_nothing_worker(4)];
    auto simp: mailing.R_refl WStore_MarkSent_def WStore_MarkFailed_def WStore_MarkBounced_def
      WStore_UpsertWebhookStatusByExternalID_def Let_def runs intro: status_after_entry split: if_splits)+

lemma Blacklist_keeps_mail: "op_keeps mail_rel (WStore_Blacklist L a rs)"
proof -
  have "upsert_blacklist L i addr rn now d = Inr (n, d') \<Longrightarrow> mail_rel d d'" for i addr rn now d n d'
    by (rule mail_rel_frame, erule worker_mono.R_upsert_blacklist) (auto simp: upsert_blacklist_def split: if_splits)
  then show ?thesis unfolding WStore_Blacklist_def Let_def
    by (intro mailing.op_if mailing.op_ebind mailing.op_pool_exec stmt_keeps_def [THEN iffD2]) (auto intro: mailing.op_silent)
qed

inductive worker_step :: "db \<Rightarrow> db \<Rightarrow> bool" where
  MarkSent: "WStore_MarkSent i x w = (r, w') \<Longrightarrow> worker_step (disk w) (disk w')"
| MarkFailed: "WStore_MarkFailed i rs w = (r, w') \<Longrightarrow> worker_step (disk w) (disk w')"
| MarkBounced: "WStore_MarkBounced i rs ty c k w = (r, w') \<Longrightarrow> worker_step (disk w) (disk w')"
| Blacklist: "WStore_Blacklist L a rs w = (r, w') \<Longrightarrow> worker_step (disk w) (disk w')"
| Upsert: "WStore_UpsertWebhookStatusByExternalID L xid st m ev meta w = (rb, w') \<Longrightarrow> worker_step (disk w) (disk w')"

inductive_simps worker_step_iff: "worker_step d d'"

lemma worker_step_mail: "worker_step d d' \<Longrightarrow> mail_rel d d'"
  by (induction rule: worker_step.induct)
    (erule op_keepsD [OF worker_keeps_mail(1)] op_keepsD [OF worker_keeps_mail(2)] op_keepsD [OF worker_keeps_mail(3)]
      op_keepsD [OF Blacklist_keeps_mail] op_keepsD [OF worker_keeps_mail(4)])+

context worker_relation
begin

lemma worker_step_keeps: "worker_step d d' \<Longrightarrow> R d d'"
  by (induction rule: worker_step.induct)
    (erule op_keepsD [OF worker_keeps(1)] op_keepsD [OF worker_keeps(2)] op_keepsD [OF worker_keeps(3)]
      op_keepsD [OF worker_keeps(4)] op_keepsD [OF worker_keeps(5)])+

end

end
