(* ===== verification/Webhook.thy ===== *)
theory Webhook
  imports Mail_Status Json_Decode Frames
begin

text \<open>
  The status callbacks of the mail provider, \<open>services/email-worker/internal/webhook/server.go\<close>:
  the signature check, the decoding of the payload and the handler. A response is its status
  and its text.
\<close>

record Server =
  sv_Store :: bool
  sv_Secret :: string
  sv_Analytics :: bool

record callbackPayload =
  cp_ExternalID :: string
  cp_Event :: string
  cp_EventID :: string
  cp_Message :: string
  cp_Meta :: "(string \<times> json) list option"

definition callbackPayload_of_json :: "lib \<Rightarrow> json \<Rightarrow> (go_error, callbackPayload) result" where
  "callbackPayload_of_json L j =
     (case j of
        JObj fs \<Rightarrow>
          rbind (field_str L ''external_id'' fs) (\<lambda>xid.
          rbind (field_str L ''event'' fs) (\<lambda>ev.
          rbind (field_str L ''event_id'' fs) (\<lambda>eid.
          rbind (field_str L ''message'' fs) (\<lambda>msg.
          rbind (field_map L ''meta'' fs) (\<lambda>meta.
          Inr \<lparr>cp_ExternalID = xid, cp_Event = ev, cp_EventID = eid, cp_Message = msg, cp_Meta = meta\<rparr>)))))
      | JNull \<Rightarrow> Inr \<lparr>cp_ExternalID = [], cp_Event = [], cp_EventID = [], cp_Message = [], cp_Meta = None\<rparr>
      | _ \<Rightarrow> Inl JsonTypeError)"

definition allowedEvent :: "string \<Rightarrow> bool" where
  "allowedEvent event \<longleftrightarrow> event \<in> {''delivered'', ''opened'', ''clicked'', ''bounced''}"

definition verifySignature :: "lib \<Rightarrow> string \<Rightarrow> string \<Rightarrow> string \<Rightarrow> bool" where
  "verifySignature L secret0 provided0 body =
     (let secret = TrimSpace secret0; provided = TrimSpace provided0
      in if secret = [] \<or> provided = [] then False
         else (case hex_decode (TrimPrefix (ToLower L provided) ''sha256='') of
                 None \<Rightarrow> False
               | Some sig \<Rightarrow>
                   (let expected = hmac_sha256 L secret body
                    in if length sig \<noteq> length expected then False else sig = expected)))"

definition sanitizeBounceType :: "lib \<Rightarrow> json option \<Rightarrow> string" where
  "sanitizeBounceType L raw =
     (case raw of
        Some (JStr v) \<Rightarrow> if TrimSpace v = [] then ''unknown'' else TrimSpace (ToLower L v)
      | _ \<Rightarrow> ''unknown'')"

definition Server_trackRecordEvent :: "Server \<Rightarrow> string \<Rightarrow> string \<Rightarrow> (string \<times> json) list \<Rightarrow> (db, unit) proc" where
  "Server_trackRecordEvent s externalID eventName props =
     (if \<not> sv_Analytics s then ok ()
      else ecase (WStore_LookupAnalyticsRecordByExternalID externalID) (\<lambda>_. ok ()) (\<lambda>r.
           if TrimSpace (ar_UserID r) = [] then ok ()
           else if TrimSpace (ar_Email r) = [] then ok ()
           else ebind time_Now (\<lambda>now.
                ecase (analytics_Track \<lparr>ev_Name = eventName, ev_UserID = ar_UserID r, ev_Email = ar_Email r,
                  ev_Timestamp = now, ev_Properties = props\<rparr>) (\<lambda>_. ok ()) (\<lambda>_. ok ()))))"

text \<open>\<open>io.LimitReader\<close> cuts the body after \<open>n\<close> bytes.\<close>

definition LimitRead :: "int \<Rightarrow> string \<Rightarrow> string" where
  "LimitRead n s = (if int (length s) \<le> n then s else take (nat n) s)"

definition webhook_body_limit :: int where "webhook_body_limit = 1048576"

text \<open>The part behind the checks: store the event, track a bounce, answer.\<close>

definition webhook_ok :: string where
  "webhook_ok = ''{'' @ [CHR 0x22] @ ''ok'' @ [CHR 0x22] @ '':true}''"

text \<open>\<open>http.Error\<close> ends the message with a newline.\<close>

definition http_Error :: "string \<Rightarrow> int \<Rightarrow> ('d, int \<times> string) proc" where
  "http_Error msg code = ok (code, msg @ [CHR 0x0A])"

definition webhook_persist ::
    "lib \<Rightarrow> Server \<Rightarrow> string \<Rightarrow> string \<Rightarrow> string \<Rightarrow> string \<Rightarrow> (string \<times> json) list \<Rightarrow> (db, int \<times> string) proc" where
  "webhook_persist L s externalID event message eventID meta =
     ecase (WStore_UpsertWebhookStatusByExternalID L externalID event message eventID (Some meta))
       (\<lambda>err. if errors_Is err ErrEmailRecordNotFound then http_Error ''email record not found'' 404
               else http_Error ''failed to process webhook'' 500)
       (\<lambda>inserted.
          ebind (if inserted \<and> event = ''bounced''
                 then Server_trackRecordEvent s externalID ''verification_email_bounced''
                        [(''bounce_type'', JStr (sanitizeBounceType L (map_of meta ''bounce_type'')))]
                 else ok ()) (\<lambda>_.
          ok (200, webhook_ok)))"

definition Server_handleEmailStatus ::
    "lib \<Rightarrow> Server \<Rightarrow> string \<Rightarrow> string \<Rightarrow> (go_error, string) result \<Rightarrow> (db, int \<times> string) proc" where
  "Server_handleEmailStatus L s r_Method sigHeader raw =
     (if r_Method \<noteq> ''POST'' then http_Error ''method not allowed'' 405
      else (case raw of
         Inl _ \<Rightarrow> http_Error ''invalid request body'' 400
       | Inr all \<Rightarrow>
         (let body = LimitRead webhook_body_limit all
          in if \<not> verifySignature L (sv_Secret s) sigHeader body then http_Error ''invalid signature'' 401
             else (case rbind (json_parse L body) (callbackPayload_of_json L) of
                Inl _ \<Rightarrow> http_Error ''invalid json payload'' 400
              | Inr payload \<Rightarrow>
                (let event = TrimSpace (ToLower L (cp_Event payload));
                     externalID = TrimSpace (cp_ExternalID payload);
                     eventID = TrimSpace (cp_EventID payload);
                     meta = (case cp_Meta payload of None \<Rightarrow> [] | Some m \<Rightarrow> m)
                 in if externalID = [] \<or> eventID = [] \<or> \<not> allowedEvent event then http_Error ''invalid payload'' 400
                    else webhook_persist L s externalID event (cp_Message payload) eventID meta)))))"

text \<open>\<open>NewHandler\<close> refuses a server without store or secret; its routes are exact paths.\<close>

definition webhook_NewHandler ::
    "lib \<Rightarrow> Server \<Rightarrow> (go_error, string \<Rightarrow> string \<Rightarrow> string \<Rightarrow> (go_error, string) result \<Rightarrow> (db, int \<times> string) proc) result" where
  "webhook_NewHandler L s =
     (if \<not> sv_Store s then Inl (New ''nil_store'')
      else if TrimSpace (sv_Secret s) = [] then Inl (New ''empty_webhook_secret'')
      else Inr (\<lambda>path r_Method sigHeader raw.
        if path = ''/healthz'' then ok (200, ''ok'')
        else if path = ''/webhooks/email-status'' then Server_handleEmailStatus L s r_Method sigHeader raw
        else http_Error ''404 page not found'' 404))"

subsection \<open>Signatures\<close>

lemma hex_digit_visible: "n < 16 \<Longrightarrow> visible [hex_digit n] \<and> is_ascii [hex_digit n] \<and> ascii_lower (hex_digit n) = hex_digit n"
proof -
  have "list_all (\<lambda>n. visible [hex_digit n] \<and> is_ascii [hex_digit n] \<and> ascii_lower (hex_digit n) = hex_digit n) [0..<16]"
    by code_simp
  then show "n < 16 \<Longrightarrow> ?thesis" by (simp add: list_all_iff)
qed

lemma hex_encode_chars: "c \<in> set (hex_encode bs) \<Longrightarrow> visible [c] \<and> is_ascii [c] \<and> ascii_lower c = c"
  by (auto simp: hex_encode_def hex_digit_visible less_mult_imp_div_less)

lemma hex_encode_plain: "visible (hex_encode bs) \<and> is_ascii (hex_encode bs) \<and> map ascii_lower (hex_encode bs) = hex_encode bs"
  using hex_encode_chars [of _ bs] by (auto simp: visible_def is_ascii_def list_all_iff map_idI)

lemma sha256_prefix_plain:
  "visible ''sha256=''" "is_ascii ''sha256=''" "map ascii_lower ''sha256='' = ''sha256=''"
  by code_simp+

lemma signature_roundtrip:
  assumes "TrimSpace secret \<noteq> []"
  shows "verifySignature L secret (''sha256='' @ hex_encode (hmac_sha256 L (TrimSpace secret) body)) body"
proof -
  let ?h = "hex_encode (hmac_sha256 L (TrimSpace secret) body)" and ?s = "''sha256='' :: string"
  have "visible (?s @ ?h)" "is_ascii (?s @ ?h)" "map ascii_lower (?s @ ?h) = ?s @ ?h"
    using hex_encode_plain [of "hmac_sha256 L (TrimSpace secret) body"] sha256_prefix_plain
    unfolding visible_def is_ascii_def by (simp_all del: map_append add: map_append)
  then have "TrimSpace (?s @ ?h) = ?s @ ?h" "ToLower L (?s @ ?h) = ?s @ ?h"
    by (simp_all only: TrimSpace_visible ToLower_def if_True)
  moreover have "TrimPrefix (?s @ ?h) ?s = ?h" by (simp add: TrimPrefix_def)
  ultimately show ?thesis using assms by (simp only: verifySignature_def Let_def) simp
qed

text \<open>a provider that signs the body with the shared secret is accepted: hex of the HMAC behind the
  \<open>sha256=\<close> prefix verifies, for every body and every non-blank secret.\<close>

theorem webhook_signature_roundtrip:
  assumes "TrimSpace secret \<noteq> []"
  shows "verifySignature L secret (''sha256='' @ hex_encode (hmac_sha256 L (TrimSpace secret) body)) body"
  by (rule signature_roundtrip) (rule assms)

theorem webhook_signature_roundtrip_witness:
  "verifySignature sample_lib '' k '' (''sha256='' @ hex_encode (hmac_sha256 sample_lib (TrimSpace '' k '') ''body'')) ''body''"
proof -
  have "TrimSpace '' k '' \<noteq> []" by code_simp
  then show ?thesis by (rule webhook_signature_roundtrip)
qed

subsection \<open>Who can change a status\<close>

lemma persist_disk:
  "disk (snd (webhook_persist L s xid ev msg eid meta w)) =
     disk (snd (WStore_UpsertWebhookStatusByExternalID L xid ev msg eid (Some meta) w))"
proof -
  have "db_silent (Server_trackRecordEvent s xid ev ps)" for xid ev ps
    unfolding Server_trackRecordEvent_def by (auto intro!: db_silent_ecase db_silent_ebind)
  then have k: "db_silent (ebind (if b then Server_trackRecordEvent s xid ev' ps else ok ()) (\<lambda>_. ok y))" for b xid ev' ps and y :: "int \<times> string"
    by (auto intro!: db_silent_ebind)
  obtain r v where u: "WStore_UpsertWebhookStatusByExternalID L xid ev msg eid (Some meta) w = (r, v)"
    by (cases "WStore_UpsertWebhookStatusByExternalID L xid ev msg eid (Some meta) w")
  show ?thesis
    by (cases r) (use k in \<open>auto simp: webhook_persist_def ecase_def u ok_def http_Error_def\<close>)
qed

text \<open>What the handler checks before it stores an event.\<close>

definition authentic :: "lib \<Rightarrow> Server \<Rightarrow> string \<Rightarrow> string \<Rightarrow> (go_error, string) result \<Rightarrow> callbackPayload \<Rightarrow> bool" where
  "authentic L s r_Method sigHeader raw payload \<longleftrightarrow> r_Method = ''POST'' \<and>
     (case raw of Inl _ \<Rightarrow> False
      | Inr all \<Rightarrow> verifySignature L (sv_Secret s) sigHeader (LimitRead webhook_body_limit all)
          \<and> rbind (json_parse L (LimitRead webhook_body_limit all)) (callbackPayload_of_json L) = Inr payload)
     \<and> TrimSpace (cp_ExternalID payload) \<noteq> [] \<and> TrimSpace (cp_EventID payload) \<noteq> []
     \<and> allowedEvent (TrimSpace (ToLower L (cp_Event payload)))"

lemma handleEmailStatus_authentic:
  assumes "authentic L s r_Method sigHeader raw payload"
  shows "Server_handleEmailStatus L s r_Method sigHeader raw = webhook_persist L s (TrimSpace (cp_ExternalID payload))
     (TrimSpace (ToLower L (cp_Event payload))) (cp_Message payload) (TrimSpace (cp_EventID payload))
     (case cp_Meta payload of None \<Rightarrow> [] | Some m \<Rightarrow> m)"
  using assms by (auto simp: authentic_def Server_handleEmailStatus_def Let_def split: sum.splits)

lemma handleEmailStatus_refused:
  assumes "\<And>payload. \<not> authentic L s r_Method sigHeader raw payload"
  shows "\<exists>status msg. Server_handleEmailStatus L s r_Method sigHeader raw = ok (status, msg) \<and> 400 \<le> status"
  using assms by (auto simp: authentic_def Server_handleEmailStatus_def Let_def http_Error_def split: sum.splits if_splits)

text \<open>C21: a callback changes the database only when it is a POST whose body carries a valid signature, parses
  and names an allowed event; everything else is answered with an error status. An accepted
  callback has exactly the effect of the store's upsert.\<close>

theorem webhook_only_authentic:
  "(\<exists>payload. authentic L s r_Method sigHeader raw payload
      \<and> disk (snd (Server_handleEmailStatus L s r_Method sigHeader raw w)) =
        disk (snd (WStore_UpsertWebhookStatusByExternalID L (TrimSpace (cp_ExternalID payload))
          (TrimSpace (ToLower L (cp_Event payload))) (cp_Message payload) (TrimSpace (cp_EventID payload))
          (Some (case cp_Meta payload of None \<Rightarrow> [] | Some m \<Rightarrow> m)) w)))
   \<or> (\<exists>status msg. Server_handleEmailStatus L s r_Method sigHeader raw w = (Inr (status, msg), w) \<and> 400 \<le> status)"
proof (cases "\<exists>payload. authentic L s r_Method sigHeader raw payload")
  case True
  then show ?thesis by (metis handleEmailStatus_authentic persist_disk)
next
  case False
  then show ?thesis using handleEmailStatus_refused [of L s r_Method sigHeader raw] by (auto simp: ok_def)
qed

subsection \<open>Repeated callbacks\<close>

definition single_external :: "string \<Rightarrow> db \<Rightarrow> bool" where
  "single_external xid d \<longleftrightarrow> (\<forall>e \<in> set (email_records d). \<forall>e' \<in> set (email_records d).
     e_external_id e = Some xid \<longrightarrow> e_external_id e' = Some xid \<longrightarrow> e_id e = e_id e')"

lemma upsert_run:
  assumes "WStore_UpsertWebhookStatusByExternalID L xid st msg ev meta w = (Inr b, w')"
  obtains e where "record_by_external (TrimSpace xid) (disk w) = Some e" "e \<in> set (email_records (disk w))"
      "e_external_id e = Some (TrimSpace xid)"
      "\<not> b \<Longrightarrow> disk w' = disk w" "b \<Longrightarrow> TrimSpace ev = [] \<or> \<not> seen_event L (e_id e) (TrimSpace st) (TrimSpace ev) (disk w)"
      "b \<Longrightarrow> \<exists>n d1 i m. set_email_status (e_id e) None (TrimSpace st) (o_dbclock (orc w) (tick w)) (disk w) = Inr (n, d1) \<and>
         insert_history (history_entry i (e_id e) (TrimSpace st) msg (Some (JObj (if TrimSpace ev \<noteq> []
           then set_field ''event_id'' (JStr (TrimSpace ev)) (case meta of None \<Rightarrow> [] | Some fs \<Rightarrow> fs)
           else (case meta of None \<Rightarrow> [] | Some fs \<Rightarrow> fs)))) (o_dbclock (orc w) (tick w))) d1 = Inr (m, disk w')"
proof -
  have found: "record_by_external x d = Some e \<Longrightarrow> e \<in> set (email_records d) \<and> e_external_id e = Some x" for x d e
    by (auto simp: record_by_external_def dest: first_byD)
  show thesis
    using assms
    by (auto simp: WStore_UpsertWebhookStatusByExternalID_def Let_def runs split: if_splits
        intro!: that dest: found) blast+
qed

text \<open>After an event was stored, the record it went to is still found and has seen the event.\<close>

lemma upsert_seen:
  assumes "WStore_UpsertWebhookStatusByExternalID L xid st msg ev meta w = (Inr True, w')"
    and "TrimSpace ev \<noteq> []"
  shows "\<exists>e. e \<in> set (email_records (disk w)) \<and> e_external_id e = Some (TrimSpace xid)
    \<and> seen_event L (e_id e) (TrimSpace st) (TrimSpace ev) (disk w')
    \<and> email_records (disk w') = update_where (\<lambda>x. e_id x = e_id e)
        (\<lambda>x. x\<lparr>e_status := TrimSpace st, e_updated_at := o_dbclock (orc w) (tick w)\<rparr>) (email_records (disk w))"
proof -
  obtain e n d1 i m where e: "e \<in> set (email_records (disk w))" "e_external_id e = Some (TrimSpace xid)"
    and set: "set_email_status (e_id e) None (TrimSpace st) (o_dbclock (orc w) (tick w)) (disk w) = Inr (n, d1)"
    and ins: "insert_history (history_entry i (e_id e) (TrimSpace st) msg
       (Some (JObj (set_field ''event_id'' (JStr (TrimSpace ev)) (case meta of None \<Rightarrow> [] | Some fs \<Rightarrow> fs))))
       (o_dbclock (orc w) (tick w))) d1 = Inr (m, disk w')"
    by (rule upsert_run [OF assms(1)]) (use assms(2) in auto)
  have "seen_event L (e_id e) (TrimSpace st) (TrimSpace ev) (disk w')"
    using ins by (auto simp: insert_iff seen_event_def history_entry_def meta_text_def set_field_def)
  moreover have "email_records (disk w') = email_records d1" using ins by (auto simp: insert_iff)
  ultimately show ?thesis using e set by (intro exI [of _ e]) (auto simp: set_email_status_def)
qed

lemma upsert_again:
  assumes one: "single_external (TrimSpace xid) (disk w)" and ev: "TrimSpace ev \<noteq> []"
    and first: "WStore_UpsertWebhookStatusByExternalID L xid st msg ev meta w = (Inr True, w1)"
    and again: "WStore_UpsertWebhookStatusByExternalID L xid st msg2 ev meta2 w2 = (r, w3)" and d: "disk w2 = disk w1"
  shows "disk w3 = disk w1 \<and> r \<noteq> Inr True"
proof (cases r)
  case (Inl e)
  with again d show ?thesis
    using all_or_nothing_worker(4) by (metis all_or_nothing_def fst_conv isl_def snd_conv sum.distinct(1))
next
  case (Inr b)
  obtain e where e: "e \<in> set (email_records (disk w))" "e_external_id e = Some (TrimSpace xid)"
    "seen_event L (e_id e) (TrimSpace st) (TrimSpace ev) (disk w1)"
    and rows: "email_records (disk w1) = update_where (\<lambda>x. e_id x = e_id e)
        (\<lambda>x. x\<lparr>e_status := TrimSpace st, e_updated_at := o_dbclock (orc w) (tick w)\<rparr>) (email_records (disk w))"
    using upsert_seen [OF first ev] by blast
  have "e_id x = e_id e" if x: "x \<in> set (email_records (disk w1))" "e_external_id x = Some (TrimSpace xid)" for x
  proof -
    obtain y where "y \<in> set (email_records (disk w))" "e_id y = e_id x" "e_external_id y = e_external_id x"
      using x(1) unfolding rows set_update_where by (fastforce split: if_splits)
    with one e(1,2) x(2) show ?thesis unfolding single_external_def by metis
  qed
  note same = this
  show ?thesis
  proof (rule upsert_run [OF again [unfolded Inr]])
    fix x assume x: "x \<in> set (email_records (disk w2))" "e_external_id x = Some (TrimSpace xid)"
      and b: "\<not> b \<Longrightarrow> disk w3 = disk w2" "b \<Longrightarrow> TrimSpace ev = [] \<or> \<not> seen_event L (e_id x) (TrimSpace st) (TrimSpace ev) (disk w2)"
    have "e_id x = e_id e" using same x d by simp
    with b e(3) d ev Inr show ?thesis by auto
  qed
qed

text \<open>C22: a callback that is delivered again has no effect: after an event was stored for an external id that
  belongs to one record, the same event changes neither the database nor the analytics, and is
  still answered with success unless a call fails.\<close>

theorem webhook_idempotent:
  assumes "authentic L s r_Method sigHeader raw payload"
    and "single_external (TrimSpace (cp_ExternalID payload)) (disk w)"
    and "WStore_UpsertWebhookStatusByExternalID L (TrimSpace (cp_ExternalID payload))
      (TrimSpace (ToLower L (cp_Event payload))) (cp_Message payload) (TrimSpace (cp_EventID payload))
      (Some (case cp_Meta payload of None \<Rightarrow> [] | Some m \<Rightarrow> m)) w = (Inr True, w1)"
    and "disk w2 = disk w1"
  shows "disk (snd (Server_handleEmailStatus L s r_Method sigHeader raw w2)) = disk w1
    \<and> events (snd (Server_handleEmailStatus L s r_Method sigHeader raw w2)) = events w2"
proof -
  let ?m = "WStore_UpsertWebhookStatusByExternalID L (TrimSpace (cp_ExternalID payload))
      (TrimSpace (ToLower L (cp_Event payload))) (cp_Message payload) (TrimSpace (cp_EventID payload))
      (Some (case cp_Meta payload of None \<Rightarrow> [] | Some m \<Rightarrow> m))"
  obtain r w3 where again: "?m w2 = (r, w3)" by (cases "?m w2")
  have "TrimSpace (TrimSpace (cp_EventID payload)) \<noteq> []" using assms(1) by (simp add: authentic_def)
  moreover have "single_external (TrimSpace (TrimSpace (cp_ExternalID payload))) (disk w)" using assms(2) by simp
  ultimately have d: "disk w3 = disk w1" and r: "r \<noteq> Inr True"
    using upsert_again [OF _ _ assms(3) again assms(4)] by blast+
  have "keeps events ?m"
    unfolding WStore_UpsertWebhookStatusByExternalID_def Let_def
    by (auto intro!: keeps_rules tracked.keeps_prims)
  then have "events w3 = events w2" using again by (rule keeps_pairD)
  with d r again show ?thesis
    by (cases r) (auto simp: handleEmailStatus_authentic [OF assms(1)] webhook_persist_def ecase_def ebind_def ok_def http_Error_def)
qed

text \<open>A signed bounce event for the one mail record.\<close>

definition sample_server :: Server where
  "sample_server = \<lparr>sv_Store = True, sv_Secret = ''k'', sv_Analytics = True\<rparr>"

definition sample_payload :: callbackPayload where
  "sample_payload = \<lparr>cp_ExternalID = ''x1'', cp_Event = ''Bounced'', cp_EventID = ''e1'', cp_Message = [], cp_Meta = None\<rparr>"

definition sample_body :: string where
  "sample_body = enc_json (JObj [(''external_id'', JStr ''x1''), (''event'', JStr ''Bounced''), (''event_id'', JStr ''e1'')])"

definition sample_signature :: string where
  "sample_signature = ''sha256='' @ hex_encode (hmac_sha256 sample_lib (TrimSpace ''k'') sample_body)"

lemma sample_authentic: "authentic sample_lib sample_server ''POST'' sample_signature (Inr sample_body) sample_payload"
proof -
  have "LimitRead webhook_body_limit sample_body = sample_body" by code_simp
  moreover have "json_parse sample_lib sample_body =
      Inr (JObj [(''external_id'', JStr ''x1''), (''event'', JStr ''Bounced''), (''event_id'', JStr ''e1'')])"
    by (simp add: sample_lib_def sample_body_def del: enc_json.simps)
  moreover have "verifySignature sample_lib ''k'' sample_signature sample_body"
  proof -
    have "TrimSpace ''k'' \<noteq> []" by code_simp
    then show ?thesis unfolding sample_signature_def by (rule signature_roundtrip)
  qed
  moreover have "callbackPayload_of_json sample_lib (JObj [(''external_id'', JStr ''x1''), (''event'', JStr ''Bounced''), (''event_id'', JStr ''e1'')])
      = Inr sample_payload"
    by (simp add: callbackPayload_of_json_def sample_payload_def field_defs EqualFold_ascii is_ascii_def ascii_lower_def)
  moreover have "TrimSpace (cp_ExternalID sample_payload) \<noteq> []" "TrimSpace (cp_EventID sample_payload) \<noteq> []"
    "allowedEvent (TrimSpace (ToLower sample_lib (cp_Event sample_payload)))" by code_simp+
  ultimately show ?thesis by (simp add: authentic_def sample_server_def)
qed

theorem webhook_idempotent_witness:
  "disk (snd (Server_handleEmailStatus sample_lib sample_server ''POST'' sample_signature (Inr sample_body)
     (snd (WStore_UpsertWebhookStatusByExternalID sample_lib (TrimSpace (cp_ExternalID sample_payload))
      (TrimSpace (ToLower sample_lib (cp_Event sample_payload))) (cp_Message sample_payload) (TrimSpace (cp_EventID sample_payload))
      (Some (case cp_Meta sample_payload of None \<Rightarrow> [] | Some m \<Rightarrow> m)) (sample_world mail_db)))))
   = disk (snd (WStore_UpsertWebhookStatusByExternalID sample_lib (TrimSpace (cp_ExternalID sample_payload))
      (TrimSpace (ToLower sample_lib (cp_Event sample_payload))) (cp_Message sample_payload) (TrimSpace (cp_EventID sample_payload))
      (Some (case cp_Meta sample_payload of None \<Rightarrow> [] | Some m \<Rightarrow> m)) (sample_world mail_db)))"
proof -
  have "fst (WStore_UpsertWebhookStatusByExternalID sample_lib (TrimSpace (cp_ExternalID sample_payload))
      (TrimSpace (ToLower sample_lib (cp_Event sample_payload))) (cp_Message sample_payload) (TrimSpace (cp_EventID sample_payload))
      (Some (case cp_Meta sample_payload of None \<Rightarrow> [] | Some m \<Rightarrow> m)) (sample_world mail_db)) = Inr True"
    by code_simp
  moreover have "single_external (TrimSpace (cp_ExternalID sample_payload)) (disk (sample_world mail_db))"
    by (simp add: single_external_def mail_db_def)
  ultimately show ?thesis
    using webhook_idempotent [OF sample_authentic _ run_result] by blast
qed

end
