(* ===== verification/System.thy ===== *)
theory System
  imports Admin_Access Worker_Delivery Webhook
begin

text \<open>
  The services together, on one database: auth-api with the routes and middlewares of its
  \<open>main.go\<close>, admin-api, the jobs of email-worker and its webhook. \<open>system_step\<close> is one request or job of any
  of them, and \<open>system_relation\<close> is the contract of a relation between databases that every service
  keeps: what is proved from it holds for every interleaving of requests and jobs, under every
  failure of the database, Redis, the mail server and the entropy source.
\<close>

subsection \<open>The routes of auth-api\<close>

datatype api_call = Bootstrap "(go_error, BootstrapRequest) result" | Register "(go_error, RegisterRequest) result"
  | ResendVerification "(go_error, string) result" | VerifyEmail "(go_error, VerifyEmailRequest) result" | VerifyMagicLink
  | Login "(go_error, RegisterRequest) result" | Refresh "(go_error, string) result" | Logout "(go_error, string) result"
  | LogoutAll | SwitchTenant "(go_error, string) result"

definition auth_api :: "lib \<Rightarrow> Handler \<Rightarrow> api_call \<Rightarrow> db handler" where
  "auth_api L h call =
     (let authn = AuthN L (JWTSecret h) (JWTIssuer h) (JWTAudience h)
      in case call of
           Bootstrap body \<Rightarrow> RateLimit (h_Redis h) ''rl:bootstrap'' 10 time_Minute (Handler_Bootstrap L h body)
         | Register body \<Rightarrow> RateLimit (h_Redis h) ''rl:register'' 20 time_Minute (Handler_Register L h body)
         | ResendVerification body \<Rightarrow> RateLimit (h_Redis h) ''rl:resend-verification'' 15 time_Minute (Handler_ResendVerification L h body)
         | VerifyEmail body \<Rightarrow> RateLimit (h_Redis h) ''rl:verify-email'' 60 time_Minute (Handler_VerifyEmail L h body)
         | VerifyMagicLink \<Rightarrow> RateLimit (h_Redis h) ''rl:verify-magic-link'' 60 time_Minute (Handler_VerifyMagicLink L h)
         | Login body \<Rightarrow> RateLimit (h_Redis h) ''rl:login'' 30 time_Minute (Handler_Login L h body)
         | Refresh body \<Rightarrow> Handler_Refresh L h body
         | Logout body \<Rightarrow> Handler_Logout L body
         | LogoutAll \<Rightarrow> authn Handler_LogoutAll
         | SwitchTenant body \<Rightarrow> authn (Handler_SwitchTenant L h body))"

lemma jwt_Parse_silent [simp]: "db_silent (jwt_Parse L s i a t)"
  unfolding jwt_Parse_def by (auto intro!: silent_rules split: sum.split prod.split)

context db_preorder
begin

lemma op_RateLimit: "op_keeps R (next c) \<Longrightarrow> op_keeps R (RateLimit b p l wd next c)"
  unfolding RateLimit_def Let_def by (intro op_if op_ecase op_ebind) (simp_all add: op_silent)

lemma op_AuthN: "(\<And>c. op_keeps R (next c)) \<Longrightarrow> op_keeps R (AuthN L s i a next c)"
  unfolding AuthN_def Let_def by (intro op_if op_ecase) (simp_all add: op_silent)

end

lemma auth_api_calls: "op_keeps store_steps (auth_api L h call c)"
  by (cases call) (simp_all add: auth_api_def Let_def calls.op_RateLimit calls.op_AuthN handler_calls)

subsection \<open>The worker\<close>

abbreviation worker_steps :: "db \<Rightarrow> db \<Rightarrow> bool" where "worker_steps \<equiv> worker_step\<^sup>*\<^sup>*"

interpretation jobs: db_preorder worker_steps
  by unfold_locales auto

lemma worker_calls [intro!]:
  "op_keeps worker_steps (WStore_MarkSent i x)" "op_keeps worker_steps (WStore_MarkFailed i rs)"
  "op_keeps worker_steps (WStore_MarkBounced i rs ty code k)" "op_keeps worker_steps (WStore_Blacklist L a rs)"
  "op_keeps worker_steps (WStore_UpsertWebhookStatusByExternalID L xid st m ev meta)"
  unfolding op_keeps_def by (metis worker_step.intros prod.collapse r_into_rtranclp)+

lemma worker_silent [simp]:
  "db_silent (Consumer_trackRecordEvent co i ev pf)" "db_silent (trackVerificationEmailSent co i)"
  "db_silent (trackVerificationEmailBounced co i ty)" "db_silent (observe_since co g t)" "db_silent (index_or_panic xs k)"
  "db_silent (Server_trackRecordEvent s x ev ps)" "db_silent (http_Error msg code)"
  unfolding Consumer_trackRecordEvent_def trackVerificationEmailSent_def trackVerificationEmailBounced_def observe_since_def
    index_or_panic_def ignore_def Server_trackRecordEvent_def http_Error_def
  by (auto intro!: silent_rules)

lemma failed_calls:
  "op_keeps worker_steps (mark_failed i rs wr e)" "op_keeps worker_steps (reject_job i rs e)"
  unfolding mark_failed_def reject_job_def by (intro jobs.op_ecase worker_calls jobs.op_silent; simp)+

lemma delivery_calls: "op_keeps worker_steps (Consumer_handleDeliveryError L co job e)"
proof -
  have parts: "op_keeps worker_steps (case x of None \<Rightarrow> m | Some (ty, code) \<Rightarrow> k ty code)"
    if "op_keeps worker_steps m" "\<And>ty code. op_keeps worker_steps (k ty code)" for x :: "('x \<times> 'y) option" and m :: "(db, unit) proc" and k
    using that by (auto split: option.split)
  show ?thesis
    unfolding Consumer_handleDeliveryError_def Let_def
    by (intro parts jobs.op_if jobs.op_ebind failed_calls worker_calls) (simp_all add: jobs.op_silent)
qed

lemma deliver_calls: "op_keeps worker_steps (Consumer_deliver L co job hb tb)"
  unfolding Consumer_deliver_def
  by (intro jobs.op_ebind jobs.op_ecase delivery_calls worker_calls) (simp_all add: jobs.op_silent)

lemma job_calls: "op_keeps worker_steps (Consumer_handleJob L co job)"
proof -
  have "op_keeps worker_steps (case x of Inl err \<Rightarrow> reject_job (r err) (rs err) (e err) | Inr (hb, tb) \<Rightarrow> Consumer_deliver L co job hb tb)" for x r rs e
    by (auto intro: failed_calls deliver_calls split: sum.split prod.split)
  then show ?thesis
    unfolding Consumer_handleJob_def
    by (intro jobs.op_if jobs.op_ebind failed_calls deliver_calls) (simp_all add: jobs.op_silent)
qed

lemma webhook_calls: "op_keeps worker_steps (Server_handleEmailStatus L s m sig raw)"
proof -
  have "op_keeps worker_steps (webhook_persist L s x ev msg eid meta)" for x ev msg eid meta
    unfolding webhook_persist_def
    by (intro jobs.op_ecase jobs.op_ebind worker_calls) (simp_all add: jobs.op_silent)
  then show ?thesis
    unfolding Server_handleEmailStatus_def Let_def
    by (auto intro!: jobs.op_if intro: jobs.op_silent split: sum.split)
qed

subsection \<open>All services on one database\<close>

inductive admin_step :: "db \<Rightarrow> db \<Rightarrow> bool" where
  AddMember: "AStore_AddMember t u r w = (x, w') \<Longrightarrow> admin_step (disk w) (disk w')"
| UpdateMemberRole: "AStore_UpdateMemberRole t u r w = (x, w') \<Longrightarrow> admin_step (disk w) (disk w')"
| RemoveMember: "AStore_RemoveMember t u w = (x, w') \<Longrightarrow> admin_step (disk w) (disk w')"
| AssignRole: "AStore_AssignRole t u r w = (x, w') \<Longrightarrow> admin_step (disk w) (disk w')"

abbreviation admin_steps :: "db \<Rightarrow> db \<Rightarrow> bool" where "admin_steps \<equiv> admin_step\<^sup>*\<^sup>*"

interpretation administration: admin_calls admin_steps t for t
proof unfold_locales
  show "op_keeps admin_steps (AStore_AddMember t u r)" for u r
    unfolding op_keeps_def by (metis admin_step.AddMember prod.collapse r_into_rtranclp)
  show "op_keeps admin_steps (AStore_UpdateMemberRole t u r)" for u r
    unfolding op_keeps_def by (metis admin_step.UpdateMemberRole prod.collapse r_into_rtranclp)
  show "op_keeps admin_steps (AStore_RemoveMember t u)" for u
    unfolding op_keeps_def by (metis admin_step.RemoveMember prod.collapse r_into_rtranclp)
  show "op_keeps admin_steps (AStore_AssignRole t u r)" for u r
    unfolding op_keeps_def by (metis admin_step.AssignRole prod.collapse r_into_rtranclp)
qed auto

lemma admin_api_calls: "op_keeps admin_steps (admin_api L secret iss aud time_text Enforce call c)"
  unfolding admin_api_def
  by (rule administration.op_AuthN, rule administration.admin_rbac_keeps, rule administration.admin_call_keeps, rule refl)

text \<open>One call of a store by any service, and one request or job of any service. A request is a
  sequence of calls, so what holds along \<open>system_steps\<close> holds for requests that overlap.\<close>

inductive system_step :: "db \<Rightarrow> db \<Rightarrow> bool" where
  Auth: "store_step d d' \<Longrightarrow> system_step d d'"
| Worker: "worker_step d d' \<Longrightarrow> system_step d d'"
| Administer: "admin_step d d' \<Longrightarrow> system_step d d'"

abbreviation system_steps :: "db \<Rightarrow> db \<Rightarrow> bool" where "system_steps \<equiv> system_step\<^sup>*\<^sup>*"

inductive service_step :: "db \<Rightarrow> db \<Rightarrow> bool" where
  Request: "auth_api L h call c w = (r, w') \<Longrightarrow> service_step (disk w) (disk w')"
| Admin_request: "admin_api L secret iss aud time_text Enforce acall c w = (ra, w') \<Longrightarrow> service_step (disk w) (disk w')"
| Job: "Consumer_handleJob L co job w = (rj, w') \<Longrightarrow> service_step (disk w) (disk w')"
| Callback: "Server_handleEmailStatus L s m sig raw w = (rw, w') \<Longrightarrow> service_step (disk w) (disk w')"

inductive_cases service_stepE: "service_step d d'"

lemma steps_system: "store_steps d d' \<Longrightarrow> system_steps d d'" "worker_steps d d' \<Longrightarrow> system_steps d d'" "admin_steps d d' \<Longrightarrow> system_steps d d'"
  by (auto elim!: rtranclp_mono [THEN predicate2D, rotated] intro: system_step.intros)

lemma service_step_system: "service_step d d' \<Longrightarrow> system_steps d d'"
  by (erule service_stepE; clarsimp)
    (blast intro: steps_system dest: op_keepsD [OF auth_api_calls] op_keepsD [OF job_calls] op_keepsD [OF webhook_calls]
      op_keepsD [OF admin_api_calls])+

lemma request_steps: "disk w = d \<Longrightarrow> system_steps d (disk (snd (auth_api L h call c w)))"
  using auth_api_calls [of L h call c] by (auto simp: op_keeps_def intro: steps_system)

text \<open>The loop of the worker is a sequence of jobs.\<close>

lemma db_silent_DequeueInto [simp]: "db_silent (DequeueIntoContext L dec k)"
  unfolding DequeueIntoContext_def by (auto intro!: silent_rules split: option.split)

lemma consume_calls: "consume L co cancelled fuel w = Some (r, w') \<Longrightarrow> worker_steps (disk w) (disk w')"
proof (induction fuel arbitrary: w)
  case (Suc n)
  obtain x w1 where x: "DequeueIntoContext L (EmailJob_of_json L) (co_QueueName co) w = (x, w1)"
    by (cases "DequeueIntoContext L (EmailJob_of_json L) (co_QueueName co) w")
  have w1: "disk w1 = disk w" using x by (rule silent_run [rotated]) simp
  have job: "worker_steps (disk w1) (disk w2)" if "Consumer_handleJob L co job w1 = (y, w2)" for job y w2
    using that by (rule op_keepsD [OF job_calls])
  have loop: "worker_steps (disk v) (disk w')" if "consume L co cancelled n v = Some (r, w')" for v
    using that by (rule Suc.IH)
  from Suc.prems x w1 show ?case
    by (auto split: if_splits sum.splits option.splits prod.splits dest!: job dest: loop intro: rtranclp_trans)
qed simp

subsection \<open>Relations every service keeps\<close>

locale system_relation = db_preorder R for R :: "db \<Rightarrow> db \<Rightarrow> bool" +
  assumes R_store: "store_step d d' \<Longrightarrow> R d d'"
    and R_worker: "worker_step d d' \<Longrightarrow> R d d'"
    and R_admin: "admin_step d d' \<Longrightarrow> R d d'"
begin

lemma system_keeps: "system_steps d d' \<Longrightarrow> R d d'"
  by (induction rule: rtranclp_induct) (auto elim!: system_step.cases intro: R_refl R_store R_worker R_admin R_trans)

end

text \<open>What the worker cannot touch.\<close>

definition other_tables :: "db \<Rightarrow> db" where
  "other_tables d = d\<lparr>email_records := [], status_history := [], blacklist := []\<rparr>"

interpretation mail_tables: worker_relation "\<lambda>d d'. other_tables d' = other_tables d"
  by unfold_locales (auto simp: other_tables_def set_email_status_def insert_history_def upsert_blacklist_def split: if_splits)

lemma worker_steps_frame: "worker_steps d d' \<Longrightarrow> verifications d' = verifications d \<and> users d' = users d"
proof (induction rule: rtranclp_induct)
  case (step d' d'')
  have "verifications d'' = verifications d' \<and> users d'' = users d'"
    using mail_tables.worker_step_keeps [OF step.hyps(2)] by (cases d', cases d'') (simp add: other_tables_def)
  with step.IH show ?case by simp
qed simp

lemma worker_step_frame: "worker_step d d' \<Longrightarrow> verifications d' = verifications d"
  using worker_steps_frame by blast

lemma admin_step_tenant: "admin_step d d' \<Longrightarrow> \<exists>t. tenant_only t d d'"
  by (induction rule: admin_step.induct) (blast dest: op_keepsD [OF isolation.admin_store_keeps(1)] op_keepsD [OF isolation.admin_store_keeps(2)]
    op_keepsD [OF isolation.admin_store_keeps(3)] op_keepsD [OF isolation.admin_store_keeps(4)])+

lemma admin_step_frame: "admin_step d d' \<Longrightarrow> verifications d' = verifications d \<and> blacklist d' = blacklist d
    \<and> email_records d' = email_records d \<and> status_history d' = status_history d"
  using admin_step_tenant [of d d'] by (auto simp: tenant_only_def)

lemma admin_step_mono: "admin_step d d' \<Longrightarrow> mono_rel d d'"
  by (induction rule: admin_step.induct) (blast dest: op_keepsD [OF admin_mono.admin_store_keeps(1)] op_keepsD [OF admin_mono.admin_store_keeps(2)]
    op_keepsD [OF admin_mono.admin_store_keeps(3)] op_keepsD [OF admin_mono.admin_store_keeps(4)])+

interpretation sys_mono: system_relation mono_rel
  by unfold_locales (erule mono.store_step_keeps worker_mono.worker_step_keeps admin_step_mono)+

interpretation sys_mail: system_relation mail_rel
  by unfold_locales (erule mailing.store_step_keeps worker_step_mail |
    rule mail_rel_frame, erule admin_step_mono; simp add: admin_step_frame)+

interpretation sys_attempts: system_relation "\<lambda>d d'. attempts_bounded d \<longrightarrow> attempts_bounded d'"
  by unfold_locales (auto dest: attempts.store_step_keeps worker_step_frame admin_step_frame simp: attempts_bounded_def)

interpretation sys_expiry: system_relation "\<lambda>d d'. expiry_ok d \<longrightarrow> expiry_ok d'"
  by unfold_locales (auto dest: expiry.store_step_keeps worker_step_frame admin_step_frame simp: expiry_ok_def)

text \<open>Nobody takes an address off the blacklist.\<close>

definition blacklist_grows :: "db \<Rightarrow> db \<Rightarrow> bool" where
  "blacklist_grows d d' \<longleftrightarrow> b_email ` set (blacklist d) \<subseteq> b_email ` set (blacklist d')"

interpretation suppression: store_relation blacklist_grows
  by unfold_locales (auto simp: blacklist_grows_def stmt_defs Let_def delete_pending_user_def delete_users_def split: if_splits option.splits)

interpretation suppressing: worker_relation blacklist_grows
  by unfold_locales (auto simp: blacklist_grows_def set_email_status_def insert_history_def upsert_blacklist_def image_update_where split: if_splits)

interpretation sys_blacklist: system_relation blacklist_grows
  by unfold_locales (erule suppression.store_step_keeps suppressing.worker_step_keeps | simp add: blacklist_grows_def admin_step_frame)+

end
