(* ===== verification/System_Safety.thy ===== *)
theory System_Safety
  imports System
begin

text \<open>
  What the services guarantee together. Between the two moments a theorem speaks of, any services
  may make any calls in any order (\<open>system_steps\<close>), with any failures: the properties rest on the
  interpretations of \<open>system_relation\<close> in \<open>System\<close>.
\<close>

subsection \<open>Limiting and authenticating leave the database alone\<close>

text \<open>A middleware guards a handler: it either answers an error itself or runs the handler, and has
  not touched the database before.\<close>

definition guards :: "('d, 'a) proc \<Rightarrow> ('d, 'a) proc \<Rightarrow> bool" where
  "guards m k \<longleftrightarrow> (\<forall>w. \<exists>v. disk v = disk w \<and> ((\<exists>err. m w = (Inl err, v)) \<or> m w = k v))"

lemma guards_self: "guards k k"
  by (auto simp: guards_def)

lemma guards_fail: "guards (fail e) k"
  by (auto simp: guards_def fail_def)

lemma guards_if: "guards m k \<Longrightarrow> guards n k \<Longrightarrow> guards (if b then m else n) k"
  by simp

lemma guards_ecase:
  assumes "db_silent m" "\<And>e. guards (f e) k" "\<And>x. guards (g x) k"
  shows "guards (ecase m f g) k"
  unfolding guards_def
proof
  fix w
  obtain r u where m: "m w = (r, u)" by (cases "m w")
  have "disk u = disk w" using assms(1) m by (rule silent_run)
  then show "\<exists>v. disk v = disk w \<and> ((\<exists>err. ecase m f g w = (Inl err, v)) \<or> ecase m f g w = k v)"
    using assms(2,3) [unfolded guards_def, rule_format, where w = u] m by (cases r) (simp_all add: ecase_def)
qed

lemma guards_ebind: "db_silent m \<Longrightarrow> (\<And>x. guards (g x) k) \<Longrightarrow> guards (ebind m g) k"
  unfolding ebind_def by (rule guards_ecase) (auto simp: guards_fail)

lemma RateLimit_guards: "guards (RateLimit b p l wd next c) (next c)"
  unfolding RateLimit_def Let_def
  by (intro guards_if guards_ecase guards_ebind guards_self guards_fail) (auto intro!: silent_rules)

lemma guards_success:
  assumes "guards m k" "m w = (Inr x, w')"
  obtains v where "k v = (Inr x, w')" "disk v = disk w"
  using assms unfolding guards_def by (metis Inl_Inr_False Pair_inject)

lemma guardsE:
  assumes "guards m k"
  obtains (refused) err v where "m w = (Inl err, v)" "disk v = disk w" | (passed) v where "m w = k v" "disk v = disk w"
  using assms unfolding guards_def by blast

subsection \<open>Refresh tokens\<close>

text \<open>C1: a refresh token that was exchanged for a new one is refused for ever: whatever requests, jobs and
  callbacks any service handles in between, the endpoint answers it with an error and writes nothing.\<close>

theorem refresh_token_single_use:
  assumes "auth_api L h (Refresh (Inr tok)) c w = (Inr resp, w')" "schema_ok (disk w)"
    and "session_by_hash (HashRefreshToken L tok) (disk w) = Some s" "verified_at (s_user_id s) t (disk w)"
    and "system_steps (disk w') (disk v)"
  shows "(\<exists>err. fst (auth_api L h' (Refresh (Inr tok)) c' v) = Inl err)
    \<and> disk (snd (auth_api L h' (Refresh (Inr tok)) c' v)) = disk v"
  using refresh_refused [OF _ assms(2-4) sys_mono.system_keeps [OF assms(5)]] assms(1) by (simp add: auth_api_def)

theorem refresh_token_single_use_witness:
  "\<exists>err. fst (auth_api sample_lib sample_handler (Refresh (Inr ''old'')) sample_request
     (snd (auth_api sample_lib sample_handler (Refresh (Inr ''old'')) sample_request (sample_world sample_db)))) = Inl err"
proof -
  have "\<not> isl (fst (auth_api sample_lib sample_handler (Refresh (Inr ''old'')) sample_request (sample_world sample_db)))"
    by code_simp
  then obtain r w' where "auth_api sample_lib sample_handler (Refresh (Inr ''old'')) sample_request (sample_world sample_db) = (Inr r, w')"
    using run_some by blast
  moreover have "map_option s_user_id (session_by_hash (HashRefreshToken sample_lib ''old'') sample_db) = Some ''alice''"
    "verified_at ''alice'' 0 sample_db" by code_simp+
  ultimately show ?thesis
    using refresh_token_single_use [of sample_lib sample_handler "''old''" sample_request "sample_world sample_db" r w' _ 0 w']
    by (auto simp: sample_world_def sample_schema)
qed

text \<open>C11: logging out is final: once a session was logged out, alone by its token or with all sessions of
  its user, its refresh token is refused for ever, whatever any service does in between.\<close>

theorem logout_is_final:
  assumes "auth_api L h (Logout (Inr tok)) c w = (Inr resp, w') \<or>
      Handler_LogoutAll c w = (Inr resp, w') \<and> TrimSpace (ctx_uid c) = s_user_id s"
    and "schema_ok (disk w)" "session_by_hash (HashRefreshToken L tok) (disk w) = Some s" "verified_at (s_user_id s) t (disk w)"
    and "system_steps (disk w') (disk v)"
  shows "(\<exists>err. fst (auth_api L h' (Refresh (Inr tok)) c' v) = Inl err)
    \<and> disk (snd (auth_api L h' (Refresh (Inr tok)) c' v)) = disk v"
proof -
  have "store_steps (disk w) (disk w')"
    using assms(1) by (auto simp: auth_api_def elim: op_keepsD [OF handler_calls(8)] op_keepsD [OF handler_calls(9)])
  then have "mono_rel (disk w) (disk w')" by (rule mono.store_steps_keep)
  from logout_refused [OF _ assms(2-4) this sys_mono.system_keeps [OF assms(5)]] assms(1)
  show ?thesis by (simp add: auth_api_def)
qed

theorem logout_is_final_witness:
  "(\<exists>err. fst (auth_api sample_lib sample_handler (Refresh (Inr ''old'')) sample_request
     (snd (auth_api sample_lib sample_handler (Logout (Inr ''old'')) sample_request (sample_world sample_db)))) = Inl err)
   \<and> (\<exists>err. fst (auth_api sample_lib sample_handler (Refresh (Inr ''old'')) sample_request
     (snd (Handler_LogoutAll (sample_request\<lparr>ctx_uid := ''alice''\<rparr>) (sample_world sample_db)))) = Inl err)"
proof -
  let ?all = "sample_request\<lparr>ctx_uid := ''alice''\<rparr>" and ?w = "sample_world sample_db"
  have "map_option s_user_id (session_by_hash (HashRefreshToken sample_lib ''old'') sample_db) = Some ''alice''"
    by code_simp
  then obtain s where s: "session_by_hash (HashRefreshToken sample_lib ''old'') sample_db = Some s" "s_user_id s = ''alice''"
    by auto
  have trim: "TrimSpace (ctx_uid ?all) = ''alice''" by code_simp
  have refused: "\<exists>err. fst (auth_api sample_lib sample_handler (Refresh (Inr ''old'')) sample_request w') = Inl err"
    if "auth_api sample_lib sample_handler (Logout (Inr ''old'')) c ?w = (Inr resp, w')
      \<or> Handler_LogoutAll c ?w = (Inr resp, w') \<and> TrimSpace (ctx_uid c) = s_user_id s" for c resp w'
    using logout_is_final [OF that, of 0 w'] s by (simp add: sample_world_simps sample_schema)
  have "\<not> isl (fst (auth_api sample_lib sample_handler (Logout (Inr ''old'')) sample_request ?w))"
    "\<not> isl (fst (Handler_LogoutAll ?all ?w))" by code_simp+
  then obtain r w' r' v where "auth_api sample_lib sample_handler (Logout (Inr ''old'')) sample_request ?w = (Inr r, w')"
    "Handler_LogoutAll ?all ?w = (Inr r', v)"
    using run_some by metis
  with refused [of sample_request r w'] refused [of ?all r' v] trim s(2) show ?thesis by simp
qed

subsection \<open>Magic links\<close>

text \<open>C2: a magic link logs in once: after the redirect, whatever the services do in between, the same token
  from any browser neither redirects nor writes.\<close>

theorem magic_link_logs_in_once:
  assumes "auth_api L h VerifyMagicLink c w = (Inr resp, w')" "Status resp = 302" "schema_ok (disk w)"
    and "system_steps (disk w') (disk v)" "TrimSpace (rq_Query c' ''token'') = TrimSpace (rq_Query c ''token'')"
  shows "disk (snd (auth_api L h' VerifyMagicLink c' v)) = disk v
    \<and> (\<forall>resp. fst (auth_api L h' VerifyMagicLink c' v) = Inr resp \<longrightarrow> Status resp \<noteq> 302)"
proof -
  let ?api = "\<lambda>h c. RateLimit (h_Redis h) ''rl:verify-magic-link'' 60 time_Minute (Handler_VerifyMagicLink L h) c"
  have api: "auth_api L h VerifyMagicLink c = ?api h c" for h c by (simp add: auth_api_def)
  obtain u where u: "Handler_VerifyMagicLink L h c u = (Inr resp, w')" "disk u = disk w"
    using guards_success [OF RateLimit_guards assms(1) [unfolded api]] by metis
  show ?thesis
    unfolding api
  proof (rule guardsE [OF RateLimit_guards])
    fix x assume x: "?api h' c' v = Handler_VerifyMagicLink L h' c' x" "disk x = disk v"
    with assms(4) have "mono_rel (disk w') (disk x)" by (simp add: sys_mono.system_keeps)
    from used_link_rejected [OF u(1) assms(2) _ this assms(5)] u(2) x assms(3)
    show "disk (snd (?api h' c' v)) = disk v \<and> (\<forall>resp. fst (?api h' c' v) = Inr resp \<longrightarrow> Status resp \<noteq> 302)" by simp
  qed simp
qed

definition sample_link :: request where
  "sample_link = sample_request\<lparr>rq_Query := (\<lambda>q. if q = ''token'' then ''tok'' else replicate 32 CHR ''A''),
     rq_Cookie := (\<lambda>n. Some (replicate 32 CHR ''A''))\<rparr>"

theorem magic_link_logs_in_once_witness:
  "disk (snd (auth_api sample_lib sample_handler VerifyMagicLink sample_link
     (snd (auth_api sample_lib sample_handler VerifyMagicLink sample_link (sample_world sample_pending)))))
   = disk (snd (auth_api sample_lib sample_handler VerifyMagicLink sample_link (sample_world sample_pending)))"
proof -
  have "map_sum (\<lambda>_. ()) Status (fst (auth_api sample_lib sample_handler VerifyMagicLink sample_link (sample_world sample_pending))) = Inr 302"
    by code_simp
  then obtain r w' where "auth_api sample_lib sample_handler VerifyMagicLink sample_link (sample_world sample_pending) = (Inr r, w')" "Status r = 302"
    by (cases "auth_api sample_lib sample_handler VerifyMagicLink sample_link (sample_world sample_pending)"; cases "fst (auth_api sample_lib sample_handler VerifyMagicLink sample_link (sample_world sample_pending))") auto
  then show ?thesis
    using magic_link_logs_in_once [of sample_lib sample_handler sample_link "sample_world sample_pending" r w' w'] sample_pending_facts(1)
    by (simp add: sample_world_def)
qed

subsection \<open>Accounts\<close>

text \<open>C9: a verified account is never deleted nor unverified, and the schema holds throughout.\<close>

theorem account_stays_verified:
  assumes "system_steps d d'" "schema_ok d" "verified_at uid t d"
  shows "schema_ok d' \<and> verified_at uid t d'"
  using sys_mono.system_keeps [OF assms(1)] assms(2,3) by (simp add: mono_rel_def)

theorem account_stays_verified_witness:
  "schema_ok (disk (snd (auth_api sample_lib sample_handler (Login (Inr \<lparr>gq_Email = ''A@x'', gq_Password = ''secret12''\<rparr>)) sample_request (sample_world sample_db))))
   \<and> verified_at ''alice'' 0 (disk (snd (auth_api sample_lib sample_handler (Login (Inr \<lparr>gq_Email = ''A@x'', gq_Password = ''secret12''\<rparr>)) sample_request (sample_world sample_db))))"
proof -
  have "system_steps sample_db (disk (snd (auth_api sample_lib sample_handler (Login (Inr \<lparr>gq_Email = ''A@x'', gq_Password = ''secret12''\<rparr>)) sample_request (sample_world sample_db))))"
    by (rule request_steps) (rule sample_world_simps)
  moreover have "verified_at ''alice'' 0 sample_db" by code_simp
  ultimately show ?thesis by (intro account_stays_verified [OF _ sample_schema])
qed



subsection \<open>Suppression\<close>

lemma blacklisted_grows: "blacklist_grows d d' \<Longrightarrow> blacklisted L addr d \<Longrightarrow> blacklisted L addr d'"
  by (auto simp: blacklist_grows_def blacklisted_def has_key_iff image_iff subset_iff) (metis (no_types, lifting))



end
