(* ===== verification/Signup.thy ===== *)
theory Signup
  imports System_Safety
begin

text \<open>
  From the registration request to the activated account, across auth-api, the queue and
  email-worker: the job a registration puts on the queue is a job the worker decodes, it carries the
  code whose hash is stored, and that code activates the account after whatever the worker did.
\<close>

subsection \<open>The queue\<close>

interpretation queues: db_view "\<lambda>w. lists (rds w)"
  by unfold_locales auto

lemma keeps_queues_track: "keeps (\<lambda>w. lists (rds w)) (analytics_Track ev)"
  unfolding analytics_Track_def by (rule queues.keeps_ext) (simp add: keeps_def)

lemma keeps_queues [simp]:
  "keeps (\<lambda>w. lists (rds w)) GenerateOTP" "keeps (\<lambda>w. lists (rds w)) GenerateMagicToken" "keeps (\<lambda>w. lists (rds w)) (RandomToken n)"
  "keeps (\<lambda>w. lists (rds w)) (setMagicLinkStateCookie L c st t)"
  "keeps (\<lambda>w. lists (rds w)) (Store_RegisterWithVerification L e p cost otp mt ex)"
  "keeps (\<lambda>w. lists (rds w)) (trackVerificationRegistrationStarted h u e f)"
  unfolding GenerateOTP_def GenerateMagicToken_def RandomToken_def setMagicLinkStateCookie_def Store_RegisterWithVerification_def
    insertRegisteredUserWithPassword_def createVerificationTx_def createVerificationWithIDsTx_def scan_string_def HashPassword_def
    trackVerificationRegistrationStarted_def Handler_track_def Let_def
  by (intro keeps_rules keeps_option queues.keeps_prims keeps_queues_track keeps_results; simp)+

definition mailed_job :: "lib \<Rightarrow> Handler \<Rightarrow> RegisterWithVerificationResult \<Rightarrow> string \<Rightarrow> string \<Rightarrow> string \<Rightarrow> EmailJob" where
  "mailed_job L h r otp magicToken st =
     \<lparr>ej_RecordID = rw_EmailRecordID r, ej_To = ru_Email (rw_User r), ej_Subject = verificationEmailSubject, ej_HTMLBody = [],
      ej_TextBody = [], ej_OTP = otp, ej_MagicLink = buildMagicLink L (PublicBaseURL h) magicToken st,
      ej_ExpiresIn = formatVerificationExpiresIn (verificationTTL h), ej_ResendIn = formatResendIn resendVerificationWindow, ej_RetryCount = 0\<rparr>"

lemma verification_job_decodes:
  "verification_job L h (rw_EmailRecordID r) (ru_Email (rw_User r)) otp mt st = EmailJob_json (mailed_job L h r otp mt st)"
  by (simp add: verification_job_def emailSendJob_json_def EmailJob_json_def mailed_job_def)

lemma enqueue_job_run:
  "enqueue_job L h j w = (Inr (), w') \<Longrightarrow> lists (rds w') emailQueueName = lists (rds w) emailQueueName @ [json_text L j] \<and> disk w' = disk w"
proof -
  have "TrimSpace emailQueueName \<noteq> []" by code_simp
  then show "enqueue_job L h j w = (Inr (), w') \<Longrightarrow> lists (rds w') emailQueueName = lists (rds w) emailQueueName @ [json_text L j] \<and> disk w' = disk w"
    by (auto simp: enqueue_job_def runs queue_New_def EnqueueContext_run rpush_def split: if_splits)
qed

lemma register_job:
  assumes "Handler_Register L h (Inr req) c w = (Inr resp, w')"
  obtains otp mt st v v' r k where "mail_ParseAddress L (norm_email L (gq_Email req)) \<noteq> None" "otpCodePattern otp"
    "disk v = disk w" "tick w \<le> k"
    "Store_RegisterWithVerification L (norm_email L (gq_Email req)) (gq_Password req) (BcryptCost h) otp mt
       (o_clock (orc w) k + verificationTTL h) v = (Inr r, v')"
    "disk w' = disk v'"
    "lists (rds w') emailQueueName = lists (rds w) emailQueueName @ [json_text L (EmailJob_json (mailed_job L h r otp mt st))]"
proof -
  let ?lists = "\<lambda>w. lists (rds w)"
  obtain otp v1 mt v2 st v3 v4 r v5 v6 ck v7 v8 where ok: "mail_ParseAddress L (norm_email L (gq_Email req)) \<noteq> None"
    and gen: "GenerateOTP w = (Inr otp, v1)" "GenerateMagicToken v1 = (Inr mt, v2)" "RandomToken magicLinkStateByteLen v2 = (Inr st, v3)"
    and v4: "v4 = v3\<lparr>tick := Suc (tick v3)\<rparr>"
    and reg: "Store_RegisterWithVerification L (norm_email L (gq_Email req)) (gq_Password req) (BcryptCost h) otp mt
       (o_clock (orc v3) (tick v3) + verificationTTL h) v4 = (Inr r, v5)"
    and q: "enqueue_job L h (verification_job L h (rw_EmailRecordID r) (ru_Email (rw_User r)) otp mt st) v5 = (Inr (), v6)"
    and ck: "setMagicLinkStateCookie L c st (o_clock (orc v3) (tick v3) + verificationTTL h) v6 = (Inr ck, v7)"
    and tr: "trackVerificationRegistrationStarted h (ru_ID (rw_User r)) (ru_Email (rw_User r)) ''register'' v7 = (Inr (), v8)" "w' = v8"
    using assms by (auto simp: Handler_Register_unfold register_notify_def runs bad_def undo_registration_def split: if_splits)
  have v3: "v3 = w\<lparr>tick := Suc (Suc (Suc (tick w)))\<rparr>" and otp: "otp = pad_decimal 6 (o_int (orc w) (tick w) mod 1000000)"
    using gen by (auto simp: GenerateOTP_def GenerateMagicToken_def RandomToken_def runs)
  have "otpCodePattern otp"
    using length_pad_decimal [of "o_int (orc w) (tick w) mod 1000000" 6] by (simp add: otp otpCodePattern_def pad_decimal_digits)
  moreover have "disk w' = disk v5"
    using enqueue_job_run [OF q] silent_run [OF db_silent_handler(5) ck] silent_run [OF db_silent_handler(2) tr(1)] tr(2) by simp
  moreover have "lists (rds w') emailQueueName = lists (rds w) emailQueueName @ [json_text L (EmailJob_json (mailed_job L h r otp mt st))]"
    using enqueue_job_run [OF q] keeps_pairD [OF keeps_queues(4) ck] keeps_pairD [OF keeps_queues(6) tr(1)]
      keeps_pairD [OF keeps_queues(5) reg] tr(2) by (simp add: v4 v3 verification_job_decodes)
  ultimately show ?thesis
    using that [of otp v4 "Suc (Suc (Suc (tick w)))" mt r v5 st] ok reg v4 v3 by simp
qed

subsection \<open>The code in the mail\<close>

lemma pending_code_verifies:
  assumes "pending_otp addr (disk v) = Some ev" "v_token_hash ev = HashToken L otp" "v_attempts ev = 0" "now < v_expires_at ev"
    and "\<exists>u \<in> set (users (disk v)). u_id u = v_user_id ev \<and> u_email_verified_at u = None" "no_faults (orc v)"
  shows "fst (Store_VerifyEmailOTP L addr otp now v) = Inr True"
  using assms by (auto simp: Store_VerifyEmailOTP_def proc_defs Let_def maxOTPVerificationAttempts_def
      mark_verified_def activate_user_def affected_pos)

lemma otp_trimmed: "otpCodePattern otp \<Longrightarrow> TrimSpace otp = otp"
  by (rule TrimSpace_visible) (auto simp: otpCodePattern_def visible_def list_all_iff is_digit_def)

text \<open>What \<open>Handler_VerifyEmail\<close> does after a success is not visible in the answer or the database.\<close>

definition track_activation :: "Handler \<Rightarrow> string \<Rightarrow> bool \<Rightarrow> (db, unit) proc" where
  "track_activation h emailAddr activatedNow =
     (if activatedNow \<and> h_Analytics h
      then ecase (Store_LookupAnalyticsUserByEmail emailAddr) (\<lambda>_. ok ()) (\<lambda>user.
           ebind time_Now (\<lambda>ts.
           Handler_track h \<lparr>ev_Name = ''account_activated'', ev_UserID = au_UserID user,
             ev_Email = au_Email user, ev_Timestamp = ts, ev_Properties = [(''method'', JStr ''otp'')]\<rparr>))
      else ok ())"

lemma track_activation_run: "\<exists>x. track_activation h e b w = (Inr (), x) \<and> disk x = disk w"
proof -
  have "db_silent (track_activation h e b)"
    unfolding track_activation_def by (auto intro!: silent_rules)
  moreover have "fst (track_activation h e b w) = Inr ()"
    by (auto simp: track_activation_def Handler_track_def ecase_def ebind_def ok_def fail_def time_Now_def split: prod.split sum.split)
  ultimately show ?thesis by (metis db_silentD prod.collapse)
qed

lemma Handler_VerifyEmail_unfold:
  "Handler_VerifyEmail L h (Inr req) c =
     (if mail_ParseAddress L (norm_email L (vq_Email req)) = None then bad ''invalid_email''
      else if \<not> otpCodePattern (TrimSpace (vq_OTP req)) then otp_rejected h (norm_email L (vq_Email req)) (New ''invalid_otp'') ''invalid_otp''
      else
        ebind time_Now (\<lambda>now.
        ecase (Store_VerifyEmailOTP L (norm_email L (vq_Email req)) (TrimSpace (vq_OTP req)) now)
          (\<lambda>err. if errors_Is err ErrInvalidVerificationOTP then otp_rejected h (norm_email L (vq_Email req)) err ''invalid_otp''
                  else if errors_Is err ErrVerificationExpired then otp_rejected h (norm_email L (vq_Email req)) err ''expired_otp''
                  else if errors_Is err ErrTooManyOTPAttempts then otp_rejected h (norm_email L (vq_Email req)) err ''too_many_attempts''
                  else fail err) (\<lambda>activatedNow.
        ebind (track_activation h (norm_email L (vq_Email req)) activatedNow) (\<lambda>_.
        ok (resp_OK (ctx_request_id c) (JObj [(''message'', JStr ''Email verified successfully'')]))))))"
  unfolding Handler_VerifyEmail_def bindJSON_def norm_email_def track_activation_def Let_def sum.case by (rule refl)

lemma VerifyEmail_after_store:
  assumes "mail_ParseAddress L (norm_email L e) \<noteq> None" "otpCodePattern otp"
    and "fst (Store_VerifyEmailOTP L (norm_email L e) otp (o_clock (orc v) (tick v)) (v\<lparr>tick := Suc (tick v)\<rparr>)) = Inr b"
  shows "\<exists>x. Store_VerifyEmailOTP L (norm_email L e) otp (o_clock (orc v) (tick v)) (v\<lparr>tick := Suc (tick v)\<rparr>) = (Inr b, x)
    \<and> fst (Handler_VerifyEmail L h (Inr \<lparr>vq_Email = e, vq_OTP = otp\<rparr>) c v)
        = Inr (resp_OK (ctx_request_id c) (JObj [(''message'', JStr ''Email verified successfully'')]))
    \<and> disk (snd (Handler_VerifyEmail L h (Inr \<lparr>vq_Email = e, vq_OTP = otp\<rparr>) c v)) = disk x"
proof -
  obtain x where x: "Store_VerifyEmailOTP L (norm_email L e) otp (o_clock (orc v) (tick v)) (v\<lparr>tick := Suc (tick v)\<rparr>) = (Inr b, x)"
    using assms(3) by (metis prod.collapse)
  obtain y where y: "track_activation h (norm_email L e) b x = (Inr (), y)" "disk y = disk x" using track_activation_run by blast
  have "Handler_VerifyEmail L h (Inr \<lparr>vq_Email = e, vq_OTP = otp\<rparr>) c v =
      (Inr (resp_OK (ctx_request_id c) (JObj [(''message'', JStr ''Email verified successfully'')])), y)"
    using assms(1,2) x y(1)
    by (auto simp: Handler_VerifyEmail_unfold otp_trimmed ebind_def ecase_def time_Now_def ok_def)
  then show ?thesis using x y(2) by simp
qed

text \<open>C4: registering works end to end. When the registration request is accepted, the mail queue has
  grown by exactly one job; the worker decodes it to a first attempt addressed to the registered
  address; and the code in it, typed in with the address before it expires, verifies the account,
  whatever the worker did with the mail in the meantime, as long as nothing fails during the check
  itself.\<close>

theorem registration_end_to_end:
  assumes "Handler_Register L h (Inr req) c w = (Inr resp, w')" "schema_ok (disk w)"
  shows "\<exists>job ev k. lists (rds w') emailQueueName = lists (rds w) emailQueueName @ [json_text L (EmailJob_json job)]
    \<and> EmailJob_of_json L (EmailJob_json job) = Inr job \<and> ej_RetryCount job = 0 \<and> ej_To job = norm_email L (gq_Email req)
    \<and> ev \<in> set (verifications (disk w')) \<and> v_expires_at ev = pg_ts (o_clock (orc w) k + verificationTTL h) \<and> tick w \<le> k
    \<and> (\<forall>v h' c'. worker_steps (disk w') (disk v) \<and> no_faults (orc v) \<and> o_clock (orc v) (tick v) < v_expires_at ev \<longrightarrow>
         fst (Handler_VerifyEmail L h' (Inr \<lparr>vq_Email = gq_Email req, vq_OTP = ej_OTP job\<rparr>) c' v)
           = Inr (resp_OK (ctx_request_id c') (JObj [(''message'', JStr ''Email verified successfully'')]))
         \<and> (\<exists>t. verified_at (v_user_id ev) t (disk (snd (Handler_VerifyEmail L h' (Inr \<lparr>vq_Email = gq_Email req, vq_OTP = ej_OTP job\<rparr>) c' v)))))"
proof -
  let ?addr = "norm_email L (gq_Email req)"
  obtain otp mt st x x' r k where ok: "mail_ParseAddress L ?addr \<noteq> None" "otpCodePattern otp" and x: "disk x = disk w" "tick w \<le> k"
    and reg: "Store_RegisterWithVerification L ?addr (gq_Password req) (BcryptCost h) otp mt (o_clock (orc w) k + verificationTTL h) x = (Inr r, x')"
    and w': "disk w' = disk x'"
    and q: "lists (rds w') emailQueueName = lists (rds w) emailQueueName @ [json_text L (EmailJob_json (mailed_job L h r otp mt st))]"
    using assms(1) by (rule register_job)
  have schema: "schema_ok (disk x)" using assms(2) x by simp
  obtain ev where ev: "pending_otp ?addr (disk w') = Some ev" "v_token_hash ev = HashToken L otp" "v_user_id ev = ru_ID (rw_User r)"
    "v_attempts ev = 0" "v_expires_at ev = pg_ts (o_clock (orc w) k + verificationTTL h)"
    and u: "\<exists>u \<in> set (users (disk w')). u_id u = v_user_id ev \<and> u_email_verified_at u = None"
    using registered_pending [OF reg schema] w' by (metis insertI1)
  let ?job = "mailed_job L h r otp mt st"
  have to: "ej_To ?job = ?addr" using register_run [OF reg] by (metis mailed_job_def EmailJob.select_convs(2) RegisteredUser.select_convs(2))
  have later: "fst (Handler_VerifyEmail L h' (Inr \<lparr>vq_Email = gq_Email req, vq_OTP = otp\<rparr>) c' v)
           = Inr (resp_OK (ctx_request_id c') (JObj [(''message'', JStr ''Email verified successfully'')]))
         \<and> (\<exists>t. verified_at (v_user_id ev) t (disk (snd (Handler_VerifyEmail L h' (Inr \<lparr>vq_Email = gq_Email req, vq_OTP = otp\<rparr>) c' v))))"
    if v: "worker_steps (disk w') (disk v)" "no_faults (orc v)" "o_clock (orc v) (tick v) < v_expires_at ev" for v h' c'
  proof -
    let ?v = "v\<lparr>tick := Suc (tick v)\<rparr>"
    have same: "users (disk v) = users (disk w')" "verifications (disk v) = verifications (disk w')"
      using worker_steps_frame [OF v(1)] by simp_all
    have pend: "pending_otp ?addr (disk ?v) = Some ev" using ev(1) by (simp add: pending_otp_def same)
    then have "fst (Store_VerifyEmailOTP L ?addr otp (o_clock (orc v) (tick v)) ?v) = Inr True"
      by (rule pending_code_verifies) (use ev(2,4) u v(2,3) in \<open>simp_all add: same\<close>)
    from VerifyEmail_after_store [OF ok this, of h' c'] obtain y where
      y: "Store_VerifyEmailOTP L ?addr otp (o_clock (orc v) (tick v)) ?v = (Inr True, y)"
      and run: "fst (Handler_VerifyEmail L h' (Inr \<lparr>vq_Email = gq_Email req, vq_OTP = otp\<rparr>) c' v)
           = Inr (resp_OK (ctx_request_id c') (JObj [(''message'', JStr ''Email verified successfully'')]))"
        "disk (snd (Handler_VerifyEmail L h' (Inr \<lparr>vq_Email = gq_Email req, vq_OTP = otp\<rparr>) c' v)) = disk y" by blast
    obtain t where "disk y = activated ev t (disk ?v)" using otp_run [OF y] pend by (metis option.inject)
    moreover have "schema_ok (disk ?v)"
      using assms(2) op_keepsD [OF handler_calls(2) assms(1)] v(1) sys_mono.system_keeps steps_system by (simp add: mono_rel_def) blast
    ultimately show ?thesis using run activated_verifies(1) pending_otpD [OF pend] by metis
  qed
  show ?thesis
    by (intro exI [of _ ?job] exI [of _ ev] exI [of _ k] conjI q EmailJob_roundtrip to x(2) ev(5) allI impI)
      (use ev(1) later in \<open>auto simp: mailed_job_def dest: pending_otpD\<close>)
qed

theorem registration_end_to_end_witness:
  "\<exists>job. lists (rds (snd (Handler_Register sample_lib sample_handler (Inr \<lparr>gq_Email = ''B@x'', gq_Password = ''secret12''\<rparr>) sample_request
       (sample_world sample_db)))) emailQueueName = [json_text sample_lib (EmailJob_json job)] \<and> ej_To job = ''b@x'' \<and> ej_RetryCount job = 0"
proof -
  let ?req = "\<lparr>gq_Email = ''B@x'', gq_Password = ''secret12''\<rparr>"
  have "\<not> isl (fst (Handler_Register sample_lib sample_handler (Inr ?req) sample_request (sample_world sample_db)))" by code_simp
  then obtain r w' where run: "Handler_Register sample_lib sample_handler (Inr ?req) sample_request (sample_world sample_db) = (Inr r, w')"
    using run_some by blast
  have "norm_email sample_lib (gq_Email ?req) = ''b@x''" by code_simp
  then show ?thesis
    using registration_end_to_end [OF run] run sample_schema by auto
qed

end
