(* ===== verification/Session_Life.thy ===== *)
theory Session_Life
  imports System_Safety
begin

text \<open>
  What a login is good for: the tokens it returns are accepted by the endpoints they are meant for, until they
  expire. The clocks of the two requests are related by \<open>in_time\<close>: the later one is not behind the earlier one
  and reads at least a second before the lifetime is over (the claims of a token are in whole
  seconds, a row in whole microseconds).
\<close>

definition in_time :: "'d world \<Rightarrow> 'd world \<Rightarrow> 'd world \<Rightarrow> int \<Rightarrow> bool" where
  "in_time w w' v ttl \<longleftrightarrow> (\<forall>s t. tick w \<le> s \<longrightarrow> s < tick w' \<longrightarrow> tick v \<le> t \<longrightarrow> t \<le> tick v + 4 \<longrightarrow>
     o_clock (orc w) s \<le> o_clock (orc v) t \<and> o_clock (orc v) t + 1000000000 \<le> o_clock (orc w) s + ttl)"

text \<open>Signing with a secret does not fail.\<close>

definition jwt_signs :: "lib \<Rightarrow> bool" where
  "jwt_signs L \<longleftrightarrow> (\<forall>c secret. \<exists>tok. jwt_SignedString L ''HS256'' c secret = Inr tok)"

subsection \<open>From the request to the tokens\<close>

lemma RateLimit_passes:
  assumes "RateLimit b p l wd next c w = (Inr x, w')"
  obtains v where "next c v = (Inr x, w')" "disk v = disk w" "orc v = orc w" "tick w \<le> tick v"
proof -
  have "\<exists>v. next c v = (Inr x, w') \<and> disk v = disk w \<and> orc v = orc w \<and> tick w \<le> tick v"
    using assms
    by (auto simp: RateLimit_def Let_def client_Expire_def redis_Incr_def redis_Expire_def ebind_def ecase_def ext_def ok_def fail_def
        split: if_splits prod.splits sum.splits)
  then show ?thesis using that by blast
qed

lemma issueTokens_times:
  assumes "Handler_issueTokens L h uid [] ua ip w = (Inr (at, rt), w')"
  obtains v1 where "SignAccessToken L (JWTSecret h) (JWTIssuer h) (JWTAudience h) uid None (AccessTTL h) w = (Inr at, v1)"
    "\<exists>s \<in> set (sessions (disk w')). s_user_id s = uid \<and> s_token_hash s = HashRefreshToken L rt \<and> s_revoked_at s = None
       \<and> s_expires_at s = pg_ts (o_clock (orc w) (tick w + 2) + RefreshTTL h)"
    "tick w' = tick w + 5"
proof -
  obtain v1 v2 where v: "SignAccessToken L (JWTSecret h) (JWTIssuer h) (JWTAudience h) uid None (AccessTTL h) w = (Inr at, v1)"
    "RandomToken 32 v1 = (Inr rt, v2)"
    "Store_SaveRefreshSession L rt uid (o_clock (orc v2) (tick v2) + RefreshTTL h) ua ip (v2\<lparr>tick := Suc (tick v2)\<rparr>) = (Inr (), w')"
    using assms by (auto simp: Handler_issueTokens_def Let_def TrimSpace_def runs)
  have v1: "v1 = w\<lparr>tick := Suc (tick w)\<rparr>" using v(1) by (auto simp: SignAccessToken_def jwt_Sign_def Let_def runs)
  have v2: "v2 = v1\<lparr>tick := Suc (tick v1)\<rparr>" using v(2) by (auto simp: RandomToken_def runs)
  from v(3) show ?thesis
    by (intro that [OF v(1)]) (auto simp: v1 v2 Store_SaveRefreshSession_def HashRefreshToken_def runs insert_iff numeral_eq_Suc)
qed

lemma login_issues:
  assumes "auth_api L h (Login (Inr req)) c w = (Inr resp, w')"
  obtains uid addr at rt v v' where
    "resp = resp_OK (ctx_request_id c) (LoginResponse at (wholeSeconds (AccessTTL h)) rt (wholeSeconds (RefreshTTL h)) (UserSummary uid addr))"
    "Handler_issueTokens L h uid [] (rq_Header c ''User-Agent'') (rq_ClientIP c) v = (Inr (at, rt), v')"
    "orc v = orc w" "tick w \<le> tick v" "tick v' \<le> tick w'" "disk w' = disk v'"
proof -
  let ?e = "norm_email L (gq_Email req)"
  obtain u where u: "Handler_Login L h (Inr req) c u = (Inr resp, w')" "orc u = orc w" "tick w \<le> tick u"
    using assms by (auto simp: auth_api_def elim: RateLimit_passes)
  obtain u1 where lim: "Handler_isLoginRateLimited h (login_key c ?e) u = (Inr False, u1)" and run: "login_user L h req c ?e u1 = (Inr resp, w')"
    using u(1) by (auto simp: Handler_Login_unfold bad_def run_ebind run_pure split: if_splits)
  have u1: "orc u1 = orc u" "tick u \<le> tick u1"
    using lim by (auto simp: Handler_isLoginRateLimited_def ecase_def redis_Get_def ext_def ok_def fail_def split: if_splits option.splits sum.splits)
  obtain uid addr where "login_grant L h c ?e uid addr (u1\<lparr>tick := Suc (tick u1)\<rparr>) = (Inr resp, w')"
    using run by (auto simp: login_user_def run_ecase run_ebind run_pure GetLoginUser_run split: if_splits)
  then obtain at rt v' where it: "Handler_issueTokens L h uid [] (rq_Header c ''User-Agent'') (rq_ClientIP c) (u1\<lparr>tick := Suc (tick u1)\<rparr>) = (Inr (at, rt), v')"
    and rest: "(if h_Redis h then ecase (redis_Del (login_key c ?e)) (\<lambda>_. ok ()) (\<lambda>_. ok ()) else ok ()) v' = (Inr (), w')"
    and resp: "resp = resp_OK (ctx_request_id c) (LoginResponse at (wholeSeconds (AccessTTL h)) rt (wholeSeconds (RefreshTTL h)) (UserSummary uid addr))"
    by (auto simp: login_grant_def run_ebind run_pure)
  have "tick v' \<le> tick w'" "disk w' = disk v'"
    using rest by (auto simp: ecase_def redis_Del_def ext_def ok_def split: if_splits)
  then show ?thesis using that [OF resp it] u u1 by simp
qed

subsection \<open>From the tokens to the answers\<close>

lemma in_timeD:
  assumes "in_time w w' v ttl" "tick w \<le> s" "s < tick w'" "tick v \<le> t" "t \<le> tick v + 4"
  shows "o_clock (orc w) s \<le> o_clock (orc v) t" "o_clock (orc v) t < (o_clock (orc w) s + ttl) div 1000000000 * 1000000000"
    "o_clock (orc v) t \<le> pg_ts (o_clock (orc w) s + ttl)"
proof -
  let ?x = "o_clock (orc w) s + ttl"
  have le: "o_clock (orc w) s \<le> o_clock (orc v) t" "o_clock (orc v) t + 1000000000 \<le> ?x"
    using assms by (auto simp: in_time_def)
  then show "o_clock (orc w) s \<le> o_clock (orc v) t" by simp
  have "?x div 1000000000 * 1000000000 = ?x - ?x mod 1000000000" "?x mod 1000000000 < 1000000000"
    by (simp_all add: minus_mod_eq_div_mult)
  then show "o_clock (orc v) t < ?x div 1000000000 * 1000000000" using le by linarith
  show "o_clock (orc v) t \<le> pg_ts ?x" using le pos_mod_bound [of 1000 ?x] unfolding pg_ts_def by linarith
qed

lemma refresh_succeeds:
  assumes "no_faults (orc v)" "jwt_signs L" "schema_ok (disk v)"
    and "session_by_hash (HashRefreshToken L rt) (disk v) = Some s" "s_revoked_at s = None" "o_clock (orc v) (tick v + 4) \<le> s_expires_at s"
    and "o_uuid (orc v) (tick v + 5) \<notin> s_id ` set (sessions (disk v))"
    and "HashRefreshToken L (b64_encode (map (o_byte (orc v) (tick v)) [0..<32])) \<notin> s_token_hash ` set (sessions (disk v))"
  shows "\<exists>resp v'. auth_api L h (Refresh (Inr rt)) c v = (Inr resp, v')"
proof -
  let ?rt = "b64_encode (map (o_byte (orc v) (tick v)) [0..<32])" and ?v = "v\<lparr>tick := Suc (Suc (tick v))\<rparr>"
  have ticks: "tick v + 4 = tick ?v + 2" "tick v + 5 = tick ?v + 3" by simp_all
  have "fst (Store_RotateRefreshToken L rt ?rt ex ?v) = Inr (s_user_id s, [])" for ex
    by (rule rotate_succeeds) (use assms(1,3-8) [unfolded ticks] in \<open>simp_all del: upt_rec_numeral\<close>)
  then obtain v' where rot: "Store_RotateRefreshToken L rt ?rt (o_clock (orc v) (Suc (tick v)) + RefreshTTL h) ?v = (Inr (s_user_id s, []), v')"
    by (metis prod.collapse)
  moreover have "RandomToken 32 v = (Inr ?rt, v\<lparr>tick := Suc (tick v)\<rparr>)"
    using assms(1) by (simp add: RandomToken_def rand_Read_def ebind_def ecase_def ext_def ok_def)
  moreover obtain at v'' where "SignAccessToken L (JWTSecret h) (JWTIssuer h) (JWTAudience h) (s_user_id s) None (AccessTTL h) v' = (Inr at, v'')"
    using assms(2) by (auto simp: jwt_signs_def SignAccessToken_def jwt_Sign_def ebind_def ecase_def time_Now_def of_result_def)
  ultimately show ?thesis
    by (auto simp: auth_api_def Handler_Refresh_def bindJSON_def ebind_def ecase_def time_Now_def ok_def)
qed


definition sample_login :: api_call where
  "sample_login = Login (Inr \<lparr>gq_Email = ''A@x'', gq_Password = ''secret12''\<rparr>)"

definition sample_after :: "db \<Rightarrow> db world" where
  "sample_after d = (sample_world d)\<lparr>orc := sample_orc\<lparr>o_uuid := (\<lambda>t. ''other''), o_byte := (\<lambda>t i. CHR ''z'')\<rparr>\<rparr>"

lemma sample_login_run:
  "(let r = auth_api sample_lib sample_handler sample_login sample_request (sample_world sample_db);
        d = disk (snd r)
    in (isl (fst r), list_all (\<lambda>s. s_id s \<noteq> ''other'') (sessions d),
        list_all (\<lambda>s. s_token_hash s \<noteq> HashRefreshToken sample_lib (b64_encode (replicate 32 (CHR ''z'')))) (sessions d))) = (False, True, True)"
  by code_simp


end
