(* ===== verification/Replies.thy ===== *)
theory Replies
  imports System
begin

text \<open>
  What a program can answer. \<open>returns P Q m\<close>: an error of \<open>m\<close> satisfies \<open>P\<close> and a value of \<open>m\<close>
  satisfies \<open>Q\<close>. The locale \<open>error_class\<close> is the contract of a class of errors that holds the errors
  the services build and is closed under the ways they wrap them; its lemmas say that every store
  method, helper and endpoint of auth-api and admin-api stays inside the class. It is interpreted
  on the errors the error middleware turns into a documented answer.
\<close>

definition returns :: "(go_error \<Rightarrow> bool) \<Rightarrow> ('a \<Rightarrow> bool) \<Rightarrow> ('d, 'a) proc \<Rightarrow> bool" where
  "returns P Q m \<longleftrightarrow> (\<forall>w. case fst (m w) of Inl e \<Rightarrow> P e | Inr x \<Rightarrow> Q x)"

abbreviation fails_in :: "(go_error \<Rightarrow> bool) \<Rightarrow> ('d, 'a) proc \<Rightarrow> bool" where
  "fails_in P \<equiv> returns P (\<lambda>_. True)"

lemma returns_errorD: "returns P Q m \<Longrightarrow> m w = (Inl e, w') \<Longrightarrow> P e"
  and returns_valueD: "returns P Q m \<Longrightarrow> m w = (Inr x, w') \<Longrightarrow> Q x"
  unfolding returns_def by (metis fst_conv sum.case)+

lemma returns_pure [simp]:
  "returns P Q (ok x) \<longleftrightarrow> Q x" "returns P Q (fail e) \<longleftrightarrow> P e" "fails_in P time_Now" "fails_in P uuid_NewString"
  "returns P Q (of_result r) \<longleftrightarrow> (case r of Inl e \<Rightarrow> P e | Inr x \<Rightarrow> Q x)"
  by (auto simp: returns_def ok_def fail_def time_Now_def uuid_NewString_def of_result_def)

lemma returns_ecase:
  assumes "returns P' Q' m" "\<And>e. P' e \<Longrightarrow> returns P Q (h e)" "\<And>x. Q' x \<Longrightarrow> returns P Q (k x)"
  shows "returns P Q (ecase m h k)"
  unfolding returns_def
proof
  fix w
  obtain r w' where m: "m w = (r, w')" by (cases "m w")
  show "case fst (ecase m h k w) of Inl e \<Rightarrow> P e | Inr x \<Rightarrow> Q x"
  proof (cases r)
    case (Inl e)
    then have "P' e" using returns_errorD [OF assms(1)] m by simp
    from assms(2) [OF this] show ?thesis using m Inl by (simp add: ecase_def returns_def)
  next
    case (Inr x)
    then have "Q' x" using returns_valueD [OF assms(1)] m by simp
    from assms(3) [OF this] show ?thesis using m Inr by (simp add: ecase_def returns_def)
  qed
qed

text \<open>The syntax-directed rules: of a step before the last one only the class of its errors matters.\<close>

lemma returns_try: "fails_in P m \<Longrightarrow> (\<And>e. P e \<Longrightarrow> returns P Q (h e)) \<Longrightarrow> (\<And>x. returns P Q (k x)) \<Longrightarrow> returns P Q (ecase m h k)"
  by (rule returns_ecase)

lemma returns_ebind: "fails_in P m \<Longrightarrow> (\<And>x. returns P Q (k x)) \<Longrightarrow> returns P Q (ebind m k)"
  unfolding ebind_def by (rule returns_try) auto

lemma returns_if: "(b \<Longrightarrow> returns P Q m) \<Longrightarrow> (\<not> b \<Longrightarrow> returns P Q n) \<Longrightarrow> returns P Q (if b then m else n)"
  by simp

lemma returns_prod: "(\<And>a b. returns P Q (m a b)) \<Longrightarrow> returns P Q (case x of (a, b) \<Rightarrow> m a b)"
  by (cases x) simp

lemma returns_option: "returns P Q m \<Longrightarrow> (\<And>x. returns P Q (k x)) \<Longrightarrow> returns P Q (case o' of None \<Rightarrow> m | Some x \<Rightarrow> k x)"
  by (cases o') auto

lemma returns_sum: "(\<And>e. r = Inl e \<Longrightarrow> returns P Q (m e)) \<Longrightarrow> (\<And>x. r = Inr x \<Longrightarrow> returns P Q (k x)) \<Longrightarrow>
    returns P Q (case r of Inl e \<Rightarrow> m e | Inr x \<Rightarrow> k x)"
  by (cases r) auto

lemma returns_any: "returns (\<lambda>_. True) (\<lambda>_. True) m"
  by (simp add: returns_def split: sum.split)

lemma returns_ignored: "fails_in P (ecase m (\<lambda>_. ok ()) (\<lambda>_. ok ()))"
  by (rule returns_ecase [OF returns_any]) simp_all

lemma case_res_of_option [simp]:
  "(case res_of_option e o' of Inl x \<Rightarrow> f x | Inr x \<Rightarrow> g x) = (case o' of None \<Rightarrow> f e | Some x \<Rightarrow> g x)"
  by (cases o') auto

lemma returns_ext: "P e \<Longrightarrow> (\<And>t. returns P Q (f t)) \<Longrightarrow> returns P Q (ext e f)"
  by (simp add: returns_def ext_def)

lemma returns_tx: "P db_error \<Longrightarrow> returns P Q m \<Longrightarrow> returns P Q (run_tx m)"
  unfolding run_tx_def
proof (rule returns_ebind)
  assume P: "P db_error" and m: "returns P Q m"
  show "fails_in P tx_begin" unfolding tx_begin_def using P by (intro returns_ext) (simp_all add: returns_def)
  show "returns P Q (\<lambda>w. case m w of (r, w') \<Rightarrow> (r, w'\<lparr>work := disk w'\<rparr>))" for x :: unit
    using m by (simp add: returns_def split_beta)
qed

lemmas returns_rules = returns_ebind returns_try returns_if returns_prod returns_option returns_sum

subsection \<open>Classes of errors\<close>

text \<open>The errors of the libraries the endpoints pass on.\<close>

definition lib_fails_in :: "(go_error \<Rightarrow> bool) \<Rightarrow> lib \<Rightarrow> bool" where
  "lib_fails_in P L \<longleftrightarrow>
     (\<forall>salt pw cost e. bcrypt_hash L salt pw cost = Inl e \<longrightarrow> P e) \<and>
     (\<forall>alg c secret e. jwt_SignedString L alg c secret = Inl e \<longrightarrow> P e)"

definition enforcer_fails_in :: "(go_error \<Rightarrow> bool) \<Rightarrow> enforcer \<Rightarrow> bool" where
  "enforcer_fails_in P Enforce \<longleftrightarrow> (\<forall>role td obj act e. Enforce role td obj act = Inl e \<longrightarrow> P e)"

definition constructors :: "(go_error \<Rightarrow> app_error) set" where
  "constructors = {BadRequest, Unauthorized, \<lambda>e. Forbidden (Some e), NotFound, Conflict, RateLimited}"

text \<open>What an endpoint writes itself: a JSON envelope with the identifier of the request and code zero, one of
  the pages of the magic link, or its redirect.\<close>

definition accepted :: "string \<Rightarrow> response \<Rightarrow> bool" where
  "accepted rid r \<longleftrightarrow> (case Body r of
       Json e \<Rightarrow> env_RequestID e = rid \<and> env_Code e = 0 \<and> Status r \<in> {200, 201, 202}
     | Html _ \<Rightarrow> Status r \<in> {200, 400, 410}
     | Redirect _ \<Rightarrow> Status r = 302)"

lemma accepted_simps [simp]:
  "accepted rid (resp_OK rid d)" "accepted (ctx_request_id c) (json_response st c msg d cs) \<longleftrightarrow> st \<in> {200, 201, 202}"
  "accepted rid (renderMagicLinkPage st title msg) \<longleftrightarrow> st \<in> {200, 400, 410}"
  "accepted rid \<lparr>Status = 302, Body = Redirect u, Cookies = cs\<rparr>"
  by (simp_all add: accepted_def resp_OK_def json_response_def renderMagicLinkPage_def Let_def)

text \<open>The errors of a body that could not be bound.\<close>

definition bound_in :: "(go_error \<Rightarrow> bool) \<Rightarrow> (go_error, 'a) result \<Rightarrow> bool" where
  "bound_in P b \<longleftrightarrow> (\<forall>e. b = Inl e \<longrightarrow> P e)"

lemma bound_in_simps [simp]: "bound_in P (Inl e) \<longleftrightarrow> P e" "bound_in P (Inr x)"
  by (simp_all add: bound_in_def)

fun call_in :: "(go_error \<Rightarrow> bool) \<Rightarrow> api_call \<Rightarrow> bool" where
  "call_in P (Bootstrap b) = bound_in P b"
| "call_in P (Register b) = bound_in P b"
| "call_in P (ResendVerification b) = bound_in P b"
| "call_in P (VerifyEmail b) = bound_in P b"
| "call_in P (Login b) = bound_in P b"
| "call_in P (Refresh b) = bound_in P b"
| "call_in P (Logout b) = bound_in P b"
| "call_in P (SwitchTenant b) = bound_in P b"
| "call_in P VerifyMagicLink = True"
| "call_in P LogoutAll = True"

fun admin_call_in :: "(go_error \<Rightarrow> bool) \<Rightarrow> admin_call \<Rightarrow> bool" where
  "admin_call_in P (AddMember b) = bound_in P b"
| "admin_call_in P (UpdateMemberRole b) = bound_in P b"
| "admin_call_in P _ = True"

locale error_class =
  fixes P :: "go_error \<Rightarrow> bool"
  assumes P_base: "P (Sentinel p m)" "P (New m)" "P ErrNoRows" "P RedisNil" "P (PgError q)" "P (LibError m)"
    and P_wrap: "P e \<Longrightarrow> P (Wrap p e s)"
    and P_app: "f \<in> constructors \<Longrightarrow> P e \<Longrightarrow> P (App (f e)) \<and> P (App (WithData (f e) d))"
    and P_denied: "P (App (WithData (Forbidden None) d))"
begin

lemma P_errors: "P db_error" "P redis_error" "P scan_null" "P unique_violation" "P fk_violation" "P check_violation"
  by (simp_all add: db_error_def redis_error_def scan_null_def pg_error_defs P_base)

lemma P_apps:
  assumes "P e"
  shows "P (App (BadRequest e))" "P (App (Unauthorized e))" "P (App (Forbidden (Some e)))" "P (App (NotFound e))"
    "P (App (Conflict e))" "P (App (RateLimited e))"
    "P (App (WithData (BadRequest e) d))" "P (App (WithData (Unauthorized e) d))" "P (App (WithData (Forbidden (Some e)) d))"
    "P (App (WithData (NotFound e) d))" "P (App (WithData (Conflict e) d))" "P (App (WithData (RateLimited e) d))"
  using P_app [OF _ assms] by (auto simp: constructors_def)

lemmas P_simps = P_base P_errors P_wrap P_apps P_denied

lemma fails_queries: "fails_in P (tx_query q)" "fails_in P (pool_query q)" "fails_in P tx_commit"
  "fails_in P (rand_Read n)" "fails_in P (rand_Int k)"
  "fails_in P (redis_Incr s)" "fails_in P (redis_Expire s i)" "fails_in P (redis_Get s)" "fails_in P (redis_Del s)"
  "fails_in P (redis_RPush s v)" "fails_in P (analytics_Track ev)"
  unfolding tx_query_def pool_query_def tx_commit_def rand_Read_def rand_Int_def redis_Incr_def redis_Expire_def
    redis_Get_def redis_Del_def redis_RPush_def analytics_Track_def
  by (rule returns_ext; auto simp: returns_def P_simps Let_def split: option.splits prod.splits)+

lemma fails_stmts:
  assumes "\<And>t d e. g t d = Inl e \<Longrightarrow> P e"
  shows "fails_in P (tx_exec g)" "fails_in P (pool_exec g)"
  unfolding tx_exec_def pool_exec_def
  by (rule returns_ext; auto simp: returns_def P_simps split: sum.splits prod.splits dest: assms)+

subsection \<open>The store of auth-api\<close>

lemma fails_lib:
  assumes "lib_fails_in P L"
  shows "fails_in P (HashPassword L pw cost)" "fails_in P (SignAccessToken L s i a u t ttl)"
  using assms unfolding HashPassword_def SignAccessToken_def jwt_Sign_def Let_def lib_fails_in_def
  by (auto intro!: returns_ebind fails_queries split: sum.split)

lemma fails_helpers:
  "fails_in P (RandomToken n)" "fails_in P GenerateOTP" "fails_in P GenerateMagicToken" "fails_in P (scan_string x)"
  unfolding RandomToken_def GenerateOTP_def GenerateMagicToken_def scan_string_def
  by (intro returns_rules fails_queries; simp add: P_simps)+

lemma statements_in:
  "insert_user r d = Inl e \<Longrightarrow> P e" "insert_cred r1 d = Inl e \<Longrightarrow> P e" "insert_tenant r2 d = Inl e \<Longrightarrow> P e"
  "insert_tenant_user r3 d = Inl e \<Longrightarrow> P e" "insert_user_role r4 d = Inl e \<Longrightarrow> P e" "insert_session r5 d = Inl e \<Longrightarrow> P e"
  "insert_verification r6 d = Inl e \<Longrightarrow> P e" "insert_email_record r7 d = Inl e \<Longrightarrow> P e" "delete_pending_user i d = Inl e \<Longrightarrow> P e"
  "delete_email_records q d = Inl e \<Longrightarrow> P e" "expire_outstanding i t d = Inl e \<Longrightarrow> P e" "delete_verifications v d = Inl e \<Longrightarrow> P e"
  "restore_expiry sn i t d = Inl e \<Longrightarrow> P e" "set_attempts i k d = Inl e \<Longrightarrow> P e" "mark_verified i t d = Inl e \<Longrightarrow> P e"
  "activate_user i t d = Inl e \<Longrightarrow> P e" "touch_user i t d = Inl e \<Longrightarrow> P e" "revoke_sessions sp rep t d = Inl e \<Longrightarrow> P e"
  by (auto simp: stmt_defs Let_def P_simps split: if_splits option.splits)

lemmas fails_steps = fails_helpers fails_queries fails_stmts

lemma fails_shared:
  assumes "lib_fails_in P L"
  shows "fails_in P (insertRegisteredUserWithPassword L i e pw cost)" "fails_in P (createVerificationWithIDsTx L params)"
    "fails_in P (bootstrap_new_owner L e pw cost)" "fails_in P (bootstrap_existing_owner L pw u ph)" "fails_in P (restore_all sns i t)"
proof -
  note steps = returns_rules fails_steps fails_lib [OF assms]
  show "fails_in P (insertRegisteredUserWithPassword L i e pw cost)" "fails_in P (bootstrap_new_owner L e pw cost)"
    "fails_in P (createVerificationWithIDsTx L params)" "fails_in P (bootstrap_existing_owner L pw u ph)"
    unfolding insertRegisteredUserWithPassword_def createVerificationWithIDsTx_def bootstrap_new_owner_def bootstrap_existing_owner_def
    by (intro steps; auto simp: P_simps dest: statements_in)+
  show "fails_in P (restore_all sns i t)"
    by (induction sns) (auto intro!: returns_ebind fails_stmts dest: statements_in)
qed

lemma fails_store:
  assumes "lib_fails_in P L"
  shows "fails_in P (Store_RegisterWithVerification L e p c otp mt ex)" "fails_in P (Store_CreateVerification L params)"
    "fails_in P (Store_CleanupPendingRegistration i)" "fails_in P (Store_ResendVerification L e otp mt ex now)"
    "fails_in P (Store_RollbackResendVerification rs)" "fails_in P (Store_VerifyEmailOTP L e otp now)"
    "fails_in P (Store_VerifyMagicLinkToken L mt now)" "fails_in P (Store_ValidateMagicLinkToken L mt now)"
    "fails_in P (Store_LookupAnalyticsUserByEmail e)" "fails_in P (Store_LookupMagicLinkAnalytics L mt now)"
    "fails_in P (Store_Bootstrap L e p tn c)" "fails_in P (Store_GetLoginUserByEmail e)"
    "fails_in P (Store_SaveRefreshSession L tok i ex ua ip)" "fails_in P (Store_RotateRefreshToken L tok tok' ex)"
    "fails_in P (Store_RevokeRefreshToken L tok)" "fails_in P (Store_RevokeAllRefreshTokensByUser i)"
    "fails_in P (Store_EnsureUserInTenant i tn)"
  unfolding Store_RegisterWithVerification_def Store_CreateVerification_def Store_CleanupPendingRegistration_def
    Store_ResendVerification_def Store_RollbackResendVerification_def Store_VerifyEmailOTP_def Store_VerifyMagicLinkToken_def
    Store_ValidateMagicLinkToken_def Store_LookupAnalyticsUserByEmail_def Store_LookupMagicLinkAnalytics_def Store_Bootstrap_def
    Store_GetLoginUserByEmail_def Store_SaveRefreshSession_def Store_RotateRefreshToken_def Store_RevokeRefreshToken_def
    Store_RevokeAllRefreshTokensByUser_def Store_EnsureUserInTenant_def createVerificationTx_def Let_def
  by (intro returns_tx returns_rules fails_steps fails_shared [OF assms]; auto simp: P_simps dest: statements_in)+

subsection \<open>The endpoints of auth-api\<close>

lemma returns_bindJSON: "bound_in P b \<Longrightarrow> (\<And>x. returns P Q (k x)) \<Longrightarrow> returns P Q (bindJSON b k)"
  by (cases b) (simp_all add: bindJSON_def P_apps)

lemma fails_tracking: "fails_in P (Handler_track h ev)" "fails_in P (trackVerificationRegistrationStarted h u e f)"
  "fails_in P (trackVerificationOTPFailure h e rsn)" "fails_in P (Handler_increaseLoginFailCount h k)"
proof -
  show track: "fails_in P (Handler_track h ev)" for ev
    unfolding Handler_track_def by (intro returns_if returns_ignored) simp
  show "fails_in P (trackVerificationRegistrationStarted h u e f)"
    unfolding trackVerificationRegistrationStarted_def by (intro returns_ebind track) simp
  have "fails_in P (Store_LookupAnalyticsUserByEmail e)"
    unfolding Store_LookupAnalyticsUserByEmail_def by (intro returns_rules fails_steps) simp
  then show "fails_in P (trackVerificationOTPFailure h e rsn)"
    unfolding trackVerificationOTPFailure_def by (intro returns_rules track) simp_all
  show "fails_in P (Handler_increaseLoginFailCount h k)"
    unfolding Handler_increaseLoginFailCount_def client_Expire_def
    by (intro returns_if returns_try returns_ignored fails_queries) simp_all
qed

lemma fails_parts:
  assumes "lib_fails_in P L"
  shows "fails_in P (enqueue_job L h j)" "fails_in P (setMagicLinkStateCookie L c st ex)" "fails_in P (getOrCreateMagicLinkState c)"
    "fails_in P (Handler_checkResendRateLimit h e)" "fails_in P (Handler_isLoginRateLimited h k)"
    "fails_in P (Handler_issueTokens L h i tn ua ip)"
proof -
  show "fails_in P (enqueue_job L h j)"
    unfolding enqueue_job_def queue_New_def EnqueueContext_def validateQueueName_def
    by (auto intro!: returns_ebind fails_queries simp: P_simps)
  show "fails_in P (setMagicLinkStateCookie L c st ex)" "fails_in P (getOrCreateMagicLinkState c)"
    unfolding setMagicLinkStateCookie_def getOrCreateMagicLinkState_def Let_def
    by (intro returns_rules fails_helpers; simp)+
  have "fails_in P (of_result (parseRedisInteger v))" for v
    by (auto simp: parseRedisInteger_def P_simps split: redis_value.split option.split)
  moreover have "fails_in P (script_Run k n)" for k n
    unfolding script_Run_def by (rule returns_ext) (auto simp: P_simps returns_def split: prod.split)
  ultimately show "fails_in P (Handler_checkResendRateLimit h e)"
    unfolding Handler_checkResendRateLimit_def Let_def
    by (intro returns_if returns_ebind) (auto intro!: returns_ebind simp: P_simps split: redis_value.split list.split)
  show "fails_in P (Handler_isLoginRateLimited h k)" "fails_in P (Handler_issueTokens L h i tn ua ip)"
    unfolding Handler_isLoginRateLimited_def Handler_issueTokens_def Let_def
    by (intro returns_rules fails_queries fails_helpers fails_lib [OF assms] fails_store [OF assms]; simp)+
qed

lemma returns_handlers:
  assumes "lib_fails_in P L"
  defines "Q \<equiv> \<lambda>c. accepted (ctx_request_id c)"
  shows "bound_in P b1 \<Longrightarrow> returns P (Q c) (Handler_Bootstrap L h b1 c)" "bound_in P b2 \<Longrightarrow> returns P (Q c) (Handler_Register L h b2 c)"
    "bound_in P b3 \<Longrightarrow> returns P (Q c) (Handler_ResendVerification L h b3 c)" "bound_in P b4 \<Longrightarrow> returns P (Q c) (Handler_VerifyEmail L h b4 c)"
    "returns P (Q c) (Handler_VerifyMagicLink L h c)" "bound_in P b2 \<Longrightarrow> returns P (Q c) (Handler_Login L h b2 c)"
    "bound_in P b3 \<Longrightarrow> returns P (Q c) (Handler_Refresh L h b3 c)" "bound_in P b3 \<Longrightarrow> returns P (Q c) (Handler_Logout L b3 c)"
    "returns P (Q c) (Handler_LogoutAll c)" "bound_in P b3 \<Longrightarrow> returns P (Q c) (Handler_SwitchTenant L h b3 c)"
  unfolding Handler_Bootstrap_def Handler_Register_def Handler_ResendVerification_def Handler_VerifyEmail_def
    Handler_VerifyMagicLink_def Handler_Login_def Handler_Refresh_def Handler_Logout_def Handler_LogoutAll_def
    Handler_SwitchTenant_def Handler_enqueueVerificationEmail_def undo_registration_def rollbackResend_def otp_rejected_def
    magic_link_error_def invalid_link_page_def expired_link_page_def bad_def resend_limited_def bootstrap_error_def refresh_error_def Let_def Q_def
  by (intro returns_bindJSON returns_rules returns_ignored fails_tracking fails_helpers fails_queries fails_lib [OF assms(1)]
      fails_parts [OF assms(1)] fails_store [OF assms(1)]; simp add: P_simps)+

subsection \<open>Middlewares and routes\<close>

lemma returns_RateLimit: "returns P Q (next c) \<Longrightarrow> returns P Q (RateLimit b p l wd next c)"
  unfolding RateLimit_def Let_def
  by (intro returns_rules returns_ignored fails_queries; simp add: P_simps)

lemma returns_AuthN: "(\<And>u t. u \<noteq> [] \<Longrightarrow> returns P Q (next (c\<lparr>ctx_uid := u, ctx_tid := t\<rparr>))) \<Longrightarrow> returns P Q (AuthN L s i a next c)"
  unfolding AuthN_def Let_def
  by (intro returns_if returns_ecase [OF returns_any]) (auto simp: P_simps)

lemma returns_auth_api:
  assumes "lib_fails_in P L" "call_in P call"
  shows "returns P (accepted (ctx_request_id c)) (auth_api L h call c)"
  using assms(2)
  by (cases call; simp only: auth_api_def Let_def api_call.case call_in.simps)
    (intro returns_RateLimit returns_AuthN returns_handlers [OF assms(1)] returns_handlers [OF assms(1), where c = "c\<lparr>ctx_uid := u, ctx_tid := t\<rparr>" for u t, simplified];
     assumption?)+

lemma fails_admin_store:
  "fails_in P (AStore_TenantUserRole tn i)" "fails_in P (AStore_ListMembers tn)" "fails_in P (AStore_AddMember tn i r)"
  "fails_in P (AStore_UpdateMemberRole tn i r)" "fails_in P (AStore_RemoveMember tn i)" "fails_in P (AStore_UserExists i)"
  "fails_in P (AStore_RolesForUser tn i)" "fails_in P (AStore_AssignRole tn i r)"
  unfolding AStore_TenantUserRole_def AStore_ListMembers_def AStore_AddMember_def AStore_UpdateMemberRole_def AStore_RemoveMember_def
    AStore_UserExists_def AStore_RolesForUser_def AStore_AssignRole_def
  by (intro returns_rules fails_queries fails_stmts;
      auto simp: P_simps update_member_def delete_member_def assign_role_def dest: statements_in split: if_splits)+

text \<open>The decision of Casbin, when it is an error.\<close>

lemma enforce_in:
  assumes "enforcer_fails_in P Enforce"
  shows "Handler_enforce Enforce roles td obj act = Some e \<Longrightarrow> P e"
  using assms by (induction roles) (auto simp: P_simps enforcer_fails_in_def split: sum.splits if_splits)

lemma returns_guard: "(\<And>e. g = Some e \<Longrightarrow> P e) \<Longrightarrow> returns P Q k \<Longrightarrow> returns P Q (guard g k)"
  by (cases g) (simp_all add: guard_def)

lemma checks_in: "validateUserID i = Some e \<Longrightarrow> P e" "validateRole r = Some e \<Longrightarrow> P e" "P e \<Longrightarrow> P (invalid_argument e)" "P member_not_found"
  by (auto simp: validateUserID_def validateRole_def invalid_argument_def member_not_found_def P_simps split: if_splits)

lemma returns_admin_call:
  assumes "enforcer_fails_in P Enforce" "admin_call_in P call" "ctx_uid c \<noteq> []"
  shows "returns P (accepted (ctx_request_id c)) (Admin_call tt Enforce call c)"
proof -
  have uid: "uid_string c = ok (ctx_uid c)" using assms(3) by (simp add: uid_string_def)
  note rules = returns_rules returns_guard fails_admin_store
  show ?thesis
    using assms(2)
    by (cases call; simp only: Admin_call_def admin_call.case Admin_MeRoles_def Admin_AssignRole_def Admin_ListMembers_def Admin_AddMember_def
          Admin_UpdateMemberRole_def Admin_RemoveMember_def Let_def uid admin_call_in.simps)
      (auto intro!: rules simp: P_simps checks_in dest: enforce_in [OF assms(1)] checks_in(1,2) split: sum.split)
qed

lemma returns_admin_api:
  assumes "enforcer_fails_in P Enforce" "admin_call_in P call"
  shows "returns P (accepted (ctx_request_id c)) (admin_api L s i a tt Enforce call c)"
proof -
  have "returns P (accepted (ctx_request_id c)) (AdminRBAC (Some Enforce) fp (Admin_call tt Enforce call) c')"
    if "ctx_uid c' \<noteq> []" "ctx_request_id c' = ctx_request_id c" for c' fp
    using returns_admin_call [OF assms, of c' tt] that assms(1) unfolding AdminRBAC_def forbidden_def Let_def enforcer_fails_in_def
    by (auto intro!: returns_rules fails_admin_store simp: P_simps)
  then show ?thesis unfolding admin_api_def by (intro returns_AuthN) simp
qed

end

subsection \<open>The documented errors\<close>

text \<open>Status, code and message of the constructors of \<open>apperr\<close>, and of the errors \<open>Normalize\<close> builds itself.\<close>

definition app_answers :: "(int \<times> int \<times> string) list" where
  "app_answers = [(400, errcode_BadRequest, ''bad_request''), (401, errcode_Unauthorized, ''unauthorized''),
     (403, errcode_Forbidden, ''forbidden''), (404, errcode_NotFound, ''not_found''), (409, errcode_Conflict, ''conflict''),
     (429, errcode_RateLimited, ''rate_limited'')]"

definition error_answers :: "(int \<times> int \<times> string) list" where
  "error_answers = app_answers @ [(500, errcode_DBError, ''db_error''), (500, errcode_InternalError, ''internal_error'')]"

definition documented :: "go_error \<Rightarrow> bool" where
  "documented e \<longleftrightarrow> (\<forall>x \<in> set (chain e). case x of App a \<Rightarrow> (HTTPStatus a, Code a, Message a) \<in> set app_answers
     | Panic _ \<Rightarrow> False | _ \<Rightarrow> True)"

interpretation documents: error_class documented
proof unfold_locales
  fix f e d assume "f \<in> constructors" "documented e"
  then show "documented (App (f e)) \<and> documented (App (WithData (f e) d))"
    by (auto simp: constructors_def documented_def apperr_defs app_answers_def)
qed (auto simp: documented_def apperr_defs app_answers_def)

lemma documented_answer:
  assumes "documented e"
  obtains st code msg data where "ErrorHandler rid (Inl e) = resp_Fail rid st code msg data" "(st, code, msg) \<in> set error_answers"
proof (cases "as_App e")
  case (Some a)
  then have "(HTTPStatus a, Code a, Message a) \<in> set app_answers"
    using assms as_App_eqD [OF Some] by (auto simp: documented_def)
  with Some that show ?thesis by (simp add: ErrorHandler_def Normalize_def Let_def error_answers_def)
next
  case None
  then show ?thesis
    using that by (auto simp: ErrorHandler_def Normalize_def Let_def error_answers_def app_answers_def apperr_defs split: option.splits if_splits)
qed

end
