(* ===== verification/Server.thy ===== *)
theory Server
  imports Replies System_Safety Config
begin

text \<open>
  The HTTP servers as \<open>cmd/auth-api/main.go\<close> and \<open>cmd/admin-api/main.go\<close> put them together: the types of the
  request bodies with their \<open>json\<close> and \<open>binding\<close> tags (\<open>dto/auth.go\<close>, admin-api's \<open>handler.go\<close>), the chain of
  middlewares every request passes, the routes, and what is sent back. gin is outside this
  repository: reading a JSON value from a body and validating the bound fields by their tags are
  the parameter \<open>gin\<close>, and a request carries the pattern of the route gin matched (\<open>FullPath\<close>, empty when there
  is none). A panic is answered by gin's recovery with status 500 and no body.
\<close>

subsection \<open>Request bodies\<close>

text \<open>A struct of string fields: the \<open>json\<close> name and the \<open>binding\<close> tags of each.\<close>

type_synonym dto = "(string \<times> string list) list"

record gin =
  gin_Decode :: "string \<Rightarrow> (go_error, json) result"
  gin_Validate :: "(string \<times> string list \<times> string) list \<Rightarrow> go_error option"

fun dto_fields :: "lib \<Rightarrow> dto \<Rightarrow> (string \<times> json) list \<Rightarrow> (go_error, string list) result" where
  "dto_fields L [] fs = Inr []"
| "dto_fields L ((k, tags) # ds) fs = rbind (field_str L k fs) (\<lambda>v. rbind (dto_fields L ds fs) (\<lambda>vs. Inr (v # vs)))"

definition dto_decode :: "lib \<Rightarrow> dto \<Rightarrow> json \<Rightarrow> (go_error, string list) result" where
  "dto_decode L ds j =
     (case j of JObj fs \<Rightarrow> dto_fields L ds fs | JNull \<Rightarrow> Inr (map (\<lambda>_. []) ds) | _ \<Rightarrow> Inl JsonTypeError)"

definition ShouldBindJSON :: "lib \<Rightarrow> gin \<Rightarrow> dto \<Rightarrow> string \<Rightarrow> (go_error, string list) result" where
  "ShouldBindJSON L G ds body =
     rbind (gin_Decode G body) (\<lambda>j.
     rbind (dto_decode L ds j) (\<lambda>vs.
     (case gin_Validate G (map2 (\<lambda>(k, tags) v. (k, tags, v)) ds vs) of Some err \<Rightarrow> Inl err | None \<Rightarrow> Inr vs)))"

definition bind_to :: "(string list \<Rightarrow> 'a) \<Rightarrow> (go_error, string list) result \<Rightarrow> (go_error, 'a) result" where
  "bind_to f r = rbind r (\<lambda>vs. Inr (f vs))"

definition BootstrapRequest_dto :: dto where
  "BootstrapRequest_dto = [(''tenant_name'', [''required'']), (''owner_email'', [''required'', ''email'']), (''owner_password'', [''required''])]"
definition RegisterRequest_dto :: dto where
  "RegisterRequest_dto = [(''email'', [''required'']), (''password'', [''required''])]"
definition ResendVerificationRequest_dto :: dto where
  "ResendVerificationRequest_dto = [(''email'', [''required''])]"
definition VerifyEmailRequest_dto :: dto where
  "VerifyEmailRequest_dto = [(''email'', [''required'']), (''otp'', [''required''])]"
definition LoginRequest_dto :: dto where
  "LoginRequest_dto = [(''email'', [''required'']), (''password'', [''required''])]"
definition RefreshRequest_dto :: dto where
  "RefreshRequest_dto = [(''refresh_token'', [''required''])]"
definition LogoutRequest_dto :: dto where
  "LogoutRequest_dto = [(''refresh_token'', [''required''])]"
definition SwitchTenantRequest_dto :: dto where
  "SwitchTenantRequest_dto = [(''tenant_id'', [''required''])]"
definition addMemberReq_dto :: dto where
  "addMemberReq_dto = [(''user_id'', []), (''role'', [])]"
definition updateMemberReq_dto :: dto where
  "updateMemberReq_dto = [(''role'', [])]"

subsection \<open>The chain of middlewares\<close>

record http_request =
  hr_Request :: request
  hr_FullPath :: string
  hr_Body :: string

record reply =
  rp_Status :: int
  rp_Headers :: "(string \<times> string) list"
  rp_Body :: "body option"
  rp_Cookies :: "set_cookie list"

text \<open>What \<open>ErrorHandler\<close> and, for a panic, gin's recovery send after the route has run.\<close>

definition write_reply :: "string \<Rightarrow> (string \<times> string) list \<Rightarrow> (go_error, response) result \<Rightarrow> reply" where
  "write_reply rid headers r =
     (case r of
        Inl (Panic _) \<Rightarrow> \<lparr>rp_Status = 500, rp_Headers = headers, rp_Body = None, rp_Cookies = []\<rparr>
      | _ \<Rightarrow> (let rsp = ErrorHandler rid r
             in \<lparr>rp_Status = Status rsp, rp_Headers = headers, rp_Body = Some (Body rsp), rp_Cookies = Cookies rsp\<rparr>))"

text \<open>\<open>RequestID\<close>, \<open>CORS\<close> and \<open>ErrorHandler\<close> around the handler of the route; the logger only logs.\<close>

definition engine :: "string list \<Rightarrow> bool \<Rightarrow> db handler \<Rightarrow> request \<Rightarrow> (db, reply) proc" where
  "engine allowOrigins allowCredentials route = RequestID (\<lambda>c w.
     (case CORS allowOrigins allowCredentials c of (cors, preflight) \<Rightarrow>
      let headers = (''X-Request-Id'', ctx_request_id c) # cors
      in if preflight then (Inr \<lparr>rp_Status = 204, rp_Headers = headers, rp_Body = None, rp_Cookies = []\<rparr>, w)
         else (case route c w of (r, w') \<Rightarrow> (Inr (write_reply (ctx_request_id c) headers r), w'))))"

subsection \<open>auth-api\<close>

definition auth_route :: "lib \<Rightarrow> gin \<Rightarrow> string \<Rightarrow> string \<Rightarrow> string \<Rightarrow> api_call option" where
  "auth_route L G method path body =
     (let bound = (\<lambda>ds. ShouldBindJSON L G ds body);
          credentials = (\<lambda>vs. \<lparr>gq_Email = vs ! 0, gq_Password = vs ! 1\<rparr>)
      in if method = ''GET'' \<and> path = ''/api/v1/auth/verify-magic-link'' then Some VerifyMagicLink
         else if method \<noteq> ''POST'' then None
         else if path = ''/api/v1/bootstrap'' then Some (Bootstrap (bind_to
           (\<lambda>vs. \<lparr>bq_TenantName = vs ! 0, bq_OwnerEmail = vs ! 1, bq_OwnerPassword = vs ! 2\<rparr>) (bound BootstrapRequest_dto)))
         else if path = ''/api/v1/auth/register'' then Some (Register (bind_to credentials (bound RegisterRequest_dto)))
         else if path = ''/api/v1/auth/resend-verification''
         then Some (ResendVerification (bind_to (\<lambda>vs. vs ! 0) (bound ResendVerificationRequest_dto)))
         else if path = ''/api/v1/auth/verify-email''
         then Some (VerifyEmail (bind_to (\<lambda>vs. \<lparr>vq_Email = vs ! 0, vq_OTP = vs ! 1\<rparr>) (bound VerifyEmailRequest_dto)))
         else if path = ''/api/v1/auth/login'' then Some (Login (bind_to credentials (bound LoginRequest_dto)))
         else if path = ''/api/v1/auth/refresh'' then Some (Refresh (bind_to (\<lambda>vs. vs ! 0) (bound RefreshRequest_dto)))
         else if path = ''/api/v1/auth/logout'' then Some (Logout (bind_to (\<lambda>vs. vs ! 0) (bound LogoutRequest_dto)))
         else if path = ''/api/v1/auth/logout_all'' then Some LogoutAll
         else if path = ''/api/v1/auth/switch_tenant''
         then Some (SwitchTenant (bind_to (\<lambda>vs. vs ! 0) (bound SwitchTenantRequest_dto)))
         else None)"

definition auth_server :: "lib \<Rightarrow> gin \<Rightarrow> env \<Rightarrow> Handler \<Rightarrow> http_request \<Rightarrow> (db, reply) proc" where
  "auth_server L G env h r =
     engine (GetList env ''CORS_ALLOW_ORIGINS'') (GetBool env ''CORS_ALLOW_CREDENTIALS'' True) (\<lambda>c.
       if rq_Method c = ''GET'' \<and> hr_FullPath r = ''/healthz'' then Handler_Healthz c
       else (case auth_route L G (rq_Method c) (hr_FullPath r) (hr_Body r) of
               None \<Rightarrow> ok (Handler_NotFound c)
             | Some call \<Rightarrow> auth_api L h call c)) (hr_Request r)"

subsection \<open>admin-api\<close>

definition admin_route :: "lib \<Rightarrow> gin \<Rightarrow> string \<Rightarrow> string \<Rightarrow> string \<Rightarrow> admin_call option" where
  "admin_route L G method path body =
     (let group = ''/api/v1/admin/tenants/:tenantId''
      in if method = ''GET'' \<and> path = group @ ''/me/roles'' then Some MeRoles
         else if method = ''POST'' \<and> path = group @ ''/users/:userId/roles/:role'' then Some AssignRole
         else if method = ''GET'' \<and> path = group @ ''/members'' then Some ListMembers
         else if method = ''POST'' \<and> path = group @ ''/members'' then Some (AddMember (bind_to
           (\<lambda>vs. \<lparr>am_UserID = vs ! 0, am_Role = vs ! 1\<rparr>) (ShouldBindJSON L G addMemberReq_dto body)))
         else if method = ''PATCH'' \<and> path = group @ ''/members/:uid''
         then Some (UpdateMemberRole (bind_to (\<lambda>vs. vs ! 0) (ShouldBindJSON L G updateMemberReq_dto body)))
         else if method = ''DELETE'' \<and> path = group @ ''/members/:uid'' then Some RemoveMember
         else None)"

definition admin_server :: "lib \<Rightarrow> gin \<Rightarrow> env \<Rightarrow> (instant \<Rightarrow> string) \<Rightarrow> enforcer \<Rightarrow> http_request \<Rightarrow> (db, reply) proc" where
  "admin_server L G env time_text Enforce r =
     (let secret = GetString env ''JWT_SECRET'' ''dev-secret-change-me'';
          issuer = GetString env ''JWT_ISSUER'' ''anvilkit-auth'';
          audience = GetString env ''JWT_AUDIENCE'' ''anvilkit-clients''
      in engine (GetList env ''CORS_ALLOW_ORIGINS'') (GetBool env ''CORS_ALLOW_CREDENTIALS'' False) (\<lambda>c.
           if rq_Method c = ''GET'' \<and> hr_FullPath r = ''/healthz'' then Admin_Healthz c
           else (case admin_route L G (rq_Method c) (hr_FullPath r) (hr_Body r) of
                   None \<Rightarrow> ok (Admin_NotFound c)
                 | Some call \<Rightarrow> admin_api L secret issuer audience time_text Enforce call c)) (hr_Request r))"

lemma admin_route_path: "admin_route L G m p b = Some call \<Longrightarrow> admin_path call = p"
  by (auto simp: admin_route_def admin_path_def Let_def split: if_splits)

subsection \<open>Every request is answered\<close>

definition gin_fails_in :: "(go_error \<Rightarrow> bool) \<Rightarrow> gin \<Rightarrow> bool" where
  "gin_fails_in P G \<longleftrightarrow> (\<forall>body e. gin_Decode G body = Inl e \<longrightarrow> P e) \<and> (\<forall>fs e. gin_Validate G fs = Some e \<longrightarrow> P e)"

lemma field_str_error: "field_str L k fs = Inl e \<Longrightarrow> e = JsonTypeError"
proof -
  have "str_field js cur = Inl e \<Longrightarrow> e = JsonTypeError" for js cur
    by (induction js cur rule: str_field.induct) auto
  then show "field_str L k fs = Inl e \<Longrightarrow> e = JsonTypeError" by (auto simp: field_str_def)
qed

lemma dto_decode_error: "dto_decode L ds j = Inl e \<Longrightarrow> e = JsonTypeError"
proof -
  have "dto_fields L ds fs = Inl e \<Longrightarrow> e = JsonTypeError" for fs
    by (induction L ds fs rule: dto_fields.induct) (auto simp: rbind_def split: sum.splits dest: field_str_error)
  then show "dto_decode L ds j = Inl e \<Longrightarrow> e = JsonTypeError" by (auto simp: dto_decode_def split: json.splits)
qed

lemma bind_documented: "gin_fails_in documented G \<Longrightarrow> bound_in documented (bind_to f (ShouldBindJSON L G ds body))"
  by (auto simp: bound_in_def bind_to_def ShouldBindJSON_def rbind_def gin_fails_in_def documented_def
      dest!: dto_decode_error split: sum.splits option.splits)

lemma auth_route_documented: "gin_fails_in documented G \<Longrightarrow> auth_route L G m p b = Some call \<Longrightarrow> call_in documented call"
  by (auto simp: auth_route_def Let_def bind_documented split: if_splits)

lemma admin_route_documented: "gin_fails_in documented G \<Longrightarrow> admin_route L G m p b = Some call \<Longrightarrow> admin_call_in documented call"
  by (auto simp: admin_route_def Let_def bind_documented split: if_splits)

definition request_id :: "request \<Rightarrow> 'd world \<Rightarrow> string" where
  "request_id c w = (let rid = TrimSpace (rq_Header c ''X-Request-Id'') in if rid = [] then o_uuid (orc w) (tick w) else rid)"

definition answer :: "string \<Rightarrow> response \<Rightarrow> bool" where
  "answer rid r \<longleftrightarrow> accepted rid r \<or>
     (\<exists>st code msg data. r = resp_Fail rid st code msg data \<and> (st, code, msg) \<in> set error_answers)"

text \<open>What reaches the client: the identifier of the request in the header and in the envelope, and a status,
  code and message of the table; nothing of the text of an internal error.\<close>

definition answered :: "string \<Rightarrow> reply \<Rightarrow> bool" where
  "answered rid rp \<longleftrightarrow> map_of (rp_Headers rp) ''X-Request-Id'' = Some rid \<and>
     (case rp_Body rp of
        None \<Rightarrow> rp_Status rp = 204
      | Some (Json e) \<Rightarrow> env_RequestID e = rid \<and>
          (if env_Code e = 0 then rp_Status rp \<in> {200, 201, 202} else (rp_Status rp, env_Code e, env_Message e) \<in> set error_answers)
      | Some (Html _) \<Rightarrow> rp_Status rp \<in> {200, 400, 410}
      | Some (Redirect _) \<Rightarrow> rp_Status rp = 302)"

lemma RequestID_run:
  "RequestID next c w = next (c\<lparr>ctx_request_id := request_id c w\<rparr>)
     (if TrimSpace (rq_Header c ''X-Request-Id'') = [] then w\<lparr>tick := Suc (tick w)\<rparr> else w)"
  by (simp add: RequestID_def request_id_def Let_def ebind_def ecase_def ok_def uuid_NewString_def)

lemma error_answers_code [simp]: "(st, 0, msg) \<notin> set error_answers"
  by (auto simp: error_answers_def app_answers_def errcode_defs)

lemma write_reply_answered:
  assumes "case r of Inl e \<Rightarrow> documented e | Inr rsp \<Rightarrow> answer rid rsp" "map_of headers ''X-Request-Id'' = Some rid"
  shows "answered rid (write_reply rid headers r)"
proof -
  have "answer rid (ErrorHandler rid r)"
  proof (cases r)
    case (Inl e)
    with assms(1) show ?thesis using documented_answer [of e rid] unfolding answer_def by simp metis
  qed (use assms(1) in \<open>simp add: ErrorHandler_def\<close>)
  then have "answered rid \<lparr>rp_Status = Status rsp, rp_Headers = headers, rp_Body = Some (Body rsp), rp_Cookies = Cookies rsp\<rparr>"
    if "rsp = ErrorHandler rid r" for rsp
    using that assms(2) by (auto simp: answered_def answer_def accepted_def resp_Fail_def split: body.splits)
  moreover have "r \<noteq> Inl (Panic m)" for m
    using assms(1) by (auto simp: documented_def)
  ultimately show ?thesis by (auto simp: write_reply_def Let_def split: sum.split go_error.split)
qed

lemma engine_answers:
  fixes route :: "db handler"
  assumes "\<And>c. returns documented (answer (ctx_request_id c)) (route c)"
  shows "\<exists>rp w'. engine origins cr route c w = (Inr rp, w') \<and> answered (request_id c w) rp"
proof -
  let ?c = "c\<lparr>ctx_request_id := request_id c w\<rparr>"
  have "case fst (route ?c v) of Inl e \<Rightarrow> documented e | Inr rsp \<Rightarrow> answer (request_id c w) rsp" for v
    using assms [of ?c] by (simp add: returns_def)
  then have "answered (request_id c w) (write_reply (request_id c w) ((''X-Request-Id'', request_id c w) # hs) (fst (route ?c v)))" for v hs
    by (intro write_reply_answered) simp_all
  moreover have "answered (request_id c w) \<lparr>rp_Status = 204, rp_Headers = (''X-Request-Id'', request_id c w) # hs, rp_Body = None, rp_Cookies = []\<rparr>" for hs
    by (simp add: answered_def)
  ultimately show ?thesis by (simp add: engine_def RequestID_run Let_def split_beta)
qed


definition sample_gin :: gin where
  "sample_gin = \<lparr>gin_Decode = sample_parse,
     gin_Validate = (\<lambda>fs. if list_all (\<lambda>(k, tags, v). (''required'' \<in> set tags \<longrightarrow> v \<noteq> []) \<and> (''email'' \<in> set tags \<longrightarrow> CHR ''@'' \<in> set v)) fs
        then None else Some (LibError ''validation''))\<rparr>"

lemma sample_fails: "lib_fails_in documented sample_lib" "gin_fails_in documented sample_gin"
  by (auto simp: lib_fails_in_def gin_fails_in_def sample_lib_def sample_gin_def sample_sign_def sample_parse_def documented_def
      split: option.splits prod.splits list.splits if_splits)

definition sample_http :: "string \<Rightarrow> string \<Rightarrow> string \<Rightarrow> http_request" where
  "sample_http method path body = \<lparr>hr_Request = sample_request\<lparr>rq_Method := method, rq_Header := (\<lambda>k. if k = ''X-Request-Id'' then ''r1'' else [])\<rparr>,
     hr_FullPath = path, hr_Body = body\<rparr>"

lemma sample_request_id: "request_id (hr_Request (sample_http m p b)) w = ''r1''"
proof -
  have "TrimSpace ''r1'' = ''r1''" by code_simp
  then show ?thesis by (simp add: request_id_def sample_http_def Let_def)
qed


text \<open>The same of admin-api, whatever the policy decides.\<close>

theorem admin_answers_documented:
  assumes "gin_fails_in documented G" "enforcer_fails_in documented Enforce"
  shows "\<exists>rp w'. admin_server L G env time_text Enforce r w = (Inr rp, w') \<and> answered (request_id (hr_Request r) w) rp"
  unfolding admin_server_def Let_def
proof (rule engine_answers)
  fix c
  have "answer (ctx_request_id c) (Admin_NotFound c)"
    unfolding answer_def Admin_NotFound_def
    by (intro disjI2 exI conjI, rule refl) (simp add: error_answers_def app_answers_def errcode_defs)
  moreover have "returns documented (answer (ctx_request_id c)) (admin_api L s i a time_text Enforce call c)"
    if "admin_route L G m p b = Some call" for m p b call s i a
    using documents.returns_admin_api [OF assms(2) admin_route_documented [OF assms(1) that], of c L s i a time_text]
    by (auto simp: returns_def answer_def split: sum.splits)
  ultimately show "returns documented (answer (ctx_request_id c)) (if rq_Method c = ''GET'' \<and> hr_FullPath r = ''/healthz'' then Admin_Healthz c
      else (case admin_route L G (rq_Method c) (hr_FullPath r) (hr_Body r) of None \<Rightarrow> ok (Admin_NotFound c)
        | Some call \<Rightarrow> admin_api L (GetString env ''JWT_SECRET'' ''dev-secret-change-me'') (GetString env ''JWT_ISSUER'' ''anvilkit-auth'')
            (GetString env ''JWT_AUDIENCE'' ''anvilkit-clients'') time_text Enforce call c))"
    by (auto simp: Admin_Healthz_def answer_def split: option.split)
qed

theorem admin_answers_documented_witness:
  "\<exists>rp w'. admin_server sample_lib sample_gin sample_env (\<lambda>_. []) (\<lambda>_ _ _ _. Inr False)
     (sample_http ''GET'' ''/api/v1/admin/tenants/:tenantId/members'' []) (sample_world empty_db) = (Inr rp, w') \<and> answered ''r1'' rp"
proof -
  have "enforcer_fails_in documented (\<lambda>_ _ _ _. Inr False)" by (simp add: enforcer_fails_in_def)
  from admin_answers_documented [OF sample_fails(2) this, of sample_lib sample_env "\<lambda>_. []"
      "sample_http ''GET'' ''/api/v1/admin/tenants/:tenantId/members'' []" "sample_world empty_db"]
  show ?thesis by (simp add: sample_request_id)
qed

subsection \<open>Incomplete bodies\<close>

text \<open>The validator: \<open>required\<close> is a value that is not empty, \<open>email\<close> one of the addresses \<open>valid\<close>.\<close>

definition validator_ok :: "(string \<Rightarrow> bool) \<Rightarrow> gin \<Rightarrow> bool" where
  "validator_ok valid G \<longleftrightarrow> (\<forall>fs. gin_Validate G fs = None \<longleftrightarrow>
     (\<forall>(k, tags, v) \<in> set fs. (''required'' \<in> set tags \<longrightarrow> v \<noteq> []) \<and> (''email'' \<in> set tags \<longrightarrow> valid v)))"

definition auth_bodies :: "(string \<times> dto) list" where
  "auth_bodies = [(''/api/v1/bootstrap'', BootstrapRequest_dto), (''/api/v1/auth/register'', RegisterRequest_dto),
     (''/api/v1/auth/resend-verification'', ResendVerificationRequest_dto), (''/api/v1/auth/verify-email'', VerifyEmailRequest_dto),
     (''/api/v1/auth/login'', LoginRequest_dto), (''/api/v1/auth/refresh'', RefreshRequest_dto),
     (''/api/v1/auth/logout'', LogoutRequest_dto), (''/api/v1/auth/switch_tenant'', SwitchTenantRequest_dto)]"

lemma dto_fields_values: "dto_fields L ds fs = Inr vs \<Longrightarrow> list_all2 (\<lambda>d v. field_str L (fst d) fs = Inr v) ds vs"
  by (induction L ds fs arbitrary: vs rule: dto_fields.induct) (auto simp: rbind_iff)

lemma missing_field_unbound:
  assumes "validator_ok valid G" "gin_Decode G body = Inr (JObj fs)" "(k, tags) \<in> set ds" "''required'' \<in> set tags" "field_str L k fs = Inr []"
  shows "\<exists>e. ShouldBindJSON L G ds body = Inl e"
proof (cases "dto_fields L ds fs")
  case (Inr vs)
  then have vs: "list_all2 (\<lambda>d v. field_str L (fst d) fs = Inr v) ds vs" by (rule dto_fields_values)
  obtain n where n: "n < length ds" "ds ! n = (k, tags)" using assms(3) by (auto simp: in_set_conv_nth)
  with vs have "vs ! n = []" "n < length vs" using assms(5) by (auto simp: list_all2_conv_all_nth)
  with n have "(k, tags, []) \<in> set (map2 (\<lambda>(k, tags) v. (k, tags, v)) ds vs)"
    using nth_mem [of n "map2 (\<lambda>(k, tags) v. (k, tags, v)) ds vs"] by simp
  then have "gin_Validate G (map2 (\<lambda>(k, tags) v. (k, tags, v)) ds vs) \<noteq> None"
    using assms(1) [unfolded validator_ok_def, THEN spec, of "map2 (\<lambda>(k, tags) v. (k, tags, v)) ds vs"] assms(4) by (auto simp del: set_map)
  then show ?thesis using assms(2) Inr by (auto simp: ShouldBindJSON_def dto_decode_def)
qed (use assms(2) in \<open>simp add: ShouldBindJSON_def dto_decode_def\<close>)

text \<open>A handler that refuses: it leaves an error the client has caused, and neither the database nor the queues change.\<close>

definition refuses :: "(db, 'a) proc \<Rightarrow> bool" where
  "refuses m \<longleftrightarrow> (\<forall>w. \<exists>a w'. m w = (Inl (App a), w') \<and> HTTPStatus a \<in> {400, 401, 429} \<and> disk w' = disk w \<and> lists (rds w') = lists (rds w))"

lemma refuses_fail: "HTTPStatus a \<in> {400, 401, 429} \<Longrightarrow> refuses (fail (App a))"
  by (simp add: refuses_def fail_def)

lemma refuses_if: "refuses m \<Longrightarrow> refuses n \<Longrightarrow> refuses (if b then m else n)"
  by simp

lemma refuses_ecase:
  assumes "\<And>w. disk (snd (m w)) = disk w \<and> lists (rds (snd (m w))) = lists (rds w)" "\<And>e. refuses (f e)" "\<And>x. refuses (k x)"
  shows "refuses (ecase m f k)"
  unfolding refuses_def
proof
  fix w
  obtain r v where m: "m w = (r, v)" by (cases "m w")
  with assms(1) [of w] have "disk v = disk w" "lists (rds v) = lists (rds w)" by simp_all
  then show "\<exists>a w'. ecase m f k w = (Inl (App a), w') \<and> HTTPStatus a \<in> {400, 401, 429} \<and> disk w' = disk w \<and> lists (rds w') = lists (rds w)"
    using assms(2,3) [unfolded refuses_def, THEN spec, of _ v] m by (cases r) (simp_all add: ecase_def)
qed

lemma counting_lists:
  "disk (snd (redis_Incr k w)) = disk w \<and> lists (rds (snd (redis_Incr k w))) = lists (rds w)"
  "disk (snd (redis_Expire k t w)) = disk w \<and> lists (rds (snd (redis_Expire k t w))) = lists (rds w)"
  "disk (snd (jwt_Parse L s i a tok w)) = disk w \<and> lists (rds (snd (jwt_Parse L s i a tok w))) = lists (rds w)"
  by (auto simp: redis_Incr_def redis_Expire_def jwt_Parse_def incr_def expire_def ext_def proc_defs split: option.split prod.split sum.split)

lemma refuses_ebind:
  assumes "\<And>w. \<exists>x v. m w = (Inr x, v) \<and> disk v = disk w \<and> lists (rds v) = lists (rds w)" "\<And>x. refuses (k x)"
  shows "refuses (ebind m k)"
  unfolding refuses_def
proof
  fix w
  obtain x v where "m w = (Inr x, v)" "disk v = disk w" "lists (rds v) = lists (rds w)" using assms(1) by metis
  then show "\<exists>a w'. ebind m k w = (Inl (App a), w') \<and> HTTPStatus a \<in> {400, 401, 429} \<and> disk w' = disk w \<and> lists (rds w') = lists (rds w)"
    using assms(2) [of x, unfolded refuses_def, THEN spec, of v] by (simp add: ebind_def ecase_def)
qed

lemma refuses_RateLimit:
  assumes "refuses (next c)"
  shows "refuses (RateLimit b p l wd next c)"
proof -
  have count: "\<exists>x v. (if (n::int) = 1 then ecase (client_Expire k wd) (\<lambda>_. ok ()) (\<lambda>_. ok ()) else ok ()) w = (Inr x, v)
    \<and> disk v = disk w \<and> lists (rds v) = lists (rds w)" for n k and w :: "db world"
    using counting_lists(2) [of k "formatSec wd * 1000000000" w]
    by (cases "redis_Expire k (formatSec wd * 1000000000) w") (auto simp: client_Expire_def ecase_def ok_def split: sum.split)
  show ?thesis
    unfolding RateLimit_def Let_def
    by (intro refuses_if refuses_ecase refuses_ebind counting_lists count refuses_fail assms) (simp_all add: apperr_defs)
qed

lemma refuses_AuthN:
  assumes "\<And>u t. refuses (next (c\<lparr>ctx_uid := u, ctx_tid := t\<rparr>))"
  shows "refuses (AuthN L s i a next c)"
  unfolding AuthN_def Let_def
  by (intro refuses_if refuses_ecase counting_lists refuses_fail assms) (simp_all add: apperr_defs)

lemma refuses_unbound: "refuses (bindJSON (bind_to f (Inl e)) k)"
  by (simp add: bind_to_def bindJSON_def refuses_fail apperr_defs)

lemma unbound_refused:
  assumes "auth_route L G ''POST'' p body = Some call" "(p, ds) \<in> set auth_bodies" "ShouldBindJSON L G ds body = Inl e"
  shows "refuses (auth_api L h call c)"
proof -
  have "HTTPStatus (WithData (Unauthorized x) d) = 401" for x d by (simp add: apperr_defs)
  then show ?thesis
    using assms unfolding auth_bodies_def auth_route_def Let_def auth_api_def
    by (auto simp: Handler_Bootstrap_def Handler_Register_def Handler_ResendVerification_def Handler_VerifyEmail_def Handler_Login_def
        Handler_Refresh_def Handler_Logout_def Handler_SwitchTenant_def Let_def
        intro!: refuses_RateLimit refuses_AuthN refuses_if refuses_fail refuses_unbound)
qed

text \<open>C14: A request whose body lacks a field its endpoint requires is refused with a client error, whatever
  the rest of the body holds, and leaves the database and every queue as they were.\<close>

theorem incomplete_body_refused:
  assumes "validator_ok valid G" "gin_Decode G (hr_Body r) = Inr (JObj fs)" "rq_Method (hr_Request r) = ''POST''"
    and "(hr_FullPath r, ds) \<in> set auth_bodies" "(k, tags) \<in> set ds" "''required'' \<in> set tags" "field_str L k fs = Inr []"
  shows "\<exists>rp w'. auth_server L G env h r w = (Inr rp, w') \<and> rp_Status rp \<in> {400, 401, 429}
    \<and> disk w' = disk w \<and> lists (rds w') = lists (rds w)"
proof -
  obtain e where e: "ShouldBindJSON L G ds (hr_Body r) = Inl e"
    using missing_field_unbound [OF assms(1,2,5-7)] by blast
  obtain call where call: "auth_route L G ''POST'' (hr_FullPath r) (hr_Body r) = Some call"
    using assms(4) by (auto simp: auth_bodies_def auth_route_def Let_def)
  let ?c = "(hr_Request r)\<lparr>ctx_request_id := request_id (hr_Request r) w\<rparr>"
    and ?w = "if TrimSpace (rq_Header (hr_Request r) ''X-Request-Id'') = [] then w\<lparr>tick := Suc (tick w)\<rparr> else w"
  obtain a w' where a: "auth_api L h call ?c ?w = (Inl (App a), w')" "HTTPStatus a \<in> {400, 401, 429}" "disk w' = disk ?w" "lists (rds w') = lists (rds ?w)"
    using unbound_refused [OF call assms(4) e] unfolding refuses_def by metis
  show ?thesis
    using a assms(3) call
    by (auto simp: auth_server_def engine_def RequestID_run CORS_def Let_def write_reply_def ErrorHandler_def resp_Fail_def split: if_splits)
qed

definition sample_bad_login :: http_request where
  "sample_bad_login = sample_http ''POST'' ''/api/v1/auth/login'' (enc_json (JObj [(''email'', JStr ''a@x''), (''Password'', JNull)]))"

theorem incomplete_body_refused_witness:
  "\<exists>rp w'. auth_server sample_lib sample_gin sample_env sample_handler sample_bad_login (sample_world sample_db) = (Inr rp, w')
     \<and> rp_Status rp \<in> {400, 401, 429} \<and> disk w' = sample_db"
proof -
  have valid: "validator_ok (\<lambda>v. CHR ''@'' \<in> set v) sample_gin"
    by (auto simp: validator_ok_def sample_gin_def list_all_iff)
  have "gin_Decode sample_gin (hr_Body sample_bad_login) = Inr (JObj [(''email'', JStr ''a@x''), (''Password'', JNull)])"
    by (simp add: sample_gin_def sample_bad_login_def sample_http_def del: enc_json.simps)
  moreover have "field_str sample_lib ''password'' [(''email'', JStr ''a@x''), (''Password'', JNull)] = Inr []" by code_simp
  moreover have "rq_Method (hr_Request sample_bad_login) = ''POST''" "(hr_FullPath sample_bad_login, LoginRequest_dto) \<in> set auth_bodies"
    "(''password'', [''required'']) \<in> set LoginRequest_dto"
    by (simp_all add: sample_bad_login_def sample_http_def auth_bodies_def LoginRequest_dto_def)
  ultimately show ?thesis
    using incomplete_body_refused [OF valid, of sample_bad_login _ LoginRequest_dto "''password''" "[''required'']" sample_lib sample_env
        sample_handler "sample_world sample_db"] by auto
qed

end
