(* ===== verification/Monitoring.thy ===== *)
theory Monitoring
  imports Worker_Delivery Config
begin

text \<open>
  The backlog collector of email-worker, \<open>internal/monitoring/collector.go\<close>, on the metrics of
  \<open>Worker_Consumer\<close>. Its loop ends when the context is cancelled; \<open>cancelled t\<close> says whether it is at
  tick \<open>t\<close>, and \<open>None\<close> is the result when the fuel is used up first.
\<close>

record QueueBacklogCollector =
  qc_Queue :: bool
  qc_QueueName :: string
  qc_PollInterval :: int
  qc_Metrics :: bool

definition poll_interval :: "QueueBacklogCollector \<Rightarrow> int" where
  "poll_interval c = (if qc_PollInterval c \<le> 0 then 15 * time_Second else qc_PollInterval c)"

text \<open>Waiting for the ticker takes a tick of the world.\<close>

fun collect :: "string \<Rightarrow> (nat \<Rightarrow> bool) \<Rightarrow> nat \<Rightarrow> 'd world \<Rightarrow> 'd world option" where
  "collect queueName cancelled 0 w = None"
| "collect queueName cancelled (Suc n) w =
     (if cancelled (tick w) then Some w
      else collect queueName cancelled n (snd (collector_poll queueName (w\<lparr>tick := Suc (tick w)\<rparr>))))"

definition QueueBacklogCollector_Run :: "QueueBacklogCollector \<Rightarrow> (nat \<Rightarrow> bool) \<Rightarrow> nat \<Rightarrow> 'd world \<Rightarrow> 'd world option" where
  "QueueBacklogCollector_Run c cancelled fuel w =
     (if \<not> qc_Queue c \<or> \<not> qc_Metrics c then Some w
      else collect (qc_QueueName c) cancelled fuel (snd (collector_poll (qc_QueueName c) w)))"

definition main_Collector :: "worker_Config \<Rightarrow> QueueBacklogCollector" where
  "main_Collector cfg = \<lparr>qc_Queue = True, qc_QueueName = wc_QueueName cfg, qc_PollInterval = wc_QueuePollInterval cfg, qc_Metrics = True\<rparr>"

lemma poll_run:
  assumes "TrimSpace q \<noteq> []"
  shows "collector_poll q w = (Inr (),
    if o_fault (orc w) (tick w)
    then w\<lparr>tick := Suc (tick w), metrics_of := IncQueueBacklogPollFailure q (metrics_of w)\<rparr>
    else w\<lparr>tick := Suc (tick w), metrics_of := SetQueueBacklog q (int (length (lists (rds w) q))) (metrics_of w)\<rparr>)"
  using assms by (simp add: collector_poll_def QueueLengthContext_def validateQueueName_def redis_LLen_def ecase_def ext_def
      with_metrics_def)

definition gauge_current :: "string \<Rightarrow> 'd world \<Rightarrow> bool" where
  "gauge_current q w \<longleftrightarrow> queueBacklog (metrics_of w) q = Some (int (length (lists (rds w) q)))"

definition metrics_only :: "'d world \<Rightarrow> 'd world \<Rightarrow> bool" where
  "metrics_only w w' \<longleftrightarrow> (\<exists>t m. w' = w\<lparr>tick := t, metrics_of := m\<rparr>)"

lemma metrics_only_refl: "metrics_only w w"
  unfolding metrics_only_def by (rule exI [of _ "tick w"], rule exI [of _ "metrics_of w"]) simp

lemma metrics_only_trans: "metrics_only w v \<Longrightarrow> metrics_only v w' \<Longrightarrow> metrics_only w w'"
  unfolding metrics_only_def by (elim exE) (intro exI, simp)

lemma poll_metrics:
  assumes "TrimSpace q \<noteq> []"
  shows "metrics_only w (snd (collector_poll q w))" "no_faults (orc w) \<Longrightarrow> gauge_current q (snd (collector_poll q w))"
    "tick (snd (collector_poll q w)) = Suc (tick w)" "orc (snd (collector_poll q w)) = orc w"
  by (auto simp: poll_run [OF assms] metrics_only_def gauge_current_def SetQueueBacklog_def)

lemma collect_ends:
  assumes "\<And>t. T \<le> t \<Longrightarrow> cancelled t" "TrimSpace q \<noteq> []" "T \<le> tick w + n"
  shows "\<exists>w'. collect q cancelled (Suc n) w = Some w' \<and> metrics_only w w' \<and> (no_faults (orc w) \<longrightarrow> gauge_current q w \<longrightarrow> gauge_current q w')"
  using assms(3)
proof (induction n arbitrary: w)
  case 0
  then show ?case using assms(1) [of "tick w"] by (auto simp: metrics_only_refl)
next
  case (Suc n)
  let ?w = "w\<lparr>tick := Suc (tick w)\<rparr>" let ?v = "snd (collector_poll q ?w)"
  note p = poll_metrics [OF assms(2), of ?w]
  have start: "metrics_only w ?v" using p(1) by (auto simp: metrics_only_def)
  show ?case
  proof (cases "cancelled (tick w)")
    case True
    then show ?thesis by (auto simp: metrics_only_refl)
  next
    case False
    have "T \<le> tick ?v + n" using Suc.prems p(3) by simp
    from Suc.IH [OF this] obtain w' where w': "collect q cancelled (Suc n) ?v = Some w'" "metrics_only ?v w'"
      "no_faults (orc ?v) \<longrightarrow> gauge_current q ?v \<longrightarrow> gauge_current q w'" by blast
    then have "collect q cancelled (Suc (Suc n)) w = Some w'" using False by simp
    then show ?thesis using w' start metrics_only_trans p(2,4) by auto
  qed
qed

text \<open>the collector ends once its context is cancelled, changes nothing but the metrics, and, when Redis answers, leaves the
  gauge at the number of jobs that wait in the queue.\<close>

theorem collector_reports_backlog:
  assumes "\<And>t. T \<le> t \<Longrightarrow> cancelled t" "TrimSpace (qc_QueueName c) \<noteq> []" "qc_Queue c" "qc_Metrics c"
  shows "\<exists>w'. QueueBacklogCollector_Run c cancelled (Suc (T - tick w)) w = Some w' \<and> metrics_only w w'
    \<and> (no_faults (orc w) \<longrightarrow> queueBacklog (metrics_of w') (qc_QueueName c) = Some (int (length (lists (rds w) (qc_QueueName c)))))"
proof -
  let ?v = "snd (collector_poll (qc_QueueName c) w)"
  note p = poll_metrics [OF assms(2), of w]
  have "T \<le> tick ?v + (T - tick w)" using p(3) by simp
  then obtain w' where w': "collect (qc_QueueName c) cancelled (Suc (T - tick w)) ?v = Some w'"
    "metrics_only ?v w'" "no_faults (orc ?v) \<longrightarrow> gauge_current (qc_QueueName c) ?v \<longrightarrow> gauge_current (qc_QueueName c) w'"
    using collect_ends [of T cancelled "qc_QueueName c" ?v "T - tick w"] assms(1,2) by blast
  have "metrics_only w w'" using p(1) w'(2) by (rule metrics_only_trans)
  moreover from this have "rds w' = rds w" by (auto simp: metrics_only_def)
  ultimately show ?thesis
    using w'(1,3) p(2,4) assms(3,4) by (simp add: QueueBacklogCollector_Run_def gauge_current_def del: collect.simps)
qed

theorem collector_reports_backlog_witness:
  "\<exists>w'. QueueBacklogCollector_Run \<lparr>qc_Queue = True, qc_QueueName = ''q'', qc_PollInterval = 0, qc_Metrics = True\<rparr> (\<lambda>t. 5 \<le> t) 6
     (sample_world empty_db) = Some w' \<and> queueBacklog (metrics_of w') ''q'' = Some 0"
proof -
  have "TrimSpace ''q'' \<noteq> []" by code_simp
  then show ?thesis
    using collector_reports_backlog [of 5 "\<lambda>t. 5 \<le> t" "\<lparr>qc_Queue = True, qc_QueueName = ''q'', qc_PollInterval = 0, qc_Metrics = True\<rparr>"
      "sample_world empty_db"] by auto
qed

end
