(* ===== verification/Rbac.thy ===== *)
theory Rbac
  imports Samples Frames
begin

text \<open>
  The policy storage of admin-api, \<open>services/admin-api/internal/rbac\<close>: the Postgres adapter on the
  table \<open>casbin_rule\<close>, which is the whole database here, and the default policy. Casbin itself is outside
  this repository: its parser for policy lines and its enforcer are arguments, and \<open>casbin_ok\<close> states
  what the seeding relies on.
\<close>

subsection \<open>The table\<close>

text \<open>The rows in the order of their serial \<open>id\<close>; six nullable columns.\<close>

record casbin_row =
  cr_ptype :: string
  cr_vals :: "string option list"

type_synonym policy_db = "casbin_row list"

definition runes :: "string \<Rightarrow> nat" where
  "runes s = length (filter (\<lambda>c. \<not> (128 \<le> (of_char c :: int) \<and> (of_char c :: int) < 192)) s)"

definition too_long :: "casbin_row \<Rightarrow> bool" where
  "too_long r \<longleftrightarrow> runes (cr_ptype r) > 100 \<or> list_ex (\<lambda>v. case v of None \<Rightarrow> False | Some s \<Rightarrow> runes s > 100) (cr_vals r)"

definition valueAt :: "string list \<Rightarrow> nat \<Rightarrow> string option" where
  "valueAt rule idx =
     (if idx \<ge> length rule then None
      else (let v = TrimSpace (rule ! idx) in if v = [] then None else Some v))"

definition rule_row :: "string \<Rightarrow> string list \<Rightarrow> casbin_row" where
  "rule_row ptype rule = \<lparr>cr_ptype = ptype, cr_vals = map (valueAt rule) [0..<6]\<rparr>"

definition insert_rule :: "string \<Rightarrow> string list \<Rightarrow> policy_db \<Rightarrow> (go_error, nat \<times> policy_db) result" where
  "insert_rule ptype rule rows =
     (if too_long (rule_row ptype rule) then Inl (PgError ''22001'') else Inr (1, rows @ [rule_row ptype rule]))"

subsection \<open>The adapter\<close>

fun last_filled :: "nat \<Rightarrow> string list \<Rightarrow> nat" where
  "last_filled i [] = 0"
| "last_filled i (p # ps) = (let k = last_filled (Suc i) ps in if k = 0 \<and> p \<noteq> [] then Suc i else k)"

definition policy_parts :: "casbin_row \<Rightarrow> string list" where
  "policy_parts r = (let parts = map (case_option [] id) (cr_vals r) in take (last_filled 0 parts) parts)"

definition policy_line :: "casbin_row \<Rightarrow> string" where
  "policy_line r = cr_ptype r @ concat (map (\<lambda>p. '', '' @ p) (policy_parts r))"

fun load_lines :: "(string \<Rightarrow> 'm \<Rightarrow> (go_error, 'm) result) \<Rightarrow> casbin_row list \<Rightarrow> 'm \<Rightarrow> (go_error, 'm) result" where
  "load_lines LoadPolicyLine [] model = Inr model"
| "load_lines LoadPolicyLine (r # rs) model =
     (case LoadPolicyLine (policy_line r) model of
        Inl err \<Rightarrow> Inl (Wrap ''load policy line: '' err [])
      | Inr model' \<Rightarrow> load_lines LoadPolicyLine rs model')"

definition Adapter_LoadPolicy :: "(string \<Rightarrow> 'm \<Rightarrow> (go_error, 'm) result) \<Rightarrow> 'm \<Rightarrow> (policy_db, 'm) proc" where
  "Adapter_LoadPolicy LoadPolicyLine model =
     ebind (pool_query Some) (\<lambda>rows. of_result (load_lines LoadPolicyLine rows model))"

definition insertRule :: "string \<Rightarrow> string list \<Rightarrow> (policy_db, unit) proc" where
  "insertRule ptype rule = ebind (tx_exec (\<lambda>_. insert_rule ptype rule)) (\<lambda>_. ok ())"

fun insert_rules :: "(string \<times> string list) list \<Rightarrow> (policy_db, unit) proc" where
  "insert_rules [] = ok ()"
| "insert_rules (pr # prs) = ebind (insertRule (fst pr) (snd pr)) (\<lambda>_. insert_rules prs)"

text \<open>A section of the model: its policy types, in the order the loop visits them, with their rules.\<close>

type_synonym policy_section = "(string \<times> string list list) list"

definition section_rules :: "policy_section \<Rightarrow> (string \<times> string list) list" where
  "section_rules sec = concat (map (\<lambda>(ptype, rules). map (\<lambda>rule. (ptype, rule)) rules) sec)"

definition Adapter_SavePolicy :: "policy_section \<Rightarrow> policy_section \<Rightarrow> (policy_db, unit) proc" where
  "Adapter_SavePolicy ps gs = run_tx (
     ebind (tx_exec (\<lambda>_ rows. Inr (0, []))) (\<lambda>_.
     ebind (insert_rules (section_rules ps)) (\<lambda>_.
     ebind (insert_rules (section_rules gs)) (\<lambda>_.
     tx_commit))))"

definition Adapter_AddPolicy :: "string \<Rightarrow> string list \<Rightarrow> (policy_db, unit) proc" where
  "Adapter_AddPolicy ptype rule = ebind (pool_exec (\<lambda>_. insert_rule ptype rule)) (\<lambda>_. ok ())"

text \<open>The condition the query and its arguments express: each column of the rule is compared, the
  others must be null. A comparison with a null column is never true.\<close>

definition buildPolicyQuery :: "string \<Rightarrow> string list \<Rightarrow> casbin_row \<Rightarrow> bool" where
  "buildPolicyQuery ptype rule r \<longleftrightarrow> cr_ptype r = ptype \<and>
     list_all (\<lambda>i. if i < length rule then cr_vals r ! i = Some (rule ! i) else cr_vals r ! i = None) [0..<6]"

definition delete_rules :: "(casbin_row \<Rightarrow> bool) \<Rightarrow> policy_db \<Rightarrow> (go_error, nat \<times> policy_db) result" where
  "delete_rules p rows = Inr (affected p rows, delete_where p rows)"

definition Adapter_RemovePolicy :: "string \<Rightarrow> string list \<Rightarrow> (policy_db, unit) proc" where
  "Adapter_RemovePolicy ptype rule = ebind (pool_exec (\<lambda>_. delete_rules (buildPolicyQuery ptype rule))) (\<lambda>_. ok ())"

text \<open>A column beyond \<open>v5\<close> does not exist.\<close>

definition filtered_row :: "string \<Rightarrow> nat \<Rightarrow> string list \<Rightarrow> casbin_row \<Rightarrow> bool" where
  "filtered_row ptype fieldIndex fieldValues r \<longleftrightarrow> cr_ptype r = ptype \<and>
     list_all (\<lambda>i. fieldValues ! i = [] \<or> cr_vals r ! (fieldIndex + i) = Some (fieldValues ! i)) [0..<length fieldValues]"

definition Adapter_RemoveFilteredPolicy :: "string \<Rightarrow> nat \<Rightarrow> string list \<Rightarrow> (policy_db, unit) proc" where
  "Adapter_RemoveFilteredPolicy ptype fieldIndex fieldValues =
     ebind (pool_exec (\<lambda>_ rows.
       if list_ex (\<lambda>i. fieldValues ! i \<noteq> [] \<and> fieldIndex + i \<ge> 6) [0..<length fieldValues] then Inl (PgError ''42703'')
       else delete_rules (filtered_row ptype fieldIndex fieldValues) rows)) (\<lambda>_. ok ())"

subsection \<open>Seeding\<close>

record 'e casbin =
  HasPolicy :: "string list \<Rightarrow> 'e \<Rightarrow> (go_error, bool) result"
  AddPolicy :: "string list \<Rightarrow> 'e \<Rightarrow> (go_error, bool) result \<times> 'e"
  SavePolicy :: "'e \<Rightarrow> (go_error, unit) result \<times> 'e"
  LoadPolicy :: "'e \<Rightarrow> (go_error, unit) result \<times> 'e"

definition defaultPolicyRules :: "string list list" where
  "defaultPolicyRules =
     [[''tenant_owner'', ''tenant:*'', ''/v1/admin/*'', ''*''],
      [''tenant_admin'', ''tenant:*'', ''/v1/admin/*'', ''*''],
      [''tenant_owner'', ''tenant:*'', ''/api/v1/admin/*'', ''*''],
      [''tenant_admin'', ''tenant:*'', ''/api/v1/admin/*'', ''*'']]"

fun seed_rules :: "'e casbin \<Rightarrow> string list list \<Rightarrow> bool \<Rightarrow> 'e \<Rightarrow> (go_error, bool) result \<times> 'e" where
  "seed_rules cb [] changed e = (Inr changed, e)"
| "seed_rules cb (rule # rules) changed e =
     (case HasPolicy cb rule e of
        Inl err \<Rightarrow> (Inl err, e)
      | Inr has \<Rightarrow>
          if has then seed_rules cb rules changed e
          else (case AddPolicy cb rule e of
                  (Inl err, e') \<Rightarrow> (Inl err, e')
                | (Inr added, e') \<Rightarrow> seed_rules cb rules (changed \<or> added) e'))"

definition SeedDefaultPolicy :: "'e casbin \<Rightarrow> 'e \<Rightarrow> (go_error, bool) result \<times> 'e" where
  "SeedDefaultPolicy cb e =
     (case seed_rules cb defaultPolicyRules False e of
        (Inl err, e') \<Rightarrow> (Inl err, e')
      | (Inr changed, e') \<Rightarrow>
          if \<not> changed then (Inr False, e')
          else (case SavePolicy cb e' of
                  (Inl err, e'') \<Rightarrow> (Inl err, e'')
                | (Inr _, e'') \<Rightarrow> (Inr True, e'')))"

definition NewEnforcer :: "'e casbin \<Rightarrow> (go_error, 'a) result \<Rightarrow> ('a \<Rightarrow> (go_error, 'e) result) \<Rightarrow> (go_error, 'e) result" where
  "NewEnforcer cb adapter casbin_NewEnforcer =
     (case adapter of
        Inl err \<Rightarrow> Inl (Wrap ''init casbin postgres adapter: '' err [])
      | Inr a \<Rightarrow>
          (case casbin_NewEnforcer a of
             Inl err \<Rightarrow> Inl (Wrap ''create casbin enforcer: '' err [])
           | Inr e \<Rightarrow>
               (case LoadPolicy cb e of
                  (Inl err, _) \<Rightarrow> Inl (Wrap ''load casbin policy: '' err [])
                | (Inr _, e1) \<Rightarrow>
                    (case SeedDefaultPolicy cb e1 of
                       (Inl err, _) \<Rightarrow> Inl (Wrap ''seed default casbin policy: '' err [])
                     | (Inr _, e2) \<Rightarrow> Inr e2))))"

subsection \<open>Rules and rows\<close>

definition clean_rule :: "string list \<Rightarrow> bool" where
  "clean_rule rule \<longleftrightarrow> length rule \<le> 6 \<and> list_all (\<lambda>f. TrimSpace f = f \<and> f \<noteq> []) rule"

lemma valueAt_clean: "clean_rule rule \<Longrightarrow> valueAt rule i = (if i < length rule then Some (rule ! i) else None)"
  by (auto simp: valueAt_def clean_rule_def Let_def list_all_length)

lemma last_filled_append: "last_filled i (xs @ replicate n []) = last_filled i xs"
proof (induction xs arbitrary: i)
  case Nil
  show ?case by (induction n arbitrary: i) auto
qed (simp add: Let_def)

lemma last_filled_full: "list_all (\<lambda>f. f \<noteq> []) xs \<Longrightarrow> last_filled i xs = (if xs = [] then 0 else i + length xs)"
  by (induction xs arbitrary: i) (auto simp: Let_def)

lemma row_vals_clean:
  assumes "clean_rule rule"
  shows "map (case_option [] id) (cr_vals (rule_row p rule)) = rule @ replicate (6 - length rule) []"
proof (rule nth_equalityI)
  show "length (map (case_option [] id) (cr_vals (rule_row p rule))) = length (rule @ replicate (6 - length rule) [])"
    using assms by (simp add: rule_row_def clean_rule_def)
qed (use assms in \<open>auto simp: rule_row_def valueAt_clean nth_append clean_rule_def\<close>)

lemma policy_parts_clean: "clean_rule rule \<Longrightarrow> policy_parts (rule_row p rule) = rule"
  using last_filled_full [of rule 0]
  by (auto simp: policy_parts_def Let_def row_vals_clean last_filled_append clean_rule_def list_all_iff)

lemma JoinWith_Cons: "JoinWith sep (p # ps) = p @ concat (map (\<lambda>q. sep @ q) ps)"
  by (induction ps arbitrary: p) auto

lemma policy_line_clean: "clean_rule rule \<Longrightarrow> policy_line (rule_row p rule) = JoinWith '', '' (p # rule)"
  unfolding policy_line_def JoinWith_Cons by (simp add: policy_parts_clean) (simp add: rule_row_def)

lemma query_clean:
  assumes "clean_rule rule"
  shows "buildPolicyQuery p rule (rule_row p rule)"
  using assms by (auto simp: buildPolicyQuery_def rule_row_def valueAt_clean list_all_iff)

text \<open>A field that is empty or has spaces around it is stored in another form than it is looked for.\<close>

lemma query_unclean:
  assumes "i < length rule" "i < 6" "TrimSpace (rule ! i) \<noteq> rule ! i \<or> rule ! i = []"
  shows "\<not> buildPolicyQuery p rule (rule_row p rule)"
proof -
  have "valueAt rule i \<noteq> Some (rule ! i)" using assms by (auto simp: valueAt_def Let_def)
  then show ?thesis using assms(1,2) by (auto simp: buildPolicyQuery_def rule_row_def list_all_iff intro!: bexI [of _ i])
qed

subsection \<open>Saving and loading\<close>

lemma insert_rules_run:
  "insert_rules prs w = (Inr u, w') \<Longrightarrow> work w' = work w @ map (\<lambda>(p, r). rule_row p r) prs \<and> disk w' = disk w"
proof (induction prs arbitrary: w)
  case (Cons pr prs)
  then obtain v where v: "insert_rules prs v = (Inr u, w')" "work v = work w @ [rule_row (fst pr) (snd pr)]" "disk v = disk w"
    by (auto simp: insertRule_def insert_rule_def runs split: if_splits)
  from Cons.IH [OF v(1)] v(2,3) show ?case by (simp add: case_prod_unfold)
qed (simp add: runs)

lemma save_run:
  assumes "Adapter_SavePolicy ps gs w = (Inr u, w')"
  shows "disk w' = map (\<lambda>(p, r). rule_row p r) (section_rules ps @ section_rules gs)"
  using assms by (auto simp: Adapter_SavePolicy_def runs dest!: insert_rules_run)

definition safe_rule :: "string \<times> string list \<Rightarrow> bool" where
  "safe_rule pr \<longleftrightarrow> clean_rule (snd pr) \<and>
     list_all (\<lambda>f. f \<noteq> [] \<and> set f \<inter> {CHR '','', CHR 0x22, CHR 0x0A, CHR 0x0D, CHR ''#''} = {}) (fst pr # snd pr)"

text \<open>What is needed of Casbin's parser: the fields of a line, separated by a comma and a space and free of special
  characters, are added to the model as a rule.\<close>

definition parses_lines :: "(string \<Rightarrow> 'm \<Rightarrow> (go_error, 'm) result) \<Rightarrow> (string \<times> string list \<Rightarrow> 'm \<Rightarrow> 'm) \<Rightarrow> bool" where
  "parses_lines LoadPolicyLine add \<longleftrightarrow>
     (\<forall>p r m. safe_rule (p, r) \<longrightarrow> LoadPolicyLine (JoinWith '', '' (p # r)) m = Inr (add (p, r) m))"

lemma load_lines_rows:
  assumes "parses_lines LPL add" "list_all safe_rule prs"
  shows "load_lines LPL (map (\<lambda>(p, r). rule_row p r) prs) m = Inr (fold add prs m)"
  using assms(2)
proof (induction prs arbitrary: m)
  case (Cons pr prs)
  obtain p r where pr: "pr = (p, r)" by (cases pr)
  then have "LPL (policy_line (rule_row p r)) m = Inr (add (p, r) m)"
    using Cons.prems assms(1) by (simp add: policy_line_clean safe_rule_def parses_lines_def)
  then show ?case using Cons by (simp add: pr)
qed simp


subsection \<open>Adding and removing\<close>

text \<open>a rule without blank or padded fields that was added can be removed again: the table is what it was.\<close>

theorem policy_add_remove:
  assumes "clean_rule rule" "Adapter_AddPolicy ptype rule w = (Inr u, w1)" "disk w2 = disk w1"
    and "Adapter_RemovePolicy ptype rule w2 = (Inr u', w3)" "\<not> list_ex (buildPolicyQuery ptype rule) (disk w)"
  shows "disk w3 = disk w"
proof -
  have "disk w2 = disk w @ [rule_row ptype rule]"
    using assms(2,3) by (auto simp: Adapter_AddPolicy_def insert_rule_def runs split: if_splits)
  moreover have "disk w3 = delete_where (buildPolicyQuery ptype rule) (disk w2)"
    using assms(4) by (auto simp: Adapter_RemovePolicy_def delete_rules_def runs)
  ultimately show ?thesis
    using assms(5) query_clean [OF assms(1), of ptype] by (simp add: list_ex_iff delete_where_none)
qed

text \<open>a rule with an empty or padded field cannot be removed: it is stored trimmed, with null for an
  empty field, but is looked for as given.\<close>

theorem policy_remove_misses:
  assumes "i < length rule" "i < 6" "TrimSpace (rule ! i) \<noteq> rule ! i \<or> rule ! i = []"
    and "Adapter_AddPolicy ptype rule w = (Inr u, w1)" "disk w2 = disk w1" "Adapter_RemovePolicy ptype rule w2 = (Inr u', w3)"
  shows "rule_row ptype rule \<in> set (disk w3)"
proof -
  have "rule_row ptype rule \<in> set (disk w2)"
    using assms(4,5) by (auto simp: Adapter_AddPolicy_def insert_rule_def runs split: if_splits)
  moreover have "disk w3 = delete_where (buildPolicyQuery ptype rule) (disk w2)"
    using assms(6) by (auto simp: Adapter_RemovePolicy_def delete_rules_def runs)
  ultimately show ?thesis using query_unclean [OF assms(1-3), of ptype] by simp
qed

subsection \<open>The default policy\<close>

text \<open>What the seeding needs of Casbin: \<open>pol\<close> is the policy of the enforcer; asking does not change it, adding a rule
  appends it when it is new and reports that, and saving keeps it.\<close>

definition casbin_ok :: "'e casbin \<Rightarrow> ('e \<Rightarrow> string list list) \<Rightarrow> bool" where
  "casbin_ok cb pol \<longleftrightarrow>
     (\<forall>r e b. HasPolicy cb r e = Inr b \<longrightarrow> b = (r \<in> set (pol e))) \<and>
     (\<forall>r e b e'. AddPolicy cb r e = (Inr b, e') \<longrightarrow> b = (r \<notin> set (pol e)) \<and> pol e' = (if b then pol e @ [r] else pol e)) \<and>
     (\<forall>e x e'. SavePolicy cb e = (x, e') \<longrightarrow> pol e' = pol e)"

lemma seed_rules_run:
  assumes "casbin_ok cb pol" "distinct rules" "seed_rules cb rules b e = (Inr c, e')"
  shows "pol e' = pol e @ filter (\<lambda>r. r \<notin> set (pol e)) rules \<and> c = (b \<or> \<not> set rules \<subseteq> set (pol e))"
  using assms(2,3)
proof (induction rules arbitrary: b e)
  case (Cons r rules)
  then obtain has where h: "HasPolicy cb r e = Inr has" by (auto split: sum.splits)
  then have has: "has = (r \<in> set (pol e))" using assms(1) by (auto simp: casbin_ok_def)
  show ?case
  proof (cases has)
    case True
    then show ?thesis using Cons h has by auto
  next
    case False
    then obtain added e1 where a: "AddPolicy cb r e = (Inr added, e1)" "seed_rules cb rules (b \<or> added) e1 = (Inr c, e')"
      using Cons.prems(2) h by (auto split: sum.splits prod.splits)
    have e1: "added" "pol e1 = pol e @ [r]" using a(1) assms(1) False has unfolding casbin_ok_def by fastforce+
    have "filter (\<lambda>x. x \<notin> set (pol e1)) rules = filter (\<lambda>x. x \<notin> set (pol e)) rules"
      using Cons.prems(1) e1(2) by (intro filter_cong) auto
    then show ?thesis using Cons.IH [OF _ a(2)] Cons.prems(1) e1 False has by auto
  qed
qed auto

lemma default_rules_distinct: "distinct defaultPolicyRules"
  by (simp add: defaultPolicyRules_def)

lemma seed_again:
  assumes "casbin_ok cb pol" "set rules \<subseteq> set (pol e)" "\<And>r. \<not> isl (HasPolicy cb r e)"
  shows "seed_rules cb rules b e = (Inr b, e)"
  using assms(2)
proof (induction rules)
  case (Cons r rules)
  obtain has where "HasPolicy cb r e = Inr has" using assms(3) [of r] by (cases "HasPolicy cb r e") auto
  then have "HasPolicy cb r e = Inr True" using Cons.prems assms(1) by (auto simp: casbin_ok_def)
  then show ?case using Cons by simp
qed simp

text \<open>seeding is idempotent and adds nothing but missing default rules: after it succeeds the
  policy is the old one followed by the default rules that were not in it, it reports whether there were any,
  and seeding again changes nothing and says so.\<close>

theorem seed_idempotent:
  assumes "casbin_ok cb pol" "SeedDefaultPolicy cb e = (Inr changed, e')" "\<And>r. \<not> isl (HasPolicy cb r e')"
  shows "pol e' = pol e @ filter (\<lambda>r. r \<notin> set (pol e)) defaultPolicyRules
    \<and> changed = (\<not> set defaultPolicyRules \<subseteq> set (pol e))
    \<and> SeedDefaultPolicy cb e' = (Inr False, e')"
proof -
  obtain c e1 where s: "seed_rules cb defaultPolicyRules False e = (Inr c, e1)" "changed = c" "pol e' = pol e1"
    using assms(1,2) by (auto simp: SeedDefaultPolicy_def casbin_ok_def split: prod.splits sum.splits if_splits)
  note run = seed_rules_run [OF assms(1) default_rules_distinct s(1)]
  have "set defaultPolicyRules \<subseteq> set (pol e')" using run s(3) by auto
  from seed_again [OF assms(1) this assms(3)] run s show ?thesis by (simp add: SeedDefaultPolicy_def)
qed

subsection \<open>Instances\<close>

definition sample_policy :: policy_section where
  "sample_policy = [(''p'', [[''tenant_owner'', ''tenant:*'', ''/v1/admin/*'', ''*'']])]"


theorem policy_add_remove_witness:
  "disk (snd (Adapter_RemovePolicy ''p'' [''a'', ''b''] (snd (Adapter_AddPolicy ''p'' [''a'', ''b''] (sample_world []))))) = []"
proof -
  have "fst (Adapter_AddPolicy ''p'' [''a'', ''b''] (sample_world [])) = Inr ()"
    "fst (Adapter_RemovePolicy ''p'' [''a'', ''b''] (snd (Adapter_AddPolicy ''p'' [''a'', ''b''] (sample_world [])))) = Inr ()"
    "clean_rule [''a'', ''b'']" by code_simp+
  then show ?thesis using policy_add_remove [OF _ run_result _ run_result] by simp
qed

theorem policy_remove_misses_witness:
  "rule_row ''p'' [''a '', ''b''] \<in> set (disk (snd (Adapter_RemovePolicy ''p'' [''a '', ''b'']
     (snd (Adapter_AddPolicy ''p'' [''a '', ''b''] (sample_world []))))))"
proof -
  have "fst (Adapter_AddPolicy ''p'' [''a '', ''b''] (sample_world [])) = Inr ()"
    "fst (Adapter_RemovePolicy ''p'' [''a '', ''b''] (snd (Adapter_AddPolicy ''p'' [''a '', ''b''] (sample_world [])))) = Inr ()"
    "TrimSpace ''a '' \<noteq> ''a ''" by code_simp+
  then show ?thesis
    using policy_remove_misses [of 0 "[''a '', ''b'']" "''p''", OF _ _ _ run_result _ run_result] by simp
qed

definition list_casbin :: "string list list casbin" where
  "list_casbin = \<lparr>HasPolicy = (\<lambda>r e. Inr (r \<in> set e)), AddPolicy = (\<lambda>r e. if r \<in> set e then (Inr False, e) else (Inr True, e @ [r])),
     SavePolicy = (\<lambda>e. (Inr (), e)), LoadPolicy = (\<lambda>e. (Inr (), e))\<rparr>"

theorem seed_idempotent_witness:
  "SeedDefaultPolicy list_casbin (snd (SeedDefaultPolicy list_casbin [])) = (Inr False, snd (SeedDefaultPolicy list_casbin []))"
proof -
  have 1: "fst (SeedDefaultPolicy list_casbin []) = Inr True" by code_simp
  have 2: "casbin_ok list_casbin id" by (auto simp: casbin_ok_def list_casbin_def split: if_splits)
  have 3: "\<not> isl (HasPolicy list_casbin r e)" for r e by (simp add: list_casbin_def)
  from seed_idempotent [OF 2 run_result [OF 1] 3] show ?thesis by blast
qed

end
