(* ===== verification/Kpi.thy ===== *)
theory Kpi
  imports Config "HOL-Library.AList"
begin

text \<open>
  The report command of auth-api, \<open>cmd/kpi-report/main.go\<close>: the queries on the database, the reader of
  Mixpanel exports, the recommendations and the Markdown page. Parameters stand for what is not in
  the repository: \<open>'f\<close> with \<open>float_lib\<close> for IEEE double precision, its printing and PostgreSQL's
  \<open>percentile_cont\<close>; \<open>export_lib\<close> for opening a file, the records of a CSV file and the values
  of a JSON stream, each with the error that ended it; \<open>time_text\<close> for RFC 3339.
\<close>

record 'f float_lib =
  f_int :: "int \<Rightarrow> 'f"
  f_div :: "'f \<Rightarrow> 'f \<Rightarrow> 'f"
  f_mul :: "'f \<Rightarrow> 'f \<Rightarrow> 'f"
  percentile_half :: "int list \<Rightarrow> 'f"
  f_fixed2 :: "'f \<Rightarrow> string"
  f_nanos :: "'f \<Rightarrow> int"

record export_lib =
  os_Open :: "string \<Rightarrow> (go_error, string) result"
  csv_records :: "string \<Rightarrow> string list list \<times> go_error option"
  json_items :: "string \<Rightarrow> json list \<times> go_error option"
  json_values :: "string \<Rightarrow> json list \<times> go_error option"

subsection \<open>Data\<close>

record 'f databaseSummary =
  ds_CohortStart :: "instant option"
  ds_CohortEnd :: "instant option"
  ds_RegisteredUsers :: int
  ds_VerifiedUsers :: int
  ds_ActivationRatePct :: "'f option"
  ds_MedianTTVSeconds :: "'f option"
  ds_MedianQueuedToSentSeconds :: "'f option"
  ds_UnverifiedUsersWithoutSent :: int
  ds_UnverifiedUsersWithoutClick :: int
  ds_UsersWithOTPErrors :: int
  ds_UsersWithBouncedEmail :: int
  ds_UsersWithFailedEmail :: int
  ds_ActivatedByMethod :: "(string \<times> int) list"

record mixpanelSummary =
  ms_Path :: string
  ms_TotalEvents :: int
  ms_RelevantCount :: "(string \<times> int) list"

record 'f report =
  rp_GeneratedAt :: instant
  rp_Database :: "'f databaseSummary option"
  rp_Mixpanel :: "mixpanelSummary option"
  rp_Notes :: "string list"
  rp_Recommendations :: "string list"

record kpi_config =
  kc_DBDSN :: string
  kc_Format :: string
  kc_MixpanelExport :: string

text \<open>A flag that is not given has its default.\<close>

definition kpi_loadConfig :: "lib \<Rightarrow> env \<Rightarrow> string option \<Rightarrow> string option \<Rightarrow> string option \<Rightarrow> kpi_config" where
  "kpi_loadConfig L env dsnFlag formatFlag exportFlag =
     \<lparr>kc_DBDSN = TrimSpace (case dsnFlag of None \<Rightarrow> TrimSpace (env ''DB_DSN'') | Some s \<Rightarrow> s),
      kc_Format = ToLower L (TrimSpace (case formatFlag of None \<Rightarrow> ''markdown'' | Some s \<Rightarrow> s)),
      kc_MixpanelExport = TrimSpace (case exportFlag of None \<Rightarrow> [] | Some s \<Rightarrow> s)\<rparr>"

subsection \<open>The database\<close>

definition registration_cohort :: "db \<Rightarrow> user_row list" where
  "registration_cohort d = filter (\<lambda>u. list_ex (\<lambda>ev. v_user_id ev = u_id u) (verifications d)) (users d)"

definition cohort_query :: "db \<Rightarrow> instant option \<times> instant option \<times> int \<times> int" where
  "cohort_query d =
     (let c = registration_cohort d; ts = map u_created_at c
      in (if ts = [] then None else Some (Min (set ts)), if ts = [] then None else Some (Max (set ts)),
          int (length c), int (length (filter (\<lambda>u. u_email_verified_at u \<noteq> None) c))))"

text \<open>A percentile over no rows is \<open>NULL\<close>.\<close>

definition median :: "'f float_lib \<Rightarrow> int list \<Rightarrow> 'f option" where
  "median F xs = (if xs = [] then None else Some (percentile_half F xs))"

definition ttv_query :: "db \<Rightarrow> int list" where
  "ttv_query d = concat (map (\<lambda>u. case u_email_verified_at u of None \<Rightarrow> [] | Some t \<Rightarrow> [t - u_created_at u]) (registration_cohort d))"

definition statuses :: "db \<Rightarrow> email_row \<Rightarrow> string \<Rightarrow> history_row list" where
  "statuses d er st = filter (\<lambda>h. h_record_id h = e_id er \<and> h_status h = st) (status_history d)"

definition sent_delay_query :: "db \<Rightarrow> int list" where
  "sent_delay_query d = concat (map (\<lambda>er.
     let ts = map h_created_at (statuses d er ''sent'') in if ts = [] then [] else [Min (set ts) - e_created_at er])
     (filter (\<lambda>er. e_template er = ''verification_email'') (email_records d)))"

definition has_mail :: "db \<Rightarrow> user_row \<Rightarrow> (email_row \<Rightarrow> bool) \<Rightarrow> bool" where
  "has_mail d u p = list_ex (\<lambda>er. e_user_id er = Some (u_id u) \<and> e_template er = ''verification_email'' \<and> p er) (email_records d)"

definition without_sent_query :: "db \<Rightarrow> int" where
  "without_sent_query d = int (length (filter (\<lambda>u. u_email_verified_at u = None \<and> has_mail d u (\<lambda>_. True)
     \<and> \<not> has_mail d u (\<lambda>er. statuses d er ''sent'' \<noteq> [])) (registration_cohort d)))"

definition without_click_query :: "db \<Rightarrow> int" where
  "without_click_query d = int (length (filter (\<lambda>u. u_email_verified_at u = None \<and> has_mail d u (\<lambda>er. statuses d er ''sent'' \<noteq> [])
     \<and> \<not> has_mail d u (\<lambda>er. statuses d er ''clicked'' \<noteq> [])) (registration_cohort d)))"

definition otp_errors_query :: "db \<Rightarrow> int" where
  "otp_errors_query d = int (length (remdups (map v_user_id (filter (\<lambda>v. v_token_type v = ''otp'' \<and> v_attempts v > 0) (verifications d)))))"

definition users_with_status_query :: "string \<Rightarrow> db \<Rightarrow> int" where
  "users_with_status_query st d = int (length (remdups (map e_user_id (filter (\<lambda>er. e_template er = ''verification_email''
     \<and> e_user_id er \<noteq> None \<and> statuses d er st \<noteq> []) (email_records d)))))"

text \<open>\<open>select distinct on (user_id)\<close>: of the consumed verifications of a user the one that was
  consumed first, the smaller identifier first when two were consumed at the same instant.\<close>

definition consumed_before :: "verification_row \<Rightarrow> verification_row \<Rightarrow> bool" where
  "consumed_before a b \<longleftrightarrow> (case (v_verified_at a, v_verified_at b) of
     (Some s, Some t) \<Rightarrow> s < t \<or> (s = t \<and> v_id a < v_id b) | _ \<Rightarrow> False)"

definition consumed_rows :: "db \<Rightarrow> verification_row list" where
  "consumed_rows d = filter (\<lambda>v. v_verified_at v \<noteq> None) (verifications d)"

definition first_method :: "db \<Rightarrow> string \<Rightarrow> string option" where
  "first_method d uid = map_option v_token_type (first_by consumed_before (filter (\<lambda>v. v_user_id v = uid) (consumed_rows d)))"

definition methods_query :: "db \<Rightarrow> (string \<times> int) list" where
  "methods_query d =
     (let ms = concat (map (\<lambda>uid. case first_method d uid of None \<Rightarrow> [] | Some m \<Rightarrow> [m]) (remdups (map v_user_id (consumed_rows d))))
      in map (\<lambda>m. (m, int (count_list ms m))) (remdups ms))"

definition queryOptionalFloat64 :: "(db \<Rightarrow> 'f option) \<Rightarrow> (db, 'f option) proc" where
  "queryOptionalFloat64 q = pool_query (\<lambda>d. Some (q d))"

definition loadDatabaseSummary :: "'f float_lib \<Rightarrow> (db, 'f databaseSummary) proc" where
  "loadDatabaseSummary F =
     ebind (pool_query (\<lambda>d. Some (cohort_query d))) (\<lambda>(cohortStart, cohortEnd, registered, verified).
     ebind (queryOptionalFloat64 (\<lambda>d. median F (ttv_query d))) (\<lambda>ttv.
     ebind (queryOptionalFloat64 (\<lambda>d. median F (sent_delay_query d))) (\<lambda>delay.
     ebind (pool_query (\<lambda>d. Some (without_sent_query d))) (\<lambda>withoutSent.
     ebind (pool_query (\<lambda>d. Some (without_click_query d))) (\<lambda>withoutClick.
     ebind (pool_query (\<lambda>d. Some (otp_errors_query d))) (\<lambda>otpErrors.
     ebind (pool_query (\<lambda>d. Some (users_with_status_query ''bounced'' d))) (\<lambda>bounced.
     ebind (pool_query (\<lambda>d. Some (users_with_status_query ''failed'' d))) (\<lambda>failed.
     ebind (pool_query (\<lambda>d. Some (methods_query d))) (\<lambda>methods.
     ok \<lparr>ds_CohortStart = cohortStart, ds_CohortEnd = cohortEnd, ds_RegisteredUsers = registered, ds_VerifiedUsers = verified,
         ds_ActivationRatePct = (if registered > 0 then Some (f_mul F (f_div F (f_int F verified) (f_int F registered)) (f_int F 100)) else None),
         ds_MedianTTVSeconds = ttv, ds_MedianQueuedToSentSeconds = delay, ds_UnverifiedUsersWithoutSent = withoutSent,
         ds_UnverifiedUsersWithoutClick = withoutClick, ds_UsersWithOTPErrors = otpErrors, ds_UsersWithBouncedEmail = bounced,
         ds_UsersWithFailedEmail = failed, ds_ActivatedByMethod = methods\<rparr>)))))))))"

subsection \<open>Mixpanel exports\<close>

definition relevant_events :: "string list" where
  "relevant_events = [''verification_registration_started'', ''verification_email_sent'', ''verification_email_bounced'',
     ''verification_link_clicked'', ''verification_otp_failed'', ''account_activated'']"

definition recordEvent :: "string \<Rightarrow> mixpanelSummary \<Rightarrow> mixpanelSummary" where
  "recordEvent name0 s =
     (let name = TrimSpace name0
      in if name = [] then s
         else s\<lparr>ms_TotalEvents := ms_TotalEvents s + 1,
                ms_RelevantCount := (if name \<in> set relevant_events
                  then AList.update name ((case map_of (ms_RelevantCount s) name of None \<Rightarrow> 0 | Some n \<Rightarrow> n) + 1) (ms_RelevantCount s)
                  else ms_RelevantCount s)\<rparr>)"

text \<open>\<open>filepath.Ext\<close>: from the last dot of the last path element.\<close>

definition filepath_Ext :: "string \<Rightarrow> string" where
  "filepath_Ext path =
     (let base = takeWhile (\<lambda>c. c \<noteq> CHR ''/'') (rev path)
      in if CHR ''.'' \<in> set base then CHR ''.'' # rev (takeWhile (\<lambda>c. c \<noteq> CHR ''.'') base) else [])"

definition event_column :: "lib \<Rightarrow> string list \<Rightarrow> nat option" where
  "event_column L header =
     (let headerIndex = map_of (rev (zip (map (\<lambda>n. ToLower L (TrimSpace n)) header) [0..<length header]))
      in case headerIndex ''event'' of Some i \<Rightarrow> Some i
         | None \<Rightarrow> (case headerIndex ''event_name'' of Some i \<Rightarrow> Some i | None \<Rightarrow> headerIndex ''name''))"

definition firstNonSpaceByte :: "string \<Rightarrow> char option" where
  "firstNonSpaceByte s = (case dropWhile (\<lambda>c. c \<in> {CHR '' '', CHR 0x09, CHR 0x0D, CHR 0x0A}) s of [] \<Rightarrow> None | c # _ \<Rightarrow> Some c)"

record eventRow =
  er_Event :: string
  er_EventName :: string
  er_Name :: string

definition normalizedEventName :: "eventRow \<Rightarrow> string" where
  "normalizedEventName e =
     (if TrimSpace (er_Event e) \<noteq> [] then TrimSpace (er_Event e)
      else if TrimSpace (er_EventName e) \<noteq> [] then TrimSpace (er_EventName e)
      else TrimSpace (er_Name e))"

definition eventRow_of_json :: "lib \<Rightarrow> json \<Rightarrow> (go_error, eventRow) result" where
  "eventRow_of_json L j =
     (case j of
        JObj fs \<Rightarrow>
          rbind (field_str L ''event'' fs) (\<lambda>ev.
          rbind (field_str L ''event_name'' fs) (\<lambda>en.
          rbind (field_str L ''name'' fs) (\<lambda>n.
          Inr \<lparr>er_Event = ev, er_EventName = en, er_Name = n\<rparr>)))
      | JNull \<Rightarrow> Inr \<lparr>er_Event = [], er_EventName = [], er_Name = []\<rparr>
      | _ \<Rightarrow> Inl JsonTypeError)"

text \<open>A row of an array is decoded into a map; its keys are exact.\<close>

definition row_of_json :: "json \<Rightarrow> (go_error, (string \<times> json) list) result" where
  "row_of_json j = (case j of JObj fs \<Rightarrow> Inr (go_map fs) | JNull \<Rightarrow> Inr [] | _ \<Rightarrow> Inl JsonTypeError)"

fun first_string :: "(string \<times> json) list \<Rightarrow> string list \<Rightarrow> string" where
  "first_string row [] = []"
| "first_string row (k # ks) = (case map_of row k of Some (JStr name) \<Rightarrow> name | _ \<Rightarrow> first_string row ks)"

definition extractEventName :: "(string \<times> json) list \<Rightarrow> string" where
  "extractEventName row = first_string row [''event'', ''event_name'', ''name'']"

text \<open>Reading the rows in order, up to the first that does not decode or the error that ends the input.\<close>

fun read_rows :: "('r \<Rightarrow> (go_error, string) result) \<Rightarrow> 'r list \<times> go_error option \<Rightarrow> mixpanelSummary \<Rightarrow> (go_error, mixpanelSummary) result" where
  "read_rows name ([], None) s = Inr s"
| "read_rows name ([], Some err) s = Inl err"
| "read_rows name (r # rs, e) s = rbind (name r) (\<lambda>n. read_rows name (rs, e) (recordEvent n s))"

definition loadMixpanelSummary :: "lib \<Rightarrow> export_lib \<Rightarrow> string \<Rightarrow> (go_error, mixpanelSummary) result" where
  "loadMixpanelSummary L X path =
     rbind (os_Open X path) (\<lambda>file.
     (let summary = \<lparr>ms_Path = path, ms_TotalEvents = 0, ms_RelevantCount = []\<rparr>
      in if ToLower L (filepath_Ext path) = ''.csv''
         then (case csv_records X file of
             ([], None) \<Rightarrow> Inr summary
           | ([], Some err) \<Rightarrow> Inl err
           | (header # rows, e) \<Rightarrow>
               (case event_column L header of
                  None \<Rightarrow> Inl (New ''csv export is missing an event column'')
                | Some i \<Rightarrow> read_rows (\<lambda>row. Inr (if i < length row then row ! i else [])) (rows, e) summary))
         else (case firstNonSpaceByte file of
             None \<Rightarrow> Inr summary
           | Some c \<Rightarrow>
               if c = CHR ''['' then read_rows (\<lambda>j. rbind (row_of_json j) (\<lambda>row. Inr (extractEventName row))) (json_items X file) summary
               else read_rows (\<lambda>j. rbind (eventRow_of_json L j) (\<lambda>row. Inr (normalizedEventName row))) (json_values X file) summary)))"

subsection \<open>Recommendations\<close>

fun dedupe :: "string list \<Rightarrow> string list \<Rightarrow> string list" where
  "dedupe seen [] = []"
| "dedupe seen (v # vs) =
     (let value = TrimSpace v
      in if value = [] \<or> value \<in> set seen then dedupe seen vs else value # dedupe (value # seen) vs)"

definition dedupeStrings :: "string list \<Rightarrow> string list" where
  "dedupeStrings values = dedupe [] values"

definition rec_populate :: string where
  "rec_populate = ''Run this report against a populated environment and attach a Mixpanel/Segment export so KPI results can be validated on production-like data.''"
definition rec_delivery :: string where
  "rec_delivery = ''Prioritize email delivery health. This repository now emits `verification_email_sent` with `latency_from_queue_ms`, which makes queued-to-sent delay measurable in exports.''"
definition rec_click :: string where
  "rec_click = ''Reduce sent-but-not-clicked drop-off with clearer verification email copy, explicit same-device OTP fallback, and resend guidance. Those copy changes are included in this PR.''"
definition rec_otp :: string where
  "rec_otp = ''Use the new `verification_otp_failed` event to break down invalid, expired, and locked-out OTP attempts, then simplify the OTP UX around the dominant reason.''"
definition rec_ttl :: string where
  "rec_ttl = ''Use `VERIFICATION_TTL_MIN` to test a shorter expiration window in staging before production rollout instead of changing the 15-minute default blindly.''"
definition rec_export :: string where
  "rec_export = ''Provide a Mixpanel or Segment export on the next run. This issue adds the missing registration-start and OTP-failure events so export-only analyses have a denominator and OTP error signal going forward.''"

definition deriveRecommendations :: "'f report \<Rightarrow> string list" where
  "deriveRecommendations rep = dedupeStrings (
     (case rp_Database rep of None \<Rightarrow> [rec_populate] | Some s \<Rightarrow> if ds_RegisteredUsers s = 0 then [rec_populate] else []) @
     (case rp_Database rep of None \<Rightarrow> []
      | Some s \<Rightarrow>
          (if ds_UnverifiedUsersWithoutSent s > 0 \<or> ds_UsersWithFailedEmail s > 0 \<or> ds_UsersWithBouncedEmail s > 0 then [rec_delivery] else []) @
          (if ds_UnverifiedUsersWithoutClick s > 0 then [rec_click] else []) @
          (if ds_UsersWithOTPErrors s > 0 then [rec_otp] else []) @
          [rec_ttl]) @
     (if rp_Mixpanel rep = None then [rec_export] else []))"

subsection \<open>The page\<close>

text \<open>\<open>time.Duration.String\<close>.\<close>

definition frac :: "nat \<Rightarrow> nat \<Rightarrow> string" where
  "frac n prec = (let ds = TrimRight (pad_decimal prec (n mod 10 ^ prec)) (CHR ''0'') in if ds = [] then [] else CHR ''.'' # ds)"

definition Duration_String :: "int \<Rightarrow> string" where
  "Duration_String d =
     (let u = nat (abs d);
          body = (if u < 1000000000 then
                    (if u = 0 then ''0s''
                     else if u < 1000 then decimal u @ ''ns''
                     else if u < 1000000 then decimal (u div 1000) @ frac u 3 @ [CHR 0xC2, CHR 0xB5] @ ''s''
                     else decimal (u div 1000000) @ frac u 6 @ ''ms'')
                  else
                    (let secs = u div 1000000000; mins = secs div 60; hours = mins div 60
                     in (if hours > 0 then decimal hours @ ''h'' else []) @
                        (if mins > 0 then decimal (mins mod 60) @ ''m'' else []) @
                        decimal (secs mod 60) @ frac u 9 @ ''s''))
      in if d < 0 then CHR ''-'' # body else body)"

definition formatPercent :: "'f float_lib \<Rightarrow> 'f option \<Rightarrow> string" where
  "formatPercent F value = (case value of None \<Rightarrow> ''N/A'' | Some v \<Rightarrow> f_fixed2 F v @ ''%'')"

definition formatSeconds :: "'f float_lib \<Rightarrow> 'f option \<Rightarrow> string" where
  "formatSeconds F value = (case value of None \<Rightarrow> ''N/A'' | Some v \<Rightarrow> Duration_String (Duration_Round (f_nanos F v) time_Second))"

definition formatTime :: "(instant \<Rightarrow> string) \<Rightarrow> instant option \<Rightarrow> string" where
  "formatTime time_text ts = (case ts of None \<Rightarrow> ''N/A'' | Some t \<Rightarrow> if t = zero_time then ''N/A'' else time_text t)"

definition sortedKeys :: "(string \<times> 'v) list \<Rightarrow> string list" where
  "sortedKeys items = sort (map fst items)"

definition line :: "string \<Rightarrow> string" where "line s = s @ [CHR 0x0A]"
definition item :: "string \<Rightarrow> string" where "item s = ''- '' @ line s"
definition heading :: "string \<Rightarrow> string" where "heading s = line [] @ line (''## '' @ s) @ line []"

definition count_items :: "(string \<times> int) list \<Rightarrow> string" where
  "count_items m = concat (map (\<lambda>k. item (k @ '': '' @ Itoa (case map_of m k of None \<Rightarrow> 0 | Some n \<Rightarrow> n))) (sortedKeys m))"

definition render_results :: "'f float_lib \<Rightarrow> (instant \<Rightarrow> string) \<Rightarrow> 'f databaseSummary option \<Rightarrow> string" where
  "render_results F time_text db = heading ''KPI Results'' @ (case db of
     None \<Rightarrow> item ''Registered users requiring verification: N/A'' @ item ''Verified users: N/A'' @
             item ''Activation rate: N/A'' @ item ''Median TTV: N/A''
   | Some s \<Rightarrow> item (''Registered users requiring verification: '' @ Itoa (ds_RegisteredUsers s)) @
       item (''Verified users: '' @ Itoa (ds_VerifiedUsers s)) @
       item (''Activation rate: '' @ formatPercent F (ds_ActivationRatePct s)) @
       item (''Median TTV: '' @ formatSeconds F (ds_MedianTTVSeconds s)) @
       item (''Median queued-to-sent latency: '' @ formatSeconds F (ds_MedianQueuedToSentSeconds s)) @
       (if ds_CohortStart s \<noteq> None \<or> ds_CohortEnd s \<noteq> None
        then item (''Cohort window: '' @ formatTime time_text (ds_CohortStart s) @ '' -> '' @ formatTime time_text (ds_CohortEnd s)) else []))"

definition render_bottlenecks :: "'f databaseSummary option \<Rightarrow> string" where
  "render_bottlenecks db = heading ''Bottlenecks'' @ (case db of
     None \<Rightarrow> item ''Email delay / send gap: N/A'' @ item ''Sent but not clicked: N/A'' @ item ''OTP input errors: N/A''
   | Some s \<Rightarrow> item (''Unverified users without a `sent` event: '' @ Itoa (ds_UnverifiedUsersWithoutSent s)) @
       item (''Unverified users with `sent` but no `clicked` event: '' @ Itoa (ds_UnverifiedUsersWithoutClick s)) @
       item (''Users with OTP input errors (`attempts > 0`): '' @ Itoa (ds_UsersWithOTPErrors s)) @
       item (''Users with bounced verification email: '' @ Itoa (ds_UsersWithBouncedEmail s)) @
       item (''Users with failed verification email: '' @ Itoa (ds_UsersWithFailedEmail s)))"

definition renderMarkdown :: "'f float_lib \<Rightarrow> (instant \<Rightarrow> string) \<Rightarrow> 'f report \<Rightarrow> string" where
  "renderMarkdown F time_text rep =
     line ''# KPI Report'' @ line [] @
     item (''Generated: '' @ time_text (rp_GeneratedAt rep)) @
     item ''Report command: `go run ./services/auth-api/cmd/kpi-report`'' @
     item (if rp_Database rep \<noteq> None then ''Database metrics: available'' else ''Database metrics: unavailable'') @
     (case rp_Mixpanel rep of None \<Rightarrow> item ''Mixpanel export: unavailable'' | Some m \<Rightarrow> item (''Mixpanel export: `'' @ ms_Path m @ ''`'')) @
     render_results F time_text (rp_Database rep) @
     render_bottlenecks (rp_Database rep) @
     (case rp_Database rep of None \<Rightarrow> []
      | Some s \<Rightarrow> if ds_ActivatedByMethod s \<noteq> [] then heading ''Activation Methods'' @ count_items (ds_ActivatedByMethod s) else []) @
     (case rp_Mixpanel rep of None \<Rightarrow> []
      | Some m \<Rightarrow> heading ''Export Counts'' @ item (''Total events read: '' @ Itoa (ms_TotalEvents m)) @ count_items (ms_RelevantCount m)) @
     (if rp_Notes rep \<noteq> [] then heading ''Notes'' @ concat (map item (rp_Notes rep)) else []) @
     (if rp_Recommendations rep \<noteq> [] then heading ''Recommendations'' @ concat (map item (rp_Recommendations rep)) else [])"

subsection \<open>The command\<close>

text \<open>\<open>dsn_error\<close> is the check of the connection string; \<open>Ping\<close> may fail like every call.\<close>

definition db_Ping :: "(db, unit) proc" where
  "db_Ping = ext db_error (\<lambda>t w. (Inr (), w))"

definition collect_database :: "'f float_lib \<Rightarrow> (string \<Rightarrow> go_error option) \<Rightarrow> string \<Rightarrow> (db, 'f databaseSummary option \<times> string list) proc" where
  "collect_database F dsn_error dbDSN =
     (if dbDSN = [] then ok (None, [''DB_DSN is not set; database-backed KPI metrics were not collected.''])
      else (case dsn_error dbDSN of
         Some err \<Rightarrow> fail (Wrap ''connect database: '' err [])
       | None \<Rightarrow>
           ecase db_Ping (\<lambda>err. fail (Wrap ''ping database: '' err [])) (\<lambda>_.
           ecase (loadDatabaseSummary F) (\<lambda>err. fail (Wrap ''load database summary: '' err [])) (\<lambda>summary.
           ok (Some summary, if ds_RegisteredUsers summary = 0
             then [''No registration cohort rows were found in the connected database.''] else [])))))"

definition collect_export :: "lib \<Rightarrow> export_lib \<Rightarrow> string \<Rightarrow> (go_error, mixpanelSummary option \<times> string list) result" where
  "collect_export L X path =
     (if path = [] then Inr (None, [''No Mixpanel/Segment export file was provided.''])
      else (case loadMixpanelSummary L X path of
         Inl err \<Rightarrow> Inl (Wrap (''load Mixpanel export '' @ [CHR 0x22] @ path @ [CHR 0x22] @ '': '') err [])
       | Inr summary \<Rightarrow> Inr (Some summary, [])))"

definition buildReport :: "lib \<Rightarrow> 'f float_lib \<Rightarrow> export_lib \<Rightarrow> (string \<Rightarrow> go_error option) \<Rightarrow> kpi_config \<Rightarrow> (db, 'f report) proc" where
  "buildReport L F X dsn_error cfg =
     ebind time_Now (\<lambda>now.
     ebind (collect_database F dsn_error (kc_DBDSN cfg)) (\<lambda>(database, notes1).
     ebind (of_result (collect_export L X (kc_MixpanelExport cfg))) (\<lambda>(mixpanel, notes2).
     (let rep = \<lparr>rp_GeneratedAt = now, rp_Database = database, rp_Mixpanel = mixpanel, rp_Notes = notes1 @ notes2, rp_Recommendations = []\<rparr>;
          rep2 = rep\<lparr>rp_Recommendations := deriveRecommendations rep\<rparr>
      in ok (if database = None \<and> mixpanel = None
         then rep2\<lparr>rp_Notes := rp_Notes rep2 @ [''At least one data source is required to produce actionable KPI output.'']\<rparr>
         else rep2)))))"

text \<open>The output, or the message on standard error; \<open>marshal\<close> is the indented JSON of the report.\<close>

definition kpi_main ::
    "lib \<Rightarrow> 'f float_lib \<Rightarrow> export_lib \<Rightarrow> (string \<Rightarrow> go_error option) \<Rightarrow> (instant \<Rightarrow> string) \<Rightarrow> ('f report \<Rightarrow> (go_error, string) result) \<Rightarrow> kpi_config
     \<Rightarrow> (db, string) proc" where
  "kpi_main L F X dsn_error time_text marshal cfg =
     ebind (buildReport L F X dsn_error cfg) (\<lambda>rep.
     if kc_Format cfg = ''json'' then ebind (of_result (marshal rep)) (\<lambda>out. ok (line out))
     else if kc_Format cfg = ''markdown'' then ok (renderMarkdown F time_text rep)
     else fail (New (''unsupported format '' @ [CHR 0x22] @ kc_Format cfg @ [CHR 0x22])))"

subsection \<open>The numbers of the report\<close>

lemma consumed_before_order:
  "\<not> consumed_before a a" "consumed_before a b \<Longrightarrow> consumed_before b c \<Longrightarrow> consumed_before a c"
  by (auto simp: consumed_before_def split: option.splits)

lemma first_method_found:
  assumes "uid \<in> set (map v_user_id (consumed_rows d))"
  shows "\<exists>m. first_method d uid = Some m"
proof -
  have "filter (\<lambda>v. v_user_id v = uid) (consumed_rows d) \<noteq> []" using assms by (auto simp: filter_empty_conv)
  then obtain r where "first_by consumed_before (filter (\<lambda>v. v_user_id v = uid) (consumed_rows d)) = Some r"
    using first_by_nonempty [of consumed_before "filter (\<lambda>v. v_user_id v = uid) (consumed_rows d)"] consumed_before_order by blast
  then show ?thesis by (simp add: first_method_def)
qed

lemma concat_found: "(\<And>x. x \<in> set xs \<Longrightarrow> \<exists>m. f x = Some m) \<Longrightarrow> length (concat (map (\<lambda>x. case f x of None \<Rightarrow> [] | Some m \<Rightarrow> [m]) xs)) = length xs"
  by (induction xs) (fastforce split: option.splits)+

lemma sum_counts: "sum_list (map (\<lambda>m. int (count_list ms m)) (remdups ms)) = int (length ms)"
proof -
  have "sum_list (map (\<lambda>m. int (count_list ms m)) (remdups ms)) = (\<Sum>m\<in>set ms. int (count_list ms m))"
    by (simp add: sum_list_distinct_conv_sum_set)
  also have "\<dots> = int (\<Sum>m\<in>set ms. count_list ms m)" by simp
  also have "\<dots> = int (length ms)" by (simp add: sum_count_set)
  finally show ?thesis .
qed

lemma methods_total: "sum_list (map snd (methods_query d)) = int (length (remdups (map v_user_id (consumed_rows d))))"
  unfolding methods_query_def Let_def map_map comp_def snd_conv sum_counts
  by (subst concat_found) (use first_method_found in auto)

lemma filter_disjoint_sum:
  "(\<And>x. p x \<Longrightarrow> \<not> q x) \<Longrightarrow> length (filter p xs) + length (filter q xs) \<le> length xs"
  by (induction xs) auto

lemma unverified_bound: "without_sent_query d + without_click_query d \<le>
   int (length (registration_cohort d)) - int (length (filter (\<lambda>u. u_email_verified_at u \<noteq> None) (registration_cohort d)))"
proof -
  let ?c = "registration_cohort d"
  let ?open = "filter (\<lambda>u. u_email_verified_at u = None) ?c"
  let ?s = "\<lambda>u. has_mail d u (\<lambda>_. True) \<and> \<not> has_mail d u (\<lambda>er. statuses d er ''sent'' \<noteq> [])"
  let ?k = "\<lambda>u. has_mail d u (\<lambda>er. statuses d er ''sent'' \<noteq> []) \<and> \<not> has_mail d u (\<lambda>er. statuses d er ''clicked'' \<noteq> [])"
  have "length (filter ?s ?open) + length (filter ?k ?open) \<le> length ?open" by (rule filter_disjoint_sum) simp
  moreover have "length (filter (\<lambda>u. u_email_verified_at u \<noteq> None) ?c) + length ?open = length ?c"
    using sum_length_filter_compl [of "\<lambda>u. u_email_verified_at u \<noteq> None" ?c] by simp
  moreover have "without_sent_query d = int (length (filter ?s ?open))" "without_click_query d = int (length (filter ?k ?open))"
    by (simp_all add: without_sent_query_def without_click_query_def conj_commute)
  ultimately show ?thesis by linarith
qed


subsection \<open>The counts of an export\<close>

definition counts_events :: "string list \<Rightarrow> mixpanelSummary \<Rightarrow> bool" where
  "counts_events ns s \<longleftrightarrow> ms_TotalEvents s = int (length ns) \<and>
     (\<forall>k. map_of (ms_RelevantCount s) k = (if k \<in> set relevant_events \<and> k \<in> set ns then Some (int (count_list ns k)) else None))"

lemma recordEvent_counts:
  assumes "counts_events ns s"
  shows "counts_events (if TrimSpace n = [] then ns else ns @ [TrimSpace n]) (recordEvent n s)"
  using assms by (auto simp: counts_events_def recordEvent_def Let_def update_conv' count_list_append)

text \<open>The names of the events of an export, in order; \<open>None\<close> when the export cannot be read.\<close>

fun row_names :: "('r \<Rightarrow> (go_error, string) result) \<Rightarrow> 'r list \<Rightarrow> string list option" where
  "row_names name [] = Some []"
| "row_names name (r # rs) = (case name r of Inl _ \<Rightarrow> None
     | Inr n \<Rightarrow> map_option (\<lambda>ns. if TrimSpace n = [] then ns else TrimSpace n # ns) (row_names name rs))"

lemma read_rows_counts:
  "counts_events ns s \<Longrightarrow> read_rows name (rs, e) s = Inr s' \<Longrightarrow>
     e = None \<and> (\<exists>ms. row_names name rs = Some ms \<and> counts_events (ns @ ms) s')"
proof (induction rs arbitrary: ns s)
  case Nil
  then show ?case by (cases e) auto
next
  case (Cons r rs)
  then obtain n where n: "name r = Inr n" "read_rows name (rs, e) (recordEvent n s) = Inr s'" by (auto simp: rbind_iff)
  from Cons.IH [OF recordEvent_counts [OF Cons.prems(1), of n] n(2)] n(1) show ?case by (auto split: if_splits)
qed

definition export_names :: "lib \<Rightarrow> export_lib \<Rightarrow> string \<Rightarrow> string \<Rightarrow> string list option" where
  "export_names L X path file =
     (if ToLower L (filepath_Ext path) = ''.csv''
      then (case fst (csv_records X file) of [] \<Rightarrow> Some []
        | header # rows \<Rightarrow> (case event_column L header of None \<Rightarrow> None
            | Some i \<Rightarrow> row_names (\<lambda>row. Inr (if i < length row then row ! i else [])) rows))
      else (case firstNonSpaceByte file of None \<Rightarrow> Some []
        | Some c \<Rightarrow> if c = CHR ''['' then row_names (\<lambda>j. rbind (row_of_json j) (\<lambda>row. Inr (extractEventName row))) (fst (json_items X file))
            else row_names (\<lambda>j. rbind (eventRow_of_json L j) (\<lambda>row. Inr (normalizedEventName row))) (fst (json_values X file))))"

lemma counts_nothing: "counts_events [] \<lparr>ms_Path = path, ms_TotalEvents = 0, ms_RelevantCount = []\<rparr>"
  by (simp add: counts_events_def)

lemma read_rows_start:
  "read_rows name re \<lparr>ms_Path = path, ms_TotalEvents = 0, ms_RelevantCount = []\<rparr> = Inr s \<Longrightarrow>
     \<exists>ms. row_names name (fst re) = Some ms \<and> counts_events ms s"
  using read_rows_counts [OF counts_nothing] by (cases re) fastforce

text \<open>C39: the counters of an export are the counts of its events: when an export is read at all, the total is the number of rows
  with a name, and every relevant event is counted as often as its name occurs, whether the file is CSV, a JSON array or a
  stream of JSON objects.\<close>

theorem export_counted:
  assumes "loadMixpanelSummary L X path = Inr s"
  shows "\<exists>file ns. os_Open X path = Inr file \<and> export_names L X path file = Some ns \<and> counts_events ns s"
proof -
  obtain content where f: "os_Open X path = Inr content" using assms by (auto simp: loadMixpanelSummary_def rbind_iff)
  have "\<exists>ns. export_names L X path content = Some ns \<and> counts_events ns s"
  proof (cases "ToLower L (filepath_Ext path) = ''.csv''")
    case True
    then show ?thesis
      using assms f counts_nothing [of path]
      by (auto simp: loadMixpanelSummary_def export_names_def Let_def dest!: read_rows_start split: prod.splits list.splits option.splits)
  next
    case False
    then show ?thesis
      using assms f counts_nothing [of path]
      by (auto simp: loadMixpanelSummary_def export_names_def Let_def dest!: read_rows_start split: option.splits if_splits)
  qed
  with f show ?thesis by blast
qed

lemma dedupe_props: "distinct (dedupe seen vs) \<and> set (dedupe seen vs) = (TrimSpace ` set vs - {[]}) - set seen"
  by (induction seen vs rule: dedupe.induct) (auto simp: Let_def)

text \<open>A report never repeats a recommendation and always has one.\<close>

lemma recommendations: "distinct (deriveRecommendations rep) \<and> deriveRecommendations rep \<noteq> []"
proof -
  have "TrimSpace rec_populate \<noteq> []" "TrimSpace rec_ttl \<noteq> []" by code_simp+
  then have "set (deriveRecommendations rep) \<noteq> {}"
    unfolding deriveRecommendations_def dedupeStrings_def by (cases "rp_Database rep") (auto simp: dedupe_props simp del: set_empty dedupe.simps)
  moreover have "distinct (deriveRecommendations rep)"
    unfolding deriveRecommendations_def dedupeStrings_def by (rule dedupe_props [THEN conjunct1])
  ultimately show ?thesis by auto
qed

subsection \<open>Witnesses\<close>

definition nat_floats :: "int float_lib" where
  "nat_floats = \<lparr>f_int = (\<lambda>n. n), f_div = (div), f_mul = (*), percentile_half = hd, f_fixed2 = Itoa, f_nanos = (\<lambda>n. n)\<rparr>"


definition sample_export :: export_lib where
  "sample_export = \<lparr>os_Open = (\<lambda>_. Inr []), csv_records = (\<lambda>_. ([[''Event''], [''account_activated''], ['' ''], [''account_activated''], [''x'']], None)),
     json_items = (\<lambda>_. ([], None)), json_values = (\<lambda>_. ([], None))\<rparr>"

theorem export_counted_witness:
  "\<exists>ns. export_names sample_lib sample_export ''e.csv'' [] = Some ns
     \<and> counts_events ns (projr (loadMixpanelSummary sample_lib sample_export ''e.csv''))"
proof -
  have "\<not> isl (loadMixpanelSummary sample_lib sample_export ''e.csv'')" by code_simp
  from export_counted [OF loaded [OF this]] show ?thesis by (simp add: sample_export_def)
qed

end
