(* ===== verification/Analytics.thy ===== *)
theory Analytics
  imports Config "HOL-Library.AList"
begin

text \<open>
  The analytics client: the rest of \<open>pkg/analytics/analytics.go\<close> and \<open>pkg/analytics/mixpanel.go\<close>.
  The services call it through \<open>analytics_Track\<close> of \<open>World\<close>, which only knows that a call may fail;
  here is what one call sends and which answers it accepts. The HTTP exchange is the parameter
  \<open>http_Do\<close>: an endpoint and a body give a transport error, or the status, the part of the
  body that could be read and the error that ended the reading. \<open>fmt_time\<close> is the RFC 3339 text of an
  instant. A Go map is an association list without double keys; it is marshalled with its keys sorted.
\<close>

type_synonym http_exchange = "string \<Rightarrow> string \<Rightarrow> (go_error, int \<times> string \<times> go_error option) result"

definition FormatTimestamp :: "(instant \<Rightarrow> string) \<Rightarrow> instant \<Rightarrow> string" where
  "FormatTimestamp fmt_time ts = (if ts = zero_time then [] else fmt_time ts)"

definition analytics_normalizeEmail :: "lib \<Rightarrow> string \<Rightarrow> string" where
  "analytics_normalizeEmail L email = TrimSpace (ToLower L email)"

definition BuildProperties :: "lib \<Rightarrow> (instant \<Rightarrow> string) \<Rightarrow> instant \<Rightarrow> event \<Rightarrow> (string \<times> json) list" where
  "BuildProperties L fmt_time now ev =
     (let ts = (if ev_Timestamp ev = zero_time then now else ev_Timestamp ev);
          p1 = ev_Properties ev;
          p2 = (if TrimSpace (ev_UserID ev) \<noteq> [] then AList.update ''user_id'' (JStr (TrimSpace (ev_UserID ev))) p1 else p1);
          addr = analytics_normalizeEmail L (ev_Email ev);
          p3 = (if addr \<noteq> [] then AList.update ''email'' (JStr addr) p2 else p2)
      in AList.update ''timestamp'' (JStr (FormatTimestamp fmt_time ts)) p3)"

fun firstNonEmpty :: "string list \<Rightarrow> string" where
  "firstNonEmpty [] = []"
| "firstNonEmpty (v # vs) = (if TrimSpace v \<noteq> [] then TrimSpace v else firstNonEmpty vs)"

definition sorted_fields :: "(string \<times> json) list \<Rightarrow> (string \<times> json) list" where
  "sorted_fields fs = sort_key fst fs"

definition mixpanel_props :: "lib \<Rightarrow> (instant \<Rightarrow> string) \<Rightarrow> instant \<Rightarrow> string \<Rightarrow> event \<Rightarrow> (string \<times> json) list" where
  "mixpanel_props L fmt_time now token ev =
     (let ts = (if ev_Timestamp ev = zero_time then now else ev_Timestamp ev);
          p1 = AList.update ''token'' (JStr token) (BuildProperties L fmt_time now (ev\<lparr>ev_Timestamp := ts\<rparr>));
          distinctID = firstNonEmpty [TrimSpace (ev_UserID ev), analytics_normalizeEmail L (ev_Email ev)];
          p2 = (if distinctID \<noteq> [] then AList.update ''distinct_id'' (JStr distinctID) p1 else p1)
      in AList.update ''time'' (JNum (ts div 1000000000)) p2)"

definition mixpanelEvent :: "string \<Rightarrow> (string \<times> json) list \<Rightarrow> json" where
  "mixpanelEvent name props = JObj [(''event'', JStr name), (''properties'', JObj (sorted_fields props))]"

definition mixpanelResponse_of_json :: "lib \<Rightarrow> json \<Rightarrow> (go_error, string \<times> string) result" where
  "mixpanelResponse_of_json L j =
     (case j of
        JObj fs \<Rightarrow> rbind (field_str L ''status'' fs) (\<lambda>st. rbind (field_str L ''error'' fs) (\<lambda>er. Inr (st, er)))
      | JNull \<Rightarrow> Inr ([], [])
      | _ \<Rightarrow> Inl JsonTypeError)"

definition isAcceptedMixpanelResponse :: "lib \<Rightarrow> string \<Rightarrow> (go_error, bool) result" where
  "isAcceptedMixpanelResponse L body =
     (if TrimSpace body = ''1'' then Inr True
      else if TrimSpace body = ''0'' then Inr False
      else (case rbind (json_parse L body) (mixpanelResponse_of_json L) of
              Inl err \<Rightarrow> Inl (Wrap ''decode mixpanel response: '' err [])
            | Inr (st, er) \<Rightarrow> if st = [] then Inr False else Inr (EqualFold L st ''ok'')))"

definition mixpanelClient_Track ::
    "lib \<Rightarrow> (instant \<Rightarrow> string) \<Rightarrow> http_exchange \<Rightarrow> string \<Rightarrow> string \<Rightarrow> instant \<Rightarrow> event \<Rightarrow> (go_error, unit) result" where
  "mixpanelClient_Track L fmt_time http_Do token endpoint now ev =
     (if TrimSpace (ev_Name ev) = [] then Inl (New ''analytics event name is required'')
      else
        (case http_Do endpoint (json_text L (JArr [mixpanelEvent (ev_Name ev) (mixpanel_props L fmt_time now token ev)])) of
           Inl err \<Rightarrow> Inl err
         | Inr (status, read, readErr) \<Rightarrow>
             (let body = LimitRead 4096 read
              in if status < 200 \<or> status \<ge> 300
                 then Inl (New (''mixpanel track request failed: status='' @ Itoa status @ '' body='' @ TrimSpace body))
                 else if int (length read) < 4096 \<and> readErr \<noteq> None then Inl (Wrap ''read mixpanel response: '' (the readErr) [])
                 else if TrimSpace body = [] then Inr ()
                 else (case isAcceptedMixpanelResponse L body of
                    Inl err \<Rightarrow> Inl err
                  | Inr accepted \<Rightarrow>
                      if accepted then Inr () else Inl (New (''mixpanel track request rejected: '' @ TrimSpace body))))))"

text \<open>The call through the interface: a disabled client accepts everything.\<close>

definition client_Track ::
    "lib \<Rightarrow> (instant \<Rightarrow> string) \<Rightarrow> http_exchange \<Rightarrow> analytics_client \<Rightarrow> instant \<Rightarrow> event \<Rightarrow> (go_error, unit) result" where
  "client_Track L fmt_time http_Do c now ev =
     (case c of NoopClient \<Rightarrow> Inr ()
      | MixpanelClient token endpoint \<Rightarrow> mixpanelClient_Track L fmt_time http_Do token endpoint now ev)"

subsection \<open>What is sent\<close>

definition reserved :: "string list" where
  "reserved = [''user_id'', ''email'', ''timestamp'', ''token'', ''distinct_id'', ''time'']"

lemma map_of_sorted: "distinct (map fst fs) \<Longrightarrow> map_of (sorted_fields fs) = map_of fs"
  unfolding sorted_fields_def by (intro map_of_eqI) (auto simp: distinct_map inj_on_def)

lemma props_distinct: "distinct (map fst (ev_Properties ev)) \<Longrightarrow> distinct (map fst (mixpanel_props L fmt_time now token ev))"
  by (simp add: mixpanel_props_def BuildProperties_def Let_def distinct_update)

text \<open>the token, the time and the identity in a tracked event are those of the client and of the event itself, whatever
  properties a caller put under these names; every other property arrives unchanged.\<close>

theorem tracked_properties:
  assumes "distinct (map fst (ev_Properties ev))" "ev_Timestamp ev \<noteq> zero_time"
  shows "map_of (sorted_fields (mixpanel_props L fmt_time now token ev)) ''token'' = Some (JStr token)
    \<and> map_of (sorted_fields (mixpanel_props L fmt_time now token ev)) ''time'' = Some (JNum (ev_Timestamp ev div 1000000000))
    \<and> (TrimSpace (ev_UserID ev) \<noteq> [] \<longrightarrow>
        map_of (sorted_fields (mixpanel_props L fmt_time now token ev)) ''distinct_id'' = Some (JStr (TrimSpace (ev_UserID ev)))
      \<and> map_of (sorted_fields (mixpanel_props L fmt_time now token ev)) ''user_id'' = Some (JStr (TrimSpace (ev_UserID ev))))
    \<and> (\<forall>k. k \<notin> set reserved \<longrightarrow> map_of (sorted_fields (mixpanel_props L fmt_time now token ev)) k = map_of (ev_Properties ev) k)"
  unfolding map_of_sorted [OF props_distinct [OF assms(1)]]
  using assms(2) by (simp add: mixpanel_props_def BuildProperties_def Let_def update_conv' reserved_def)

definition sample_event :: event where
  "sample_event = \<lparr>ev_Name = ''account_activated'', ev_UserID = ''alice'', ev_Email = ''A@x'', ev_Timestamp = 3000000000,
     ev_Properties = [(''method'', JStr ''otp''), (''token'', JStr ''forged'')]\<rparr>"

theorem tracked_properties_witness:
  "map_of (sorted_fields (mixpanel_props sample_lib (\<lambda>t. ''t'') 0 ''tok'' sample_event)) ''token'' = Some (JStr ''tok'')
   \<and> map_of (sorted_fields (mixpanel_props sample_lib (\<lambda>t. ''t'') 0 ''tok'' sample_event)) ''method'' = Some (JStr ''otp'')"
proof -
  have "distinct (map fst (ev_Properties sample_event))" "ev_Timestamp sample_event \<noteq> zero_time"
    "map_of (ev_Properties sample_event) ''method'' = Some (JStr ''otp'')" "''method'' \<notin> set reserved" by code_simp+
  then show ?thesis using tracked_properties [of sample_event] by metis
qed

text \<open>a call succeeds exactly when the event has a name, the request was answered with a success status, the answer could be
  read and is blank, \<open>1\<close> or an object with status \<open>ok\<close>.\<close>

theorem track_succeeds_iff:
  "mixpanelClient_Track L fmt_time http_Do token endpoint now ev = Inr () \<longleftrightarrow>
     TrimSpace (ev_Name ev) \<noteq> [] \<and>
     (\<exists>status read readErr.
        http_Do endpoint (json_text L (JArr [mixpanelEvent (ev_Name ev) (mixpanel_props L fmt_time now token ev)])) = Inr (status, read, readErr)
        \<and> 200 \<le> status \<and> status < 300 \<and> \<not> (int (length read) < 4096 \<and> readErr \<noteq> None)
        \<and> (TrimSpace (LimitRead 4096 read) = [] \<or> isAcceptedMixpanelResponse L (LimitRead 4096 read) = Inr True))"
  by (auto simp: mixpanelClient_Track_def Let_def split: sum.splits prod.splits if_splits)

end
