(* ===== verification/Spec2Isabelle.thy ===== *)
theory Spec2Isabelle
  imports Signup Session_Life Startup Analytics
begin

text \<open>
  Verification of the anvilkit authentication services: the Go programs auth-api, admin-api,
  email-worker and kpi-report with the packages of \<open>modules/common-go\<close> they share.

  \<^bold>\<open>The program.\<close> auth-api registers accounts, mails a one-time code and a magic link, verifies
  either, logs users in with an access token (a JWT) and a rotating refresh token, and switches
  tenants. It writes PostgreSQL, counts requests in Redis and puts mail jobs on a Redis list.
  email-worker takes the jobs, renders and sends the mails, records their status, retries after soft
  bounces and blacklists addresses after hard ones; its webhook receives status events of the mail
  provider. admin-api manages the members and roles of a tenant behind JWT authentication and Casbin.
  kpi-report reads the same database and an export of the tracked events.

  \<^bold>\<open>The world.\<close> A program is a function on \<open>world\<close> (theory \<open>World\<close>) that returns an error or
  a value and the next world. The world holds the committed database and the working copy of the open
  transaction, Redis, the tracked events, the mails sent, the pending timers and the metrics. Every
  call outside the process takes one tick, and the oracle \<open>orc\<close> says for each tick whether the call
  fails, what the clocks of the process, the database and Redis show, and which random bytes and
  identifiers come out. A theorem without a hypothesis on the oracle therefore holds for every failure
  pattern, every clock and every source of randomness. Third-party code is the parameter record \<open>lib\<close>
  (theory \<open>Externals\<close>): hashing, bcrypt, address and URL parsing, JSON text, JWT, templates;
  \<open>casbin\<close>, \<open>enforcer\<close>, \<open>http_exchange\<close>, \<open>float_lib\<close> and \<open>export_lib\<close> are
  parameters of the theories that need them, and so are gin's decoder and validator (\<open>gin\<close>), the parser of connection
  strings and the metrics registry (\<open>drivers\<close>). What a theorem relies on is a named hypothesis (\<open>bcrypt_ok\<close>,
  \<open>json_ok\<close>, \<open>jwt_ok\<close>, \<open>mail_ok\<close>, \<open>casbin_ok\<close>, \<open>parses_lines\<close>, \<open>jwt_signs\<close>,
  \<open>validator_ok\<close>, \<open>registry_ok\<close>, and \<open>lib_fails_in\<close>, \<open>gin_fails_in\<close>: library errors carry no HTTP answer of their own), and \<open>Samples\<close>, \<open>Server\<close> and \<open>Startup\<close> have instances of them all.

  \<^bold>\<open>Theories and sources.\<close>
  \<^item> \<open>Prelude\<close>, \<open>Go_Strings\<close>, \<open>Go_Encoding\<close>, \<open>Json_Decode\<close>: collections and list lemmas; what the code uses of
    \<open>strings\<close>, \<open>strconv\<close>, \<open>hex\<close>, \<open>base64\<close>, \<open>url\<close>, \<open>html\<close>, \<open>time\<close> and \<open>json.Unmarshal\<close>.
  \<^item> \<open>Httpx\<close>: errors as values, \<open>pkg/httpx/apperr\<close>, \<open>errcode\<close>, \<open>resp\<close>.
  \<^item> \<open>Tables\<close>, \<open>Schema\<close>: tables as lists with keys, references, cascades and checks of \<open>migrations/*.sql\<close>; single
    SQL statements.
  \<^item> \<open>Tokens\<close>, \<open>Externals\<close>: \<open>pkg/util/token.go\<close>, \<open>internal/auth/token\<close>, \<open>internal/auth/crypto\<close>, \<open>pkg/auth/jwt\<close>.
  \<^item> \<open>Auth_Store\<close>: \<open>auth-api/internal/store/store.go\<close>. \<open>Auth_Steps\<close>: the contract \<open>store_relation\<close> that
    lifts a relation from statements to methods, all-or-nothing methods, and \<open>store_step\<close>.
    \<open>Auth_Sessions\<close>: sessions refine an abstract registry. \<open>Auth_Verification\<close>: codes, links,
    resending, and the two compensations as exact inverses.
  \<^item> \<open>Auth_Handler\<close>: \<open>auth-api/internal/handler/handler.go\<close> and \<open>dto\<close>. \<open>Auth_Requests\<close>, \<open>Auth_Limits\<close>, \<open>Auth_Flows\<close>: what
    the endpoints guarantee (login, lockout, cooldown, compensation, same-browser rule, tenants).
  \<^item> \<open>Middleware\<close>: \<open>pkg/httpx/ginmid\<close>; the locale \<open>window_counter\<close> is the contract of the limiter.
  \<^item> \<open>Queue\<close>: \<open>pkg/queue/queue.go\<close>; the locale \<open>fifo\<close> is implemented by a Redis list.
  \<^item> \<open>Email\<close>: \<open>pkg/email/email.go\<close> and \<open>email-worker/internal/sender\<close>. \<open>Worker_Store\<close>, \<open>Mail_Status\<close>:
    \<open>email-worker/internal/store/store.go\<close> and the agreement of a mail with its history.
    \<open>Worker_Consumer\<close>, \<open>Worker_Delivery\<close>: \<open>internal/consumer/consumer.go\<close>, bounces, retries, the loop.
    \<open>Webhook\<close>: \<open>internal/webhook/server.go\<close>. \<open>Monitoring\<close>: \<open>internal/monitoring\<close>.
  \<^item> \<open>Admin\<close>, \<open>Admin_Access\<close>: \<open>admin-api/internal/store\<close> and \<open>handler\<close>; the locale \<open>membership\<close> is the abstract map of
    members, \<open>admin_calls\<close> and its extension \<open>admin_relation\<close> lift relations to the handlers.
    \<open>Rbac\<close>: \<open>admin-api/internal/rbac\<close>.
  \<^item> \<open>Config\<close>: \<open>pkg/cfg\<close>, both \<open>internal/config\<close> packages, what the \<open>main\<close> functions build. \<open>Analytics\<close>:
    \<open>pkg/analytics\<close>. \<open>Kpi\<close>: \<open>auth-api/cmd/kpi-report/main.go\<close>.
  \<^item> \<open>System\<close>, \<open>System_Safety\<close>, \<open>Signup\<close>, \<open>Session_Life\<close>: the routes, and all services on one database; from a
    registration to the activated account, and from a login to the use of its tokens.
  \<^item> \<open>Replies\<close>, \<open>Server\<close>: the HTTP servers of \<open>cmd/auth-api\<close> and \<open>cmd/admin-api\<close> with their middlewares, request bodies
    bound by the tags of the \<open>dto\<close> types, and the replies; the locale \<open>error_class\<close> lifts a class of errors from the library to every
    endpoint and gives the table of documented answers.
  \<^item> \<open>Startup\<close>: connections, the \<open>main\<close> functions, \<open>tools/healthcheck\<close>, registration of the metrics, and the goroutines of
    email-worker as a machine of events.

  \<^bold>\<open>How the proofs are built.\<close> \<open>db_preorder\<close> (in \<open>World\<close>) has the composition rules of programs once for
  every preorder on databases. \<open>store_relation\<close>, \<open>worker_relation\<close> and \<open>admin_relation\<close> add what single statements
  keep and conclude what the methods keep; \<open>system_relation\<close> joins them. They are interpreted on
  \<open>mono_rel\<close> (consumed links, revoked sessions and verified accounts stay so, and the schema holds),
  on \<open>mail_rel\<close>, on the bounds of attempts and expiry and on the growing blacklist; the properties that
  speak of all later states rest on these interpretations. \<open>Frames\<close> has the same for parts of the world a
  program leaves alone (\<open>db_view\<close>, \<open>outside_view\<close>) and for the errors it can return.
  \<open>system_step\<close> is one call of one store method by any service; a request or a job is a
  sequence of such steps (\<open>service_step_system\<close>), so the properties cover requests that overlap.

  \<^bold>\<open>Bounds and fuel.\<close> The loops of the consumer and of the backlog collector end only when
  their context is cancelled; they take fuel and return \<open>None\<close> when it is used up. One unit for each tick
  until the cancellation and one more are enough (\<open>Worker_Delivery.run_stops\<close>,
  \<open>Monitoring.collector_reports_backlog\<close>). Go \<open>int\<close> and \<open>Duration\<close> are unbounded integers where the values are counters and
  instants, and 64-bit with the wrap-around written out where settings are multiplied (\<open>Config.int64\<close>) and
  where numbers are parsed.

  \<^bold>\<open>Not modelled.\<close> Logging (\<open>ginmid/logger.go\<close> writes a line and passes the request on), sockets and timeouts of the
  HTTP servers, gin's matching of paths (a request carries the pattern it matched), the page promhttp
  serves, test environments, the template files and the legacy tables no statement uses: input and output, library code or
  support for tests. A transaction runs without others in between: the code
  locks the rows it reads (\<open>for update\<close>) where that matters; other anomalies of read committed isolation are
  outside the model. SQL collation is byte order. Deadlines of contexts only show as calls that fail.
\<close>

end
